(* ===== verification/Prelude.thy ===== *)
theory Prelude
  imports Main "HOL-Library.AList" "HOL-Library.Multiset" "HOL-Library.Sublist"
    "HOL-Library.Char_ord" "HOL-Library.List_Lexorder"
begin

text \<open>
  Shared material of the development: Go's fixed-width integers, Go maps, the parts of
  \<^verbatim>\<open>strings\<close>, \<^verbatim>\<open>strconv\<close> and \<^verbatim>\<open>sort\<close> the operator uses, and two interfaces
  (a keyed store and a textual codec) that several components provide and rely on.

  Conventions. A Go \<^verbatim>\<open>int32\<close> or \<^verbatim>\<open>int64\<close> is an \<open>int\<close> with the wrap-around written out
  at each arithmetic operation (\<open>int32\<close>, \<open>int64\<close>). A Go map is an association list: reads
  go through \<open>map_of\<close>, a missing key reads as the zero value (\<open>mget\<close>), and the order of the
  list is the order in which a \<^verbatim>\<open>range\<close> loop visits the entries, so a theorem over all lists
  is a theorem over all iteration orders. A nil map and an empty map are both \<open>[]\<close>. A Go
  string is its list of bytes.
\<close>

named_theorems gomap_simps \<open>reads of updated Go maps\<close>
named_theorems codec_simps \<open>decode-after-encode equations\<close>

section \<open>Fixed-width integers\<close>

definition int32 :: "int \<Rightarrow> int" where
  "int32 x = (x + 2 ^ 31) mod 2 ^ 32 - 2 ^ 31"

definition int64 :: "int \<Rightarrow> int" where
  "int64 x = (x + 2 ^ 63) mod 2 ^ 64 - 2 ^ 63"

definition in_int32 :: "int \<Rightarrow> bool" where
  "in_int32 x \<longleftrightarrow> - (2 ^ 31) \<le> x \<and> x < 2 ^ 31"

definition in_int64 :: "int \<Rightarrow> bool" where
  "in_int64 x \<longleftrightarrow> - (2 ^ 63) \<le> x \<and> x < 2 ^ 63"

section \<open>Go maps\<close>

type_synonym ('k, 'v) gomap = "('k \<times> 'v) list"

definition mget :: "'v \<Rightarrow> ('k, 'v) gomap \<Rightarrow> 'k \<Rightarrow> 'v" where
  "mget zero m k = (case map_of m k of None \<Rightarrow> zero | Some v \<Rightarrow> v)"

definition mput :: "'k \<Rightarrow> 'v \<Rightarrow> ('k, 'v) gomap \<Rightarrow> ('k, 'v) gomap" where
  "mput k v m = AList.update k v m"

definition mdel :: "'k \<Rightarrow> ('k, 'v) gomap \<Rightarrow> ('k, 'v) gomap" where
  "mdel k m = AList.delete k m"

definition wf_map :: "('k, 'v) gomap \<Rightarrow> bool" where
  "wf_map m \<longleftrightarrow> distinct (map fst m)"

section \<open>Strings\<close>

definition is_space :: "char \<Rightarrow> bool" where
  "is_space c \<longleftrightarrow> of_char c \<in> {9, 10, 11, 12, 13, 32 :: nat}"

definition trimSpace :: "string \<Rightarrow> string" where
  "trimSpace s = rev (dropWhile is_space (rev (dropWhile is_space s)))"

definition lower_char :: "char \<Rightarrow> char" where
  "lower_char c = (let n = of_char c :: nat in if 65 \<le> n \<and> n \<le> 90 then char_of (n + 32) else c)"

definition toLower :: "string \<Rightarrow> string" where
  "toLower s = map lower_char s"

text \<open>\<^verbatim>\<open>strings.Cut\<close> with a one-byte separator: the text around the first occurrence.\<close>

definition cut :: "char \<Rightarrow> string \<Rightarrow> (string \<times> string) option" where
  "cut sep s = (if sep \<in> set s
     then Some (takeWhile (\<lambda>c. c \<noteq> sep) s, tl (dropWhile (\<lambda>c. c \<noteq> sep) s)) else None)"

section \<open>Decimal numbers\<close>

definition digit :: "nat \<Rightarrow> char" where
  "digit n = char_of (48 + n)"

definition is_digit :: "char \<Rightarrow> bool" where
  "is_digit c \<longleftrightarrow> 48 \<le> (of_char c :: nat) \<and> (of_char c :: nat) \<le> 57"

definition digit_val :: "char \<Rightarrow> nat" where
  "digit_val c = of_char c - 48"

fun nat_digits :: "nat \<Rightarrow> string" where
  "nat_digits n = (if n < 10 then [digit n] else nat_digits (n div 10) @ [digit (n mod 10)])"

declare nat_digits.simps [simp del]

text \<open>\<^verbatim>\<open>fmt.Sprintf("%d")\<close> and \<^verbatim>\<open>strconv.Itoa\<close>.\<close>

definition itoa :: "int \<Rightarrow> string" where
  "itoa i = (if i < 0 then CHR ''-'' # nat_digits (nat (- i)) else nat_digits (nat i))"

definition digits_val :: "string \<Rightarrow> nat" where
  "digits_val s = foldl (\<lambda>acc c. 10 * acc + digit_val c) 0 s"

text \<open>
  \<^verbatim>\<open>strconv.ParseInt(s, 10, bits)\<close>: the value and whether the error is nil. A syntax error
  yields 0, a value out of range the nearest bound, in both cases with a non-nil error.
\<close>

definition parseInt :: "nat \<Rightarrow> string \<Rightarrow> int \<times> bool" where
  "parseInt bits s =
     (let neg = (s \<noteq> [] \<and> hd s = CHR ''-'');
          body = (if s \<noteq> [] \<and> (hd s = CHR ''-'' \<or> hd s = CHR ''+'') then tl s else s)
      in if body = [] \<or> \<not> list_all is_digit body then (0, False)
         else let v = int (digits_val body); bound = 2 ^ (bits - 1)
              in if neg then (if v \<le> bound then (- v, True) else (- bound, False))
                 else (if v < bound then (v, True) else (bound - 1, False)))"

abbreviation atoi :: "string \<Rightarrow> int \<times> bool" where
  "atoi \<equiv> parseInt 64"

section \<open>Interfaces\<close>

text \<open>A store of values by key: what the readers and writers of object metadata rely on.\<close>

locale keyed_store =
  fixes look :: "'m \<Rightarrow> 'k \<Rightarrow> 'v option"
    and store :: "'k \<Rightarrow> 'v \<Rightarrow> 'm \<Rightarrow> 'm"
    and erase :: "'k \<Rightarrow> 'm \<Rightarrow> 'm"
  assumes look_store: "look (store k v m) k' = (if k' = k then Some v else look m k')"
    and look_erase: "look (erase k m) k' = (if k' = k then None else look m k')"
begin

lemma look_store_same: "look (store k v m) k = Some v"
  by (simp add: look_store)

lemma look_store_other: "k' \<noteq> k \<Longrightarrow> look (store k v m) k' = look m k'"
  by (simp add: look_store)

lemma look_erase_same: "look (erase k m) k = None"
  by (simp add: look_erase)

lemma look_erase_other: "k' \<noteq> k \<Longrightarrow> look (erase k m) k' = look m k'"
  by (simp add: look_erase)

lemma store_swap:
  "k \<noteq> k' \<Longrightarrow> look (store k v (store k' v' m)) = look (store k' v' (store k v m))"
  by (rule ext) (auto simp: look_store)

end

text \<open>A textual encoding with a decoder that recovers every admissible value.\<close>

locale codec =
  fixes enc :: "'a \<Rightarrow> 'b" and dec :: "'b \<Rightarrow> 'a option" and ok :: "'a \<Rightarrow> bool"
  assumes dec_enc: "ok x \<Longrightarrow> dec (enc x) = Some x"
begin

lemma enc_eq_iff: "ok x \<Longrightarrow> ok y \<Longrightarrow> enc x = enc y \<longleftrightarrow> x = y"
  by (metis dec_enc option.inject)

lemma inj_on_enc: "inj_on enc (Collect ok)"
  by (rule inj_onI) (simp add: enc_eq_iff)

lemma distinct_map_enc: "distinct xs \<Longrightarrow> (\<And>x. x \<in> set xs \<Longrightarrow> ok x) \<Longrightarrow> distinct (map enc xs)"
  by (simp add: distinct_map inj_on_def enc_eq_iff)

end

section \<open>Facts about the library\<close>

lemma int32_id [simp]: "in_int32 x \<Longrightarrow> int32 x = x"
  by (simp add: int32_def in_int32_def)

lemma int64_id [simp]: "in_int64 x \<Longrightarrow> int64 x = x"
  by (simp add: int64_def in_int64_def)

lemma in_int32_int32 [simp]: "in_int32 (int32 x)"
proof -
  have "0 \<le> (x + 2 ^ 31) mod 2 ^ 32" and "(x + 2 ^ 31) mod 2 ^ 32 < 2 ^ 32"
    by simp_all
  then show ?thesis by (simp add: int32_def in_int32_def)
qed

lemma in_int64_int64 [simp]: "in_int64 (int64 x)"
proof -
  have "0 \<le> (x + 2 ^ 63) mod 2 ^ 64" and "(x + 2 ^ 63) mod 2 ^ 64 < 2 ^ 64"
    by simp_all
  then show ?thesis by (simp add: int64_def in_int64_def)
qed

interpretation amap: keyed_store "map_of" "mput" "mdel"
  by unfold_locales (auto simp: mput_def mdel_def update_conv' delete_conv' fun_upd_def)

lemma mget_mput [gomap_simps, simp]:
  "mget z (mput k v m) k' = (if k' = k then v else mget z m k')"
  by (simp add: mget_def amap.look_store)

lemma mget_mdel [gomap_simps, simp]:
  "mget z (mdel k m) k' = (if k' = k then z else mget z m k')"
  by (simp add: mget_def amap.look_erase)

lemma mget_Nil [simp]: "mget z [] k = z"
  by (simp add: mget_def)

lemma mget_Cons: "mget z ((k, v) # m) k' = (if k' = k then v else mget z m k')"
  by (simp add: mget_def)

lemma wf_map_mput [simp, intro]: "wf_map m \<Longrightarrow> wf_map (mput k v m)"
  by (simp add: wf_map_def mput_def distinct_update)

lemma wf_map_mdel [simp, intro]: "wf_map m \<Longrightarrow> wf_map (mdel k m)"
  by (simp add: wf_map_def mdel_def distinct_delete)

lemma wf_map_Nil [simp]: "wf_map []"
  by (simp add: wf_map_def)

lemma map_of_wf_iff: "wf_map m \<Longrightarrow> map_of m k = Some v \<longleftrightarrow> (k, v) \<in> set m"
  by (simp add: wf_map_def map_of_eq_Some_iff)

lemma digit_inj [simp]: "n < 10 \<Longrightarrow> digit_val (digit n) = n"
  by (simp add: digit_val_def digit_def of_char_of)

lemma is_digit_digit [simp]: "n < 10 \<Longrightarrow> is_digit (digit n)"
  by (simp add: is_digit_def digit_def of_char_of)

lemma digit_not_sign [simp]: "n < 10 \<Longrightarrow> digit n \<noteq> CHR ''-''" "n < 10 \<Longrightarrow> digit n \<noteq> CHR ''+''"
proof -
  assume "n < 10"
  then have d: "is_digit (digit n)" by simp
  show "digit n \<noteq> CHR ''-''" using d by (auto simp: is_digit_def)
  show "digit n \<noteq> CHR ''+''" using d by (auto simp: is_digit_def)
qed

lemma nat_digits_nonempty [simp]: "nat_digits n \<noteq> []"
  by (subst nat_digits.simps) simp

lemma nat_digits_all_digits [simp]: "list_all is_digit (nat_digits n)"
proof (induction n rule: nat_digits.induct)
  case (1 n)
  then show ?case
    by (cases "n < 10") (simp_all add: nat_digits.simps [of n])
qed

lemma digits_val_snoc: "digits_val (s @ [c]) = 10 * digits_val s + digit_val c"
  by (simp add: digits_val_def)

lemma digits_val_nat_digits [simp]: "digits_val (nat_digits n) = n"
proof (induction n rule: nat_digits.induct)
  case (1 n)
  show ?case
  proof (cases "n < 10")
    case True
    then show ?thesis by (simp add: nat_digits.simps [of n] digits_val_def)
  next
    case False
    with "1.IH" have "digits_val (nat_digits (n div 10)) = n div 10" by simp
    with False show ?thesis
      by (simp add: nat_digits.simps [of n] digits_val_snoc)
  qed
qed

lemma hd_nat_digits_is_digit: "is_digit (hd (nat_digits n))"
  using nat_digits_all_digits [of n] nat_digits_nonempty [of n]
  by (cases "nat_digits n") auto

lemma hd_nat_digits_not_sign [simp]:
  "hd (nat_digits n) \<noteq> CHR ''-''" "hd (nat_digits n) \<noteq> CHR ''+''"
  using hd_nat_digits_is_digit [of n] by (auto simp: is_digit_def)

lemma atoi_itoa [codec_simps]: "in_int64 i \<Longrightarrow> atoi (itoa i) = (i, True)"
  by (auto simp: parseInt_def itoa_def in_int64_def Let_def)

lemma atoi_nat_digits [codec_simps]: "int n < 2 ^ 63 \<Longrightarrow> atoi (nat_digits n) = (int n, True)"
  by (simp add: parseInt_def Let_def)

definition atoi_opt :: "string \<Rightarrow> int option" where
  "atoi_opt s = (if snd (atoi s) then Some (fst (atoi s)) else None)"

interpretation decimal: codec itoa atoi_opt in_int64
  by unfold_locales (simp add: atoi_opt_def atoi_itoa)

lemma nat_digits_inj [simp]: "nat_digits m = nat_digits n \<longleftrightarrow> m = n"
  by (metis digits_val_nat_digits)

lemma itoa_inj [simp]: "itoa i = itoa j \<longleftrightarrow> i = j"
proof -
  have "CHR ''-'' # s \<noteq> nat_digits n" for s n
    by (metis hd_nat_digits_not_sign(1) list.sel(1))
  from this this [symmetric] show ?thesis by (auto simp: itoa_def eq_nat_nat_iff split: if_splits)
qed

lemma itoa_nonempty [simp]: "itoa i \<noteq> []"
  by (simp add: itoa_def)

end
