(* ===== verification/Api_Types.thy ===== *)
theory Api_Types
  imports Prelude "HOL-Library.Signed_Division"
begin

text \<open>
  The types of \<^verbatim>\<open>api/v1\<close>: the RedisCluster resource with its specification and status, the
  string constants the operator and the instance manager share, and the methods of the
  specification. A struct is a record whose fields are the Go fields, prefixed by the
  initials of the struct; a pointer field is an option. The string types of the source
  (mode, phase, storage type) stay strings, since the code stores and compares any string.
  Kubernetes' own scheduling types (affinity, tolerations, spread constraints), which the
  operator only copies and prints, are carried by their JSON text.
\<close>

section \<open>Constants\<close>

abbreviation ClusterModeStandalone :: string where "ClusterModeStandalone \<equiv> ''standalone''"
abbreviation ClusterModeSentinel :: string where "ClusterModeSentinel \<equiv> ''sentinel''"
abbreviation ClusterModeCluster :: string where "ClusterModeCluster \<equiv> ''cluster''"

abbreviation StorageTypePVC :: string where "StorageTypePVC \<equiv> ''pvc''"
abbreviation StorageTypeEmptyDir :: string where "StorageTypeEmptyDir \<equiv> ''emptyDir''"

abbreviation PrimaryUpdateStrategyUnsupervised :: string where
  "PrimaryUpdateStrategyUnsupervised \<equiv> ''unsupervised''"
abbreviation PrimaryUpdateStrategySupervised :: string where
  "PrimaryUpdateStrategySupervised \<equiv> ''supervised''"

abbreviation ClusterPhaseCreating :: string where "ClusterPhaseCreating \<equiv> ''Creating''"
abbreviation ClusterPhaseHealthy :: string where "ClusterPhaseHealthy \<equiv> ''Healthy''"
abbreviation ClusterPhaseDegraded :: string where "ClusterPhaseDegraded \<equiv> ''Degraded''"
abbreviation ClusterPhaseReplicating :: string where "ClusterPhaseReplicating \<equiv> ''Replicating''"
abbreviation ClusterPhaseFailingOver :: string where "ClusterPhaseFailingOver \<equiv> ''FailingOver''"
abbreviation ClusterPhaseScaling :: string where "ClusterPhaseScaling \<equiv> ''Scaling''"
abbreviation ClusterPhaseUpdating :: string where "ClusterPhaseUpdating \<equiv> ''Updating''"
abbreviation ClusterPhaseWaitingForUser :: string where
  "ClusterPhaseWaitingForUser \<equiv> ''WaitingForUser''"
abbreviation ClusterPhaseDeleting :: string where "ClusterPhaseDeleting \<equiv> ''Deleting''"
abbreviation ClusterPhaseHibernating :: string where "ClusterPhaseHibernating \<equiv> ''Hibernating''"

abbreviation ConditionReady :: string where "ConditionReady \<equiv> ''Ready''"
abbreviation ConditionPrimaryAvailable :: string where
  "ConditionPrimaryAvailable \<equiv> ''PrimaryAvailable''"
abbreviation ConditionReplicationHealthy :: string where
  "ConditionReplicationHealthy \<equiv> ''ReplicationHealthy''"
abbreviation ConditionReplicaMode :: string where "ConditionReplicaMode \<equiv> ''ReplicaMode''"
abbreviation ConditionPrimaryUpdateWaiting :: string where
  "ConditionPrimaryUpdateWaiting \<equiv> ''PrimaryUpdateWaiting''"
abbreviation ConditionLastBackupSucceeded :: string where
  "ConditionLastBackupSucceeded \<equiv> ''LastBackupSucceeded''"
abbreviation ConditionHibernated :: string where "ConditionHibernated \<equiv> ''Hibernated''"
abbreviation ConditionMaintenanceInProgress :: string where
  "ConditionMaintenanceInProgress \<equiv> ''MaintenanceInProgress''"
abbreviation ConditionPVCResizeInProgress :: string where
  "ConditionPVCResizeInProgress \<equiv> ''PVCResizeInProgress''"

abbreviation FencingAnnotationKey :: string where
  "FencingAnnotationKey \<equiv> ''redis.io/fencedInstances''"
abbreviation AnnotationHibernation :: string where
  "AnnotationHibernation \<equiv> ''redis.io/hibernation''"
abbreviation AnnotationApprovePrimaryUpdate :: string where
  "AnnotationApprovePrimaryUpdate \<equiv> ''redis.io/approve-primary-update''"
abbreviation ClusterHandoverAnnotation :: string where
  "ClusterHandoverAnnotation \<equiv> ''redis.io/cluster-handover''"

abbreviation LabelCluster :: string where "LabelCluster \<equiv> ''redis.io/cluster''"
abbreviation LabelInstance :: string where "LabelInstance \<equiv> ''redis.io/instance''"
abbreviation LabelRole :: string where "LabelRole \<equiv> ''redis.io/role''"
abbreviation LabelShard :: string where "LabelShard \<equiv> ''redis.io/shard''"
abbreviation LabelShardRole :: string where "LabelShardRole \<equiv> ''redis.io/shard-role''"
abbreviation LabelRolePrimary :: string where "LabelRolePrimary \<equiv> ''primary''"
abbreviation LabelRoleReplica :: string where "LabelRoleReplica \<equiv> ''replica''"
abbreviation LabelRoleSentinel :: string where "LabelRoleSentinel \<equiv> ''sentinel''"
abbreviation LabelWorkload :: string where "LabelWorkload \<equiv> ''redis.io/workload''"
abbreviation LabelWorkloadData :: string where "LabelWorkloadData \<equiv> ''data''"
abbreviation LabelWorkloadSentinel :: string where "LabelWorkloadSentinel \<equiv> ''sentinel''"

definition SentinelPort :: int where "SentinelPort = 26379"
definition SentinelInstances :: int where "SentinelInstances = 3"
definition SentinelQuorum :: int where "SentinelQuorum = 2"

section \<open>Quantities and resource requirements\<close>

text \<open>
  A resource quantity by its exact amount in nano-units and its canonical text, the two
  things the operator reads of it. \<open>q_Value\<close> is the documented \<^verbatim>\<open>Quantity.Value\<close>: the amount
  rounded up, away from zero.
\<close>

record quantity =
  q_nano :: int
  q_text :: string

definition q_Value :: "quantity \<Rightarrow> int" where
  "q_Value q = (let n = q_nano q in
     if 0 \<le> n then (n + 999999999) div 1000000000 else - ((- n + 999999999) div 1000000000))"

record ResourceRequirements =
  rr_Limits :: "(string, quantity) gomap"
  rr_Requests :: "(string, quantity) gomap"

section \<open>The specification\<close>

record StorageSpec =
  ss_Type :: string
  ss_Size :: quantity
  ss_StorageClassName :: "string option"

record MemorySpec =
  ms_MaxMemory :: "quantity option"
  ms_MaxMemoryPercent :: "int option"
  ms_MaxMemoryPolicy :: string

record NodeMaintenanceWindow =
  nmw_InProgress :: bool
  nmw_ReusePVC :: "bool option"

record ReplicaSourceSpec =
  rs_ClusterName :: string
  rs_Host :: string
  rs_Port :: int
  rs_AuthSecretName :: string

record ReplicaModeSpec =
  rm_Enabled :: bool
  rm_Source :: "ReplicaSourceSpec option"
  rm_Promote :: bool

text \<open>Durations are nanoseconds.\<close>

record PrimaryIsolationSpec =
  pis_Enabled :: "bool option"
  pis_APIServerTimeout :: "int option"
  pis_PeerTimeout :: "int option"

text \<open>A reference to a Secret, a backup or the connection Secret is its name.\<close>

record RedisClusterSpec =
  s_Instances :: int
  s_Mode :: string
  s_Shards :: int
  s_ReplicasPerShard :: int
  s_PrimaryUpdateStrategy :: string
  s_ImageName :: string
  s_Storage :: StorageSpec
  s_Redis :: "(string, string) gomap"
  s_Resources :: ResourceRequirements
  s_Memory :: "MemorySpec option"
  s_MinSyncReplicas :: int
  s_MaxSyncReplicas :: int
  s_EnablePodDisruptionBudget :: "bool option"
  s_AuthSecret :: "string option"
  s_ACLConfigSecret :: "string option"
  s_TLSSecret :: "string option"
  s_CASecret :: "string option"
  s_BackupCredentialsSecret :: "string option"
  s_PrimaryIsolation :: "PrimaryIsolationSpec option"
  s_NodeSelector :: "(string, string) gomap"
  s_Affinity :: "string option"
  s_Tolerations :: "string list"
  s_TopologySpreadConstraints :: "string list"
  s_Bootstrap :: "string option"
  s_NodeMaintenanceWindow :: "NodeMaintenanceWindow option"
  s_ReplicaMode :: "ReplicaModeSpec option"
  s_ConnectionSecret :: "string option"

section \<open>The status\<close>

record SlotRange =
  Start :: int
  End :: int

text \<open>Times are seconds since the epoch.\<close>

record InstanceStatus =
  is_Role :: string
  is_Connected :: bool
  is_ReplicationOffset :: int
  is_ReplicaLagBytes :: int
  is_ConnectedReplicas :: int
  is_MasterLinkStatus :: string
  is_NodeID :: string
  is_PrimaryNodeID :: string
  is_SlotsServed :: "SlotRange list"
  is_ClusterState :: string
  is_CurrentEpoch :: int
  is_LastSeenAt :: "int option"

definition zero_InstanceStatus :: InstanceStatus where
  "zero_InstanceStatus = \<lparr>is_Role = [], is_Connected = False, is_ReplicationOffset = 0,
     is_ReplicaLagBytes = 0, is_ConnectedReplicas = 0, is_MasterLinkStatus = [], is_NodeID = [],
     is_PrimaryNodeID = [], is_SlotsServed = [], is_ClusterState = [], is_CurrentEpoch = 0,
     is_LastSeenAt = None\<rparr>"

record ShardStatus =
  sh_PrimaryPod :: string
  sh_ReplicaPods :: "string list"
  sh_SlotRanges :: "SlotRange list"
  sh_PrimaryNodeID :: string
  sh_Epoch :: int

definition zero_ShardStatus :: ShardStatus where
  "zero_ShardStatus = \<lparr>sh_PrimaryPod = [], sh_ReplicaPods = [], sh_SlotRanges = [],
     sh_PrimaryNodeID = [], sh_Epoch = 0\<rparr>"

record Condition =
  cond_Type :: string
  cond_Status :: string
  cond_LastTransitionTime :: int
  cond_Reason :: string
  cond_Message :: string

abbreviation ConditionTrue :: string where "ConditionTrue \<equiv> ''True''"
abbreviation ConditionFalse :: string where "ConditionFalse \<equiv> ''False''"
abbreviation ConditionUnknown :: string where "ConditionUnknown \<equiv> ''Unknown''"

record RedisClusterStatus =
  st_Phase :: string
  st_CurrentPrimary :: string
  st_ReadyInstances :: int
  st_SentinelReadyInstances :: int
  st_Instances :: int
  st_InstancesStatus :: "(string, InstanceStatus) gomap"
  st_ClusterState :: string
  st_SlotsAssigned :: int
  st_BootstrapCompleted :: bool
  st_Shards :: "(string, ShardStatus) gomap"
  st_HealthyPVC :: int
  st_DanglingPVC :: "string list"
  st_SecretsResourceVersion :: "(string, string) gomap"
  st_Conditions :: "Condition list"

definition zero_RedisClusterStatus :: RedisClusterStatus where
  "zero_RedisClusterStatus = \<lparr>st_Phase = [], st_CurrentPrimary = [], st_ReadyInstances = 0,
     st_SentinelReadyInstances = 0, st_Instances = 0, st_InstancesStatus = [],
     st_ClusterState = [], st_SlotsAssigned = 0, st_BootstrapCompleted = False, st_Shards = [],
     st_HealthyPVC = 0, st_DanglingPVC = [], st_SecretsResourceVersion = [], st_Conditions = []\<rparr>"

record RedisCluster =
  c_Name :: string
  c_Namespace :: string
  c_UID :: string
  c_Annotations :: "(string, string) gomap"
  c_Spec :: RedisClusterSpec
  c_Status :: RedisClusterStatus

section \<open>Methods\<close>

definition IsEphemeral :: "StorageSpec \<Rightarrow> bool" where
  "IsEphemeral s \<longleftrightarrow> ss_Type s = StorageTypeEmptyDir"

definition DesiredDataInstances :: "RedisClusterSpec \<Rightarrow> int" where
  "DesiredDataInstances s =
     (if s_Mode s \<noteq> ClusterModeCluster then s_Instances s
      else
        let shards = (if s_Shards s < 3 then 3 else s_Shards s);
            replicasPerShard = (if s_ReplicasPerShard s < 0 then 0 else s_ReplicasPerShard s)
        in int32 (shards * int32 (1 + replicasPerShard)))"

definition MemoryLimitBytes :: "RedisClusterSpec \<Rightarrow> int" where
  "MemoryLimitBytes s =
     (case map_of (rr_Limits (s_Resources s)) ''memory'' of
        None \<Rightarrow> 0
      | Some q \<Rightarrow> q_Value q)"

definition ResolveMaxMemoryBytes :: "RedisClusterSpec \<Rightarrow> int \<times> bool" where
  "ResolveMaxMemoryBytes s =
     (case s_Memory s of
        None \<Rightarrow> (0, False)
      | Some m \<Rightarrow>
          (case ms_MaxMemory m of
             Some q \<Rightarrow> (if q_Value q > 0 then (q_Value q, True) else (0, False))
           | None \<Rightarrow>
               (case ms_MaxMemoryPercent m of
                  Some pct \<Rightarrow>
                    let limit = MemoryLimitBytes s in
                    if pct \<le> 0 \<or> limit \<le> 0 then (0, False)
                    else
                      let bytes = int64 (limit * pct) sdiv 100 in
                      if bytes > 0 then (bytes, True) else (0, False)
                | None \<Rightarrow> (0, False))))"

definition EffectiveMaxMemoryPolicy :: "RedisClusterSpec \<Rightarrow> string" where
  "EffectiveMaxMemoryPolicy s = (case s_Memory s of None \<Rightarrow> [] | Some m \<Rightarrow> ms_MaxMemoryPolicy m)"

definition ClusterHandoverPods :: "RedisCluster \<Rightarrow> string \<times> string" where
  "ClusterHandoverPods cluster =
     (if s_Mode (c_Spec cluster) \<noteq> ClusterModeCluster then ([], [])
      else
        case cut (CHR ''/'') (mget [] (c_Annotations cluster) ClusterHandoverAnnotation) of
          None \<Rightarrow> ([], [])
        | Some (owner, replica) \<Rightarrow>
            if owner = [] \<or> replica = [] \<or> owner = replica \<or> CHR ''/'' \<in> set replica
            then ([], []) else (owner, replica))"

section \<open>Facts\<close>

lemma cut_eq_Some:
  "cut sep s = Some (a, b) \<longleftrightarrow> s = a @ sep # b \<and> sep \<notin> set a"
proof
  assume "cut sep s = Some (a, b)"
  then have a: "a = takeWhile (\<lambda>c. c \<noteq> sep) s" and b: "b = tl (dropWhile (\<lambda>c. c \<noteq> sep) s)"
    and "sep \<in> set s" by (auto simp: cut_def split: if_splits)
  then obtain x r where d: "dropWhile (\<lambda>c. c \<noteq> sep) s = x # r"
    by (cases "dropWhile (\<lambda>c. c \<noteq> sep) s") (auto simp: dropWhile_eq_Nil_conv)
  then have "x = sep" using hd_dropWhile [of "\<lambda>c. c \<noteq> sep" s] by simp
  moreover have "s = a @ x # r" using takeWhile_dropWhile_id [of "\<lambda>c. c \<noteq> sep" s] d a by simp
  ultimately show "s = a @ sep # b \<and> sep \<notin> set a" using a b d by (auto dest: set_takeWhileD)
next
  assume "s = a @ sep # b \<and> sep \<notin> set a"
  then show "cut sep s = Some (a, b)"
    by (auto simp: cut_def takeWhile_append dropWhile_append)
qed

text \<open>A planned handover is exactly a well-formed owner/heir annotation in cluster mode.\<close>

lemma ClusterHandoverPods_iff:
  assumes "owner \<noteq> []"
  shows "ClusterHandoverPods cluster = (owner, heir) \<longleftrightarrow>
    s_Mode (c_Spec cluster) = ClusterModeCluster \<and>
    mget [] (c_Annotations cluster) ClusterHandoverAnnotation = owner @ CHR ''/'' # heir \<and>
    heir \<noteq> [] \<and> owner \<noteq> heir \<and> CHR ''/'' \<notin> set owner \<and> CHR ''/'' \<notin> set heir"
    (is "_ \<longleftrightarrow> ?mode \<and> ?ann \<and> ?wf")
proof
  assume "ClusterHandoverPods cluster = (owner, heir)"
  with assms show "?mode \<and> ?ann \<and> ?wf"
    by (simp add: ClusterHandoverPods_def split: option.splits if_splits prod.splits)
       (auto simp: cut_eq_Some)
next
  assume *: "?mode \<and> ?ann \<and> ?wf"
  then have "cut (CHR ''/'') (mget [] (c_Annotations cluster) ClusterHandoverAnnotation) = Some (owner, heir)"
    by (simp add: cut_eq_Some)
  with * assms show "ClusterHandoverPods cluster = (owner, heir)" by (simp add: ClusterHandoverPods_def)
qed

lemma ClusterHandoverPods_owner_heir:
  "ClusterHandoverPods cluster = (owner, heir) \<Longrightarrow> owner = [] \<longleftrightarrow> heir = []"
  by (auto simp: ClusterHandoverPods_def split: option.splits if_splits prod.splits)

lemma DesiredDataInstances_cluster:
  assumes "s_Mode s = ClusterModeCluster" "3 \<le> s_Shards s" "0 \<le> s_ReplicasPerShard s"
    and "s_Shards s * (1 + s_ReplicasPerShard s) < 2 ^ 31"
  shows "DesiredDataInstances s = s_Shards s * (1 + s_ReplicasPerShard s)"
proof -
  let ?n = "s_Shards s" and ?r = "s_ReplicasPerShard s"
  have "1 + ?r \<le> ?n * (1 + ?r)" using assms by (simp add: mult_le_cancel_right1)
  moreover have "0 \<le> ?r" by (rule assms(3))
  ultimately have "in_int32 (1 + ?r)" "in_int32 (?n * (1 + ?r))"
    using assms(4) unfolding in_int32_def by linarith+
  with assms show ?thesis by (simp add: DesiredDataInstances_def Let_def int32_id)
qed

text \<open>
  The resolved maxmemory of a percentage is positive and at most the container limit,
  as long as the product stays within 64 bits and the percentage is one.
\<close>

lemma ResolveMaxMemoryBytes_percent:
  assumes "s_Memory s = Some m" "ms_MaxMemory m = None" "ms_MaxMemoryPercent m = Some pct"
    and "pct \<le> 100" "MemoryLimitBytes s * 100 < 2 ^ 63"
    and "ResolveMaxMemoryBytes s = (b, True)"
  shows "0 < b \<and> b \<le> MemoryLimitBytes s \<and> b = MemoryLimitBytes s * pct div 100"
proof -
  let ?l = "MemoryLimitBytes s"
  from assms have pos: "0 < pct" "0 < ?l" and b: "0 < b" "b = int64 (?l * pct) sdiv 100"
    by (auto simp: ResolveMaxMemoryBytes_def Let_def split: if_splits)
  have le: "?l * pct \<le> ?l * 100" using pos assms by (intro mult_left_mono) auto
  moreover have "0 \<le> ?l * pct" using pos by simp
  ultimately have "in_int64 (?l * pct)" using assms(5) unfolding in_int64_def by linarith
  then have eq: "b = ?l * pct div 100" using b pos
    by (simp add: int64_id signed_divide_int_def zero_less_mult_iff sgn_if)
  moreover have "?l * pct div 100 \<le> ?l" using le by linarith
  ultimately show ?thesis using b by simp
qed

end
