(* ===== verification/Kube_Types.thy ===== *)
theory Kube_Types
  imports Api_Types
begin

text \<open>
  The Kubernetes objects the operator reads and writes, reduced to the fields its code
  touches, and the backup resources of \<^verbatim>\<open>api/v1\<close>. Every object the client can transfer is a
  value of \<open>object\<close>, so that the client has one method for all kinds, as
  controller-runtime's has. Labels and annotations are maps; a missing map and an empty one
  are the same value, as they are for the API server. An owner reference is the UID of the
  controlling object.
\<close>

section \<open>Metadata\<close>

record ObjectMeta =
  om_Name :: string
  om_Namespace :: string
  om_Labels :: "(string, string) gomap"
  om_Annotations :: "(string, string) gomap"
  om_Controller :: "string option"
  om_ResourceVersion :: string
  om_DeletionTimestamp :: "int option"

definition new_meta :: "string \<Rightarrow> string \<Rightarrow> (string, string) gomap \<Rightarrow> ObjectMeta" where
  "new_meta name namespace labels = \<lparr>om_Name = name, om_Namespace = namespace, om_Labels = labels,
     om_Annotations = [], om_Controller = None, om_ResourceVersion = [],
     om_DeletionTimestamp = None\<rparr>"

text \<open>\<^verbatim>\<open>metav1.IsControlledBy\<close>: the controller reference carries the owner's UID.\<close>

definition IsControlledBy :: "ObjectMeta \<Rightarrow> RedisCluster \<Rightarrow> bool" where
  "IsControlledBy m cluster \<longleftrightarrow> om_Controller m = Some (c_UID cluster)"

text \<open>Deep equality of two maps.\<close>

definition map_eq :: "('k, 'v) gomap \<Rightarrow> ('k, 'v) gomap \<Rightarrow> bool" where
  "map_eq m m' \<longleftrightarrow> (\<forall>k \<in> fst ` set m \<union> fst ` set m'. map_of m k = map_of m' k)"

section \<open>Pods\<close>

record SecretProjection =
  sp_Name :: string
  sp_Items :: "(string \<times> string) list"

datatype VolumeSource =
    EmptyDir "quantity option"
  | PersistentVolumeClaimSource string
  | Projected "SecretProjection list"
  | OtherVolumeSource

record Volume =
  vol_Name :: string
  vol_Source :: VolumeSource

record VolumeMount =
  vm_Name :: string
  vm_MountPath :: string
  vm_ReadOnly :: bool

datatype EnvVar = EnvValue string string | EnvFieldRef string string

record ContainerPort =
  cp_Name :: string
  cp_ContainerPort :: int
  cp_Protocol :: string

record Probe =
  pr_Path :: string
  pr_Port :: int
  pr_InitialDelaySeconds :: int
  pr_PeriodSeconds :: int
  pr_FailureThreshold :: int
  pr_TimeoutSeconds :: int

record SecurityContext =
  sc_RunAsNonRoot :: bool
  sc_AllowPrivilegeEscalation :: bool
  sc_ReadOnlyRootFilesystem :: bool
  sc_DropCapabilities :: "string list"

record PodSecurityContext =
  psc_RunAsNonRoot :: bool
  psc_RunAsUser :: int
  psc_RunAsGroup :: int
  psc_FSGroup :: int
  psc_SeccompProfile :: string

record Container =
  ct_Name :: string
  ct_Image :: string
  ct_Command :: "string list"
  ct_Args :: "string list"
  ct_Ports :: "ContainerPort list"
  ct_Resources :: ResourceRequirements
  ct_SecurityContext :: "SecurityContext option"
  ct_VolumeMounts :: "VolumeMount list"
  ct_Env :: "EnvVar list"
  ct_LivenessProbe :: "Probe option"
  ct_ReadinessProbe :: "Probe option"

definition new_container :: "string \<Rightarrow> string \<Rightarrow> string list \<Rightarrow> Container" where
  "new_container name img command = \<lparr>ct_Name = name, ct_Image = img, ct_Command = command,
     ct_Args = [], ct_Ports = [], ct_Resources = \<lparr>rr_Limits = [], rr_Requests = []\<rparr>,
     ct_SecurityContext = None, ct_VolumeMounts = [], ct_Env = [], ct_LivenessProbe = None,
     ct_ReadinessProbe = None\<rparr>"

record PodSpec =
  ps_ServiceAccountName :: string
  ps_NodeSelector :: "(string, string) gomap"
  ps_Affinity :: "string option"
  ps_Tolerations :: "string list"
  ps_TopologySpreadConstraints :: "string list"
  ps_SecurityContext :: "PodSecurityContext option"
  ps_InitContainers :: "Container list"
  ps_Containers :: "Container list"
  ps_Volumes :: "Volume list"

text \<open>A pod with the parts of its status the operator reads; a pod condition is its type and status.\<close>

record Pod =
  p_Meta :: ObjectMeta
  p_Spec :: PodSpec
  p_Phase :: string
  p_IP :: string
  p_Conditions :: "(string \<times> string) list"

abbreviation p_Name :: "Pod \<Rightarrow> string" where "p_Name p \<equiv> om_Name (p_Meta p)"
abbreviation p_Labels :: "Pod \<Rightarrow> (string, string) gomap" where "p_Labels p \<equiv> om_Labels (p_Meta p)"
abbreviation p_Annotations :: "Pod \<Rightarrow> (string, string) gomap" where
  "p_Annotations p \<equiv> om_Annotations (p_Meta p)"

section \<open>Other core objects\<close>

record ServicePort =
  sv_PortName :: string
  sv_Port :: int
  sv_TargetPort :: int
  sv_Protocol :: string

record Service =
  sv_Meta :: ObjectMeta
  sv_Selector :: "(string, string) gomap"
  sv_Ports :: "ServicePort list"
  sv_ClusterIP :: string

record PersistentVolumeClaim =
  pvc_Meta :: ObjectMeta
  pvc_AccessModes :: "string list"
  pvc_Requests :: "(string, quantity) gomap"
  pvc_StorageClassName :: "string option"
  pvc_Conditions :: "(string \<times> string) list"

record StorageClass =
  stc_Name :: string
  stc_AllowVolumeExpansion :: "bool option"

record Secret =
  sec_Meta :: ObjectMeta
  sec_Type :: string
  sec_Data :: "(string, string) gomap"

record ConfigMap =
  cm_Meta :: ObjectMeta
  cm_Data :: "(string, string) gomap"

record PodDisruptionBudget =
  pdb_Meta :: ObjectMeta
  pdb_MinAvailable :: "int option"
  pdb_MatchLabels :: "(string, string) gomap"

record PolicyRule =
  rule_APIGroups :: "string list"
  rule_Resources :: "string list"
  rule_Verbs :: "string list"

record Role =
  role_Meta :: ObjectMeta
  role_Rules :: "PolicyRule list"

record Subject =
  sub_Kind :: string
  sub_Name :: string
  sub_Namespace :: string

record RoleRef =
  ref_APIGroup :: string
  ref_Kind :: string
  ref_Name :: string

record RoleBinding =
  rb_Meta :: ObjectMeta
  rb_Subjects :: "Subject list"
  rb_RoleRef :: RoleRef

section \<open>Backups\<close>

abbreviation BackupPhasePending :: string where "BackupPhasePending \<equiv> ''Pending''"
abbreviation BackupPhaseRunning :: string where "BackupPhaseRunning \<equiv> ''Running''"
abbreviation BackupPhaseCompleted :: string where "BackupPhaseCompleted \<equiv> ''Completed''"
abbreviation BackupPhaseFailed :: string where "BackupPhaseFailed \<equiv> ''Failed''"
abbreviation BackupTargetPrimary :: string where "BackupTargetPrimary \<equiv> ''primary''"
abbreviation BackupTargetPreferReplica :: string where
  "BackupTargetPreferReplica \<equiv> ''prefer-replica''"
abbreviation BackupMethodRDB :: string where "BackupMethodRDB \<equiv> ''rdb''"
abbreviation BackupMethodAOF :: string where "BackupMethodAOF \<equiv> ''aof''"
abbreviation BackupArtifactTypeRDB :: string where "BackupArtifactTypeRDB \<equiv> ''rdb''"
abbreviation BackupArtifactTypeAOFArchive :: string where
  "BackupArtifactTypeAOFArchive \<equiv> ''aof-archive''"

record S3Destination =
  s3_Bucket :: string
  s3_Path :: string
  s3_Endpoint :: string
  s3_Region :: string

record AzureBlobDestination =
  az_Container :: string
  az_Path :: string
  az_AccountName :: string
  az_Endpoint :: string

record BackupDestination =
  bd_S3 :: "S3Destination option"
  bd_Azure :: "AzureBlobDestination option"

record RedisBackupSpec =
  bs_ClusterName :: string
  bs_Target :: string
  bs_Method :: string
  bs_Destination :: "BackupDestination option"

record ShardBackupArtifact =
  sa_TargetPod :: string
  sa_BackupPath :: string
  sa_BackupSize :: int
  sa_ArtifactType :: string
  sa_ChecksumSHA256 :: string

record RedisBackupStatus =
  bst_Phase :: string
  bst_TargetPod :: string
  bst_StartedAt :: "int option"
  bst_CompletedAt :: "int option"
  bst_BackupSize :: int
  bst_BackupPath :: string
  bst_ArtifactType :: string
  bst_ShardArtifacts :: "(string, ShardBackupArtifact) gomap"
  bst_Error :: string
  bst_Conditions :: "Condition list"

record RedisBackup =
  b_Meta :: ObjectMeta
  b_CreationTimestamp :: int
  b_Spec :: RedisBackupSpec
  b_Status :: RedisBackupStatus

record RedisScheduledBackupSpec =
  sbs_Schedule :: string
  sbs_TimeZone :: string
  sbs_ClusterName :: string
  sbs_Target :: string
  sbs_Method :: string
  sbs_Destination :: "BackupDestination option"
  sbs_Suspend :: "bool option"
  sbs_SuccessfulBackupsHistoryLimit :: "int option"
  sbs_FailedBackupsHistoryLimit :: "int option"

record RedisScheduledBackupStatus =
  sbt_Phase :: string
  sbt_LastScheduleTime :: "int option"
  sbt_NextScheduleTime :: "int option"
  sbt_LastBackupName :: string
  sbt_Conditions :: "Condition list"

record RedisScheduledBackup =
  sb_Meta :: ObjectMeta
  sb_UID :: string
  sb_CreationTimestamp :: int
  sb_Spec :: RedisScheduledBackupSpec
  sb_Status :: RedisScheduledBackupStatus

text \<open>
  The backup destination's check: \<open>None\<close> when it is valid, the error's text otherwise.
\<close>

definition Validate :: "BackupDestination option \<Rightarrow> string option" where
  "Validate d =
     (case d of
        None \<Rightarrow> Some ''destination is required''
      | Some d \<Rightarrow>
          let configured = (if bd_S3 d \<noteq> None then 1 else 0) + (if bd_Azure d \<noteq> None then 1 else 0 :: int) in
          if configured = 0 then Some ''destination requires exactly one of s3 or azure''
          else if configured > 1 then Some ''destination must set exactly one of s3 or azure''
          else
            (case bd_S3 d of
               Some s \<Rightarrow> if s3_Bucket s = [] then Some ''destination.s3.bucket is required'' else None
             | None \<Rightarrow>
                 (case bd_Azure d of
                    Some a \<Rightarrow> if az_Container a = [] then Some ''destination.azure.container is required'' else None
                  | None \<Rightarrow> None)))"

section \<open>Objects\<close>

datatype kind =
    KCluster | KPod | KService | KPVC | KStorageClass | KSecret | KConfigMap | KPDB
  | KServiceAccount | KRole | KRoleBinding | KBackup | KScheduledBackup

datatype object =
    OCluster RedisCluster
  | OPod Pod
  | OService Service
  | OPVC PersistentVolumeClaim
  | OStorageClass StorageClass
  | OSecret Secret
  | OConfigMap ConfigMap
  | OPDB PodDisruptionBudget
  | OServiceAccount ObjectMeta
  | ORole Role
  | ORoleBinding RoleBinding
  | OBackup RedisBackup
  | OScheduledBackup RedisScheduledBackup

fun kind_of :: "object \<Rightarrow> kind" where
  "kind_of (OCluster _) = KCluster"
| "kind_of (OPod _) = KPod"
| "kind_of (OService _) = KService"
| "kind_of (OPVC _) = KPVC"
| "kind_of (OStorageClass _) = KStorageClass"
| "kind_of (OSecret _) = KSecret"
| "kind_of (OConfigMap _) = KConfigMap"
| "kind_of (OPDB _) = KPDB"
| "kind_of (OServiceAccount _) = KServiceAccount"
| "kind_of (ORole _) = KRole"
| "kind_of (ORoleBinding _) = KRoleBinding"
| "kind_of (OBackup _) = KBackup"
| "kind_of (OScheduledBackup _) = KScheduledBackup"

fun name_of :: "object \<Rightarrow> string" where
  "name_of (OCluster c) = c_Name c"
| "name_of (OPod p) = om_Name (p_Meta p)"
| "name_of (OService s) = om_Name (sv_Meta s)"
| "name_of (OPVC v) = om_Name (pvc_Meta v)"
| "name_of (OStorageClass s) = stc_Name s"
| "name_of (OSecret s) = om_Name (sec_Meta s)"
| "name_of (OConfigMap m) = om_Name (cm_Meta m)"
| "name_of (OPDB b) = om_Name (pdb_Meta b)"
| "name_of (OServiceAccount m) = om_Name m"
| "name_of (ORole r) = om_Name (role_Meta r)"
| "name_of (ORoleBinding b) = om_Name (rb_Meta b)"
| "name_of (OBackup b) = om_Name (b_Meta b)"
| "name_of (OScheduledBackup b) = om_Name (sb_Meta b)"

section \<open>Facts\<close>

lemma map_eq_iff: "map_eq m m' \<longleftrightarrow> map_of m = map_of m'"
proof
  assume eq: "map_eq m m'"
  show "map_of m = map_of m'"
  proof
    fix k
    show "map_of m k = map_of m' k"
    proof (cases "k \<in> fst ` set m \<union> fst ` set m'")
      case True
      with eq show ?thesis by (auto simp: map_eq_def)
    next
      case False
      then have "map_of m k = None" "map_of m' k = None" by (simp_all add: map_of_eq_None_iff)
      then show ?thesis by simp
    qed
  qed
qed (simp add: map_eq_def)

lemma Validate_iff:
  "Validate d = None \<longleftrightarrow>
    (\<exists>s. d = Some \<lparr>bd_S3 = Some s, bd_Azure = None\<rparr> \<and> s3_Bucket s \<noteq> []) \<or>
    (\<exists>a. d = Some \<lparr>bd_S3 = None, bd_Azure = Some a\<rparr> \<and> az_Container a \<noteq> [])"
proof (cases d)
  case None
  then show ?thesis by (simp add: Validate_def)
next
  case (Some b)
  then show ?thesis
    by (cases b; cases "bd_S3 b"; cases "bd_Azure b") (auto simp: Validate_def Let_def)
qed

end
