(* ===== verification/Kube.thy ===== *)
theory Kube
  imports Kube_Types
begin

named_theorems wp_simps \<open>weakest preconditions of computations\<close>
named_theorems issues_intros \<open>which calls a computation makes\<close>

text \<open>
  How the model talks to the world. A controller function of the source is a computation
  \<open>('s, 'a) io\<close>: it starts in a state holding the in-memory object under reconciliation
  (the pointer the Go code passes around and mutates) and the log of the calls made so far,
  and ends with a result or an error and the new state. The Kubernetes API, the instance
  managers' HTTP servers, the clock and controller-runtime's helpers are not code of this
  repository: they are the functions of the record \<open>env\<close>, each given the log, so that an
  answer may depend on everything done before. A theorem about all \<open>env\<close> holds for every
  behaviour of the API server and of the network.

  A patch sends the difference of two versions of an object; on success the answer of the
  server replaces the object in memory, on failure the modified object stays in memory.
  A panic is an error that no handler of the source catches.
\<close>

section \<open>Errors\<close>

datatype api_err = NotFound | Conflict | AlreadyExists | OtherApi string

datatype goerr =
    Err string
  | Wrap string goerr
  | Api api_err
  | HttpStatus string int string
  | Panic string

fun is_panic :: "goerr \<Rightarrow> bool" where
  "is_panic (Panic _) = True"
| "is_panic (Wrap _ e) = is_panic e"
| "is_panic _ = False"

text \<open>\<^verbatim>\<open>errors.IsNotFound\<close> and \<^verbatim>\<open>errors.IsConflict\<close> look through wrapped errors.\<close>

fun IsNotFound :: "goerr \<Rightarrow> bool" where
  "IsNotFound (Api e) = (e = NotFound)"
| "IsNotFound (Wrap _ e) = IsNotFound e"
| "IsNotFound _ = False"

fun IsConflict :: "goerr \<Rightarrow> bool" where
  "IsConflict (Api e) = (e = Conflict)"
| "IsConflict (Wrap _ e) = IsConflict e"
| "IsConflict _ = False"

text \<open>The status of the \<^verbatim>\<open>clusterHTTPError\<close> in the chain of an error, as \<^verbatim>\<open>errors.As\<close> finds it.\<close>

fun http_status :: "goerr \<Rightarrow> int option" where
  "http_status (HttpStatus _ s _) = Some s"
| "http_status (Wrap _ e) = http_status e"
| "http_status _ = None"

fun error_text :: "goerr \<Rightarrow> string" where
  "error_text (Err s) = s"
| "error_text (Wrap s e) = s @ '': '' @ error_text e"
| "error_text (Api NotFound) = ''not found''"
| "error_text (Api Conflict) = ''conflict''"
| "error_text (Api AlreadyExists) = ''already exists''"
| "error_text (Api (OtherApi s)) = s"
| "error_text (HttpStatus url s body) =
     ''POST '' @ url @ '' returned status '' @ itoa s @ (if body = [] then [] else '': '' @ body)"
| "error_text (Panic s) = s"

section \<open>Requests and replies of the instance managers\<close>

record podStatusResponse =
  r_Role :: string
  r_ReplicationOffset :: int
  r_ConnectedReplicas :: int
  r_MasterLinkStatus :: string
  r_Connected :: bool
  r_NodeID :: string
  r_PrimaryNodeID :: string
  r_ClusterState :: string
  r_SlotsServed :: "SlotRange list"
  r_Epoch :: int
  r_SlotsAssigned :: int

record clusterMigrateRangePayload =
  mr_TargetIP :: string
  mr_TargetPort :: int
  mr_TargetNodeID :: string
  mr_SourceNodeID :: string
  mr_Start :: int
  mr_End :: int
  mr_BatchSize :: int
  mr_TimeoutMS :: int

text \<open>What the instance manager reports of a finished backup.\<close>

record BackupResult =
  br_ArtifactType :: string
  br_BackupPath :: string
  br_BackupSize :: int
  br_ChecksumSHA256 :: string

datatype payload =
    NoBody
  | EmptyObject
  | MeetPayload string int
  | AddSlotsPayload int int
  | ReplicatePayload string
  | MigrateRangePayload clusterMigrateRangePayload
  | BackupPayload string string "BackupDestination option"

text \<open>
  The body of an HTTP reply: a status document, a backup document, or any other text. The two
  documents have no field in common, so that decoding one as the other gives the zero values.
\<close>

datatype reply = StatusReply podStatusResponse | BackupReply BackupResult | TextReply string

definition zero_podStatusResponse :: podStatusResponse where
  "zero_podStatusResponse = \<lparr>r_Role = [], r_ReplicationOffset = 0, r_ConnectedReplicas = 0, r_MasterLinkStatus = [],
     r_Connected = False, r_NodeID = [], r_PrimaryNodeID = [], r_ClusterState = [], r_SlotsServed = [], r_Epoch = 0,
     r_SlotsAssigned = 0\<rparr>"

text \<open>A reply of a Redis or Sentinel server, as the client library hands it over.\<close>

datatype redis_reply = RStr string | RInt int | RArr "redis_reply list" | RNil

section \<open>Calls and the environment\<close>

text \<open>
  A call and whether it succeeded. \<open>Observed\<close> is no call: it records the object the server
  sent back as the answer to a patch or a refetch, when that answer becomes the copy in memory.
  The last three are made by the instance manager inside a pod: a file it writes, a server it starts
  and the interrupt it sends to that server.
\<close>

datatype call =
    Get kind string string
  | ListOf kind string "(string, string) gomap"
  | Create object
  | Patch bool object object
  | StatusPatch object object
  | Update object
  | Delete kind string string
  | Http string string string payload
  | RedisDo string "string list"
  | Event string string string
  | Metric string
  | Clock
  | Observed object
  | WriteFile string string
  | StartProcess string string
  | Interrupt

type_synonym log = "(call \<times> bool) list"

record env =
  e_get :: "log \<Rightarrow> kind \<Rightarrow> string \<Rightarrow> string \<Rightarrow> api_err + object"
  e_list :: "log \<Rightarrow> kind \<Rightarrow> string \<Rightarrow> (string, string) gomap \<Rightarrow> api_err + object list"
  e_create :: "log \<Rightarrow> object \<Rightarrow> api_err + object"
  e_patch :: "log \<Rightarrow> bool \<Rightarrow> object \<Rightarrow> object \<Rightarrow> api_err + object"
  e_status_patch :: "log \<Rightarrow> object \<Rightarrow> object \<Rightarrow> api_err + object"
  e_update :: "log \<Rightarrow> object \<Rightarrow> api_err + object"
  e_delete :: "log \<Rightarrow> kind \<Rightarrow> string \<Rightarrow> string \<Rightarrow> api_err option"
  e_http :: "log \<Rightarrow> string \<Rightarrow> string \<Rightarrow> string \<Rightarrow> payload \<Rightarrow> string + int \<times> reply"
  e_redis :: "log \<Rightarrow> string \<Rightarrow> string list \<Rightarrow> string + redis_reply"
  e_now :: "log \<Rightarrow> int"
  e_owner :: "string \<Rightarrow> string option \<Rightarrow> string + string option"
  e_random :: "log \<Rightarrow> string + string"

section \<open>Computations\<close>

record 's world =
  w_obj :: 's
  w_log :: log

type_synonym ('s, 'a) io = "'s world \<Rightarrow> (goerr + 'a) \<times> 's world"

definition ret :: "'a \<Rightarrow> ('s, 'a) io" where
  "ret a = (\<lambda>w. (Inr a, w))"

definition throw :: "goerr \<Rightarrow> ('s, 'a) io" where
  "throw e = (\<lambda>w. (Inl e, w))"

definition bnd :: "('s, 'a) io \<Rightarrow> ('a \<Rightarrow> ('s, 'b) io) \<Rightarrow> ('s, 'b) io" where
  "bnd m f = (\<lambda>w. case m w of (Inl e, w') \<Rightarrow> (Inl e, w') | (Inr a, w') \<Rightarrow> f a w')"

text \<open>The result of a call whose error the source inspects; a panic is not an error value.\<close>

definition attempt :: "('s, 'a) io \<Rightarrow> ('s, goerr + 'a) io" where
  "attempt m = (\<lambda>w. case m w of
     (Inl e, w') \<Rightarrow> (if is_panic e then (Inl e, w') else (Inr (Inl e), w'))
   | (Inr a, w') \<Rightarrow> (Inr (Inr a), w'))"

text \<open>\<^verbatim>\<open>fmt.Errorf("msg: %w", err)\<close> on the error path.\<close>

definition wrap_err :: "string \<Rightarrow> ('s, 'a) io \<Rightarrow> ('s, 'a) io" where
  "wrap_err msg m = (\<lambda>w. case m w of
     (Inl e, w') \<Rightarrow> (Inl (Wrap msg e), w')
   | (Inr a, w') \<Rightarrow> (Inr a, w'))"

definition obj :: "('s, 's) io" where
  "obj = (\<lambda>w. (Inr (w_obj w), w))"

definition set_obj :: "('s \<Rightarrow> 's) \<Rightarrow> ('s, unit) io" where
  "set_obj f = (\<lambda>w. (Inr (), w\<lparr>w_obj := f (w_obj w)\<rparr>))"

definition logged :: "call \<Rightarrow> bool \<Rightarrow> 's world \<Rightarrow> 's world" where
  "logged c ok w = w\<lparr>w_log := w_log w @ [(c, ok)]\<rparr>"

definition perform :: "call \<Rightarrow> (log \<Rightarrow> api_err + 'a) \<Rightarrow> ('s, 'a) io" where
  "perform c f = (\<lambda>w. case f (w_log w) of
     Inl e \<Rightarrow> (Inl (Api e), logged c False w)
   | Inr a \<Rightarrow> (Inr a, logged c True w))"

primrec for_each :: "('x \<Rightarrow> ('s, unit) io) \<Rightarrow> 'x list \<Rightarrow> ('s, unit) io" where
  "for_each f [] = ret ()"
| "for_each f (x # xs) = bnd (f x) (\<lambda>_. for_each f xs)"

text \<open>A loop that may return from the enclosing function.\<close>

datatype ('a, 'r) ctl = Continue 'a | Return 'r

primrec loop :: "('x \<Rightarrow> 'a \<Rightarrow> ('s, ('a, 'r) ctl) io) \<Rightarrow> 'x list \<Rightarrow> 'a \<Rightarrow> ('s, ('a, 'r) ctl) io" where
  "loop f [] a = ret (Continue a)"
| "loop f (x # xs) a = bnd (f x a) (\<lambda>c. case c of Continue a' \<Rightarrow> loop f xs a' | Return r \<Rightarrow> ret (Return r))"

section \<open>The client\<close>

definition wrong_kind :: goerr where
  "wrong_kind = Api (OtherApi ''unexpected object kind'')"

definition get_object :: "env \<Rightarrow> kind \<Rightarrow> string \<Rightarrow> string \<Rightarrow> ('s, object) io" where
  "get_object env k ns name = perform (Get k ns name) (\<lambda>l. e_get env l k ns name)"

definition get_cluster :: "env \<Rightarrow> string \<Rightarrow> string \<Rightarrow> ('s, RedisCluster) io" where
  "get_cluster env ns name = bnd (get_object env KCluster ns name)
     (\<lambda>x. case x of OCluster c \<Rightarrow> ret c | _ \<Rightarrow> throw wrong_kind)"

definition get_pod :: "env \<Rightarrow> string \<Rightarrow> string \<Rightarrow> ('s, Pod) io" where
  "get_pod env ns name = bnd (get_object env KPod ns name)
     (\<lambda>x. case x of OPod p \<Rightarrow> ret p | _ \<Rightarrow> throw wrong_kind)"

definition get_service :: "env \<Rightarrow> string \<Rightarrow> string \<Rightarrow> ('s, Service) io" where
  "get_service env ns name = bnd (get_object env KService ns name)
     (\<lambda>x. case x of OService s \<Rightarrow> ret s | _ \<Rightarrow> throw wrong_kind)"

definition get_pvc :: "env \<Rightarrow> string \<Rightarrow> string \<Rightarrow> ('s, PersistentVolumeClaim) io" where
  "get_pvc env ns name = bnd (get_object env KPVC ns name)
     (\<lambda>x. case x of OPVC v \<Rightarrow> ret v | _ \<Rightarrow> throw wrong_kind)"

definition get_storage_class :: "env \<Rightarrow> string \<Rightarrow> ('s, StorageClass) io" where
  "get_storage_class env name = bnd (get_object env KStorageClass [] name)
     (\<lambda>x. case x of OStorageClass s \<Rightarrow> ret s | _ \<Rightarrow> throw wrong_kind)"

definition get_secret :: "env \<Rightarrow> string \<Rightarrow> string \<Rightarrow> ('s, Secret) io" where
  "get_secret env ns name = bnd (get_object env KSecret ns name)
     (\<lambda>x. case x of OSecret s \<Rightarrow> ret s | _ \<Rightarrow> throw wrong_kind)"

definition get_pdb :: "env \<Rightarrow> string \<Rightarrow> string \<Rightarrow> ('s, PodDisruptionBudget) io" where
  "get_pdb env ns name = bnd (get_object env KPDB ns name)
     (\<lambda>x. case x of OPDB b \<Rightarrow> ret b | _ \<Rightarrow> throw wrong_kind)"

definition get_role :: "env \<Rightarrow> string \<Rightarrow> string \<Rightarrow> ('s, Role) io" where
  "get_role env ns name = bnd (get_object env KRole ns name)
     (\<lambda>x. case x of ORole r \<Rightarrow> ret r | _ \<Rightarrow> throw wrong_kind)"

definition get_role_binding :: "env \<Rightarrow> string \<Rightarrow> string \<Rightarrow> ('s, RoleBinding) io" where
  "get_role_binding env ns name = bnd (get_object env KRoleBinding ns name)
     (\<lambda>x. case x of ORoleBinding b \<Rightarrow> ret b | _ \<Rightarrow> throw wrong_kind)"

definition get_backup :: "env \<Rightarrow> string \<Rightarrow> string \<Rightarrow> ('s, RedisBackup) io" where
  "get_backup env ns name = bnd (get_object env KBackup ns name)
     (\<lambda>x. case x of OBackup b \<Rightarrow> ret b | _ \<Rightarrow> throw wrong_kind)"

definition list_objects :: "env \<Rightarrow> kind \<Rightarrow> string \<Rightarrow> (string, string) gomap \<Rightarrow> ('s, object list) io" where
  "list_objects env k ns sel = perform (ListOf k ns sel) (\<lambda>l. e_list env l k ns sel)"

definition list_pods :: "env \<Rightarrow> string \<Rightarrow> (string, string) gomap \<Rightarrow> ('s, Pod list) io" where
  "list_pods env ns sel = bnd (list_objects env KPod ns sel)
     (\<lambda>xs. ret (List.map_filter (\<lambda>x. case x of OPod p \<Rightarrow> Some p | _ \<Rightarrow> None) xs))"

definition list_pvcs ::
  "env \<Rightarrow> string \<Rightarrow> (string, string) gomap \<Rightarrow> ('s, PersistentVolumeClaim list) io" where
  "list_pvcs env ns sel = bnd (list_objects env KPVC ns sel)
     (\<lambda>xs. ret (List.map_filter (\<lambda>x. case x of OPVC v \<Rightarrow> Some v | _ \<Rightarrow> None) xs))"

definition list_secrets :: "env \<Rightarrow> string \<Rightarrow> (string, string) gomap \<Rightarrow> ('s, Secret list) io" where
  "list_secrets env ns sel = bnd (list_objects env KSecret ns sel)
     (\<lambda>xs. ret (List.map_filter (\<lambda>x. case x of OSecret s \<Rightarrow> Some s | _ \<Rightarrow> None) xs))"

definition create :: "env \<Rightarrow> object \<Rightarrow> ('s, unit) io" where
  "create env x = bnd (perform (Create x) (\<lambda>l. e_create env l x)) (\<lambda>_. ret ())"

definition update :: "env \<Rightarrow> object \<Rightarrow> ('s, unit) io" where
  "update env x = bnd (perform (Update x) (\<lambda>l. e_update env l x)) (\<lambda>_. ret ())"

definition patch :: "env \<Rightarrow> object \<Rightarrow> object \<Rightarrow> ('s, object) io" where
  "patch env base x = perform (Patch False base x) (\<lambda>l. e_patch env l False base x)"

definition delete :: "env \<Rightarrow> kind \<Rightarrow> string \<Rightarrow> string \<Rightarrow> ('s, unit) io" where
  "delete env k ns name = perform (Delete k ns name)
     (\<lambda>l. case e_delete env l k ns name of Some e \<Rightarrow> Inl e | None \<Rightarrow> Inr ())"

text \<open>
  \<^verbatim>\<open>patch := client.MergeFrom(cluster.DeepCopy()); ...; r.Patch(ctx, cluster, patch)\<close> on the
  cluster in memory, with the mutation between the two as \<open>f\<close>; \<open>lock\<close> asks for the optimistic
  lock. The status variant is \<^verbatim>\<open>r.Status().Patch\<close>.
\<close>

definition patch_with ::
  "(log \<Rightarrow> object \<Rightarrow> object \<Rightarrow> api_err + object) \<Rightarrow> (object \<Rightarrow> object \<Rightarrow> call) \<Rightarrow>
   (RedisCluster \<Rightarrow> RedisCluster) \<Rightarrow> (RedisCluster, unit) io" where
  "patch_with send mk f = (\<lambda>w.
     let base = OCluster (w_obj w); new = f (w_obj w); w' = w\<lparr>w_obj := new\<rparr>; c = mk base (OCluster new) in
     case send (w_log w) base (OCluster new) of
       Inl e \<Rightarrow> (Inl (Api e), logged c False w')
     | Inr (OCluster answer) \<Rightarrow>
         (Inr (), logged (Observed (OCluster answer)) True (logged c True w')\<lparr>w_obj := answer\<rparr>)
     | Inr _ \<Rightarrow> (Inl wrong_kind, logged c True w'))"

definition patch_cluster ::
  "env \<Rightarrow> bool \<Rightarrow> (RedisCluster \<Rightarrow> RedisCluster) \<Rightarrow> (RedisCluster, unit) io" where
  "patch_cluster env lock = patch_with (\<lambda>l. e_patch env l lock) (Patch lock)"

definition patch_status ::
  "env \<Rightarrow> (RedisCluster \<Rightarrow> RedisCluster) \<Rightarrow> (RedisCluster, unit) io" where
  "patch_status env = patch_with (e_status_patch env) StatusPatch"

definition observe :: "RedisCluster \<Rightarrow> (RedisCluster, unit) io" where
  "observe c = (\<lambda>w. (Inr (), logged (Observed (OCluster c)) True w\<lparr>w_obj := c\<rparr>))"

definition refetch_cluster :: "env \<Rightarrow> (RedisCluster, unit) io" where
  "refetch_cluster env =
     bnd obj (\<lambda>c. bnd (get_cluster env (c_Namespace c) (c_Name c)) observe)"

definition eventf :: "string \<Rightarrow> string \<Rightarrow> string \<Rightarrow> ('s, unit) io" where
  "eventf severity reason msg = (\<lambda>w. (Inr (), logged (Event severity reason msg) True w))"

abbreviation Normal :: string where "Normal \<equiv> ''Normal''"
abbreviation Warning :: string where "Warning \<equiv> ''Warning''"

definition metric :: "string \<Rightarrow> ('s, unit) io" where
  "metric name = (\<lambda>w. (Inr (), logged (Metric name) True w))"

definition now :: "env \<Rightarrow> ('s, int) io" where
  "now env = (\<lambda>w. (Inr (e_now env (w_log w)), logged Clock True w))"

text \<open>
  One HTTP exchange with an instance manager. The flag in the log says that the server
  answered with status 200.
\<close>

definition http :: "env \<Rightarrow> string \<Rightarrow> string \<Rightarrow> string \<Rightarrow> payload \<Rightarrow> ('s, string + int \<times> reply) io" where
  "http env meth ip path body = (\<lambda>w.
     let r = e_http env (w_log w) meth ip path body;
         ok = (case r of Inr (status, _) \<Rightarrow> status = 200 | Inl _ \<Rightarrow> False)
     in (Inr r, logged (Http meth ip path body) ok w))"

text \<open>One command sent to the Redis or Sentinel server at an address.\<close>

definition redis_do :: "env \<Rightarrow> string \<Rightarrow> string list \<Rightarrow> ('s, redis_reply) io" where
  "redis_do env addr args = (\<lambda>w. case e_redis env (w_log w) addr args of
     Inl e \<Rightarrow> (Inl (Err e), logged (RedisDo addr args) False w)
   | Inr v \<Rightarrow> (Inr v, logged (RedisDo addr args) True w))"

text \<open>\<^verbatim>\<open>crypto/rand\<close>: reading random bytes.\<close>

definition random_bytes :: "env \<Rightarrow> ('s, string) io" where
  "random_bytes env = (\<lambda>w. case e_random env (w_log w) of Inl e \<Rightarrow> (Inl (Err e), w) | Inr s \<Rightarrow> (Inr s, w))"

definition set_controller ::
  "env \<Rightarrow> RedisCluster \<Rightarrow> ObjectMeta \<Rightarrow> ('s, ObjectMeta) io" where
  "set_controller env cluster m =
     (case e_owner env (c_UID cluster) (om_Controller m) of
        Inl e \<Rightarrow> throw (Err e)
      | Inr owner \<Rightarrow> ret (m\<lparr>om_Controller := owner\<rparr>))"

section \<open>Weakest preconditions\<close>

text \<open>
  \<open>wp m Q E w\<close>: run from \<open>w\<close>, the computation ends with a value satisfying \<open>Q\<close> or an error
  satisfying \<open>E\<close>. Computations are total, so this is total correctness. The rules of
  \<open>wp_simps\<close> compute it through the combinators and the client's methods.
\<close>

definition wp ::
  "('s, 'a) io \<Rightarrow> ('a \<Rightarrow> 's world \<Rightarrow> bool) \<Rightarrow> (goerr \<Rightarrow> 's world \<Rightarrow> bool) \<Rightarrow> 's world \<Rightarrow> bool" where
  "wp m Q E w = (case m w of (Inl e, w') \<Rightarrow> E e w' | (Inr a, w') \<Rightarrow> Q a w')"

lemma wp_ret [wp_simps]: "wp (ret a) Q E w = Q a w"
  by (simp add: wp_def ret_def)

lemma wp_throw [wp_simps]: "wp (throw e) Q E w = E e w"
  by (simp add: wp_def throw_def)

lemma wp_bnd [wp_simps]: "wp (bnd m f) Q E w = wp m (\<lambda>a. wp (f a) Q E) E w"
  by (simp add: wp_def bnd_def split: prod.splits sum.splits)

lemma wp_attempt [wp_simps]:
  "wp (attempt m) Q E w = wp m (\<lambda>a. Q (Inr a)) (\<lambda>e. if is_panic e then E e else Q (Inl e)) w"
  by (simp add: wp_def attempt_def split: prod.splits sum.splits)

lemma wp_wrap_err [wp_simps]: "wp (wrap_err msg m) Q E w = wp m Q (\<lambda>e. E (Wrap msg e)) w"
  by (simp add: wp_def wrap_err_def split: prod.splits sum.splits)

lemma wp_obj [wp_simps]: "wp obj Q E w = Q (w_obj w) w"
  by (simp add: wp_def obj_def)

lemma wp_set_obj [wp_simps]: "wp (set_obj f) Q E w = Q () (w\<lparr>w_obj := f (w_obj w)\<rparr>)"
  by (simp add: wp_def set_obj_def)

lemma wp_perform [wp_simps]:
  "wp (perform c f) Q E w =
     (case f (w_log w) of Inl e \<Rightarrow> E (Api e) (logged c False w) | Inr a \<Rightarrow> Q a (logged c True w))"
  by (simp add: wp_def perform_def split: sum.splits)

lemma wp_eventf [wp_simps]: "wp (eventf s r m) Q E w = Q () (logged (Event s r m) True w)"
  by (simp add: wp_def eventf_def)

lemma wp_metric [wp_simps]: "wp (metric n) Q E w = Q () (logged (Metric n) True w)"
  by (simp add: wp_def metric_def)

lemma wp_now [wp_simps]: "wp (now env) Q E w = Q (e_now env (w_log w)) (logged Clock True w)"
  by (simp add: wp_def now_def)

lemma wp_http [wp_simps]:
  "wp (http env meth ip path body) Q E w =
     (let r = e_http env (w_log w) meth ip path body in
      Q r (logged (Http meth ip path body)
        (case r of Inr (status, _) \<Rightarrow> status = 200 | Inl _ \<Rightarrow> False) w))"
  by (simp add: wp_def http_def Let_def)

lemma wp_redis_do [wp_simps]:
  "wp (redis_do env addr args) Q E w =
     (case e_redis env (w_log w) addr args of
        Inl e \<Rightarrow> E (Err e) (logged (RedisDo addr args) False w)
      | Inr v \<Rightarrow> Q v (logged (RedisDo addr args) True w))"
  by (simp add: wp_def redis_do_def split: sum.splits)

lemma wp_random_bytes [wp_simps]:
  "wp (random_bytes env) Q E w = (case e_random env (w_log w) of Inl e \<Rightarrow> E (Err e) w | Inr s \<Rightarrow> Q s w)"
  by (simp add: wp_def random_bytes_def split: sum.splits)

lemma wp_patch_with [wp_simps]:
  "wp (patch_with send mk f) Q E w =
     (let base = OCluster (w_obj w); new = f (w_obj w); w' = w\<lparr>w_obj := new\<rparr>; c = mk base (OCluster new) in
      case send (w_log w) base (OCluster new) of
        Inl e \<Rightarrow> E (Api e) (logged c False w')
      | Inr (OCluster answer) \<Rightarrow>
          Q () (logged (Observed (OCluster answer)) True (logged c True w')\<lparr>w_obj := answer\<rparr>)
      | Inr _ \<Rightarrow> E wrong_kind (logged c True w'))"
  by (simp add: wp_def patch_with_def Let_def split: sum.splits object.splits)

lemma wp_observe [wp_simps]:
  "wp (observe c) Q E w = Q () (logged (Observed (OCluster c)) True w\<lparr>w_obj := c\<rparr>)"
  by (simp add: wp_def observe_def)

lemma wp_if [wp_simps]: "wp (if b then m else n) Q E w = (if b then wp m Q E w else wp n Q E w)"
  by simp

lemma wp_mono:
  assumes "wp m Q E w" and "\<And>a w'. Q a w' \<Longrightarrow> Q' a w'" and "\<And>e w'. E e w' \<Longrightarrow> E' e w'"
  shows "wp m Q' E' w"
  using assms by (auto simp: wp_def split: prod.splits sum.splits)

lemma wp_conj:
  "wp m (\<lambda>a w. Q a w \<and> Q' a w) (\<lambda>e w. E e w \<and> E' e w) w \<longleftrightarrow> wp m Q E w \<and> wp m Q' E' w"
  by (auto simp: wp_def split: prod.splits sum.splits)

lemma wp_result: "wp m Q E w \<Longrightarrow> m w = (Inr a, w') \<Longrightarrow> Q a w'"
  by (simp add: wp_def)

lemma wp_error: "wp m Q E w \<Longrightarrow> m w = (Inl e, w') \<Longrightarrow> E e w'"
  by (simp add: wp_def)

lemma wp_for_each:
  assumes "I w" and "\<And>x w. x \<in> set xs \<Longrightarrow> I w \<Longrightarrow> wp (f x) (\<lambda>_. I) E w"
  shows "wp (for_each f xs) (\<lambda>_. I) E w"
  using assms
proof (induction xs arbitrary: w)
  case Nil
  then show ?case by (simp add: wp_simps)
next
  case (Cons x xs)
  have "wp (f x) (\<lambda>_. I) E w" using Cons.prems by simp
  then show ?case
    by (auto simp: wp_simps elim!: wp_mono intro!: Cons.IH Cons.prems)
qed

lemma wp_loop:
  assumes "I a w"
    and "\<And>x a w. x \<in> set xs \<Longrightarrow> I a w \<Longrightarrow>
      wp (f x a) (\<lambda>c w'. case c of Continue a' \<Rightarrow> I a' w' | Return r \<Rightarrow> R r w') E w"
  shows "wp (loop f xs a) (\<lambda>c w'. case c of Continue a' \<Rightarrow> I a' w' | Return r \<Rightarrow> R r w') E w"
  using assms
proof (induction xs arbitrary: a w)
  case Nil
  then show ?case by (simp add: wp_simps)
next
  case (Cons x xs)
  have "wp (f x a) (\<lambda>c w'. case c of Continue a' \<Rightarrow> I a' w' | Return r \<Rightarrow> R r w') E w"
    using Cons.prems by simp
  then show ?case
  proof (simp add: wp_simps, rule wp_mono)
    fix c w' assume "case c of Continue a' \<Rightarrow> I a' w' | Return r \<Rightarrow> R r w'"
    then show "wp (case c of Continue a' \<Rightarrow> loop f xs a' | Return r \<Rightarrow> ret (Return r))
        (\<lambda>c w'. case c of Continue a' \<Rightarrow> I a' w' | Return r \<Rightarrow> R r w') E w'"
      by (cases c) (auto simp: wp_simps intro!: Cons.IH Cons.prems)
  qed
qed

section \<open>Footprints\<close>

text \<open>
  \<open>issues P m\<close>: whatever the environment answers, the computation only appends to the log,
  and every call it appends satisfies \<open>P\<close>. The rules of \<open>issues_intros\<close> follow the
  combinators, so the footprint of a function is read off its text.
\<close>

definition issues :: "(call \<Rightarrow> bool) \<Rightarrow> ('s, 'a) io \<Rightarrow> bool" where
  "issues P m \<longleftrightarrow> (\<forall>w. \<exists>l. w_log (snd (m w)) = w_log w @ l \<and> (\<forall>x \<in> set l. P (fst x)))"

lemma issuesI: "(\<And>w. \<exists>l. w_log (snd (m w)) = w_log w @ l \<and> (\<forall>x \<in> set l. P (fst x))) \<Longrightarrow> issues P m"
  by (simp add: issues_def)

lemma issuesE:
  assumes "issues P m" "m w = (r, w')"
  obtains l where "w_log w' = w_log w @ l" "\<forall>x \<in> set l. P (fst x)"
  using assms unfolding issues_def by (metis snd_conv)

lemma issues_bnd_objE:
  assumes "issues P (f (w_obj w))" "bnd obj f w = (r, w')"
  obtains l where "w_log w' = w_log w @ l" "\<forall>x \<in> set l. P (fst x)"
  using assms by (auto simp: bnd_def obj_def elim: issuesE)

lemma issues_mono: "issues P m \<Longrightarrow> (\<And>c. P c \<Longrightarrow> Q c) \<Longrightarrow> issues Q m"
  unfolding issues_def by blast

lemma issues_ret [issues_intros]: "issues P (ret a)"
  by (simp add: issues_def ret_def)

lemma issues_throw [issues_intros]: "issues P (throw e)"
  by (simp add: issues_def throw_def)

lemma issues_obj [issues_intros]: "issues P obj"
  by (simp add: issues_def obj_def)

lemma issues_set_obj [issues_intros]: "issues P (set_obj f)"
  by (simp add: issues_def set_obj_def)

lemma issues_bnd [issues_intros]:
  assumes m: "issues P m" and f: "\<And>a. issues P (f a)"
  shows "issues P (bnd m f)"
proof (rule issuesI)
  fix w
  obtain r w' where mw: "m w = (r, w')" by (cases "m w")
  with m obtain l where l: "w_log w' = w_log w @ l" "\<forall>x \<in> set l. P (fst x)" by (rule issuesE)
  show "\<exists>l. w_log (snd (bnd m f w)) = w_log w @ l \<and> (\<forall>x \<in> set l. P (fst x))"
  proof (cases r)
    case (Inl e)
    with mw l show ?thesis by (auto simp: bnd_def)
  next
    case (Inr a)
    obtain r2 w2 where fa: "f a w' = (r2, w2)" by (cases "f a w'")
    with f [of a] obtain l2 where "w_log w2 = w_log w' @ l2" "\<forall>x \<in> set l2. P (fst x)" by (rule issuesE)
    with mw l Inr fa show ?thesis by (intro exI [of _ "l @ l2"]) (auto simp: bnd_def)
  qed
qed

lemma issues_attempt [issues_intros]: "issues P m \<Longrightarrow> issues P (attempt m)"
  by (auto simp: issues_def attempt_def split: prod.splits sum.splits) (metis snd_conv)+

lemma issues_wrap_err [issues_intros]: "issues P m \<Longrightarrow> issues P (wrap_err msg m)"
  by (auto simp: issues_def wrap_err_def split: prod.splits sum.splits) (metis snd_conv)+

lemma issues_if [issues_intros]:
  "(b \<Longrightarrow> issues P m) \<Longrightarrow> (\<not> b \<Longrightarrow> issues P n) \<Longrightarrow> issues P (if b then m else n)"
  by simp

lemma issues_case_option [issues_intros]:
  "(x = None \<Longrightarrow> issues P m) \<Longrightarrow> (\<And>y. x = Some y \<Longrightarrow> issues P (f y)) \<Longrightarrow>
   issues P (case x of None \<Rightarrow> m | Some y \<Rightarrow> f y)"
  by (cases x) auto

lemma issues_case_sum [issues_intros]:
  "(\<And>e. x = Inl e \<Longrightarrow> issues P (f e)) \<Longrightarrow> (\<And>y. x = Inr y \<Longrightarrow> issues P (g y)) \<Longrightarrow>
   issues P (case x of Inl e \<Rightarrow> f e | Inr y \<Rightarrow> g y)"
  by (cases x) auto

lemma issues_case_prod [issues_intros]:
  "(\<And>a b. issues P (f a b)) \<Longrightarrow> issues P (case x of (a, b) \<Rightarrow> f a b)"
  by (cases x) auto

lemma issues_case_ctl [issues_intros]:
  "(\<And>a. issues P (f a)) \<Longrightarrow> (\<And>r. issues P (g r)) \<Longrightarrow>
   issues P (case x of Continue a \<Rightarrow> f a | Return r \<Rightarrow> g r)"
  by (cases x) auto

lemma issues_logged:
  "P c \<Longrightarrow> \<exists>l. w_log (logged c ok w) = w_log w @ l \<and> (\<forall>x \<in> set l. P (fst x))"
  by (simp add: logged_def)

lemma issues_perform [issues_intros]: "P c \<Longrightarrow> issues P (perform c f)"
  by (auto simp: issues_def perform_def logged_def split: sum.splits)

lemma issues_eventf [issues_intros]: "P (Event s r msg) \<Longrightarrow> issues P (eventf s r msg)"
  by (simp add: issues_def eventf_def logged_def)

lemma issues_metric [issues_intros]: "P (Metric n) \<Longrightarrow> issues P (metric n)"
  by (simp add: issues_def metric_def logged_def)

lemma issues_now [issues_intros]: "P Clock \<Longrightarrow> issues P (now env)"
  by (simp add: issues_def now_def logged_def)

lemma issues_http [issues_intros]: "P (Http meth ip path body) \<Longrightarrow> issues P (http env meth ip path body)"
  by (simp add: issues_def http_def logged_def Let_def)

lemma issues_redis_do [issues_intros]: "P (RedisDo addr args) \<Longrightarrow> issues P (redis_do env addr args)"
  by (auto simp: issues_def redis_do_def logged_def split: sum.splits)

lemma issues_random_bytes [issues_intros]: "issues P (random_bytes env)"
  by (auto simp: issues_def random_bytes_def split: sum.splits)

lemma issues_observe [issues_intros]: "(\<And>x. P (Observed x)) \<Longrightarrow> issues P (observe c)"
  by (simp add: issues_def observe_def logged_def)

lemma issues_patch_with [issues_intros]:
  "(\<And>c. P (mk (OCluster c) (OCluster (f c)))) \<Longrightarrow> (\<And>x. P (Observed x)) \<Longrightarrow>
   issues P (patch_with send mk f)"
  by (auto simp: issues_def patch_with_def logged_def Let_def split: sum.splits object.splits)

lemma issues_for_each [issues_intros]: "(\<And>x. x \<in> set xs \<Longrightarrow> issues P (f x)) \<Longrightarrow> issues P (for_each f xs)"
  by (induction xs) (auto intro!: issues_intros)

lemma issues_loop [issues_intros]:
  "(\<And>x a. x \<in> set xs \<Longrightarrow> issues P (f x a)) \<Longrightarrow> issues P (loop f xs a)"
  by (induction xs arbitrary: a) (auto intro!: issues_intros)

subsection \<open>Footprints of the client's methods\<close>

lemma issues_get_object [issues_intros]: "P (Get k ns name) \<Longrightarrow> issues P (get_object env k ns name)"
  by (simp add: get_object_def issues_intros)

lemma issues_get_cluster [issues_intros]: "P (Get KCluster ns name) \<Longrightarrow> issues P (get_cluster env ns name)"
  by (auto simp: get_cluster_def intro!: issues_intros split: object.split)

lemma issues_get_pod [issues_intros]: "P (Get KPod ns name) \<Longrightarrow> issues P (get_pod env ns name)"
  by (auto simp: get_pod_def intro!: issues_intros split: object.split)

lemma issues_get_service [issues_intros]: "P (Get KService ns name) \<Longrightarrow> issues P (get_service env ns name)"
  by (auto simp: get_service_def intro!: issues_intros split: object.split)

lemma issues_get_pvc [issues_intros]: "P (Get KPVC ns name) \<Longrightarrow> issues P (get_pvc env ns name)"
  by (auto simp: get_pvc_def intro!: issues_intros split: object.split)

lemma issues_get_secret [issues_intros]: "P (Get KSecret ns name) \<Longrightarrow> issues P (get_secret env ns name)"
  by (auto simp: get_secret_def intro!: issues_intros split: object.split)

lemma issues_get_pdb [issues_intros]: "P (Get KPDB ns name) \<Longrightarrow> issues P (get_pdb env ns name)"
  by (auto simp: get_pdb_def intro!: issues_intros split: object.split)

lemma issues_get_role [issues_intros]: "P (Get KRole ns name) \<Longrightarrow> issues P (get_role env ns name)"
  by (auto simp: get_role_def intro!: issues_intros split: object.split)

lemma issues_get_role_binding [issues_intros]: "P (Get KRoleBinding ns name) \<Longrightarrow> issues P (get_role_binding env ns name)"
  by (auto simp: get_role_binding_def intro!: issues_intros split: object.split)

lemma issues_get_backup [issues_intros]: "P (Get KBackup ns name) \<Longrightarrow> issues P (get_backup env ns name)"
  by (auto simp: get_backup_def intro!: issues_intros split: object.split)

lemma issues_get_storage_class [issues_intros]:
  "P (Get KStorageClass [] name) \<Longrightarrow> issues P (get_storage_class env name)"
  by (auto simp: get_storage_class_def intro!: issues_intros split: object.split)

lemma issues_list_objects [issues_intros]:
  "P (ListOf k ns sel) \<Longrightarrow> issues P (list_objects env k ns sel)"
  by (simp add: list_objects_def issues_intros)

lemma issues_list_pods [issues_intros]: "P (ListOf KPod ns sel) \<Longrightarrow> issues P (list_pods env ns sel)"
  by (auto simp: list_pods_def intro!: issues_intros)

lemma issues_list_pvcs [issues_intros]: "P (ListOf KPVC ns sel) \<Longrightarrow> issues P (list_pvcs env ns sel)"
  by (auto simp: list_pvcs_def intro!: issues_intros)

lemma issues_list_secrets [issues_intros]: "P (ListOf KSecret ns sel) \<Longrightarrow> issues P (list_secrets env ns sel)"
  by (auto simp: list_secrets_def intro!: issues_intros)

lemma issues_create [issues_intros]: "P (Create x) \<Longrightarrow> issues P (create env x)"
  by (auto simp: create_def intro!: issues_intros)

lemma issues_update [issues_intros]: "P (Update x) \<Longrightarrow> issues P (update env x)"
  by (auto simp: update_def intro!: issues_intros)

lemma issues_patch [issues_intros]: "P (Patch False base x) \<Longrightarrow> issues P (patch env base x)"
  by (simp add: patch_def issues_intros)

lemma issues_delete [issues_intros]: "P (Delete k ns name) \<Longrightarrow> issues P (delete env k ns name)"
  by (simp add: delete_def issues_intros)

lemma issues_patch_cluster [issues_intros]:
  "(\<And>c. P (Patch lock (OCluster c) (OCluster (f c)))) \<Longrightarrow> (\<And>x. P (Observed x)) \<Longrightarrow>
   issues P (patch_cluster env lock f)"
  by (simp add: patch_cluster_def issues_patch_with)

lemma issues_patch_status [issues_intros]:
  "(\<And>c. P (StatusPatch (OCluster c) (OCluster (f c)))) \<Longrightarrow> (\<And>x. P (Observed x)) \<Longrightarrow>
   issues P (patch_status env f)"
  by (simp add: patch_status_def issues_patch_with)

lemma issues_refetch_cluster [issues_intros]:
  "(\<And>ns name. P (Get KCluster ns name)) \<Longrightarrow> (\<And>x. P (Observed x)) \<Longrightarrow> issues P (refetch_cluster env)"
  by (auto simp: refetch_cluster_def intro!: issues_intros)

lemma issues_set_controller [issues_intros]: "issues P (set_controller env cluster m)"
  by (auto simp: set_controller_def intro!: issues_intros)

lemmas client_defs = get_object_def get_cluster_def get_pod_def get_service_def get_pvc_def
  get_storage_class_def get_secret_def get_pdb_def get_role_def get_role_binding_def get_backup_def
  list_objects_def list_pods_def list_pvcs_def list_secrets_def create_def update_def patch_def
  delete_def patch_cluster_def patch_status_def refetch_cluster_def set_controller_def
  List.map_filter_simps

end
