(* ===== verification/Call_Order.thy ===== *)
theory Call_Order
  imports Kube
begin

named_theorems budget_intros \<open>how often a computation makes a call\<close>
named_theorems guarded_intros \<open>which call a computation makes only after another\<close>

text \<open>
  Two judgements on the log of a computation, read off its text like \<open>issues\<close>. \<open>budget P k m\<close>:
  whatever the environment answers, at most \<open>k\<close> of the calls satisfy \<open>P\<close>. \<open>guarded A B m\<close>: a call
  satisfying \<open>B\<close> only happens after one that satisfies \<open>A\<close>. Both look at the calls together with
  their success.
\<close>

section \<open>Results\<close>

text \<open>Every value the computation can return satisfies \<open>R\<close>.\<close>

definition returns :: "('a \<Rightarrow> bool) \<Rightarrow> ('s, 'a) io \<Rightarrow> bool" where
  "returns R m \<longleftrightarrow> (\<forall>w a w'. m w = (Inr a, w') \<longrightarrow> R a)"

lemma returns_wp: "(\<And>w. wp m (\<lambda>a _. R a) (\<lambda>_ _. True) w) \<Longrightarrow> returns R m"
  unfolding returns_def by (auto dest: wp_result)

lemma returns_wrap_err: "returns R m \<Longrightarrow> returns R (wrap_err msg m)"
  by (auto simp: returns_def wrap_err_def split: prod.splits sum.splits)

lemma returns_set_controller:
  "returns (\<lambda>m'. \<exists>owner. e_owner env (c_UID c) (om_Controller m) = Inr owner \<and> m' = m\<lparr>om_Controller := owner\<rparr>)
     (set_controller env c m)"
  by (rule returns_wp) (simp add: set_controller_def wp_simps split: sum.split)

text \<open>Binding, with what is known of the first result.\<close>

lemma issues_bnd_returns:
  assumes m: "issues P m" "returns R m" and f: "\<And>a. R a \<Longrightarrow> issues P (f a)"
  shows "issues P (bnd m f)"
proof (rule issuesI)
  fix w
  obtain r w' where mw: "m w = (r, w')" by (cases "m w")
  obtain l where l: "w_log w' = w_log w @ l" "\<forall>x \<in> set l. P (fst x)" using m(1) mw by (rule issuesE)
  show "\<exists>l. w_log (snd (bnd m f w)) = w_log w @ l \<and> (\<forall>x \<in> set l. P (fst x))"
  proof (cases r)
    case (Inl e)
    with mw l show ?thesis by (auto simp: bnd_def)
  next
    case (Inr a)
    with m(2) mw have "issues P (f a)" by (intro f) (auto simp: returns_def)
    obtain r2 w2 where fa: "f a w' = (r2, w2)" by (cases "f a w'")
    obtain l2 where "w_log w2 = w_log w' @ l2" "\<forall>x \<in> set l2. P (fst x)"
      using \<open>issues P (f a)\<close> fa by (rule issuesE)
    with mw l Inr fa show ?thesis by (intro exI [of _ "l @ l2"]) (auto simp: bnd_def)
  qed
qed

text \<open>The footprint of a function of the cluster in memory, from a given state.\<close>

lemma footprint_obj:
  assumes "issues P (f (w_obj w))"
  shows "\<exists>l. w_log (snd (bnd obj f w)) = w_log w @ l \<and> list_all (\<lambda>x. P (fst x)) l"
proof -
  obtain r w' where rw: "bnd obj f w = (r, w')" by (cases "bnd obj f w")
  obtain l where "w_log w' = w_log w @ l" "\<forall>x \<in> set l. P (fst x)"
    using assms rw by (rule issues_bnd_objE)
  with rw show ?thesis by (auto simp: list_all_iff)
qed

section \<open>Bounded calls\<close>

definition budget :: "(call \<Rightarrow> bool) \<Rightarrow> nat \<Rightarrow> ('s, 'a) io \<Rightarrow> bool" where
  "budget P k m \<longleftrightarrow>
     (\<forall>w. \<exists>l. w_log (snd (m w)) = w_log w @ l \<and> length (filter (\<lambda>x. P (fst x)) l) \<le> k)"

lemma budgetE:
  assumes "budget P k m" "m w = (r, w')"
  obtains l where "w_log w' = w_log w @ l" "length (filter (\<lambda>x. P (fst x)) l) \<le> k"
  using assms unfolding budget_def by (metis snd_conv)

lemma budget_0: "issues (\<lambda>c. \<not> P c) m \<Longrightarrow> budget P k m"
  unfolding issues_def budget_def
proof (intro allI)
  fix w assume "\<forall>w. \<exists>l. w_log (snd (m w)) = w_log w @ l \<and> (\<forall>x\<in>set l. \<not> P (fst x))"
  then obtain l where "w_log (snd (m w)) = w_log w @ l" "\<forall>x\<in>set l. \<not> P (fst x)" by blast
  then show "\<exists>l. w_log (snd (m w)) = w_log w @ l \<and> length (filter (\<lambda>x. P (fst x)) l) \<le> k"
    by (intro exI [of _ l]) (simp add: filter_False)
qed

lemma budget_mono: "budget P j m \<Longrightarrow> j \<le> k \<Longrightarrow> budget P k m"
  unfolding budget_def by (meson order_trans)

lemma budget_bnd:
  assumes m: "budget P j m" and f: "\<And>a. budget P k (f a)"
  shows "budget P (j + k) (bnd m f)"
  unfolding budget_def
proof
  fix w
  obtain r w' where mw: "m w = (r, w')" by (cases "m w")
  obtain l where l: "w_log w' = w_log w @ l" "length (filter (\<lambda>x. P (fst x)) l) \<le> j"
    using m mw by (rule budgetE)
  show "\<exists>l. w_log (snd (bnd m f w)) = w_log w @ l \<and> length (filter (\<lambda>x. P (fst x)) l) \<le> j + k"
  proof (cases r)
    case (Inl e)
    with mw l show ?thesis by (intro exI [of _ l]) (simp add: bnd_def)
  next
    case (Inr a)
    obtain r2 w2 where fa: "f a w' = (r2, w2)" by (cases "f a w'")
    obtain l2 where "w_log w2 = w_log w' @ l2" "length (filter (\<lambda>x. P (fst x)) l2) \<le> k"
      using f [of a] fa by (rule budgetE)
    with mw l Inr fa show ?thesis by (intro exI [of _ "l @ l2"]) (simp add: bnd_def)
  qed
qed

text \<open>Binding when one of the two parts makes no such call.\<close>

lemma budget_then: "issues (\<lambda>c. \<not> P c) m \<Longrightarrow> (\<And>a. budget P k (f a)) \<Longrightarrow> budget P k (bnd m f)"
  using budget_bnd [of P 0 m k f] budget_0 [of P m 0] by simp

lemma budget_last: "budget P k m \<Longrightarrow> (\<And>a. issues (\<lambda>c. \<not> P c) (f a)) \<Longrightarrow> budget P k (bnd m f)"
  using budget_bnd [of P k m 0 f, OF _ budget_0] by simp

lemma budget_if [budget_intros]:
  "(b \<Longrightarrow> budget P k m) \<Longrightarrow> (\<not> b \<Longrightarrow> budget P k n) \<Longrightarrow> budget P k (if b then m else n)"
  by simp

lemma budget_case_option [budget_intros]:
  "(x = None \<Longrightarrow> budget P k m) \<Longrightarrow> (\<And>y. x = Some y \<Longrightarrow> budget P k (f y)) \<Longrightarrow>
   budget P k (case x of None \<Rightarrow> m | Some y \<Rightarrow> f y)"
  by (cases x) auto

lemma budget_case_sum [budget_intros]:
  "(\<And>e. x = Inl e \<Longrightarrow> budget P k (f e)) \<Longrightarrow> (\<And>y. x = Inr y \<Longrightarrow> budget P k (g y)) \<Longrightarrow>
   budget P k (case x of Inl e \<Rightarrow> f e | Inr y \<Rightarrow> g y)"
  by (cases x) auto

lemma budget_ret [budget_intros]: "budget P k (ret a)"
  by (rule budget_0) (rule issues_ret)

lemma budget_throw [budget_intros]: "budget P k (throw e)"
  by (rule budget_0) (rule issues_throw)

lemma budget_obj: "(\<And>c. budget P k (f c)) \<Longrightarrow> budget P k (bnd obj f)"
  by (rule budget_then) (rule issues_obj)

lemma budget_perform: "budget P 1 (perform c f)"
  by (auto simp: budget_def perform_def logged_def split: sum.split)

lemma budget_delete: "budget P 1 (delete env k ns name)"
  unfolding delete_def by (rule budget_perform)

lemma budget_attempt: "budget P k m \<Longrightarrow> budget P k (attempt m)"
  by (auto simp: budget_def attempt_def split: prod.splits sum.splits) (metis snd_conv)+

lemma budget_wrap_err: "budget P k m \<Longrightarrow> budget P k (wrap_err msg m)"
  by (auto simp: budget_def wrap_err_def split: prod.splits sum.splits) (metis snd_conv)+

section \<open>Ordered calls\<close>

definition only_after :: "(call \<times> bool \<Rightarrow> bool) \<Rightarrow> (call \<Rightarrow> bool) \<Rightarrow> log \<Rightarrow> bool" where
  "only_after A B l \<longleftrightarrow> (\<forall>l1 x l2. l = l1 @ x # l2 \<longrightarrow> B (fst x) \<longrightarrow> (\<exists>y \<in> set l1. A y))"

definition guarded :: "(call \<times> bool \<Rightarrow> bool) \<Rightarrow> (call \<Rightarrow> bool) \<Rightarrow> ('s, 'a) io \<Rightarrow> bool" where
  "guarded A B m \<longleftrightarrow> (\<forall>w. \<exists>l. w_log (snd (m w)) = w_log w @ l \<and> only_after A B l)"

text \<open>The computation makes no \<open>B\<close> call, and returns a value only after an \<open>A\<close> call.\<close>

definition secures :: "(call \<times> bool \<Rightarrow> bool) \<Rightarrow> (call \<Rightarrow> bool) \<Rightarrow> ('s, 'a) io \<Rightarrow> bool" where
  "secures A B m \<longleftrightarrow> (\<forall>w. \<exists>l. w_log (snd (m w)) = w_log w @ l \<and> (\<forall>x \<in> set l. \<not> B (fst x)) \<and>
     ((\<exists>a. fst (m w) = Inr a) \<longrightarrow> (\<exists>y \<in> set l. A y)))"

lemma only_after_none: "(\<forall>x \<in> set l. \<not> B (fst x)) \<Longrightarrow> only_after A B l"
  by (auto simp: only_after_def)

lemma split_append_at:
  assumes "l @ l' = l1 @ x # l2"
  shows "(\<exists>us. l = l1 @ x # us) \<or> (\<exists>us. l1 = l @ us \<and> l' = us @ x # l2)"
  using assms by (auto simp: append_eq_append_conv2 append_eq_Cons_conv Cons_eq_append_conv)

lemma only_after_append: "only_after A B l \<Longrightarrow> only_after A B l' \<Longrightarrow> only_after A B (l @ l')"
  unfolding only_after_def
proof (intro allI impI)
  fix l1 x l2
  assume l: "\<forall>l1 x l2. l = l1 @ x # l2 \<longrightarrow> B (fst x) \<longrightarrow> (\<exists>y\<in>set l1. A y)"
    and l': "\<forall>l1 x l2. l' = l1 @ x # l2 \<longrightarrow> B (fst x) \<longrightarrow> (\<exists>y\<in>set l1. A y)"
    and eq: "l @ l' = l1 @ x # l2" and B: "B (fst x)"
  from split_append_at [OF eq] show "\<exists>y\<in>set l1. A y"
  proof (elim disjE exE conjE)
    fix us assume "l = l1 @ x # us"
    with l B show ?thesis by blast
  next
    fix us assume "l1 = l @ us" "l' = us @ x # l2"
    with l' B have "\<exists>y\<in>set us. A y" by blast
    with \<open>l1 = l @ us\<close> show ?thesis by auto
  qed
qed

lemma only_after_secured:
  "(\<forall>x \<in> set l. \<not> B (fst x)) \<Longrightarrow> \<exists>y \<in> set l. A y \<Longrightarrow> only_after A B (l @ l')"
  unfolding only_after_def
proof (intro allI impI)
  fix l1 x l2
  assume nb: "\<forall>x\<in>set l. \<not> B (fst x)" and a: "\<exists>y\<in>set l. A y"
    and eq: "l @ l' = l1 @ x # l2" and B: "B (fst x)"
  from split_append_at [OF eq] show "\<exists>y\<in>set l1. A y"
  proof (elim disjE exE conjE)
    fix us assume "l = l1 @ x # us"
    with nb B show ?thesis by auto
  next
    fix us assume "l1 = l @ us"
    with a show ?thesis by auto
  qed
qed

lemma guardedE:
  assumes "guarded A B m" "m w = (r, w')"
  obtains l where "w_log w' = w_log w @ l" "only_after A B l"
  using assms unfolding guarded_def by (metis snd_conv)

lemma guarded_none: "issues (\<lambda>c. \<not> B c) m \<Longrightarrow> guarded A B m"
  unfolding issues_def guarded_def using only_after_none by blast

lemma guarded_bnd [guarded_intros]:
  assumes m: "guarded A B m" and f: "\<And>a. guarded A B (f a)"
  shows "guarded A B (bnd m f)"
  unfolding guarded_def
proof
  fix w
  obtain r w' where mw: "m w = (r, w')" by (cases "m w")
  obtain l where l: "w_log w' = w_log w @ l" "only_after A B l" using m mw by (rule guardedE)
  show "\<exists>l. w_log (snd (bnd m f w)) = w_log w @ l \<and> only_after A B l"
  proof (cases r)
    case (Inl e)
    with mw l show ?thesis by (intro exI [of _ l]) (simp add: bnd_def)
  next
    case (Inr a)
    obtain r2 w2 where fa: "f a w' = (r2, w2)" by (cases "f a w'")
    obtain l2 where "w_log w2 = w_log w' @ l2" "only_after A B l2" using f [of a] fa by (rule guardedE)
    with mw l Inr fa show ?thesis by (intro exI [of _ "l @ l2"]) (simp add: bnd_def only_after_append)
  qed
qed

text \<open>Once the guard is secured, the rest may do anything.\<close>

lemma guarded_secured:
  assumes m: "secures A B m" and f: "\<And>a. issues (\<lambda>_. True) (f a)"
  shows "guarded A B (bnd m f)"
  unfolding guarded_def
proof
  fix w
  obtain r w' where mw: "m w = (r, w')" by (cases "m w")
  obtain l where l: "w_log (snd (m w)) = w_log w @ l" "\<forall>x \<in> set l. \<not> B (fst x)"
    "(\<exists>a. fst (m w) = Inr a) \<longrightarrow> (\<exists>y \<in> set l. A y)"
    using m unfolding secures_def by blast
  show "\<exists>l. w_log (snd (bnd m f w)) = w_log w @ l \<and> only_after A B l"
  proof (cases r)
    case (Inl e)
    with mw l show ?thesis by (intro exI [of _ l]) (simp add: bnd_def only_after_none)
  next
    case (Inr a)
    obtain r2 w2 where fa: "f a w' = (r2, w2)" by (cases "f a w'")
    obtain l2 where "w_log w2 = w_log w' @ l2" using f [of a] fa by (rule issuesE)
    moreover have "only_after A B (l @ l2)" using l(2,3) mw Inr by (intro only_after_secured) simp_all
    ultimately show ?thesis using mw l(1) Inr fa by (intro exI [of _ "l @ l2"]) (simp add: bnd_def)
  qed
qed

lemma guarded_then:
  "issues (\<lambda>c. \<not> B c) m \<Longrightarrow> (\<And>a. guarded A B (f a)) \<Longrightarrow> guarded A B (bnd m f)"
  by (rule guarded_bnd [OF guarded_none])

lemma guarded_if [guarded_intros]:
  "(b \<Longrightarrow> guarded A B m) \<Longrightarrow> (\<not> b \<Longrightarrow> guarded A B n) \<Longrightarrow> guarded A B (if b then m else n)"
  by simp

lemma guarded_case_option [guarded_intros]:
  "(x = None \<Longrightarrow> guarded A B m) \<Longrightarrow> (\<And>y. x = Some y \<Longrightarrow> guarded A B (f y)) \<Longrightarrow>
   guarded A B (case x of None \<Rightarrow> m | Some y \<Rightarrow> f y)"
  by (cases x) auto

lemma guarded_case_sum [guarded_intros]:
  "(\<And>e. x = Inl e \<Longrightarrow> guarded A B (f e)) \<Longrightarrow> (\<And>y. x = Inr y \<Longrightarrow> guarded A B (g y)) \<Longrightarrow>
   guarded A B (case x of Inl e \<Rightarrow> f e | Inr y \<Rightarrow> g y)"
  by (cases x) auto

lemma guarded_throw [guarded_intros]: "guarded A B (throw e)"
  by (rule guarded_none) (rule issues_throw)

lemma guarded_ret [guarded_intros]: "guarded A B (ret a)"
  by (rule guarded_none) (rule issues_ret)

lemma secures_wrap_err: "secures A B m \<Longrightarrow> secures A B (wrap_err msg m)"
  unfolding secures_def
proof
  fix w assume s: "\<forall>w. \<exists>l. w_log (snd (m w)) = w_log w @ l \<and> (\<forall>x \<in> set l. \<not> B (fst x)) \<and>
     ((\<exists>a. fst (m w) = Inr a) \<longrightarrow> (\<exists>y \<in> set l. A y))"
  then obtain l where l: "w_log (snd (m w)) = w_log w @ l \<and> (\<forall>x \<in> set l. \<not> B (fst x)) \<and>
     ((\<exists>a. fst (m w) = Inr a) \<longrightarrow> (\<exists>y \<in> set l. A y))" by blast
  have "snd (wrap_err msg m w) = snd (m w)"
    and "(\<exists>a. fst (wrap_err msg m w) = Inr a) \<longleftrightarrow> (\<exists>a. fst (m w) = Inr a)"
    by (auto simp: wrap_err_def split: prod.splits sum.splits)
  with l show "\<exists>l. w_log (snd (wrap_err msg m w)) = w_log w @ l \<and> (\<forall>x \<in> set l. \<not> B (fst x)) \<and>
     ((\<exists>a. fst (wrap_err msg m w) = Inr a) \<longrightarrow> (\<exists>y \<in> set l. A y))" by (intro exI [of _ l]) simp
qed

end
