(* ===== verification/Pod_Basics.thy ===== *)
theory Pod_Basics
  imports Kube Sha256
begin

text \<open>
  The helpers of \<^verbatim>\<open>internal/controller/cluster/pods.go\<close> that the other components build on:
  names of pods and claims and the index read back from a name, labels, the hash of the pod
  specification, the pod listings, readiness, and the list of status conditions
  (\<^verbatim>\<open>setCondition\<close> of \<^verbatim>\<open>hibernate.go\<close>).
\<close>

section \<open>Names\<close>

definition podNameForIndex :: "string \<Rightarrow> int \<Rightarrow> string" where
  "podNameForIndex clusterName index = clusterName @ ''-'' @ itoa index"

definition sentinelPodNameForIndex :: "string \<Rightarrow> int \<Rightarrow> string" where
  "sentinelPodNameForIndex clusterName index = clusterName @ ''-sentinel-'' @ itoa index"

definition pvcNameForIndex :: "string \<Rightarrow> int \<Rightarrow> string" where
  "pvcNameForIndex clusterName index = clusterName @ ''-data-'' @ itoa index"

text \<open>
  The index in a pod name. Slicing the name past its end panics (\<open>None\<close>); the error of
  \<^verbatim>\<open>strconv.Atoi\<close> is dropped, and its value on a bad number is kept.
\<close>

definition podIndex :: "string \<Rightarrow> string \<Rightarrow> int option" where
  "podIndex clusterName podName =
     (if length clusterName + 1 \<le> length podName
      then Some (fst (atoi (drop (length clusterName + 1) podName)))
      else None)"

definition serviceAccountName :: "string \<Rightarrow> string" where
  "serviceAccountName clusterName = clusterName"

definition podLabels :: "string \<Rightarrow> string \<Rightarrow> string \<Rightarrow> (string, string) gomap" where
  "podLabels clusterName podName role =
     (let workload = (if role = LabelRoleSentinel then LabelWorkloadSentinel else LabelWorkloadData) in
      [(LabelCluster, clusterName), (LabelInstance, podName), (LabelRole, role), (LabelWorkload, workload)])"

definition isTLSEnabled :: "RedisCluster \<Rightarrow> bool" where
  "isTLSEnabled cluster \<longleftrightarrow> s_TLSSecret (c_Spec cluster) \<noteq> None \<and> s_CASecret (c_Spec cluster) \<noteq> None"

section \<open>The hash of the pod specification\<close>

abbreviation specHashAnnotation :: string where "specHashAnnotation \<equiv> ''redis.io/spec-hash''"

abbreviation newline :: string where "newline \<equiv> [CHR 0x0A]"

definition getPodSpecHash :: "Pod \<Rightarrow> string" where
  "getPodSpecHash pod =
     (case map_of (p_Annotations pod) specHashAnnotation of
        Some hash \<Rightarrow> hash
      | None \<Rightarrow>
          (case map_of (p_Labels pod) specHashAnnotation of
             Some hash \<Rightarrow> hash
           | None \<Rightarrow> []))"

definition appendResourceListHash :: "string \<Rightarrow> (string, quantity) gomap \<Rightarrow> string" where
  "appendResourceListHash pre resources =
     concat (map (\<lambda>key. pre @ ''.'' @ key @ ''='' @
         (case map_of resources key of Some q \<Rightarrow> q_text q | None \<Rightarrow> ''0'') @ newline)
       (sort (map fst resources)))"

text \<open>A line for a secret reference, present only when the reference is.\<close>

definition secretLine :: "string \<Rightarrow> string option \<Rightarrow> string" where
  "secretLine key ref = (case ref of None \<Rightarrow> [] | Some name \<Rightarrow> key @ ''='' @ name @ newline)"

definition redisConfigLines :: "(string, string) gomap \<Rightarrow> string" where
  "redisConfigLines m = concat (map (\<lambda>key. ''redis.'' @ key @ ''='' @ mget [] m key @ newline)
     (sort (map fst m)))"

definition memoryLines :: "MemorySpec option \<Rightarrow> string" where
  "memoryLines mem = (case mem of
     None \<Rightarrow> []
   | Some m \<Rightarrow>
       ''memory.maxMemory='' @ (case ms_MaxMemory m of None \<Rightarrow> [] | Some q \<Rightarrow> q_text q) @ newline @
       ''memory.maxMemoryPercent='' @ (case ms_MaxMemoryPercent m of None \<Rightarrow> [] | Some p \<Rightarrow> itoa p) @
       newline @ ''memory.maxMemoryPolicy='' @ ms_MaxMemoryPolicy m @ newline)"

definition specHashInput :: "string \<Rightarrow> RedisCluster \<Rightarrow> string" where
  "specHashInput operatorImage cluster =
     (let s = c_Spec cluster in
      ''redisImage='' @ s_ImageName s @ newline @
      ''operatorImage='' @ operatorImage @ newline @
      appendResourceListHash ''resources.limits'' (rr_Limits (s_Resources s)) @
      appendResourceListHash ''resources.requests'' (rr_Requests (s_Resources s)) @
      secretLine ''authSecret'' (s_AuthSecret s) @
      secretLine ''aclConfigSecret'' (s_ACLConfigSecret s) @
      secretLine ''tlsSecret'' (s_TLSSecret s) @
      secretLine ''caSecret'' (s_CASecret s) @
      redisConfigLines (s_Redis s) @
      memoryLines (s_Memory s) @
      (if IsEphemeral (s_Storage s)
       then ''storage.type=emptyDir'' @ newline @ ''storage.size='' @ q_text (ss_Size (s_Storage s)) @ newline
       else []))"

definition computeSpecHash :: "string \<Rightarrow> RedisCluster \<Rightarrow> string" where
  "computeSpecHash operatorImage cluster = EncodeToString (sha256 (specHashInput operatorImage cluster))"

section \<open>Listings and readiness\<close>

definition listClusterPods :: "env \<Rightarrow> RedisCluster \<Rightarrow> ('s, Pod list) io" where
  "listClusterPods env cluster =
     list_pods env (c_Namespace cluster) [(LabelCluster, c_Name cluster)]"

definition isDataPod :: "Pod \<Rightarrow> bool" where
  "isDataPod pod \<longleftrightarrow> mget [] (p_Labels pod) LabelRole \<noteq> LabelRoleSentinel"

definition listDataPods :: "env \<Rightarrow> RedisCluster \<Rightarrow> ('s, Pod list) io" where
  "listDataPods env cluster = bnd (listClusterPods env cluster) (\<lambda>allPods. ret (filter isDataPod allPods))"

definition listSentinelPods :: "env \<Rightarrow> RedisCluster \<Rightarrow> ('s, Pod list) io" where
  "listSentinelPods env cluster =
     list_pods env (c_Namespace cluster) [(LabelCluster, c_Name cluster), (LabelRole, LabelRoleSentinel)]"

definition isPodRunningAndReady :: "Pod \<Rightarrow> bool" where
  "isPodRunningAndReady pod \<longleftrightarrow>
     p_Phase pod = ''Running'' \<and> (\<exists>c \<in> set (p_Conditions pod). fst c = ''Ready'' \<and> snd c = ConditionTrue)"

section \<open>Conditions\<close>

fun setCondition :: "Condition list \<Rightarrow> Condition \<Rightarrow> Condition list" where
  "setCondition [] condition = [condition]"
| "setCondition (c # cs) condition =
     (if cond_Type c = cond_Type condition then condition # cs else c # setCondition cs condition)"

text \<open>\<^verbatim>\<open>meta.FindStatusCondition\<close>: the first condition of a type.\<close>

definition find_condition :: "Condition list \<Rightarrow> string \<Rightarrow> Condition option" where
  "find_condition cs t = find (\<lambda>c. cond_Type c = t) cs"

section \<open>Probe timeouts\<close>

text \<open>
  Durations in nanoseconds. The source rounds up a float64 number of seconds; the model rounds up
  the exact number, which is the same below \<open>2 ^ 22\<close> seconds, where a float64 resolves nanoseconds.
\<close>

definition livenessTimeoutSeconds :: "RedisCluster \<Rightarrow> int" where
  "livenessTimeoutSeconds cluster =
     (let second = 1000000000;
          timeout = (\<lambda>field. case s_PrimaryIsolation (c_Spec cluster) of
             None \<Rightarrow> 5 * second
           | Some cfg \<Rightarrow> (case field cfg of
                None \<Rightarrow> 5 * second
              | Some d \<Rightarrow> if d > 0 then d else 5 * second));
          total = int64 (int64 (timeout pis_APIServerTimeout + timeout pis_PeerTimeout) + 2 * second);
          seconds = int32 (- ((- total) div second))
      in if seconds < 1 then 1 else seconds)"

section \<open>Facts\<close>

lemma podIndex_podNameForIndex [codec_simps]:
  "in_int64 i \<Longrightarrow> podIndex clusterName (podNameForIndex clusterName i) = Some i"
  by (simp add: podIndex_def podNameForIndex_def atoi_itoa)

interpretation pod_name: codec "podNameForIndex clusterName" "podIndex clusterName" in_int64
  for clusterName
  by unfold_locales (rule podIndex_podNameForIndex)

lemma podNameForIndex_inj [simp]:
  "podNameForIndex clusterName i = podNameForIndex clusterName j \<longleftrightarrow> i = j"
  by (simp add: podNameForIndex_def)

lemma podNameForIndex_nonempty [simp]: "podNameForIndex clusterName i \<noteq> []"
  by (simp add: podNameForIndex_def)

subsection \<open>The hash does not depend on the order of the maps\<close>

lemma sort_keys_cong:
  assumes "wf_map m" "wf_map m'" "map_of m = map_of m'"
  shows "sort (map fst m) = sort (map fst m')"
proof (rule properties_for_sort)
  have "set (map fst m) = set (map fst m')"
    using assms(3) by (metis dom_map_of_conv_image_fst set_map)
  then have "mset (map fst m) = mset (map fst m')"
    using assms(1,2) set_eq_iff_mset_eq_distinct [of "map fst m" "map fst m'"] by (simp add: wf_map_def)
  then show "mset (sort (map fst m')) = mset (map fst m)" by simp
qed simp

lemma appendResourceListHash_cong:
  assumes "wf_map m" "wf_map m'" "map_of m = map_of m'"
  shows "appendResourceListHash pre m = appendResourceListHash pre m'"
  using sort_keys_cong [OF assms] assms(3) by (simp add: appendResourceListHash_def)

lemma redisConfigLines_cong:
  assumes "wf_map m" "wf_map m'" "map_of m = map_of m'"
  shows "redisConfigLines m = redisConfigLines m'"
  using sort_keys_cong [OF assms] assms(3) by (simp add: redisConfigLines_def mget_def)

subsection \<open>Conditions\<close>

lemma find_setCondition:
  "find_condition (setCondition cs c) t = (if t = cond_Type c then Some c else find_condition cs t)"
  by (induction cs) (auto simp: find_condition_def)

lemma types_setCondition:
  "cond_Type ` set (setCondition cs c) = insert (cond_Type c) (cond_Type ` set cs)"
  by (induction cs) auto

lemma distinct_setCondition:
  "distinct (map cond_Type cs) \<Longrightarrow> distinct (map cond_Type (setCondition cs c))"
proof (induction cs)
  case (Cons a cs)
  have "cond_Type a \<notin> cond_Type ` set (setCondition cs c)" if "cond_Type a \<noteq> cond_Type c"
    using Cons.prems that by (simp add: types_setCondition)
  with Cons show ?case by auto
qed simp

subsection \<open>Footprints\<close>

lemma issues_listClusterPods [issues_intros]:
  "(\<And>ns sel. P (ListOf KPod ns sel)) \<Longrightarrow> issues P (listClusterPods env cluster)"
  by (auto simp: listClusterPods_def intro!: issues_intros)

lemma issues_listDataPods [issues_intros]:
  "(\<And>ns sel. P (ListOf KPod ns sel)) \<Longrightarrow> issues P (listDataPods env cluster)"
  by (auto simp: listDataPods_def intro!: issues_intros)

lemma issues_listSentinelPods [issues_intros]:
  "(\<And>ns sel. P (ListOf KPod ns sel)) \<Longrightarrow> issues P (listSentinelPods env cluster)"
  by (auto simp: listSentinelPods_def intro!: issues_intros)

end
