(* ===== verification/Sample.thy ===== *)
theory Sample
  imports Kube
begin

text \<open>
  A small concrete cluster and a concrete API server, on which the witnesses of the
  development evaluate the operations: the server accepts every write and sends back what it
  was sent, and lists the given objects; instance managers answer every request with 200.
\<close>

definition sample_spec :: RedisClusterSpec where
  "sample_spec = \<lparr>s_Instances = 3, s_Mode = ClusterModeStandalone, s_Shards = 0, s_ReplicasPerShard = 0,
     s_PrimaryUpdateStrategy = PrimaryUpdateStrategyUnsupervised, s_ImageName = ''redis:7.2'',
     s_Storage = \<lparr>ss_Type = StorageTypePVC, ss_Size = \<lparr>q_nano = 0, q_text = ''0''\<rparr>, ss_StorageClassName = None\<rparr>,
     s_Redis = [], s_Resources = \<lparr>rr_Limits = [], rr_Requests = []\<rparr>, s_Memory = None,
     s_MinSyncReplicas = 0, s_MaxSyncReplicas = 0, s_EnablePodDisruptionBudget = None,
     s_AuthSecret = None, s_ACLConfigSecret = None, s_TLSSecret = None, s_CASecret = None,
     s_BackupCredentialsSecret = None, s_PrimaryIsolation = None, s_NodeSelector = [],
     s_Affinity = None, s_Tolerations = [], s_TopologySpreadConstraints = [], s_Bootstrap = None,
     s_NodeMaintenanceWindow = None, s_ReplicaMode = None, s_ConnectionSecret = None\<rparr>"

definition sample_instance :: "string \<Rightarrow> int \<Rightarrow> InstanceStatus" where
  "sample_instance role offset =
     zero_InstanceStatus\<lparr>is_Role := role, is_Connected := True, is_ReplicationOffset := offset\<rparr>"

definition sample_cluster :: RedisCluster where
  "sample_cluster = \<lparr>c_Name = ''r'', c_Namespace = ''ns'', c_UID = ''u'', c_Annotations = [],
     c_Spec = sample_spec,
     c_Status = zero_RedisClusterStatus\<lparr>st_CurrentPrimary := ''r-0'',
       st_InstancesStatus := [(''r-0'', sample_instance ''master'' 9), (''r-1'', sample_instance ''slave'' 5),
         (''r-2'', sample_instance ''slave'' 7)]\<rparr>\<rparr>"

definition sample_pod :: "string \<Rightarrow> string \<Rightarrow> (string, string) gomap \<Rightarrow> bool \<Rightarrow> Pod" where
  "sample_pod name ip labels ready = \<lparr>p_Meta = new_meta name ''ns'' labels,
     p_Spec = \<lparr>ps_ServiceAccountName = [], ps_NodeSelector = [], ps_Affinity = None, ps_Tolerations = [],
       ps_TopologySpreadConstraints = [], ps_SecurityContext = None, ps_InitContainers = [],
       ps_Containers = [], ps_Volumes = []\<rparr>,
     p_Phase = ''Running'', p_IP = ip, p_Conditions = [(''Ready'', if ready then ''True'' else ''False'')]\<rparr>"

definition sample_service :: "string \<Rightarrow> Service" where
  "sample_service name = \<lparr>sv_Meta = new_meta name ''ns'' [], sv_Selector = [], sv_Ports = [], sv_ClusterIP = []\<rparr>"

text \<open>Reads answer a Service of the name asked for, or NotFound; lists answer the given objects.\<close>

definition sample_env :: "object list \<Rightarrow> env" where
  "sample_env xs = \<lparr>
     e_get = (\<lambda>l k ns name. if k = KService then Inr (OService (sample_service name)) else Inl NotFound),
     e_list = (\<lambda>l k ns sel. Inr (filter (\<lambda>x. kind_of x = k) xs)),
     e_create = (\<lambda>l x. Inr x),
     e_patch = (\<lambda>l lock base x. Inr x),
     e_status_patch = (\<lambda>l base x. Inr x),
     e_update = (\<lambda>l x. Inr x),
     e_delete = (\<lambda>l k ns name. None),
     e_http = (\<lambda>l meth ip path body. Inr (200, TextReply [])),
     e_redis = (\<lambda>l addr args. Inr (RArr [RStr ''10.0.0.3'', RStr ''6379''])),
     e_now = (\<lambda>l. 100),
     e_owner = (\<lambda>uid owner. Inr (Some uid)),
     e_random = (\<lambda>l. Inr (replicate 16 (CHR 0x00)))\<rparr>"

definition sample_pods :: "object list" where
  "sample_pods = [OPod (sample_pod ''r-0'' ''10.0.0.1'' [] False), OPod (sample_pod ''r-1'' ''10.0.0.2'' [] True),
     OPod (sample_pod ''r-2'' ''10.0.0.3'' [] True)]"

definition sample_world :: "'s \<Rightarrow> 's world" where
  "sample_world x = \<lparr>w_obj = x, w_log = []\<rparr>"

lemmas sample_simps = sample_spec_def sample_instance_def sample_cluster_def sample_pod_def
  sample_service_def sample_env_def sample_pods_def sample_world_def zero_InstanceStatus_def
  zero_RedisClusterStatus_def new_meta_def logged_def

end
