(* ===== verification/Slots.thy ===== *)
theory Slots
  imports Sample
begin

text \<open>
  The hash-slot arithmetic of \<^verbatim>\<open>cluster_bootstrap.go\<close>: the even split of the 16384 slots
  over the shards, the coverage computed from the instances' reports, and the uncovered parts of a
  shard's range. A Go array of 16384 booleans is a function on the indices; all accesses of
  the code are within its bounds, because the ranges are clamped first. A slot range is read
  as the set of the slots between its ends.
\<close>

section \<open>Definitions\<close>

definition slots_of :: "SlotRange \<Rightarrow> int set" where
  "slots_of r = {Start r..End r}"

definition slots_of_list :: "SlotRange list \<Rightarrow> int set" where
  "slots_of_list rs = (\<Union>r \<in> set rs. slots_of r)"

definition served_slots :: "(string, InstanceStatus) gomap \<Rightarrow> int set" where
  "served_slots statuses = (\<Union>x \<in> set statuses. slots_of_list (is_SlotsServed (snd x)))"

text \<open>The loop of \<^verbatim>\<open>calculateClusterSlotRanges\<close>, at index \<open>i\<close> with the next free slot \<open>start\<close>.\<close>

primrec slot_ranges_loop :: "nat \<Rightarrow> int \<Rightarrow> int \<Rightarrow> int \<Rightarrow> int \<Rightarrow> SlotRange list" where
  "slot_ranges_loop 0 base remainder i start = []"
| "slot_ranges_loop (Suc n) base remainder i start =
     (let size = (if i < remainder then base + 1 else base);
          stop = int32 (int32 (start + int32 size) - 1)
      in \<lparr>Start = start, End = stop\<rparr> # slot_ranges_loop n base remainder (i + 1) (int32 (stop + 1)))"

definition calculateClusterSlotRanges :: "int \<Rightarrow> SlotRange list" where
  "calculateClusterSlotRanges primaryCount =
     (if primaryCount \<le> 0 then []
      else slot_ranges_loop (nat primaryCount) (16384 div primaryCount) (16384 mod primaryCount) 0 0)"

type_synonym slot_array = "int \<Rightarrow> bool"

text \<open>Marking every slot of one reported range, clamped to the slots that exist.\<close>

definition cover_range :: "SlotRange \<Rightarrow> slot_array \<Rightarrow> slot_array" where
  "cover_range r coverage =
     (let start = (if Start r < 0 then 0 else Start r);
          stop = (if End r > 16383 then 16383 else End r)
      in if stop < start then coverage
         else fold (\<lambda>slot cov. cov(slot := True)) [start..stop] coverage)"

definition calculateSlotCoverage :: "(string, InstanceStatus) gomap \<Rightarrow> slot_array" where
  "calculateSlotCoverage statuses =
     fold (\<lambda>(_, status). fold cover_range (is_SlotsServed status)) statuses (\<lambda>_. False)"

text \<open>The inner loop that runs to the stop of an uncovered stretch.\<close>

function skip_uncovered :: "slot_array \<Rightarrow> int \<Rightarrow> int \<Rightarrow> int" where
  "skip_uncovered coverage slot stop =
     (if slot \<le> stop \<and> \<not> coverage slot then skip_uncovered coverage (slot + 1) stop else slot)"
  by auto
termination by (relation "measure (\<lambda>(_, slot, stop). nat (stop + 1 - slot))") auto

declare skip_uncovered.simps [simp del]

lemma skip_uncovered_gt: "slot \<le> stop \<Longrightarrow> \<not> coverage slot \<Longrightarrow> slot < skip_uncovered coverage slot stop"
proof (induction coverage slot stop rule: skip_uncovered.induct)
  case (1 coverage slot stop)
  show ?case
  proof (cases "slot + 1 \<le> stop \<and> \<not> coverage (slot + 1)")
    case True
    with 1 have "slot + 1 < skip_uncovered coverage (slot + 1) stop" by simp
    with 1 show ?thesis by (subst skip_uncovered.simps) simp
  next
    case False
    then have "skip_uncovered coverage (slot + 1) stop = slot + 1"
      by (auto simp: skip_uncovered.simps [of coverage "slot + 1"])
    with 1 show ?thesis by (simp add: skip_uncovered.simps [of coverage slot])
  qed
qed

function uncovered_from :: "slot_array \<Rightarrow> int \<Rightarrow> int \<Rightarrow> SlotRange list" where
  "uncovered_from coverage slot stop =
     (if slot > stop then []
      else if coverage slot then uncovered_from coverage (slot + 1) stop
      else
        let nxt = skip_uncovered coverage slot stop in
        \<lparr>Start = slot, End = nxt - 1\<rparr> # uncovered_from coverage nxt stop)"
  by auto
termination
proof (relation "measure (\<lambda>(_, slot, stop). nat (stop + 1 - slot))", goal_cases)
  case (3 coverage slot stop nxt)
  then have "slot < nxt" using skip_uncovered_gt [of slot stop coverage] by simp
  with 3 show ?case by simp
qed auto

declare uncovered_from.simps [simp del]

definition calculateUncoveredSlotRanges :: "SlotRange \<Rightarrow> slot_array \<Rightarrow> SlotRange list" where
  "calculateUncoveredSlotRanges target coverage =
     (let start = (if Start target < 0 then 0 else Start target);
          stop = (if End target > 16383 then 16383 else End target)
      in if stop < start then [] else uncovered_from coverage start stop)"

section \<open>The even split\<close>

text \<open>The slots of consecutive ranges, written out in order.\<close>

definition enumerate_slots :: "SlotRange list \<Rightarrow> int list" where
  "enumerate_slots rs = concat (map (\<lambda>r. [Start r..End r]) rs)"

lemma upto_append: "a \<le> b + 1 \<Longrightarrow> b \<le> c \<Longrightarrow> [a..b] @ [b + 1..c] = [a..c :: int]"
proof (cases "a \<le> b")
  case False
  moreover assume "a \<le> b + 1"
  ultimately have "a = b + 1" by simp
  then show ?thesis by simp
qed (simp add: upto_split2 [of a b c])

text \<open>
  One run of the loop from slot \<open>start\<close>: \<open>n\<close> ranges, of size \<open>base\<close>, or one more for the indices
  below the remainder, that enumerate the next slots without a gap.
\<close>

lemma slot_ranges_loop_spec:
  assumes "0 \<le> base" "base \<le> 16384" "0 \<le> start" "0 \<le> i" "0 \<le> remainder"
    and "start + int n * base + max 0 (min (int n) (remainder - i)) \<le> 16384"
  shows "enumerate_slots (slot_ranges_loop n base remainder i start) =
      [start..start + int n * base + max 0 (min (int n) (remainder - i)) - 1] \<and>
    length (slot_ranges_loop n base remainder i start) = n \<and>
    (\<forall>r \<in> set (slot_ranges_loop n base remainder i start). End r - Start r + 1 \<in> {base, base + 1})"
  using assms
proof (induction n arbitrary: i start)
  case (Suc n)
  define size where "size = (if i < remainder then base + 1 else base)"
  have size: "0 \<le> size" "size \<le> 16385" using Suc.prems by (auto simp: size_def)
  have rest: "start + size + int n * base + max 0 (min (int n) (remainder - (i + 1))) =
      start + int (Suc n) * base + max 0 (min (int (Suc n)) (remainder - i))"
    by (auto simp: size_def algebra_simps)
  have le: "start + size \<le> 16384" 
    using Suc.prems rest mult_nonneg_nonneg [of "int n" base] by linarith
  have w: "int32 size = size" "int32 (start + size) = start + size" "int32 (start + size - 1) = start + size - 1"
    using size le Suc.prems by (auto intro!: int32_id simp: in_int32_def)
  have "enumerate_slots (slot_ranges_loop n base remainder (i + 1) (start + size)) =
      [start + size..start + size + int n * base + max 0 (min (int n) (remainder - (i + 1))) - 1] \<and>
    length (slot_ranges_loop n base remainder (i + 1) (start + size)) = n \<and>
    (\<forall>r \<in> set (slot_ranges_loop n base remainder (i + 1) (start + size)). End r - Start r + 1 \<in> {base, base + 1})"
    using Suc.prems size le rest by (intro Suc.IH) auto
  moreover have eq: "slot_ranges_loop (Suc n) base remainder i start =
      \<lparr>Start = start, End = start + size - 1\<rparr> # slot_ranges_loop n base remainder (i + 1) (start + size)"
    using w by (simp add: size_def Let_def)
  moreover define k where "k = int n * base + max 0 (min (int n) (remainder - (i + 1)))"
  then have "0 \<le> k" using Suc.prems by simp
  then have "[start..start + size - 1] @ [start + size..start + size + k - 1] = [start..start + size + k - 1]"
    using upto_append [of start "start + size - 1" "start + size + k - 1"] size by simp
  moreover have "start + size + k = start + int (Suc n) * base + max 0 (min (int (Suc n)) (remainder - i))"
    using rest by (simp add: k_def)
  moreover have "start + size + int n * base + max 0 (min (int n) (remainder - (i + 1))) = start + size + k"
    by (simp add: k_def)
  moreover have "size = base \<or> size - 1 = base" by (simp add: size_def)
  ultimately show ?case unfolding eq by (simp add: enumerate_slots_def del: slot_ranges_loop.simps)
qed (simp add: enumerate_slots_def)

section \<open>Coverage\<close>

lemma fold_mark: "fold (\<lambda>slot cov. cov(slot := True)) xs cov s \<longleftrightarrow> s \<in> set xs \<or> cov s"
  by (induction xs arbitrary: cov) auto

lemma cover_range_iff:
  "cover_range r coverage s \<longleftrightarrow> s \<in> slots_of r \<and> 0 \<le> s \<and> s \<le> 16383 \<or> coverage s"
proof -
  define start where "start = (if Start r < 0 then 0 else Start r)"
  define stop where "stop = (if End r > 16383 then 16383 else End r)"
  have "cover_range r coverage s \<longleftrightarrow> start \<le> s \<and> s \<le> stop \<or> coverage s"
    unfolding cover_range_def Let_def start_def [symmetric] stop_def [symmetric]
    by (auto simp: fold_mark)
  then show ?thesis by (auto simp: start_def stop_def slots_of_def split: if_splits)
qed

lemma fold_cover_range_iff:
  "fold cover_range rs coverage s \<longleftrightarrow> s \<in> slots_of_list rs \<and> 0 \<le> s \<and> s \<le> 16383 \<or> coverage s"
  by (induction rs arbitrary: coverage) (auto simp: cover_range_iff slots_of_list_def)

lemma fold_statuses_iff:
  "fold (\<lambda>(_, status). fold cover_range (is_SlotsServed status)) statuses coverage s \<longleftrightarrow>
    (\<exists>x \<in> set statuses. s \<in> slots_of_list (is_SlotsServed (snd x))) \<and> 0 \<le> s \<and> s \<le> 16383 \<or> coverage s"
proof (induction statuses arbitrary: coverage)
  case (Cons x statuses)
  have "fold (\<lambda>(_, status). fold cover_range (is_SlotsServed status)) (x # statuses) coverage s =
      fold (\<lambda>(_, status). fold cover_range (is_SlotsServed status)) statuses
        (fold cover_range (is_SlotsServed (snd x)) coverage) s"
    by (simp add: split_beta)
  also note Cons.IH
  also note fold_cover_range_iff
  finally show ?case by (simp only: set_simps bex_simps) blast
qed simp

section \<open>Uncovered ranges\<close>

lemma skip_uncovered_spec:
  assumes "slot \<le> stop + 1"
  shows "slot \<le> skip_uncovered coverage slot stop \<and> skip_uncovered coverage slot stop \<le> stop + 1 \<and>
    (\<forall>s. slot \<le> s \<and> s < skip_uncovered coverage slot stop \<longrightarrow> \<not> coverage s) \<and>
    (skip_uncovered coverage slot stop \<le> stop \<longrightarrow> coverage (skip_uncovered coverage slot stop))"
  using assms
proof (induction coverage slot stop rule: skip_uncovered.induct)
  case (1 coverage slot stop)
  show ?case
  proof (cases "slot \<le> stop \<and> \<not> coverage slot")
    case True
    with 1 have IH: "slot + 1 \<le> skip_uncovered coverage (slot + 1) stop"
      "skip_uncovered coverage (slot + 1) stop \<le> stop + 1"
      "\<And>s. slot + 1 \<le> s \<Longrightarrow> s < skip_uncovered coverage (slot + 1) stop \<Longrightarrow> \<not> coverage s"
      "skip_uncovered coverage (slot + 1) stop \<le> stop \<Longrightarrow> coverage (skip_uncovered coverage (slot + 1) stop)"
      by auto
    have "\<not> coverage s" if "slot \<le> s" "s < skip_uncovered coverage (slot + 1) stop" for s
      using IH(3) [of s] that True by (cases "s = slot") auto
    with IH True show ?thesis by (simp add: skip_uncovered.simps [of coverage slot])
  next
    case False
    with 1 show ?thesis by (auto simp: skip_uncovered.simps [of coverage slot])
  qed
qed

text \<open>The ranges are non-empty, increasing, and separated by covered slots.\<close>

fun separated :: "SlotRange list \<Rightarrow> bool" where
  "separated (r # r' # rs) \<longleftrightarrow> Start r \<le> End r \<and> End r + 1 < Start r' \<and> separated (r' # rs)"
| "separated [r] \<longleftrightarrow> Start r \<le> End r"
| "separated [] \<longleftrightarrow> True"

lemma uncovered_from_spec:
  "slots_of_list (uncovered_from coverage slot stop) = {s. slot \<le> s \<and> s \<le> stop \<and> \<not> coverage s} \<and>
   separated (uncovered_from coverage slot stop) \<and>
   (\<forall>r \<in> set (uncovered_from coverage slot stop). slot \<le> Start r \<and> End r \<le> stop \<and> \<not> coverage (Start r))"
proof (induction coverage slot stop rule: uncovered_from.induct)
  case (1 coverage slot stop)
  consider "slot > stop" | (covered) "slot \<le> stop" "coverage slot" | (gap) "slot \<le> stop" "\<not> coverage slot"
    by linarith
  then show ?case
  proof cases
    case 1
    then show ?thesis by (auto simp: uncovered_from.simps [of coverage slot] slots_of_list_def)
  next
    case covered
    have eq: "uncovered_from coverage slot stop = uncovered_from coverage (slot + 1) stop"
      using covered by (simp add: uncovered_from.simps [of coverage slot])
    have "{s. slot \<le> s \<and> s \<le> stop \<and> \<not> coverage s} = {s. slot + 1 \<le> s \<and> s \<le> stop \<and> \<not> coverage s}"
      using covered by (auto simp: order_le_less)
    moreover have all: "slots_of_list (uncovered_from coverage (slot + 1) stop) = {s. slot + 1 \<le> s \<and> s \<le> stop \<and> \<not> coverage s} \<and>
        separated (uncovered_from coverage (slot + 1) stop) \<and>
        (\<forall>r \<in> set (uncovered_from coverage (slot + 1) stop). slot + 1 \<le> Start r \<and> End r \<le> stop \<and> \<not> coverage (Start r))"
      using covered by (intro 1(1)) simp_all
    moreover have "slot \<le> Start r" if "r \<in> set (uncovered_from coverage (slot + 1) stop)" for r
    proof -
      have "slot + 1 \<le> Start r" using all that by blast
      then show ?thesis by simp
    qed
    ultimately show ?thesis unfolding eq by blast
  next
    case gap
    define n where "n = skip_uncovered coverage slot stop"
    define rs where "rs = uncovered_from coverage n stop"
    have n: "slot < n" "n \<le> stop + 1" "\<And>s. slot \<le> s \<Longrightarrow> s < n \<Longrightarrow> \<not> coverage s" "n \<le> stop \<Longrightarrow> coverage n"
    proof -
      have "slot \<le> stop + 1" using gap by simp
      from skip_uncovered_spec [OF this, of coverage] skip_uncovered_gt [of slot stop coverage, OF gap]
      show "slot < n" "n \<le> stop + 1" "\<And>s. slot \<le> s \<Longrightarrow> s < n \<Longrightarrow> \<not> coverage s" "n \<le> stop \<Longrightarrow> coverage n"
        unfolding n_def by blast+
    qed
    have all: "slots_of_list rs = {s. n \<le> s \<and> s \<le> stop \<and> \<not> coverage s} \<and> separated rs \<and>
        (\<forall>r \<in> set rs. n \<le> Start r \<and> End r \<le> stop \<and> \<not> coverage (Start r))"
      unfolding rs_def using gap by (intro 1(2) [OF _ _ n_def]) simp_all
    then have IH: "slots_of_list rs = {s. n \<le> s \<and> s \<le> stop \<and> \<not> coverage s}" "separated rs"
      "\<And>r. r \<in> set rs \<Longrightarrow> n \<le> Start r \<and> End r \<le> stop \<and> \<not> coverage (Start r)"
      by blast+
    have eq: "uncovered_from coverage slot stop = \<lparr>Start = slot, End = n - 1\<rparr> # rs"
      using gap unfolding rs_def n_def by (subst uncovered_from.simps) (simp add: Let_def)
    have "n < Start r" if "r \<in> set rs" for r
    proof -
      have "n \<le> stop" using that by (rule_tac ccontr) (simp add: rs_def uncovered_from.simps [of coverage n])
      then have "Start r \<noteq> n" using IH(3) [OF that] n(4) by auto
      with IH(3) [OF that] show ?thesis by simp
    qed
    then have "separated (uncovered_from coverage slot stop)"
      using IH(2) n(1) by (cases rs) (auto simp: eq)
    moreover have "slots_of_list (uncovered_from coverage slot stop) = {s. slot \<le> s \<and> s \<le> stop \<and> \<not> coverage s}"
    proof -
      have "slots_of_list (uncovered_from coverage slot stop) = {slot..n - 1} \<union> slots_of_list rs"
        by (simp add: eq slots_of_list_def slots_of_def)
      then show ?thesis using IH(1) n(1-3) by (auto simp: not_less)
    qed
    moreover have "\<forall>r \<in> set (uncovered_from coverage slot stop). slot \<le> Start r \<and> End r \<le> stop \<and> \<not> coverage (Start r)"
    proof
      fix r assume "r \<in> set (uncovered_from coverage slot stop)"
      then consider "r = \<lparr>Start = slot, End = n - 1\<rparr>" | "r \<in> set rs" by (auto simp: eq)
      then show "slot \<le> Start r \<and> End r \<le> stop \<and> \<not> coverage (Start r)"
        using IH(3) [of r] n(1,2) gap by cases auto
    qed
    ultimately show ?thesis by blast
  qed
qed

text \<open>The even split as a whole.\<close>

lemma slot_ranges_spec:
  assumes "0 < n"
  shows "length (calculateClusterSlotRanges n) = nat n \<and>
    enumerate_slots (calculateClusterSlotRanges n) = [0..16383] \<and>
    (\<forall>r \<in> set (calculateClusterSlotRanges n). End r - Start r + 1 \<in> {16384 div n, 16384 div n + 1})"
proof -
  have mod: "0 \<le> 16384 mod n" "16384 mod n < n" using assms by simp_all
  then have sum: "int (nat n) * (16384 div n) + max 0 (min (int (nat n)) (16384 mod n - 0)) = 16384"
    using assms by (simp add: mult.commute)
  have "16384 div n \<le> 16384" using assms zdiv_mono2 [of 16384 1 n] by simp
  moreover have "0 \<le> 16384 div n" using assms by (simp add: pos_imp_zdiv_nonneg_iff)
  ultimately show ?thesis
    using slot_ranges_loop_spec [of "16384 div n" 0 0 "16384 mod n" "nat n"] sum mod assms
    by (simp add: calculateClusterSlotRanges_def)
qed

lemma uncovered_spec:
  "slots_of_list (calculateUncoveredSlotRanges target (calculateSlotCoverage statuses)) =
     slots_of target \<inter> {0..16383} - served_slots statuses \<and>
   separated (calculateUncoveredSlotRanges target (calculateSlotCoverage statuses))"
proof -
  define start where "start = (if Start target < 0 then 0 else Start target)"
  define stop where "stop = (if End target > 16383 then 16383 else End target)"
  have clamp: "start \<le> s \<and> s \<le> stop \<longleftrightarrow> s \<in> slots_of target \<and> 0 \<le> s \<and> s \<le> 16383" for s
    by (auto simp: start_def stop_def slots_of_def)
  have cov: "0 \<le> s \<Longrightarrow> s \<le> 16383 \<Longrightarrow> calculateSlotCoverage statuses s \<longleftrightarrow>
      s \<in> served_slots statuses" for s
    by (simp add: calculateSlotCoverage_def fold_statuses_iff served_slots_def)
  have "calculateUncoveredSlotRanges target coverage = (if stop < start then [] else uncovered_from coverage start stop)" for coverage
    unfolding calculateUncoveredSlotRanges_def Let_def start_def [symmetric] stop_def [symmetric] by simp
  moreover have "uncovered_from coverage start stop = []" if "stop < start" for coverage
    using that by (simp add: uncovered_from.simps [of coverage start])
  ultimately have "calculateUncoveredSlotRanges target coverage = uncovered_from coverage start stop" for coverage
    by simp
  moreover have "{s. start \<le> s \<and> s \<le> stop \<and> \<not> calculateSlotCoverage statuses s} =
      slots_of target \<inter> {0..16383} - served_slots statuses"
  proof (rule set_eqI)
    fix s
    show "s \<in> {s. start \<le> s \<and> s \<le> stop \<and> \<not> calculateSlotCoverage statuses s} \<longleftrightarrow>
        s \<in> slots_of target \<inter> {0..16383} - served_slots statuses"
      using clamp [of s] cov [of s] by auto
  qed
  ultimately show ?thesis
    using uncovered_from_spec [of "calculateSlotCoverage statuses" start stop] by simp
qed

lemma uncovered_none:
  assumes "{0..16383} \<subseteq> served_slots statuses"
  shows "calculateUncoveredSlotRanges target (calculateSlotCoverage statuses) = []"
proof (cases "calculateUncoveredSlotRanges target (calculateSlotCoverage statuses)")
  case (Cons r rs)
  then have "Start r \<le> End r" using uncovered_spec [of target statuses] by (cases rs) auto
  then have "Start r \<in> slots_of_list (calculateUncoveredSlotRanges target (calculateSlotCoverage statuses))"
    by (simp add: Cons slots_of_list_def slots_of_def)
  with uncovered_spec [of target statuses] assms show ?thesis by auto
qed

section \<open>Properties\<close>

text \<open>
  C22. The split of the hash slots over the shards is a partition. For every positive number of
  shards there is one range per shard, the ranges written out one after the other are exactly
  the slots 0 to 16383 in order (so nothing is missing and nothing is assigned twice), and the
  sizes of any two ranges differ by at most one.
\<close>

theorem slot_ranges_partition:
  assumes "0 < n"
  shows "length (calculateClusterSlotRanges n) = nat n \<and>
    enumerate_slots (calculateClusterSlotRanges n) = [0..16383] \<and>
    (\<forall>r \<in> set (calculateClusterSlotRanges n). End r - Start r + 1 \<in> {16384 div n, 16384 div n + 1})"
  using assms by (rule slot_ranges_spec)

theorem slot_ranges_partition_witness:
  "enumerate_slots (calculateClusterSlotRanges 3) = [0..16383] \<and>
   calculateClusterSlotRanges 3 = [\<lparr>Start = 0, End = 5461\<rparr>, \<lparr>Start = 5462, End = 10922\<rparr>, \<lparr>Start = 10923, End = 16383\<rparr>]"
proof (rule conjI)
  show "enumerate_slots (calculateClusterSlotRanges 3) = [0..16383]"
    by (rule slot_ranges_partition [THEN conjunct2, THEN conjunct1]) simp
next
  show "calculateClusterSlotRanges 3 = [\<lparr>Start = 0, End = 5461\<rparr>, \<lparr>Start = 5462, End = 10922\<rparr>, \<lparr>Start = 10923, End = 16383\<rparr>]"
    by code_simp
qed

text \<open>
  C23. The uncovered ranges are exact. The ranges returned for a shard contain precisely the
  slots of the shard's target range, clamped to the slots that exist, that no instance serves;
  they are non-empty, in increasing order, and separated by served slots, so the number of
  assignment requests is the least possible.
\<close>

theorem uncovered_ranges_exact:
  "slots_of_list (calculateUncoveredSlotRanges target (calculateSlotCoverage statuses)) =
     slots_of target \<inter> {0..16383} - served_slots statuses \<and>
   separated (calculateUncoveredSlotRanges target (calculateSlotCoverage statuses))"
  by (rule uncovered_spec)

end
