(* ===== verification/Shard_Layout.thy ===== *)
theory Shard_Layout
  imports Pod_Basics Slots "HOL-Library.Product_Lexorder"
begin

text \<open>
  \<^verbatim>\<open>cluster_layout.go\<close>: the placement of the data pods of a cluster-mode RedisCluster into shards,
  computed from the pods, their labels and the polled statuses. A shard layout is a record of
  Go maps; the local variables of \<^verbatim>\<open>planShardLayout\<close> that its closures share (\<^verbatim>\<open>used\<close>) travel in
  the same record. \<^verbatim>\<open>spareSurvivor\<close> ranges over a map, whose order Go leaves open: the order is
  the parameter \<open>rng\<close>, any permutation of the entries. A name that is too short to carry an
  index makes the comparison panic, and the plan is then \<open>None\<close>. Sorting is insertion sort; on
  pods with distinct indices every sorting algorithm gives the same list.
\<close>

section \<open>Layouts\<close>

record shardLayout =
  shardOf :: "(string, int) gomap"
  primaryOf :: "(int, string) gomap"
  ownerOf :: "(int, string) gomap"
  members :: "(int, string list) gomap"
  replicaMoves :: "(string, int) gomap"
  used :: "(int, bool) gomap"

definition emptyLayout :: shardLayout where
  "emptyLayout = \<lparr>shardOf = [], primaryOf = [], ownerOf = [], members = [], replicaMoves = [], used = []\<rparr>"

abbreviation membersOf :: "shardLayout \<Rightarrow> int \<Rightarrow> string list" where
  "membersOf l shard \<equiv> mget [] (members l) shard"

abbreviation primaryName :: "shardLayout \<Rightarrow> int \<Rightarrow> string" where
  "primaryName l shard \<equiv> mget [] (primaryOf l) shard"

definition handingOver :: "shardLayout \<Rightarrow> int \<Rightarrow> bool" where
  "handingOver l shard \<longleftrightarrow>
     (case map_of (ownerOf l) shard of None \<Rightarrow> False | Some owner \<Rightarrow> owner \<noteq> primaryName l shard)"

definition isPrimary :: "shardLayout \<Rightarrow> string \<Rightarrow> bool" where
  "isPrimary l podName \<longleftrightarrow>
     (case map_of (shardOf l) podName of None \<Rightarrow> False | Some shard \<Rightarrow> primaryName l shard = podName)"

definition shardName :: "int \<Rightarrow> string" where
  "shardName index = ''s'' @ itoa index"

definition layoutLabels :: "shardLayout \<Rightarrow> string \<Rightarrow> (string, string) gomap" where
  "layoutLabels l podName =
     (case map_of (shardOf l) podName of
        None \<Rightarrow> []
      | Some shard \<Rightarrow>
          let role = (if primaryName l shard = podName then LabelRolePrimary else LabelRoleReplica)
          in [(LabelShard, shardName shard), (LabelShardRole, role)])"

definition desiredShardCount :: "RedisCluster \<Rightarrow> int" where
  "desiredShardCount cluster = (if s_Shards (c_Spec cluster) < 3 then 3 else s_Shards (c_Spec cluster))"

definition parseShardLabel :: "Pod \<Rightarrow> int option" where
  "parseShardLabel pod =
     (case map_of (p_Labels pod) LabelShard of
        None \<Rightarrow> None
      | Some value \<Rightarrow>
          if value = [] \<or> hd value \<noteq> CHR ''s'' then None
          else let (index, ok) = atoi (tl value) in if \<not> ok \<or> index < 0 then None else Some index)"

section \<open>The steps of the plan\<close>

definition assign :: "string \<Rightarrow> int \<Rightarrow> shardLayout \<Rightarrow> shardLayout" where
  "assign name shard l = l\<lparr>shardOf := mput name shard (shardOf l),
     members := mput shard (membersOf l shard @ [name]) (members l), used := mput shard True (used l)\<rparr>"

definition set_primary_of :: "int \<Rightarrow> string \<Rightarrow> shardLayout \<Rightarrow> shardLayout" where
  "set_primary_of shard name l = l\<lparr>primaryOf := mput shard name (primaryOf l)\<rparr>"

function lowestUnused_from :: "(int, bool) gomap \<Rightarrow> int \<Rightarrow> int" where
  "lowestUnused_from u shard = (if mget False u shard then lowestUnused_from u (shard + 1) else shard)"
  by auto
termination
proof (relation "measure (\<lambda>(u, shard). card {k \<in> fst ` set u. shard \<le> k})", goal_cases)
  case (2 u shard)
  then have "shard \<in> fst ` set u"
    by (auto simp: mget_def split: option.splits dest: map_of_SomeD intro: rev_image_eqI)
  then have "shard \<in> {k \<in> fst ` set u. shard \<le> k}" and "shard \<notin> {k \<in> fst ` set u. shard + 1 \<le> k}" by auto
  moreover have "{k \<in> fst ` set u. shard + 1 \<le> k} \<subseteq> {k \<in> fst ` set u. shard \<le> k}" by auto
  ultimately have "{k \<in> fst ` set u. shard + 1 \<le> k} \<subset> {k \<in> fst ` set u. shard \<le> k}" by blast
  then show ?case by (simp add: psubset_card_mono)
qed simp

declare lowestUnused_from.simps [simp del]

definition lowestUnused :: "shardLayout \<Rightarrow> int" where
  "lowestUnused l = lowestUnused_from (used l) 0"

definition claim :: "(string \<Rightarrow> bool) \<Rightarrow> string \<Rightarrow> int \<Rightarrow> shardLayout \<Rightarrow> shardLayout" where
  "claim doomed name shard l =
     (let l1 = assign name shard l;
          l2 = l1\<lparr>ownerOf := mput shard name (ownerOf l1)\<rparr>
      in if \<not> doomed name then set_primary_of shard name l2 else l2)"

abbreviation placed :: "shardLayout \<Rightarrow> string \<Rightarrow> bool" where
  "placed l name \<equiv> map_of (shardOf l) name \<noteq> None"

record ownerMatch =
  om_pod :: string
  om_shard :: int
  om_overlap :: int

definition overlapOf :: "SlotRange list \<Rightarrow> SlotRange \<Rightarrow> int" where
  "overlapOf served target =
     fold (\<lambda>r overlap.
        let start = max (Start r) (Start target); stop = min (End r) (End target)
        in if stop \<ge> start then int32 (overlap + int32 (int32 (stop - start) + 1)) else overlap) served 0"

definition rankOwnersByOverlap ::
  "string list \<Rightarrow> (string, InstanceStatus) gomap \<Rightarrow> SlotRange list \<Rightarrow> ownerMatch list" where
  "rankOwnersByOverlap owners statuses ranges =
     sort_key (\<lambda>m. (- om_overlap m, om_shard m))
       (concat (map (\<lambda>name.
          List.map_filter (\<lambda>(shard, target).
            let overlap = overlapOf (is_SlotsServed (mget zero_InstanceStatus statuses name)) target
            in if overlap > 0 then Some \<lparr>om_pod = name, om_shard = shard, om_overlap = overlap\<rparr> else None)
          (zip [0..int (length ranges) - 1] ranges)) owners))"

text \<open>First the owners claim the range they serve most of, then the remaining owners any free shard.\<close>

definition claim_match :: "(string \<Rightarrow> bool) \<Rightarrow> ownerMatch \<Rightarrow> shardLayout \<Rightarrow> shardLayout" where
  "claim_match doomed m l =
     (if placed l (om_pod m) \<or> mget False (used l) (om_shard m) then l
      else claim doomed (om_pod m) (om_shard m) l)"

definition claim_rest :: "(string \<Rightarrow> bool) \<Rightarrow> string \<Rightarrow> shardLayout \<Rightarrow> shardLayout" where
  "claim_rest doomed name l = (if placed l name then l else claim doomed name (lowestUnused l) l)"

definition podByNodeID :: "(string, InstanceStatus) gomap \<Rightarrow> (string, string) gomap" where
  "podByNodeID statuses = fold (\<lambda>(name, status) m.
     if is_NodeID status \<noteq> [] then mput (is_NodeID status) name m else m) statuses []"

definition follow ::
  "(string \<Rightarrow> bool) \<Rightarrow> bool \<Rightarrow> string \<Rightarrow> int \<Rightarrow> shardLayout \<Rightarrow> shardLayout" where
  "follow doomed eligiblePrimary name shard l =
     (let l1 = assign name shard l in
      if eligiblePrimary \<and> primaryName l1 shard = [] \<and> \<not> doomed name
      then set_primary_of shard name l1 else l1)"

text \<open>Then replicas follow the shard of their primary, and unobservable pods their label.\<close>

definition place_replica ::
  "(string \<Rightarrow> bool) \<Rightarrow> int \<Rightarrow> (string, InstanceStatus) gomap \<Rightarrow> (string, string) gomap \<Rightarrow> (string, int) gomap \<Rightarrow>
   (string, bool) gomap \<Rightarrow> string \<Rightarrow> shardLayout \<times> string list \<Rightarrow> shardLayout \<times> string list" where
  "place_replica doomed shardCount statuses byNode labelOf primaryLabel name lf =
     (let (l, free) = lf; status = mget zero_InstanceStatus statuses name;
          polled = map_of statuses name \<noteq> None;
          observable = polled \<and> is_Connected status \<and> (is_Role status \<noteq> ''slave'' \<or> is_PrimaryNodeID status \<noteq> []);
          followed = (if is_Role status = ''slave'' \<and> is_PrimaryNodeID status \<noteq> []
            then map_of (shardOf l) (mget [] byNode (is_PrimaryNodeID status)) else None)
      in
      if placed l name then (l, free)
      else case followed of
        Some shard \<Rightarrow> (follow doomed True name shard l, free)
      | None \<Rightarrow>
          (case map_of labelOf name of
             Some shard \<Rightarrow>
               if \<not> observable \<and> shard < shardCount
               then (follow doomed (mget False primaryLabel name) name shard l, free)
               else (l, free @ [name])
           | None \<Rightarrow> (l, free @ [name])))"

text \<open>Shards without a primary take the first surviving free pods.\<close>

definition seat_survivor :: "int \<Rightarrow> shardLayout \<times> string list \<Rightarrow> shardLayout \<times> string list" where
  "seat_survivor shard ls =
     (case snd ls of
        [] \<Rightarrow> ls
      | s # survivors \<Rightarrow>
          if primaryName (fst ls) shard \<noteq> [] then ls
          else (set_primary_of shard s (assign s shard (fst ls)), survivors))"

text \<open>Shards of doomed owners take a survivor of a larger shard.\<close>

definition spareSurvivor ::
  "((int \<times> string list) list \<Rightarrow> (int \<times> string list) list) \<Rightarrow> (string \<Rightarrow> bool) \<Rightarrow> shardLayout \<Rightarrow> string" where
  "spareSurvivor rng doomed l =
     fst (fold (\<lambda>(shard, ms) (best, bestSize).
        if length ms \<le> bestSize then (best, bestSize)
        else case find (\<lambda>name. name \<noteq> primaryName l shard \<and> \<not> doomed name) ms of
          None \<Rightarrow> (best, bestSize)
        | Some name \<Rightarrow> (name, length ms)) (rng (members l)) ([], 1))"

definition move :: "string \<Rightarrow> int \<Rightarrow> shardLayout \<Rightarrow> shardLayout" where
  "move name shard l =
     (let source = mget 0 (shardOf l) name;
          ms = (if name \<in> set (membersOf l source)
            then mput source (remove1 name (membersOf l source)) (members l) else members l)
      in l\<lparr>shardOf := mput name shard (shardOf l), members := mput shard (mget [] ms shard @ [name]) ms\<rparr>)"

primrec seat_heirs ::
  "((int \<times> string list) list \<Rightarrow> (int \<times> string list) list) \<Rightarrow> (string \<Rightarrow> bool) \<Rightarrow> int list \<Rightarrow> shardLayout \<Rightarrow> shardLayout" where
  "seat_heirs rng doomed [] l = l"
| "seat_heirs rng doomed (shard # shards) l =
     (if primaryName l shard \<noteq> [] \<or> mget [] (ownerOf l) shard = [] then seat_heirs rng doomed shards l
      else
        let heir = spareSurvivor rng doomed l in
        if heir = [] then l
        else seat_heirs rng doomed shards (set_primary_of shard heir (move heir shard l)))"

text \<open>The remaining pods go to the smallest shard, the first of them on a tie.\<close>

definition smallestShard :: "int \<Rightarrow> shardLayout \<Rightarrow> int" where
  "smallestShard shardCount l =
     fold (\<lambda>shard target. if length (membersOf l shard) < length (membersOf l target) then shard else target)
       [1..shardCount - 1] 0"

definition fill :: "int \<Rightarrow> string \<Rightarrow> shardLayout \<Rightarrow> shardLayout" where
  "fill shardCount name l = assign name (smallestShard shardCount l) l"

definition sort_members :: "(string \<Rightarrow> int) \<Rightarrow> shardLayout \<Rightarrow> shardLayout" where
  "sort_members idx l = l\<lparr>members := map (\<lambda>(shard, ms). (shard, sort_key idx ms)) (members l)\<rparr>"

text \<open>Balancing the surviving replicas: one candidate of the innermost loop, then the loops.\<close>

definition movable :: "(string \<Rightarrow> bool) \<Rightarrow> (string, InstanceStatus) gomap \<Rightarrow> shardLayout \<Rightarrow> string \<Rightarrow> bool" where
  "movable doomed statuses l name \<longleftrightarrow>
     (let status = mget zero_InstanceStatus statuses name in
      \<not> (doomed name \<or> isPrimary l name \<or> \<not> is_Connected status \<or> is_Role status \<noteq> ''slave'' \<or>
         is_PrimaryNodeID status = [] \<or> length (is_SlotsServed status) \<noteq> 0))"

definition plan_move ::
  "(string \<Rightarrow> bool) \<Rightarrow> (string, InstanceStatus) gomap \<Rightarrow> int \<Rightarrow> int \<Rightarrow> int \<Rightarrow> string \<Rightarrow>
   shardLayout \<times> int list \<Rightarrow> shardLayout \<times> int list" where
  "plan_move doomed statuses desired target source name lc =
     (let (l, counts) = lc in
      if \<not> (counts ! nat source > desired \<and> counts ! nat target < desired) then (l, counts)
      else if map_of (replicaMoves l) name \<noteq> None \<or> \<not> movable doomed statuses l name then (l, counts)
      else let c1 = counts[nat source := counts ! nat source - 1] in
        (l\<lparr>replicaMoves := mput name target (replicaMoves l)\<rparr>, c1[nat target := c1 ! nat target + 1]))"

definition surviving_replicas :: "(string \<Rightarrow> bool) \<Rightarrow> shardLayout \<Rightarrow> int \<Rightarrow> int" where
  "surviving_replicas doomed l shard =
     int (length (filter (\<lambda>name. \<not> doomed name \<and> \<not> isPrimary l name) (membersOf l shard)))"

definition planReplicaMoves ::
  "RedisCluster \<Rightarrow> (string, InstanceStatus) gomap \<Rightarrow> (string \<Rightarrow> bool) \<Rightarrow> shardLayout \<Rightarrow> shardLayout" where
  "planReplicaMoves cluster statuses doomed l =
     (let shards = [0..desiredShardCount cluster - 1]; desired = s_ReplicasPerShard (c_Spec cluster) in
      if list_ex (\<lambda>shard. primaryName l shard = [] \<or> handingOver l shard) shards then l
      else fst (fold (\<lambda>target. fold (\<lambda>source.
        fold (plan_move doomed statuses desired target source) (rev (membersOf l source))) shards) shards
        (l, map (surviving_replicas doomed l) shards)))"

section \<open>The plan\<close>

definition planNames :: "RedisCluster \<Rightarrow> Pod list \<Rightarrow> string list" where
  "planNames cluster pods =
     fold (\<lambda>pod names. if p_Name pod \<in> set names then names else names @ [p_Name pod]) pods
       (map (podNameForIndex (c_Name cluster)) [0..DesiredDataInstances (c_Spec cluster) - 1])"

definition planLabels :: "Pod list \<Rightarrow> (string, int) gomap" where
  "planLabels pods = fold (\<lambda>pod m. case parseShardLabel pod of None \<Rightarrow> m
     | Some index \<Rightarrow> mput (p_Name pod) index m) pods []"

definition planPrimaryLabels :: "Pod list \<Rightarrow> (string, bool) gomap" where
  "planPrimaryLabels pods =
     fold (\<lambda>pod. mput (p_Name pod) (mget [] (p_Labels pod) LabelShardRole = LabelRolePrimary)) pods []"

definition index_of :: "RedisCluster \<Rightarrow> string \<Rightarrow> int" where
  "index_of cluster name = (case podIndex (c_Name cluster) name of None \<Rightarrow> 0 | Some i \<Rightarrow> i)"

definition doomed :: "RedisCluster \<Rightarrow> string \<Rightarrow> bool" where
  "doomed cluster name \<longleftrightarrow> index_of cluster name \<ge> DesiredDataInstances (c_Spec cluster)"

definition slotOwners :: "(string, InstanceStatus) gomap \<Rightarrow> string list \<Rightarrow> string list" where
  "slotOwners statuses names =
     filter (\<lambda>name. length (is_SlotsServed (mget zero_InstanceStatus statuses name)) > 0) names"

definition planOwners ::
  "RedisCluster \<Rightarrow> (string, InstanceStatus) gomap \<Rightarrow> string list \<Rightarrow> shardLayout" where
  "planOwners cluster statuses names =
     (let owners = slotOwners statuses names;
          matches = rankOwnersByOverlap owners statuses (calculateClusterSlotRanges (desiredShardCount cluster))
      in fold (claim_rest (doomed cluster)) owners
           (fold (claim_match (doomed cluster)) matches emptyLayout))"

definition planReplicas ::
  "RedisCluster \<Rightarrow> Pod list \<Rightarrow> (string, InstanceStatus) gomap \<Rightarrow> string list \<Rightarrow> shardLayout \<Rightarrow>
   shardLayout \<times> string list" where
  "planReplicas cluster pods statuses names l =
     fold (place_replica (doomed cluster) (desiredShardCount cluster) statuses (podByNodeID statuses)
       (planLabels pods) (planPrimaryLabels pods)) names (l, [])"

definition planFree ::
  "((int \<times> string list) list \<Rightarrow> (int \<times> string list) list) \<Rightarrow> RedisCluster \<Rightarrow> shardLayout \<times> string list \<Rightarrow> shardLayout" where
  "planFree rng cluster lf =
     (let (l, free) = lf; shardCount = desiredShardCount cluster;
          (l1, survivors) = fold seat_survivor [0..shardCount - 1] (l, filter (\<lambda>n. \<not> doomed cluster n) free);
          l2 = seat_heirs rng (doomed cluster) [0..shardCount - 1] l1
      in fold (fill shardCount) (survivors @ filter (doomed cluster) free) l2)"

definition planShardLayout ::
  "((int \<times> string list) list \<Rightarrow> (int \<times> string list) list) \<Rightarrow> RedisCluster option \<Rightarrow> Pod list \<Rightarrow>
   (string, InstanceStatus) gomap \<Rightarrow> shardLayout option" where
  "planShardLayout rng clusterp pods statuses =
     (case clusterp of
        None \<Rightarrow> Some emptyLayout
      | Some cluster \<Rightarrow>
          if list_ex (\<lambda>name. podIndex (c_Name cluster) name = None) (planNames cluster pods) then None
          else
            let names = sort_key (index_of cluster) (planNames cluster pods);
                l1 = planOwners cluster statuses names;
                l2 = planFree rng cluster (planReplicas cluster pods statuses names l1);
                l3 = sort_members (index_of cluster) l2
            in Some (planReplicaMoves cluster statuses (doomed cluster) l3))"

section \<open>The invariant of a layout under construction\<close>

definition layout_inv :: "(string \<Rightarrow> bool) \<Rightarrow> shardLayout \<Rightarrow> bool" where
  "layout_inv dm l \<longleftrightarrow>
     (\<forall>n s. map_of (shardOf l) n = Some s \<longleftrightarrow> n \<in> set (membersOf l s)) \<and>
     (\<forall>s. distinct (membersOf l s)) \<and>
     (\<forall>s. primaryName l s \<noteq> [] \<longrightarrow>
        \<not> dm (primaryName l s) \<and> map_of (shardOf l) (primaryName l s) = Some s) \<and>
     (\<forall>s n. map_of (ownerOf l) s = Some n \<longrightarrow>
        n \<noteq> [] \<and> map_of (shardOf l) n = Some s \<and> (\<not> dm n \<longrightarrow> primaryName l s = n)) \<and>
     (\<forall>s. membersOf l s \<noteq> [] \<longrightarrow> mget False (used l) s) \<and> wf_map (members l)"

declare amap.look_store [simp]

lemma dom_mput [simp]: "dom (map_of (mput k v m)) = insert k (dom (map_of m))"
  by (auto simp: dom_def)

lemma layout_invD:
  assumes "layout_inv dm l"
  shows "map_of (shardOf l) n = Some s \<longleftrightarrow> n \<in> set (membersOf l s)"
    and "distinct (membersOf l s)"
    and "primaryName l s \<noteq> [] \<Longrightarrow> \<not> dm (primaryName l s)"
    and "primaryName l s \<noteq> [] \<Longrightarrow> map_of (shardOf l) (primaryName l s) = Some s"
    and "map_of (ownerOf l) s = Some n \<Longrightarrow> n \<noteq> []"
    and "map_of (ownerOf l) s = Some n \<Longrightarrow> map_of (shardOf l) n = Some s"
    and "map_of (ownerOf l) s = Some n \<Longrightarrow> \<not> dm n \<Longrightarrow> primaryName l s = n"
    and "membersOf l s \<noteq> [] \<Longrightarrow> mget False (used l) s"
    and "wf_map (members l)"
  using assms unfolding layout_inv_def by blast+

lemma layout_inv_empty: "layout_inv dm emptyLayout"
  by (simp add: layout_inv_def emptyLayout_def mget_def)

lemma layout_inv_assign:
  assumes "layout_inv dm l" and "map_of (shardOf l) n = None"
  shows "layout_inv dm (assign n s l)"
proof -
  have "n \<notin> set (membersOf l s')" for s' using layout_invD(1) [OF assms(1), of n s'] assms(2) by simp
  then show ?thesis
    using assms unfolding layout_inv_def assign_def by (auto simp: gomap_simps)
qed

lemma layout_inv_set_primary:
  assumes "layout_inv dm l" and "primaryName l s = []" and "map_of (shardOf l) n = Some s" and "\<not> dm n"
  shows "layout_inv dm (set_primary_of s n l)"
  using assms unfolding layout_inv_def set_primary_of_def by (auto simp: gomap_simps)

lemma unused_shard:
  assumes "layout_inv dm l" and "\<not> mget False (used l) s"
  shows "primaryName l s = []" and "map_of (ownerOf l) s = None" and "membersOf l s = []"
proof -
  show empty: "membersOf l s = []" using layout_invD(8) [OF assms(1)] assms(2) by blast
  show "primaryName l s = []" using layout_invD(1,4) [OF assms(1)] empty by fastforce
  show "map_of (ownerOf l) s = None"
  proof (cases "map_of (ownerOf l) s")
    case (Some n)
    from layout_invD(6) [OF assms(1) Some] layout_invD(1) [OF assms(1), of n s] empty show ?thesis by simp
  qed simp
qed

lemma assign_simps [simp]:
  "shardOf (assign n s l) = mput n s (shardOf l)"
  "primaryOf (assign n s l) = primaryOf l"
  "ownerOf (assign n s l) = ownerOf l"
  "replicaMoves (assign n s l) = replicaMoves l"
  by (simp_all add: assign_def)

lemma set_primary_of_simps [simp]:
  "shardOf (set_primary_of s n l) = shardOf l"
  "primaryOf (set_primary_of s n l) = mput s n (primaryOf l)"
  "ownerOf (set_primary_of s n l) = ownerOf l"
  "members (set_primary_of s n l) = members l"
  "replicaMoves (set_primary_of s n l) = replicaMoves l"
  by (simp_all add: set_primary_of_def)

lemma layout_inv_claim:
  assumes inv: "layout_inv dm l" and "map_of (shardOf l) n = None" and "\<not> mget False (used l) s" and "n \<noteq> []"
  shows "layout_inv dm (claim dm n s l)"
proof -
  note fresh = unused_shard [OF inv assms(3)]
  have "layout_inv dm (assign n s l)" using inv assms(2) by (rule layout_inv_assign)
  moreover have "n \<in> set (membersOf (assign n s l) s)" by (simp add: assign_def)
  ultimately show ?thesis
    using assms(4) fresh unfolding claim_def Let_def layout_inv_def set_primary_of_def
    by (auto simp: gomap_simps)
qed

lemma lowestUnused_from_unused: "\<not> mget False u (lowestUnused_from u s)"
proof (induction u s rule: lowestUnused_from.induct)
  case (1 u s)
  then show ?case by (subst lowestUnused_from.simps) simp
qed

lemma lowestUnused_unused: "\<not> mget False (used l) (lowestUnused l)"
  by (simp add: lowestUnused_def lowestUnused_from_unused)

lemma claim_simps [simp]:
  "shardOf (claim dm n s l) = mput n s (shardOf l)"
  "ownerOf (claim dm n s l) = mput s n (ownerOf l)"
  "replicaMoves (claim dm n s l) = replicaMoves l"
  by (simp_all add: claim_def Let_def)

lemma layout_inv_follow:
  assumes inv: "layout_inv dm l" and "map_of (shardOf l) n = None"
  shows "layout_inv dm (follow dm e n s l)"
  using layout_inv_assign [OF assms, of s]
  by (auto simp: follow_def Let_def intro!: layout_inv_set_primary)

lemma follow_simps [simp]:
  "shardOf (follow dm e n s l) = mput n s (shardOf l)"
  "ownerOf (follow dm e n s l) = ownerOf l"
  "replicaMoves (follow dm e n s l) = replicaMoves l"
  by (simp_all add: follow_def Let_def)

lemma move_simps [simp]:
  "shardOf (move n s l) = mput n s (shardOf l)"
  "primaryOf (move n s l) = primaryOf l"
  "ownerOf (move n s l) = ownerOf l"
  "replicaMoves (move n s l) = replicaMoves l"
  "used (move n s l) = used l"
  by (simp_all add: move_def Let_def)

lemma membersOf_move:
  assumes inv: "layout_inv dm l" and frm: "map_of (shardOf l) n = Some src"
  shows "membersOf (move n s l) t =
    (if t = s then remove1 n (membersOf l s) @ [n] else remove1 n (membersOf l t))"
proof -
  have "n \<in> set (membersOf l src)" using frm layout_invD(1) [OF inv] by simp
  moreover have "n \<notin> set (membersOf l t)" if "t \<noteq> src" for t
    using frm that layout_invD(1) [OF inv, of n t] by simp
  ultimately show ?thesis
    using frm by (auto simp: move_def Let_def mget_def [of 0] remove1_idem)
qed

lemma layout_inv_move:
  assumes inv: "layout_inv dm l" and frm: "map_of (shardOf l) n = Some src"
    and np: "n \<noteq> primaryName l src" and nd: "\<not> dm n" and us: "mget False (used l) s"
  shows "layout_inv dm (move n s l)"
proof -
  note D = layout_invD [OF inv]
  have m: "n' \<in> set (membersOf (move n s l) t) \<longleftrightarrow> (if n' = n then t = s else n' \<in> set (membersOf l t))" for n' t
    using D(1) [of n] D(2) [of t] D(2) [of s] frm by (auto simp: membersOf_move [OF inv frm])
  have d: "distinct (membersOf (move n s l) t)" for t
    using D(2) [of t] D(2) [of s] by (auto simp: membersOf_move [OF inv frm] distinct_remove1)
  have p: "primaryName l t \<noteq> n" if "primaryName l t \<noteq> []" for t
    using D(4) [OF that] np frm by auto
  have o: "map_of (ownerOf l) t \<noteq> Some n" for t
    using D(6,7) [of t n] np frm nd by force
  have u: "mget False (used l) t" if "membersOf (move n s l) t \<noteq> []" for t
    using that us D(8) [of t] by (cases "membersOf l t = []") (auto simp: membersOf_move [OF inv frm] split: if_splits)
  have w: "wf_map (members (move n s l))"
    using D(9) by (auto simp: move_def Let_def)
  show ?thesis
    unfolding layout_inv_def
  proof (intro conjI allI impI)
    fix n' s'
    show "map_of (shardOf (move n s l)) n' = Some s' \<longleftrightarrow> n' \<in> set (membersOf (move n s l) s')"
      using D(1) [of n' s'] by (auto simp: m)
  qed (use D p o u w d in \<open>auto\<close>)
qed

lemma spareSurvivor_fold:
  assumes "fst (fold (\<lambda>(shard, ms) (best, bestSize).
        if length ms \<le> bestSize then (best, bestSize)
        else case find (\<lambda>name. name \<noteq> prim shard \<and> \<not> dm name) ms of
          None \<Rightarrow> (best, bestSize)
        | Some name \<Rightarrow> (name, length ms)) xs (b, k)) = heir"
  shows "heir = b \<or> (\<exists>shard ms. (shard, ms) \<in> set xs \<and> heir \<in> set ms \<and> heir \<noteq> prim shard \<and> \<not> dm heir)"
  using assms
proof (induction xs arbitrary: b k)
  case (Cons x xs)
  obtain shard ms where x: "x = (shard, ms)" by (cases x)
  show ?case
  proof (cases "find (\<lambda>name. name \<noteq> prim shard \<and> \<not> dm name) ms")
    case None
    with Cons.prems x have "fst (fold (\<lambda>(shard, ms) (best, bestSize).
        if length ms \<le> bestSize then (best, bestSize)
        else case find (\<lambda>name. name \<noteq> prim shard \<and> \<not> dm name) ms of
          None \<Rightarrow> (best, bestSize)
        | Some name \<Rightarrow> (name, length ms)) xs (b, k)) = heir"
      by (simp split: if_splits)
    from Cons.IH [OF this] show ?thesis by auto
  next
    case (Some c)
    then have c: "c \<in> set ms" "c \<noteq> prim shard" "\<not> dm c"
      by (auto simp: find_Some_iff)
    show ?thesis
    proof (cases "length ms \<le> k")
      case True
      with Cons.prems x Cons.IH [of b k] show ?thesis by auto
    next
      case False
      with Cons.prems x Some
      have "heir = c \<or> (\<exists>shard ms. (shard, ms) \<in> set xs \<and> heir \<in> set ms \<and> heir \<noteq> prim shard \<and> \<not> dm heir)"
        by (intro Cons.IH [of c "length ms"]) simp
      then show ?thesis
      proof
        assume "heir = c"
        moreover have "(shard, ms) \<in> set (x # xs)" using x by simp
        ultimately show ?thesis using c by blast
      qed auto
    qed
  qed
qed simp

lemma spareSurvivor_spec:
  assumes inv: "layout_inv dm l" and rng: "mset (rng (members l)) = mset (members l)"
    and ne: "spareSurvivor rng dm l \<noteq> []"
  obtains src where "map_of (shardOf l) (spareSurvivor rng dm l) = Some src"
    and "spareSurvivor rng dm l \<noteq> primaryName l src" and "\<not> dm (spareSurvivor rng dm l)"
proof -
  from spareSurvivor_fold [OF spareSurvivor_def [of rng dm l, symmetric, THEN trans, OF refl]] ne
  obtain src ms where s: "(src, ms) \<in> set (rng (members l))"
    "spareSurvivor rng dm l \<in> set ms" "spareSurvivor rng dm l \<noteq> primaryName l src" "\<not> dm (spareSurvivor rng dm l)"
    by (auto simp: spareSurvivor_def)
  have "set (rng (members l)) = set (members l)" using rng by (metis set_mset_mset)
  with s(1) have "map_of (members l) src = Some ms"
    using layout_invD(9) [OF inv] by (simp add: map_of_wf_iff)
  then have "membersOf l src = ms" by (simp add: mget_def)
  with s layout_invD(1) [OF inv] show ?thesis by (intro that) auto
qed

section \<open>The phases of the plan\<close>

text \<open>The owners' phase: the pods placed so far are owners, each the owner of its shard.\<close>

definition own_inv :: "(string \<Rightarrow> bool) \<Rightarrow> string set \<Rightarrow> shardLayout \<Rightarrow> bool" where
  "own_inv dm os l \<longleftrightarrow> layout_inv dm l \<and> replicaMoves l = [] \<and> dom (map_of (shardOf l)) \<subseteq> os \<and>
     (\<forall>n s. map_of (shardOf l) n = Some s \<longrightarrow> map_of (ownerOf l) s = Some n)"

lemma own_inv_claim:
  assumes inv: "own_inv dm os l" and n: "n \<in> os" "n \<noteq> []" "map_of (shardOf l) n = None"
    and s: "\<not> mget False (used l) s"
  shows "own_inv dm os (claim dm n s l)"
proof -
  have l: "layout_inv dm l" using inv by (simp add: own_inv_def)
  have "map_of (shardOf l) n' \<noteq> Some s" for n'
    using unused_shard(3) [OF l s] layout_invD(1) [OF l, of n' s] by simp
  then show ?thesis
    using inv n layout_inv_claim [OF l n(3) s n(2)] by (simp add: own_inv_def)
qed

lemma fold_invariant:
  "P a \<Longrightarrow> (\<And>x a. x \<in> set xs \<Longrightarrow> P a \<Longrightarrow> P (f x a)) \<Longrightarrow> P (fold f xs a)"
  by (induction xs arbitrary: a) auto

lemma matches_pods: "m \<in> set (rankOwnersByOverlap owners statuses ranges) \<Longrightarrow> om_pod m \<in> set owners"
  by (auto simp: rankOwnersByOverlap_def List.map_filter_def Let_def split: if_splits)

lemma own_inv_claim_rest:
  assumes "own_inv dm os l" and "n \<in> os" and "n \<noteq> []"
  shows "own_inv dm os (claim_rest dm n l)"
  using assms by (auto simp: claim_rest_def intro!: own_inv_claim lowestUnused_unused)

lemma claim_rest_placed:
  "placed (claim_rest dm n l) n" "placed l n' \<Longrightarrow> placed (claim_rest dm n l) n'"
  by (auto simp: claim_rest_def)

lemma fold_claim_rest_placed:
  "n \<in> set ns \<or> placed l n \<Longrightarrow> placed (fold (claim_rest dm) ns l) n"
proof (induction ns arbitrary: l)
  case (Cons m ns)
  then have "n \<in> set ns \<or> placed (claim_rest dm m l) n" using claim_rest_placed by (metis set_ConsD)
  from Cons.IH [OF this] show ?case by simp
qed simp

lemma planOwners_spec:
  assumes names: "\<And>n. n \<in> set names \<Longrightarrow> n \<noteq> []"
  shows "own_inv (doomed cluster) (set (slotOwners statuses names)) (planOwners cluster statuses names)"
    and "dom (map_of (shardOf (planOwners cluster statuses names))) = set (slotOwners statuses names)"
proof -
  let ?os = "slotOwners statuses names" and ?dm = "doomed cluster"
  have ne: "n \<noteq> []" if "n \<in> set ?os" for n using names that by (auto simp: slotOwners_def)
  have "own_inv ?dm (set ?os) emptyLayout"
    by (simp add: own_inv_def layout_inv_empty) (simp add: emptyLayout_def)
  then have "own_inv ?dm (set ?os) (fold (claim_match ?dm)
      (rankOwnersByOverlap ?os statuses (calculateClusterSlotRanges (desiredShardCount cluster))) emptyLayout)"
    by (rule fold_invariant) (auto simp: claim_match_def intro!: own_inv_claim dest: matches_pods ne)
  then show inv: "own_inv ?dm (set ?os) (planOwners cluster statuses names)"
    unfolding planOwners_def Let_def by (rule fold_invariant) (rule own_inv_claim_rest [OF _ _ ne])
  have "placed (planOwners cluster statuses names) n" if "n \<in> set ?os" for n
    unfolding planOwners_def Let_def using that by (intro fold_claim_rest_placed) simp
  then show "dom (map_of (shardOf (planOwners cluster statuses names))) = set ?os"
    using inv by (auto simp: own_inv_def)
qed

text \<open>
  The later phases: \<open>pending\<close> are the pods that still wait for a shard, and the owners recorded in
  the first phase stay.
\<close>

definition plan_inv :: "(string \<Rightarrow> bool) \<Rightarrow> string set \<Rightarrow> (int, string) gomap \<Rightarrow> shardLayout \<Rightarrow> string list \<Rightarrow> bool" where
  "plan_inv dm names own l pending \<longleftrightarrow> layout_inv dm l \<and> replicaMoves l = [] \<and> ownerOf l = own \<and> distinct pending \<and>
     dom (map_of (shardOf l)) \<inter> set pending = {} \<and> dom (map_of (shardOf l)) \<union> set pending = names"

lemma plan_inv_assign:
  assumes "plan_inv dm names own l pending" and "n \<in> set pending"
  shows "plan_inv dm names own (assign n s l) (remove1 n pending)"
  using assms by (auto simp: plan_inv_def set_remove1_eq intro!: layout_inv_assign)

lemma plan_inv_follow:
  assumes "plan_inv dm names own l pending" and "n \<in> set pending"
  shows "plan_inv dm names own (follow dm e n s l) (remove1 n pending)"
  using assms by (auto simp: plan_inv_def set_remove1_eq intro!: layout_inv_follow)

lemma plan_inv_seat:
  assumes "plan_inv dm names own l pending" and "n \<in> set pending" and "primaryName l s = []" and "\<not> dm n"
  shows "plan_inv dm names own (set_primary_of s n (assign n s l)) (remove1 n pending)"
  using plan_inv_assign [OF assms(1,2), of s] assms(3,4)
  by (auto simp: plan_inv_def intro!: layout_inv_set_primary)

lemma plan_inv_mset:
  "mset p = mset q \<Longrightarrow> plan_inv dm names own l p \<Longrightarrow> plan_inv dm names own l q"
  unfolding plan_inv_def by (metis mset_eq_imp_distinct_iff set_mset_mset)

lemma place_replica_inv:
  assumes "plan_inv dm names own l (filter (\<lambda>m. \<not> placed l m) (free @ n # ns))"
  shows "case place_replica dm sc statuses byNode labels prims n (l, free) of
    (l', free') \<Rightarrow> plan_inv dm names own l' (filter (\<lambda>m. \<not> placed l' m) (free' @ ns))"
proof (cases "placed l n")
  case True
  then show ?thesis using assms by (auto simp: place_replica_def)
next
  case False
  let ?pend = "filter (\<lambda>m. \<not> placed l m) (free @ n # ns)"
  have n: "n \<in> set ?pend" "distinct ?pend" using False assms by (auto simp: plan_inv_def)
  have "filter (\<lambda>m. \<not> placed (follow dm e n s l) m) xs = filter (\<lambda>m. \<not> placed l m) xs" if "n \<notin> set xs" for xs e s
    by (rule filter_cong) (use that in auto)
  then have rm: "filter (\<lambda>m. \<not> placed (follow dm e n s l) m) (free @ ns) = remove1 n ?pend" for e s
    using n False by (simp add: remove1_append remove1_idem)
  have "plan_inv dm names own (follow dm e n s l) (filter (\<lambda>m. \<not> placed (follow dm e n s l) m) (free @ ns))" for e s
    unfolding rm using assms n(1) by (rule plan_inv_follow)
  moreover have "plan_inv dm names own l (filter (\<lambda>m. \<not> placed l m) ((free @ [n]) @ ns))"
    using assms by simp
  ultimately show ?thesis
    using False by (auto simp: place_replica_def Let_def split: option.split)
qed

lemma fold_place_replica_inv:
  assumes "plan_inv dm names own l (filter (\<lambda>m. \<not> placed l m) (free @ ns))"
  shows "case fold (place_replica dm sc statuses byNode labels prims) ns (l, free) of
    (l', free') \<Rightarrow> plan_inv dm names own l' (filter (\<lambda>m. \<not> placed l' m) free')"
  using assms
proof (induction ns arbitrary: l free)
  case (Cons n ns)
  obtain l' free' where step: "place_replica dm sc statuses byNode labels prims n (l, free) = (l', free')"
    by (cases "place_replica dm sc statuses byNode labels prims n (l, free)")
  from place_replica_inv [OF Cons.prems, of sc statuses byNode labels prims] step
  have "plan_inv dm names own l' (filter (\<lambda>m. \<not> placed l' m) (free' @ ns))" by (simp only: case_prod_conv)
  from Cons.IH [OF this] step show ?case by simp
qed simp

text \<open>Pods collected as free stay unplaced throughout the phase.\<close>

lemma place_replica_free:
  assumes "\<forall>m\<in>set free. \<not> placed l m" and "distinct (free @ n # ns)"
  shows "case place_replica dm sc statuses byNode labels prims n (l, free) of
    (l', free') \<Rightarrow> (\<forall>m\<in>set free'. \<not> placed l' m) \<and> distinct (free' @ ns)"
  using assms by (auto simp: place_replica_def Let_def split: option.split)

lemma fold_place_replica_free:
  assumes "\<forall>m\<in>set free. \<not> placed l m" and "distinct (free @ ns)"
  shows "case fold (place_replica dm sc statuses byNode labels prims) ns (l, free) of
    (l', free') \<Rightarrow> (\<forall>m\<in>set free'. \<not> placed l' m)"
  using assms
proof (induction ns arbitrary: l free)
  case (Cons n ns)
  obtain l' free' where step: "place_replica dm sc statuses byNode labels prims n (l, free) = (l', free')"
    by (cases "place_replica dm sc statuses byNode labels prims n (l, free)")
  have "(\<forall>m\<in>set free'. \<not> placed l' m) \<and> distinct (free' @ ns)"
    using place_replica_free [OF Cons.prems, of dm sc statuses byNode labels prims]
    unfolding step case_prod_conv .
  from Cons.IH [OF conjunct1 [OF this] conjunct2 [OF this]] step show ?case by simp
qed simp

lemma planReplicas_spec:
  assumes own: "own_inv (doomed cluster) os l" and sub: "dom (map_of (shardOf l)) \<subseteq> set names" and d: "distinct names"
    and res: "planReplicas cluster pods statuses names l = (l', free)"
  shows "plan_inv (doomed cluster) (set names) (ownerOf l) l' free"
proof -
  let ?step = "place_replica (doomed cluster) (desiredShardCount cluster) statuses (podByNodeID statuses)
    (planLabels pods) (planPrimaryLabels pods)"
  have eq: "fold ?step names (l, []) = (l', free)" using res by (simp add: planReplicas_def)
  have "plan_inv (doomed cluster) (set names) (ownerOf l) l (filter (\<lambda>m. \<not> placed l m) ([] @ names))"
    using own sub d by (auto simp: plan_inv_def own_inv_def)
  from fold_place_replica_inv [OF this] have
    "case fold ?step names (l, []) of (l', free') \<Rightarrow>
       plan_inv (doomed cluster) (set names) (ownerOf l) l' (filter (\<lambda>m. \<not> placed l' m) free')" .
  then have "plan_inv (doomed cluster) (set names) (ownerOf l) l' (filter (\<lambda>m. \<not> placed l' m) free)"
    unfolding eq by simp
  moreover have "case fold ?step names (l, []) of (l', free') \<Rightarrow> (\<forall>m\<in>set free'. \<not> placed l' m)"
    by (rule fold_place_replica_free) (simp_all add: d)
  then have "\<forall>m\<in>set free. \<not> placed l' m" unfolding eq by simp
  ultimately show ?thesis by (simp add: filter_True)
qed

lemma seat_survivor_inv:
  assumes "plan_inv dm names own (fst ls) (snd ls @ rest)" and "\<forall>n\<in>set (snd ls). \<not> dm n"
  shows "plan_inv dm names own (fst (seat_survivor s ls)) (snd (seat_survivor s ls) @ rest) \<and>
    (\<forall>n\<in>set (snd (seat_survivor s ls)). \<not> dm n)"
proof (cases "snd ls")
  case Nil
  then show ?thesis using assms by (simp add: seat_survivor_def)
next
  case (Cons n ns)
  then show ?thesis
    using assms plan_inv_seat [of dm names own "fst ls" "snd ls @ rest" n s]
    by (auto simp: seat_survivor_def)
qed

lemma layout_inv_heir:
  assumes inv: "layout_inv dm l" and rng: "\<forall>m. mset (rng m) = mset m"
    and empty: "primaryName l s = []" and owner: "mget [] (ownerOf l) s \<noteq> []"
    and heir: "spareSurvivor rng dm l \<noteq> []"
  shows "layout_inv dm (set_primary_of s (spareSurvivor rng dm l) (move (spareSurvivor rng dm l) s l))"
    and "placed l (spareSurvivor rng dm l)"
proof -
  obtain src where h: "map_of (shardOf l) (spareSurvivor rng dm l) = Some src"
    "spareSurvivor rng dm l \<noteq> primaryName l src" "\<not> dm (spareSurvivor rng dm l)"
    using spareSurvivor_spec [OF inv rng [rule_format] heir] by blast
  from owner obtain n where "map_of (ownerOf l) s = Some n" by (auto simp: mget_def split: option.splits)
  then have "mget False (used l) s"
    using layout_invD(1) [OF inv, of n s] layout_invD(6) [OF inv, of s n] layout_invD(8) [OF inv, of s]
    by (cases "membersOf l s") auto
  from layout_inv_move [OF inv h this] h(3) empty
  show "layout_inv dm (set_primary_of s (spareSurvivor rng dm l) (move (spareSurvivor rng dm l) s l))"
    by (intro layout_inv_set_primary) simp_all
  show "placed l (spareSurvivor rng dm l)" using h(1) by simp
qed

lemma seat_heirs_inv:
  assumes "\<forall>m. mset (rng m) = mset m" and "plan_inv dm names own l pending"
  shows "plan_inv dm names own (seat_heirs rng dm shards l) pending"
  using assms(2)
proof (induction shards arbitrary: l)
  case (Cons s shards)
  let ?h = "spareSurvivor rng dm l"
  show ?case
  proof (cases "primaryName l s \<noteq> [] \<or> mget [] (ownerOf l) s = [] \<or> ?h = []")
    case True
    with Cons show ?thesis by (auto simp: Let_def)
  next
    case False
    have "layout_inv dm l" using Cons.prems by (simp add: plan_inv_def)
    note heir = layout_inv_heir [OF this assms(1)]
    have "layout_inv dm (set_primary_of s ?h (move ?h s l))" and "placed l ?h"
      using heir [of s] False by blast+
    moreover from this have "insert ?h (dom (map_of (shardOf l))) = dom (map_of (shardOf l))"
      by (auto simp: dom_def)
    ultimately have "plan_inv dm names own (set_primary_of s ?h (move ?h s l)) pending"
      using Cons.prems by (simp add: plan_inv_def)
    from Cons.IH [OF this] False show ?thesis by (simp add: Let_def)
  qed
qed simp

lemma fold_fill_inv:
  "plan_inv dm names own l pending \<Longrightarrow> plan_inv dm names own (fold (fill sc) pending l) []"
proof (induction pending arbitrary: l)
  case (Cons n ns)
  have "plan_inv dm names own (fill sc n l) ns"
    using plan_inv_assign [OF Cons.prems, of n] by (simp add: fill_def)
  from Cons.IH [OF this] show ?case by simp
qed simp

lemma planFree_inv:
  assumes rng: "\<forall>m. mset (rng m) = mset m" and inv: "plan_inv (doomed cluster) names own l free"
  shows "plan_inv (doomed cluster) names own (planFree rng cluster (l, free)) []"
proof -
  let ?dm = "doomed cluster" and ?sc = "desiredShardCount cluster"
  let ?start = "(l, filter (\<lambda>n. \<not> ?dm n) free)" and ?rest = "filter ?dm free"
  let ?P = "\<lambda>ls. plan_inv ?dm names own (fst ls) (snd ls @ ?rest) \<and> (\<forall>n\<in>set (snd ls). \<not> ?dm n)"
  have "mset free = mset (filter (\<lambda>n. \<not> ?dm n) free @ ?rest)"
    using multiset_partition [of "mset free" ?dm] by (simp add: mset_filter)
  with inv have "?P ?start" by (auto intro: plan_inv_mset)
  then have "?P (fold seat_survivor [0..?sc - 1] ?start)"
    by (rule fold_invariant) (rule seat_survivor_inv, auto)
  then have "plan_inv ?dm names own
      (seat_heirs rng ?dm [0..?sc - 1] (fst (fold seat_survivor [0..?sc - 1] ?start)))
      (snd (fold seat_survivor [0..?sc - 1] ?start) @ ?rest)"
    by (intro seat_heirs_inv [OF rng]) blast
  from fold_fill_inv [OF this] show ?thesis
    by (simp add: planFree_def Let_def case_prod_beta)
qed

text \<open>Sorting the members and planning the moves leave the placement as it is.\<close>

lemma membersOf_sort [simp]: "membersOf (sort_members idx l) s = sort_key idx (membersOf l s)"
  by (simp add: sort_members_def mget_def map_of_map split: option.split)

lemma sort_members_simps [simp]:
  "shardOf (sort_members idx l) = shardOf l" "primaryOf (sort_members idx l) = primaryOf l"
  "ownerOf (sort_members idx l) = ownerOf l" "used (sort_members idx l) = used l"
  "replicaMoves (sort_members idx l) = replicaMoves l"
  by (simp_all add: sort_members_def)

lemma sort_key_Nil_iff [simp]: "sort_key f xs = [] \<longleftrightarrow> xs = []"
  by (metis mset_sort mset_zero_iff)

lemma layout_inv_sort: "layout_inv dm l \<Longrightarrow> layout_inv dm (sort_members idx l)"
proof -
  have "map fst (members (sort_members idx l)) = map fst (members l)"
    by (simp add: sort_members_def comp_def case_prod_beta)
  moreover assume "layout_inv dm l"
  ultimately show ?thesis unfolding layout_inv_def by (simp add: wf_map_def)
qed

lemma layout_inv_moves [simp]: "layout_inv dm (l\<lparr>replicaMoves := r\<rparr>) \<longleftrightarrow> layout_inv dm l"
  by (simp add: layout_inv_def)

definition moves_ok ::
  "(string \<Rightarrow> bool) \<Rightarrow> (string, InstanceStatus) gomap \<Rightarrow> int list \<Rightarrow> shardLayout \<Rightarrow> (string, int) gomap \<Rightarrow> bool" where
  "moves_ok dm statuses shards l moves \<longleftrightarrow>
     (\<forall>n t. map_of moves n = Some t \<longrightarrow> t \<in> set shards \<and> movable dm statuses l n \<and>
        (\<exists>s. n \<in> set (membersOf l s)))"

lemma movable_replicaMoves [simp]: "movable dm statuses (l\<lparr>replicaMoves := r\<rparr>) n = movable dm statuses l n"
  by (simp add: movable_def isPrimary_def Let_def split: option.split)

lemma plan_move_inv:
  assumes "fst lc = l\<lparr>replicaMoves := r\<rparr>" and "moves_ok dm statuses shards l r"
    and "target \<in> set shards" and "n \<in> set (membersOf l source)"
  shows "\<exists>r'. fst (plan_move dm statuses desired target source n lc) = l\<lparr>replicaMoves := r'\<rparr> \<and>
    moves_ok dm statuses shards l r'"
proof -
  obtain c where lc: "lc = (l\<lparr>replicaMoves := r\<rparr>, c)" using assms(1) by (cases lc) simp
  have "moves_ok dm statuses shards l (mput n target r)" if "movable dm statuses l n"
    using assms that by (auto simp: moves_ok_def)
  then show ?thesis
    using assms(2) unfolding lc by (auto simp: plan_move_def Let_def)
qed

lemma planReplicaMoves_spec:
  assumes empty: "replicaMoves l = []"
  shows "\<exists>r. planReplicaMoves cluster statuses dm l = l\<lparr>replicaMoves := r\<rparr> \<and>
    moves_ok dm statuses [0..desiredShardCount cluster - 1] l r"
proof -
  let ?shards = "[0..desiredShardCount cluster - 1]"
  let ?P = "\<lambda>lc. \<exists>r. fst lc = l\<lparr>replicaMoves := r\<rparr> \<and> moves_ok dm statuses ?shards l r"
  have "l = l\<lparr>replicaMoves := []\<rparr>" using empty by simp
  then have start: "?P (l, c)" for c :: "int list" by (auto simp: moves_ok_def intro!: exI [of _ "[]"])
  have inner: "?P (fold (plan_move dm statuses d target source) (rev (membersOf l source)) lc)"
    if "?P lc" and "target \<in> set ?shards" for d target source and lc :: "shardLayout \<times> int list"
    using that(1) by (rule fold_invariant) (use that(2) in \<open>auto intro!: plan_move_inv\<close>)
  have "?P (fold (\<lambda>target. fold (\<lambda>source. fold (plan_move dm statuses d target source) (rev (membersOf l source))) ?shards)
      ?shards (l, map (surviving_replicas dm l) ?shards))" for d
    by (intro fold_invariant [where P = ?P] start inner)
  with start [of "[]"] show ?thesis by (auto simp: planReplicaMoves_def Let_def)
qed

lemma planNames_fold:
  assumes "distinct ns"
  shows "distinct (fold (\<lambda>pod names. if p_Name pod \<in> set names then names else names @ [p_Name pod]) pods ns)"
    and "set (fold (\<lambda>pod names. if p_Name pod \<in> set names then names else names @ [p_Name pod]) pods ns) =
      set ns \<union> p_Name ` set pods"
  using assms by (induction pods arbitrary: ns) (auto simp: insert_absorb)

lemma planNames_spec:
  shows "distinct (planNames cluster pods)"
    and "set (planNames cluster pods) =
      podNameForIndex (c_Name cluster) ` {0..<DesiredDataInstances (c_Spec cluster)} \<union> p_Name ` set pods"
proof -
  have d: "distinct (map (podNameForIndex (c_Name cluster)) [0..DesiredDataInstances (c_Spec cluster) - 1])"
    by (auto simp: distinct_map inj_on_def podNameForIndex_def)
  show "distinct (planNames cluster pods)"
    unfolding planNames_def by (rule planNames_fold(1) [OF d])
  show "set (planNames cluster pods) =
      podNameForIndex (c_Name cluster) ` {0..<DesiredDataInstances (c_Spec cluster)} \<union> p_Name ` set pods"
    unfolding planNames_def planNames_fold(2) [OF d] by auto
qed

text \<open>All facts about a plan that succeeds, for a cluster that is there.\<close>

lemma planShardLayout_spec:
  assumes rng: "\<forall>m. mset (rng m) = mset m"
    and plan: "planShardLayout rng (Some cluster) pods statuses = Some l"
  shows "layout_inv (doomed cluster) l"
    and "dom (map_of (shardOf l)) = set (planNames cluster pods)"
    and "\<forall>n \<in> set (slotOwners statuses (planNames cluster pods)). \<exists>s. map_of (ownerOf l) s = Some n"
    and "moves_ok (doomed cluster) statuses [0..desiredShardCount cluster - 1] l (replicaMoves l)"
proof -
  define names where "names = sort_key (index_of cluster) (planNames cluster pods)"
  define l1 where "l1 = planOwners cluster statuses names"
  define l2 where "l2 = planFree rng cluster (planReplicas cluster pods statuses names l1)"
  define l3 where "l3 = sort_members (index_of cluster) l2"
  have ok: "\<forall>n\<in>set (planNames cluster pods). podIndex (c_Name cluster) n \<noteq> None"
    and l: "l = planReplicaMoves cluster statuses (doomed cluster) l3"
    using plan by (auto simp: planShardLayout_def Let_def l1_def l2_def l3_def names_def list_ex_iff split: if_splits)
  have d: "distinct names" and set: "set names = set (planNames cluster pods)"
    using planNames_spec(1) by (auto simp: names_def)
  have ne: "n \<noteq> []" if "n \<in> set names" for n using ok that set by (auto simp: podIndex_def)
  note own = planOwners_spec [OF ne, of names cluster statuses, folded l1_def]
  obtain lr free where r: "planReplicas cluster pods statuses names l1 = (lr, free)" by (cases "planReplicas cluster pods statuses names l1")
  have "dom (map_of (shardOf l1)) \<subseteq> set names" using own(2) by (auto simp: slotOwners_def)
  from planFree_inv [OF rng planReplicas_spec [OF own(1) this d r]]
  have inv2: "plan_inv (doomed cluster) (set names) (ownerOf l1) l2 []" by (simp add: l2_def r)
  have "replicaMoves l3 = []" using inv2 by (simp add: l3_def plan_inv_def)
  from planReplicaMoves_spec [OF this, of cluster statuses "doomed cluster"] obtain r
    where lr: "l = l3\<lparr>replicaMoves := r\<rparr>"
      and mv: "moves_ok (doomed cluster) statuses [0..desiredShardCount cluster - 1] l3 r"
    unfolding l by blast
  show "layout_inv (doomed cluster) l"
    using inv2 by (simp add: lr l3_def plan_inv_def layout_inv_sort)
  show "dom (map_of (shardOf l)) = set (planNames cluster pods)"
    using inv2 set by (simp add: lr l3_def plan_inv_def)
  show "\<forall>n \<in> set (slotOwners statuses (planNames cluster pods)). \<exists>s. map_of (ownerOf l) s = Some n"
  proof
    fix n assume "n \<in> set (slotOwners statuses (planNames cluster pods))"
    then have "n \<in> dom (map_of (shardOf l1))" using own(2) set by (simp add: slotOwners_def)
    then obtain s where "map_of (ownerOf l1) s = Some n" using own(1) by (auto simp: own_inv_def)
    then have "map_of (ownerOf l) s = Some n" using inv2 by (simp add: lr l3_def plan_inv_def)
    then show "\<exists>s. map_of (ownerOf l) s = Some n" ..
  qed
  show "moves_ok (doomed cluster) statuses [0..desiredShardCount cluster - 1] l (replicaMoves l)"
    using mv by (simp add: lr moves_ok_def)
qed

section \<open>Properties\<close>

text \<open>
  C16. A plan places every desired pod and every existing pod in exactly one shard, and nothing
  else: the shard of a pod and the members of a shard say the same, and no pod is listed twice.
  This holds whatever order Go's map iteration takes.
\<close>

theorem layout_places_every_pod:
  assumes "\<forall>m. mset (rng m) = mset m"
    and "planShardLayout rng (Some cluster) pods statuses = Some l"
  shows "{n. \<exists>s. map_of (shardOf l) n = Some s} =
      podNameForIndex (c_Name cluster) ` {0..<DesiredDataInstances (c_Spec cluster)} \<union> p_Name ` set pods \<and>
    (\<forall>n s. map_of (shardOf l) n = Some s \<longleftrightarrow> n \<in> set (membersOf l s)) \<and>
    (\<forall>s. distinct (membersOf l s))"
  using planShardLayout_spec(1,2) [OF assms] planNames_spec(2) [of cluster pods]
  by (simp add: layout_inv_def dom_def)

text \<open>
  C2. The plan never demotes a pod that serves hash slots: such a pod is the recorded owner of its
  own shard, is the shard's primary when it survives the scaling, and its shard is
  marked as being handed over when it does not.
\<close>

theorem layout_keeps_slot_owners:
  assumes "\<forall>m. mset (rng m) = mset m"
    and "planShardLayout rng (Some cluster) pods statuses = Some l"
    and "n \<in> set (planNames cluster pods)"
    and "is_SlotsServed (mget zero_InstanceStatus statuses n) \<noteq> []"
  shows "\<exists>s. map_of (ownerOf l) s = Some n \<and> map_of (shardOf l) n = Some s \<and>
    (if doomed cluster n then handingOver l s \<and> \<not> isPrimary l n else isPrimary l n \<and> \<not> handingOver l s)"
proof -
  note inv = planShardLayout_spec(1) [OF assms(1,2)]
  have "n \<in> set (slotOwners statuses (planNames cluster pods))"
    using assms(3,4) by (simp add: slotOwners_def)
  then obtain s where s: "map_of (ownerOf l) s = Some n"
    using planShardLayout_spec(3) [OF assms(1,2)] by blast
  note D = layout_invD(5-7) [OF inv s] layout_invD(3) [OF inv, of s]
  have "primaryName l s \<noteq> n" if "doomed cluster n" using D that by auto
  with s D show ?thesis by (intro exI [of _ s]) (auto simp: handingOver_def isPrimary_def)
qed

text \<open>
  Whatever pod a plan makes the primary of a shard survives the scaling and belongs to that
  shard; the shard labels it is given say so.
\<close>

theorem layout_primaries_survive:
  assumes "\<forall>m. mset (rng m) = mset m"
    and "planShardLayout rng (Some cluster) pods statuses = Some l"
    and "primaryName l s \<noteq> []"
  shows "\<not> doomed cluster (primaryName l s) \<and> primaryName l s \<in> set (membersOf l s) \<and>
    layoutLabels l (primaryName l s) = [(LabelShard, shardName s), (LabelShardRole, LabelRolePrimary)]"
proof -
  note inv = planShardLayout_spec(1) [OF assms(1,2)]
  show ?thesis
    using layout_invD(3,4) [OF inv, of s] assms(3) layout_invD(1) [OF inv, of "primaryName l s" s]
    by (simp add: layoutLabels_def)
qed

text \<open>
  A planned replica move only ever names a pod of the layout that is a connected replica,
  survives, serves no slots and is no primary, and its target is one of the desired shards.
\<close>

theorem layout_moves_only_idle_replicas:
  assumes "\<forall>m. mset (rng m) = mset m"
    and "planShardLayout rng (Some cluster) pods statuses = Some l"
    and "map_of (replicaMoves l) n = Some target"
  shows "0 \<le> target \<and> target < desiredShardCount cluster \<and> \<not> doomed cluster n \<and> \<not> isPrimary l n \<and>
    n \<in> set (planNames cluster pods) \<and>
    (let status = mget zero_InstanceStatus statuses n in
     is_Connected status \<and> is_Role status = ''slave'' \<and> is_SlotsServed status = [])"
proof -
  note spec = planShardLayout_spec [OF assms(1,2)]
  have mv: "target \<in> set [0..desiredShardCount cluster - 1]" "movable (doomed cluster) statuses l n"
    and "\<exists>s. n \<in> set (membersOf l s)"
    using spec(4) assms(3) by (auto simp: moves_ok_def)
  from this(3) have "n \<in> dom (map_of (shardOf l))" using layout_invD(1) [OF spec(1)] by blast
  with spec(2) mv show ?thesis by (auto simp: movable_def Let_def)
qed

text \<open>
  A cluster with three shards of two pods that is scaled in from eight pods: \<open>r-6\<close> still owns
  the slots of the third shard, \<open>r-2\<close> and \<open>r-3\<close> replicate \<open>r-0\<close>, \<open>r-4\<close> replicates \<open>r-0\<close> too.
\<close>

definition scaled_cluster :: RedisCluster where
  "scaled_cluster = sample_cluster\<lparr>c_Spec := sample_spec\<lparr>s_Mode := ClusterModeCluster, s_Shards := 3,
     s_ReplicasPerShard := 1\<rparr>\<rparr>"

definition scaled_node :: "string \<Rightarrow> string \<Rightarrow> string \<Rightarrow> SlotRange list \<Rightarrow> InstanceStatus" where
  "scaled_node role node primary slots = (sample_instance role 5)\<lparr>is_NodeID := node,
     is_PrimaryNodeID := primary, is_SlotsServed := slots\<rparr>"

definition scaled_statuses :: "(string, InstanceStatus) gomap" where
  "scaled_statuses =
     [(''r-0'', scaled_node ''master'' ''n0'' [] [\<lparr>Start = 0, End = 5461\<rparr>]),
      (''r-1'', scaled_node ''master'' ''n1'' [] [\<lparr>Start = 5462, End = 10922\<rparr>]),
      (''r-2'', scaled_node ''slave'' ''n2'' ''n0'' []), (''r-3'', scaled_node ''slave'' ''n3'' ''n0'' []),
      (''r-4'', scaled_node ''slave'' ''n4'' ''n0'' []), (''r-5'', scaled_node ''slave'' ''n5'' ''n6'' []),
      (''r-6'', scaled_node ''master'' ''n6'' [] [\<lparr>Start = 10923, End = 16383\<rparr>])]"

definition scaled_pods :: "Pod list" where
  "scaled_pods = map (\<lambda>name. sample_pod name ''10.0.0.1'' [] True) [''r-0'', ''r-1'', ''r-2'', ''r-6'']"

definition scaled_layout :: shardLayout where
  "scaled_layout = \<lparr>
     shardOf = [(''r-0'', 0), (''r-1'', 1), (''r-6'', 2), (''r-2'', 0), (''r-3'', 0), (''r-4'', 0), (''r-5'', 2)],
     primaryOf = [(0, ''r-0''), (1, ''r-1''), (2, ''r-5'')],
     ownerOf = [(0, ''r-0''), (1, ''r-1''), (2, ''r-6'')],
     members = [(0, [''r-0'', ''r-2'', ''r-3'', ''r-4'']), (1, [''r-1'']), (2, [''r-5'', ''r-6''])],
     replicaMoves = [], used = [(0, True), (1, True), (2, True)]\<rparr>"

lemma scaled_plan:
  "planShardLayout (\<lambda>m. m) (Some scaled_cluster) scaled_pods scaled_statuses = Some scaled_layout"
  by code_simp

text \<open>The same cluster once \<open>r-2\<close> serves the third shard and the other replicas still follow \<open>r-0\<close>.\<close>

definition uneven_statuses :: "(string, InstanceStatus) gomap" where
  "uneven_statuses =
     [(''r-0'', scaled_node ''master'' ''n0'' [] [\<lparr>Start = 0, End = 5461\<rparr>]),
      (''r-1'', scaled_node ''master'' ''n1'' [] [\<lparr>Start = 5462, End = 10922\<rparr>]),
      (''r-2'', scaled_node ''master'' ''n2'' [] [\<lparr>Start = 10923, End = 16383\<rparr>]),
      (''r-3'', scaled_node ''slave'' ''n3'' ''n0'' []), (''r-4'', scaled_node ''slave'' ''n4'' ''n0'' []),
      (''r-5'', scaled_node ''slave'' ''n5'' ''n0'' [])]"

definition uneven_layout :: shardLayout where
  "uneven_layout = \<lparr>
     shardOf = [(''r-0'', 0), (''r-1'', 1), (''r-2'', 2), (''r-3'', 0), (''r-4'', 0), (''r-5'', 0), (''r-6'', 1)],
     primaryOf = [(0, ''r-0''), (1, ''r-1''), (2, ''r-2'')],
     ownerOf = [(0, ''r-0''), (1, ''r-1''), (2, ''r-2'')],
     members = [(0, [''r-0'', ''r-3'', ''r-4'', ''r-5'']), (1, [''r-1'', ''r-6'']), (2, [''r-2''])],
     replicaMoves = [(''r-5'', 1), (''r-4'', 2)], used = [(0, True), (1, True), (2, True)]\<rparr>"

lemma uneven_plan:
  "planShardLayout (\<lambda>m. m) (Some scaled_cluster) scaled_pods uneven_statuses = Some uneven_layout"
  by code_simp

theorem layout_places_every_pod_witness:
  "(\<forall>m. mset ((\<lambda>m. m) m) = mset (m :: (int \<times> string list) list)) \<and>
   planShardLayout (\<lambda>m. m) (Some scaled_cluster) scaled_pods scaled_statuses = Some scaled_layout \<and>
   distinct (membersOf scaled_layout 0) \<and>
   (map_of (shardOf scaled_layout) ''r-6'' = Some 2 \<longleftrightarrow> ''r-6'' \<in> set (membersOf scaled_layout 2))"
  using layout_places_every_pod [OF _ scaled_plan] scaled_plan by simp

theorem layout_keeps_slot_owners_witness:
  "''r-0'' \<in> set (planNames scaled_cluster scaled_pods) \<and> \<not> doomed scaled_cluster ''r-0'' \<and>
   isPrimary scaled_layout ''r-0''"
proof -
  have "''r-0'' \<in> set (planNames scaled_cluster scaled_pods)" and "\<not> doomed scaled_cluster ''r-0''"
    and "is_SlotsServed (mget zero_InstanceStatus scaled_statuses ''r-0'') \<noteq> []"
    by code_simp+
  with layout_keeps_slot_owners [OF _ scaled_plan this(1,3)] show ?thesis by auto
qed

theorem layout_primaries_survive_witness:
  "primaryName scaled_layout 2 = ''r-5'' \<and> \<not> doomed scaled_cluster ''r-5''"
  using layout_primaries_survive [OF _ scaled_plan, of 2] by (simp add: scaled_layout_def mget_def)

theorem layout_moves_only_idle_replicas_witness:
  "map_of (replicaMoves uneven_layout) ''r-5'' = Some 1 \<and> \<not> isPrimary uneven_layout ''r-5'' \<and>
   1 < desiredShardCount scaled_cluster"
proof -
  have "map_of (replicaMoves uneven_layout) ''r-5'' = Some 1" by (simp add: uneven_layout_def)
  with layout_moves_only_idle_replicas [OF _ uneven_plan this] show ?thesis by simp
qed

end
