(* ===== verification/Services.thy ===== *)
theory Services
  imports Pod_Basics
begin

text \<open>
  \<^verbatim>\<open>internal/controller/cluster/services.go\<close>: the leader, replica, any, sentinel and headless
  Services, the pinning of the leader Service to the current primary, and, from
  \<^verbatim>\<open>hibernate.go\<close>, the parking of that selector; the two predicates of \<^verbatim>\<open>replica_mode.go\<close>
  that Services and Secrets consult.
\<close>

section \<open>Replica mode predicates\<close>

definition isReplicaModeEnabled :: "RedisCluster \<Rightarrow> bool" where
  "isReplicaModeEnabled cluster \<longleftrightarrow>
     (case s_ReplicaMode (c_Spec cluster) of None \<Rightarrow> False | Some m \<Rightarrow> rm_Enabled m)"

definition replicaModeSourceAuthSecretName :: "RedisCluster \<Rightarrow> string" where
  "replicaModeSourceAuthSecretName cluster =
     (case s_ReplicaMode (c_Spec cluster) of
        None \<Rightarrow> []
      | Some m \<Rightarrow> (case rm_Source m of None \<Rightarrow> [] | Some s \<Rightarrow> rs_AuthSecretName s))"

abbreviation leaderServiceReplicaModeAnnotation :: string where
  "leaderServiceReplicaModeAnnotation \<equiv> ''redis.io/replica-mode''"

section \<open>Names\<close>

definition leaderServiceName :: "string \<Rightarrow> string" where
  "leaderServiceName clusterName = clusterName @ ''-leader''"

definition replicaServiceName :: "string \<Rightarrow> string" where
  "replicaServiceName clusterName = clusterName @ ''-replica''"

definition anyServiceName :: "string \<Rightarrow> string" where
  "anyServiceName clusterName = clusterName @ ''-any''"

definition sentinelServiceName :: "string \<Rightarrow> string" where
  "sentinelServiceName clusterName = clusterName @ ''-sentinel''"

definition clusterHeadlessServiceName :: "string \<Rightarrow> string" where
  "clusterHeadlessServiceName clusterName = clusterName @ ''-cluster''"

section \<open>Operations\<close>

definition service_port :: "string \<Rightarrow> int \<Rightarrow> ServicePort" where
  "service_port name port = \<lparr>sv_PortName = name, sv_Port = port, sv_TargetPort = port, sv_Protocol = ''TCP''\<rparr>"

text \<open>A patch of a Service; the answer of the server is not used afterwards.\<close>

definition patch_service :: "env \<Rightarrow> Service \<Rightarrow> Service \<Rightarrow> ('s, unit) io" where
  "patch_service env base svc = bnd (patch env (OService base) (OService svc)) (\<lambda>_. ret ())"

definition ensureClusterHeadlessService :: "env \<Rightarrow> (RedisCluster, unit) io" where
  "ensureClusterHeadlessService env = bnd obj (\<lambda>cluster.
     let name = clusterHeadlessServiceName (c_Name cluster);
         selector = [(LabelCluster, c_Name cluster), (LabelWorkload, LabelWorkloadData)];
         desiredPorts = [service_port ''redis'' 6379, service_port ''cluster-bus'' 16379]
     in
     bnd (attempt (get_service env (c_Namespace cluster) name)) (\<lambda>r.
     case r of
       Inr existing \<Rightarrow>
         if map_eq (sv_Selector existing) selector \<and> sv_Ports existing = desiredPorts \<and>
            sv_ClusterIP existing = ''None''
         then ret ()
         else patch_service env existing
           (existing\<lparr>sv_Selector := selector, sv_Ports := desiredPorts, sv_ClusterIP := ''None''\<rparr>)
     | Inl e \<Rightarrow>
         if \<not> IsNotFound e then throw e
         else create env (OService
           \<lparr>sv_Meta = new_meta name (c_Namespace cluster) [(LabelCluster, c_Name cluster)],
            sv_Selector = selector, sv_Ports = desiredPorts, sv_ClusterIP = ''None''\<rparr>)))"

definition deleteServiceIfExists :: "env \<Rightarrow> string \<Rightarrow> string \<Rightarrow> (RedisCluster, unit) io" where
  "deleteServiceIfExists env namespace name =
     bnd (attempt (get_service env namespace name)) (\<lambda>r.
     case r of
       Inl e \<Rightarrow> if IsNotFound e then ret () else throw e
     | Inr svc \<Rightarrow> delete env KService (om_Namespace (sv_Meta svc)) (om_Name (sv_Meta svc)))"

definition ensureService ::
  "env \<Rightarrow> string \<Rightarrow> (string, string) gomap \<Rightarrow> int \<Rightarrow> (RedisCluster, unit) io" where
  "ensureService env name selector port = bnd obj (\<lambda>cluster.
     let desiredPorts = [service_port ''redis'' port] in
     bnd (attempt (get_service env (c_Namespace cluster) name)) (\<lambda>r.
     case r of
       Inr existing \<Rightarrow>
         if map_eq (sv_Selector existing) selector \<and> sv_Ports existing = desiredPorts
         then ret ()
         else patch_service env existing (existing\<lparr>sv_Selector := selector, sv_Ports := desiredPorts\<rparr>)
     | Inl e \<Rightarrow>
         if \<not> IsNotFound e then throw e
         else create env (OService
           \<lparr>sv_Meta = new_meta name (c_Namespace cluster) [(LabelCluster, c_Name cluster)],
            sv_Selector = selector, sv_Ports = desiredPorts, sv_ClusterIP = []\<rparr>)))"

definition updateLeaderServiceSelector :: "env \<Rightarrow> (RedisCluster, unit) io" where
  "updateLeaderServiceSelector env = bnd obj (\<lambda>cluster.
     let svcName = leaderServiceName (c_Name cluster) in
     bnd (wrap_err ''getting leader service'' (get_service env (c_Namespace cluster) svcName)) (\<lambda>svc.
     let desiredSelector = [(LabelCluster, c_Name cluster),
           (LabelInstance, st_CurrentPrimary (c_Status cluster))] in
     if mget [] (sv_Selector svc) LabelInstance = st_CurrentPrimary (c_Status cluster) then ret ()
     else patch_service env svc (svc\<lparr>sv_Selector := desiredSelector\<rparr>)))"

definition reconcileLeaderServiceAnnotations :: "env \<Rightarrow> (RedisCluster, unit) io" where
  "reconcileLeaderServiceAnnotations env = bnd obj (\<lambda>cluster.
     bnd (attempt (get_service env (c_Namespace cluster) (leaderServiceName (c_Name cluster)))) (\<lambda>r.
     case r of
       Inl e \<Rightarrow> if IsNotFound e then ret () else throw (Wrap ''getting leader service'' e)
     | Inr svc \<Rightarrow>
         let desiredValue = (if isReplicaModeEnabled cluster then ''true'' else []);
             m = sv_Meta svc;
             currentValue = mget [] (om_Annotations m) leaderServiceReplicaModeAnnotation
         in
         if currentValue = desiredValue \<and> (desiredValue \<noteq> [] \<or> om_Annotations m = [] \<or>
              mget [] (om_Annotations m) leaderServiceReplicaModeAnnotation = [])
         then ret ()
         else
           let annotations' = (if desiredValue = []
                 then mdel leaderServiceReplicaModeAnnotation (om_Annotations m)
                 else mput leaderServiceReplicaModeAnnotation desiredValue (om_Annotations m))
           in patch_service env svc (svc\<lparr>sv_Meta := m\<lparr>om_Annotations := annotations'\<rparr>\<rparr>)))"

definition clearLeaderServiceSelector :: "env \<Rightarrow> (RedisCluster, unit) io" where
  "clearLeaderServiceSelector env = bnd obj (\<lambda>cluster.
     bnd (attempt (get_service env (c_Namespace cluster) (leaderServiceName (c_Name cluster)))) (\<lambda>r.
     case r of
       Inl e \<Rightarrow> if IsNotFound e then ret () else throw (Wrap ''getting leader service'' e)
     | Inr svc \<Rightarrow> patch_service env svc
         (svc\<lparr>sv_Selector := [(LabelCluster, c_Name cluster), (LabelInstance, ''none'')]\<rparr>)))"

definition reconcileServices :: "env \<Rightarrow> (RedisCluster, unit) io" where
  "reconcileServices env = bnd obj (\<lambda>cluster.
     let name = c_Name cluster; ns = c_Namespace cluster;
         anySelector = [(LabelCluster, name), (LabelWorkload, LabelWorkloadData)]
     in
     if s_Mode (c_Spec cluster) = ClusterModeCluster then
       bnd (wrap_err ''cluster headless service'' (ensureClusterHeadlessService env)) (\<lambda>_.
       bnd (wrap_err ''any service'' (ensureService env (anyServiceName name) anySelector 6379)) (\<lambda>_.
       bnd (wrap_err ''deleting legacy leader service''
             (deleteServiceIfExists env ns (leaderServiceName name))) (\<lambda>_.
       bnd (wrap_err ''deleting legacy replica service''
             (deleteServiceIfExists env ns (replicaServiceName name))) (\<lambda>_.
       wrap_err ''deleting legacy sentinel service''
             (deleteServiceIfExists env ns (sentinelServiceName name))))))
     else
       bnd (wrap_err ''leader service'' (ensureService env (leaderServiceName name)
             [(LabelCluster, name), (LabelRole, LabelRolePrimary)] 6379)) (\<lambda>_.
       bnd (wrap_err ''replica service'' (ensureService env (replicaServiceName name)
             [(LabelCluster, name), (LabelRole, LabelRoleReplica)] 6379)) (\<lambda>_.
       bnd (wrap_err ''any service'' (ensureService env (anyServiceName name) anySelector 6379)) (\<lambda>_.
       bnd (if s_Mode (c_Spec cluster) = ClusterModeSentinel
            then wrap_err ''sentinel service'' (ensureService env (sentinelServiceName name)
              [(LabelCluster, name), (LabelRole, LabelRoleSentinel)] SentinelPort)
            else ret ()) (\<lambda>_.
       bnd (wrap_err ''leader service annotations'' (reconcileLeaderServiceAnnotations env)) (\<lambda>_.
       if st_CurrentPrimary (c_Status cluster) \<noteq> [] then updateLeaderServiceSelector env
       else ret ()))))))"

section \<open>Footprints\<close>

text \<open>The calls the Service operations make: reads, creations, patches and deletions of Services.\<close>

fun service_call :: "call \<Rightarrow> bool" where
  "service_call (Get k _ _) \<longleftrightarrow> k = KService"
| "service_call (Create x) \<longleftrightarrow> kind_of x = KService"
| "service_call (Patch _ base x) \<longleftrightarrow> kind_of base = KService \<and> kind_of x = KService"
| "service_call (Delete k _ _) \<longleftrightarrow> k = KService"
| "service_call _ \<longleftrightarrow> False"

lemma issues_patch_service:
  "issues service_call (patch_service env base svc)"
  by (auto simp: patch_service_def intro!: issues_intros)

lemma issues_ensureClusterHeadlessService: "issues service_call (ensureClusterHeadlessService env)"
  by (auto simp: ensureClusterHeadlessService_def Let_def intro!: issues_intros issues_patch_service)

lemma issues_deleteServiceIfExists: "issues service_call (deleteServiceIfExists env ns name)"
  by (auto simp: deleteServiceIfExists_def intro!: issues_intros)

lemma issues_ensureService: "issues service_call (ensureService env name selector port)"
  by (auto simp: ensureService_def Let_def intro!: issues_intros issues_patch_service)

lemma issues_updateLeaderServiceSelector: "issues service_call (updateLeaderServiceSelector env)"
  by (auto simp: updateLeaderServiceSelector_def Let_def intro!: issues_intros issues_patch_service)

lemma issues_reconcileLeaderServiceAnnotations:
  "issues service_call (reconcileLeaderServiceAnnotations env)"
  by (auto simp: reconcileLeaderServiceAnnotations_def Let_def intro!: issues_intros issues_patch_service)

lemma issues_clearLeaderServiceSelector: "issues service_call (clearLeaderServiceSelector env)"
  by (auto simp: clearLeaderServiceSelector_def intro!: issues_intros issues_patch_service)

lemmas issues_services = issues_ensureClusterHeadlessService issues_deleteServiceIfExists
  issues_ensureService issues_updateLeaderServiceSelector issues_reconcileLeaderServiceAnnotations
  issues_clearLeaderServiceSelector

lemma issues_reconcileServices: "issues service_call (reconcileServices env)"
  by (auto simp: reconcileServices_def Let_def intro!: issues_intros issues_services)

end
