(* ===== verification/Json_Names.thy ===== *)
theory Json_Names
  imports Prelude
begin

text \<open>
  The part of Go's \<^verbatim>\<open>encoding/json\<close> the operator uses for the fencing annotation:
  \<^verbatim>\<open>json.Marshal\<close> of a non-empty \<^verbatim>\<open>[]string\<close> and \<^verbatim>\<open>json.Unmarshal\<close> into a
  \<^verbatim>\<open>[]string\<close>. Marshal escapes the quote, the backslash, the control characters, the
  three HTML characters and the separators U+2028 and U+2029; Unmarshal accepts
  white space, \<^verbatim>\<open>null\<close>, and arrays of strings and nulls, and reports an error (here
  \<open>None\<close>) on everything else. Strings are taken to be valid UTF-8, as the strings of
  Kubernetes objects are: bytes from 0x80 on are copied, which is what Go does with them.
\<close>

section \<open>Encoding\<close>

definition hex_digit :: "nat \<Rightarrow> char" where
  "hex_digit n = (if n < 10 then char_of (48 + n) else char_of (87 + n))"

text \<open>The three bytes of U+2028 or U+2029: E2 80 A8 or E2 80 A9.\<close>

definition line_sep :: "char \<Rightarrow> string \<Rightarrow> bool" where
  "line_sep c cs \<longleftrightarrow> c = CHR 0xE2 \<and> 2 \<le> length cs \<and> cs ! 0 = CHR 0x80 \<and>
     (cs ! 1 = CHR 0xA8 \<or> cs ! 1 = CHR 0xA9)"

definition u_escape :: "nat \<Rightarrow> string" where
  "u_escape n = [CHR 0x5C, CHR ''u'', hex_digit (n div 4096), hex_digit (n div 256 mod 16),
     hex_digit (n div 16 mod 16), hex_digit (n mod 16)]"

definition escape_char :: "char \<Rightarrow> string" where
  "escape_char c =
     (let n = of_char c :: nat in
      if n = 34 \<or> n = 92 then [CHR 0x5C, c]
      else if n = 8 then [CHR 0x5C, CHR ''b'']
      else if n = 12 then [CHR 0x5C, CHR ''f'']
      else if n = 10 then [CHR 0x5C, CHR ''n'']
      else if n = 13 then [CHR 0x5C, CHR ''r'']
      else if n = 9 then [CHR 0x5C, CHR ''t'']
      else if n < 32 \<or> n = 38 \<or> n = 60 \<or> n = 62 then u_escape n
      else [c])"

fun json_escape :: "string \<Rightarrow> string" where
  "json_escape [] = []"
| "json_escape (c # cs) =
     (if line_sep c cs
      then u_escape (if cs ! 1 = CHR 0xA8 then 8232 else 8233) @ json_escape (drop 2 cs)
      else escape_char c @ json_escape cs)"

definition json_string :: "string \<Rightarrow> string" where
  "json_string s = CHR 0x22 # json_escape s @ [CHR 0x22]"

fun json_items :: "string list \<Rightarrow> string" where
  "json_items [] = []"
| "json_items [s] = json_string s"
| "json_items (s # ss) = json_string s @ CHR '','' # json_items ss"

definition marshal_names :: "string list \<Rightarrow> string" where
  "marshal_names ss = CHR ''['' # json_items ss @ [CHR '']'']"

section \<open>Decoding\<close>

definition hex_val :: "char \<Rightarrow> nat option" where
  "hex_val c = (let n = of_char c :: nat in
     if 48 \<le> n \<and> n \<le> 57 then Some (n - 48)
     else if 97 \<le> n \<and> n \<le> 102 then Some (n - 87)
     else if 65 \<le> n \<and> n \<le> 70 then Some (n - 55)
     else None)"

definition hex4 :: "string \<Rightarrow> nat option" where
  "hex4 s = (case s of
     a # b # c # d # _ \<Rightarrow>
       (case (hex_val a, hex_val b, hex_val c, hex_val d) of
          (Some w, Some x, Some y, Some z) \<Rightarrow> Some (4096 * w + 256 * x + 16 * y + z)
        | _ \<Rightarrow> None)
   | _ \<Rightarrow> None)"

definition utf8 :: "nat \<Rightarrow> string" where
  "utf8 n =
     (if n < 128 then [char_of n]
      else if n < 2048 then [char_of (192 + n div 64), char_of (128 + n mod 64)]
      else if n < 65536 then
        [char_of (224 + n div 4096), char_of (128 + n div 64 mod 64), char_of (128 + n mod 64)]
      else [char_of (240 + n div 262144), char_of (128 + n div 4096 mod 64),
            char_of (128 + n div 64 mod 64), char_of (128 + n mod 64)])"

definition short_escape :: "char \<Rightarrow> char option" where
  "short_escape e =
     (if e = CHR 0x22 \<or> e = CHR 0x5C \<or> e = CHR ''/'' then Some e
      else if e = CHR ''b'' then Some (CHR 0x08)
      else if e = CHR ''f'' then Some (CHR 0x0C)
      else if e = CHR ''n'' then Some (CHR 0x0A)
      else if e = CHR ''r'' then Some (CHR 0x0D)
      else if e = CHR ''t'' then Some (CHR 0x09)
      else None)"

definition prepend :: "'a list \<Rightarrow> ('a list \<times> 'b) option \<Rightarrow> ('a list \<times> 'b) option" where
  "prepend xs r = (case r of None \<Rightarrow> None | Some (ys, rest) \<Rightarrow> Some (xs @ ys, rest))"

text \<open>A low surrogate escape at the head of the text.\<close>

definition low_surrogate :: "string \<Rightarrow> nat option" where
  "low_surrogate s = (case s of
     a # b # s' \<Rightarrow>
       (if a = CHR 0x5C \<and> b = CHR ''u'' then
          (case hex4 s' of
             Some w \<Rightarrow> if 56320 \<le> w \<and> w < 57344 then Some w else None
           | None \<Rightarrow> None)
        else None)
   | _ \<Rightarrow> None)"

text \<open>The rest of a string literal after its opening quote: its value and what follows.\<close>

fun json_unquote :: "string \<Rightarrow> (string \<times> string) option" where
  "json_unquote [] = None"
| "json_unquote (c # cs) =
     (if c = CHR 0x22 then Some ([], cs)
      else if c = CHR 0x5C then
        (if cs = [] then None
         else if hd cs = CHR ''u'' then
           (case hex4 (tl cs) of
              None \<Rightarrow> None
            | Some v \<Rightarrow>
                if 55296 \<le> v \<and> v < 57344 then
                  (case (if v < 56320 then low_surrogate (drop 5 cs) else None) of
                     Some w \<Rightarrow> prepend (utf8 (65536 + (v - 55296) * 1024 + (w - 56320)))
                                  (json_unquote (drop 11 cs))
                   | None \<Rightarrow> prepend (utf8 65533) (json_unquote (drop 5 cs)))
                else prepend (utf8 v) (json_unquote (drop 5 cs)))
         else (case short_escape (hd cs) of
                 None \<Rightarrow> None
               | Some ch \<Rightarrow> prepend [ch] (json_unquote (tl cs))))
      else if (of_char c :: nat) < 32 then None
      else prepend [c] (json_unquote cs))"

definition json_ws :: "char \<Rightarrow> bool" where
  "json_ws c \<longleftrightarrow> of_char c \<in> {9, 10, 13, 32 :: nat}"

abbreviation skip_ws :: "string \<Rightarrow> string" where
  "skip_ws \<equiv> dropWhile json_ws"

text \<open>An array element that can be stored in a string: a string, or null for the zero value.\<close>

definition json_element :: "string \<Rightarrow> (string \<times> string) option" where
  "json_element s =
     (case skip_ws s of
        [] \<Rightarrow> None
      | c # cs \<Rightarrow>
          if c = CHR 0x22 then json_unquote cs
          else if take 4 (c # cs) = ''null'' then Some ([], drop 4 (c # cs))
          else None)"

lemma prepend_eq_Some:
  "prepend xs r = Some (v, rest) \<longleftrightarrow> (\<exists>ys. r = Some (ys, rest) \<and> v = xs @ ys)"
  by (cases r) (auto simp: prepend_def)

lemma json_unquote_suffix:
  assumes "json_unquote (c # cs) = Some (v, rest)"
  shows "rest = cs \<or> (\<exists>k v'. json_unquote (drop k cs) = Some (v', rest))"
proof (cases "c = CHR 0x22")
  case True
  with assms show ?thesis by simp
next
  case nq: False
  have drops: "\<exists>k v'. json_unquote (drop k cs) = Some (v', rest)"
    if "prepend xs (json_unquote (drop k cs)) = Some (v, rest)" for xs k
    using that by (auto simp: prepend_eq_Some)
  show ?thesis
    using assms nq drops [of _ 0] drops [of _ "Suc 0"] drops [of _ 5] drops [of _ 11]
    by (simp add: drop_Suc split: if_splits option.splits)
qed

lemma length_json_unquote: "json_unquote s = Some (v, rest) \<Longrightarrow> length rest < length s"
proof (induction s arbitrary: v rule: length_induct)
  case (1 s)
  then obtain c cs where s: "s = c # cs" by (cases s) auto
  from json_unquote_suffix [OF "1.prems" [unfolded s]] show ?case
  proof
    assume "\<exists>k v'. json_unquote (drop k cs) = Some (v', rest)"
    then obtain k v' where k: "json_unquote (drop k cs) = Some (v', rest)" by blast
    have "length (drop k cs) < length s" by (simp add: s)
    with k "1.IH" have "length rest < length (drop k cs)" by blast
    then show ?thesis by (simp add: s)
  qed (simp add: s)
qed

lemma length_json_element: "json_element s = Some (v, rest) \<Longrightarrow> length rest < length s"
proof -
  assume e: "json_element s = Some (v, rest)"
  have le: "length (skip_ws s) \<le> length s" by (rule length_dropWhile_le)
  from e have "length rest < length (skip_ws s)"
    by (auto simp: json_element_def split: list.splits if_splits dest: length_json_unquote)
  with le show ?thesis by simp
qed

function json_elements :: "string \<Rightarrow> (string list \<times> string) option" where
  "json_elements s =
     (case json_element s of
        None \<Rightarrow> None
      | Some (v, rest) \<Rightarrow>
          (case skip_ws rest of
             [] \<Rightarrow> None
           | c # cs \<Rightarrow>
               if c = CHR '']'' then Some ([v], cs)
               else if c = CHR '','' then prepend [v] (json_elements cs)
               else None))"
  by pat_completeness auto
termination
proof (relation "measure length", goal_cases)
  case 1
  then show ?case by simp
next
  case (2 s p v rest c cs)
  from 2 have "length rest < length s" by (auto intro: length_json_element)
  moreover from 2 have "length (c # cs) \<le> length rest"
    by (metis length_dropWhile_le)
  ultimately show ?case by simp
qed

declare json_elements.simps [simp del]

definition unmarshal_names :: "string \<Rightarrow> string list option" where
  "unmarshal_names s =
     (let s' = skip_ws s in
      if take 4 s' = ''null'' then (if skip_ws (drop 4 s') = [] then Some [] else None)
      else if s' \<noteq> [] \<and> hd s' = CHR ''['' then
        (let body = skip_ws (tl s') in
         if body \<noteq> [] \<and> hd body = CHR '']''
         then (if skip_ws (tl body) = [] then Some [] else None)
         else (case json_elements (tl s') of
                 Some (vs, rest) \<Rightarrow> if skip_ws rest = [] then Some vs else None
               | None \<Rightarrow> None))
      else None)"


section \<open>Round trip\<close>

lemma hex_val_digit: "n < 16 \<Longrightarrow> hex_val (hex_digit n) = Some n"
  by (auto simp: hex_val_def hex_digit_def Let_def)

lemma hex4_u_escape:
  "n < 65536 \<Longrightarrow> hex4 (drop 2 (u_escape n) @ rest) = Some n"
proof -
  assume n: "n < 65536"
  have "n div 4096 < 16" using n by (simp add: less_mult_imp_div_less)
  moreover have "4096 * (n div 4096) + 256 * (n div 256 mod 16) + 16 * (n div 16 mod 16) + n mod 16 = n"
  proof -
    have "n div 16 div 16 = n div 256" "n div 256 div 16 = n div 4096" by (simp_all flip: div_mult2_eq)
    moreover have "4096 * e + 256 * f + 16 * d + b = x"
      if "a * 16 + b = x" "c * 16 + d = a" "e * 16 + f = c" for a b c d e f x :: nat
      using that by simp
    ultimately show ?thesis by (metis div_mult_mod_eq)
  qed
  ultimately show ?thesis by (simp add: hex4_def u_escape_def hex_val_digit)
qed

lemma json_unquote_plain:
  assumes "c \<noteq> CHR 0x22" "c \<noteq> CHR 0x5C" "\<not> (of_char c :: nat) < 32"
  shows "json_unquote (c # cs) = prepend [c] (json_unquote cs)"
  using assms by simp

lemma json_unquote_short:
  assumes "short_escape e = Some ch"
  shows "json_unquote (CHR 0x5C # e # cs) = prepend [ch] (json_unquote cs)"
proof -
  have "e \<noteq> CHR ''u''" using assms by (auto simp: short_escape_def)
  with assms show ?thesis by simp
qed

lemma json_unquote_u:
  assumes "n < 55296"
  shows "json_unquote (u_escape n @ cs) = prepend (utf8 n) (json_unquote cs)"
proof -
  have "hex4 (drop 2 (u_escape n) @ cs) = Some n" using assms by (intro hex4_u_escape) simp
  with assms show ?thesis by (simp add: u_escape_def)
qed

lemmas json_unquote_steps = json_unquote_plain json_unquote_short json_unquote_u

declare json_unquote.simps(2) [simp del]

lemma line_sep_split:
  assumes "line_sep c cs"
  shows "c # cs = utf8 (if cs ! 1 = CHR 0xA8 then 8232 else 8233) @ drop 2 cs"
proof -
  from assms obtain a b ds where "cs = a # b # ds"
    by (cases cs; cases "tl cs") (auto simp: line_sep_def)
  moreover have "utf8 8232 = [CHR 0xE2, CHR 0x80, CHR 0xA8]" "utf8 8233 = [CHR 0xE2, CHR 0x80, CHR 0xA9]"
    by (simp_all add: utf8_def char_of_eq_iff)
  ultimately show ?thesis using assms by (auto simp: line_sep_def)
qed

lemma json_unquote_escape_char:
  "json_unquote (escape_char c @ rest) = prepend [c] (json_unquote rest)"
proof -
  define n where "n = (of_char c :: nat)"
  have c: "c = char_of n" by (simp add: n_def)
  note e = escape_char_def [of c, folded n_def, unfolded Let_def]
  consider "n \<in> {34, 92}" | "n = 8" | "n = 12" | "n = 10" | "n = 13" | "n = 9"
    | (u) "n \<notin> {34, 92, 8, 12, 10, 13, 9}" "n < 32 \<or> n = 38 \<or> n = 60 \<or> n = 62"
    | (plain) "n \<notin> {34, 92, 8, 12, 10, 13, 9}" "\<not> (n < 32 \<or> n = 38 \<or> n = 60 \<or> n = 62)"
    by blast
  then show ?thesis
  proof cases
    case 1
    then have "c = CHR 0x22 \<or> c = CHR 0x5C" by (auto simp: c char_of_eq_iff)
    then have "short_escape c = Some c" by (auto simp: short_escape_def)
    with 1 show ?thesis by (auto simp: e json_unquote_short)
  next
    case u
    have "utf8 n = [c]" using u c by (auto simp: utf8_def)
    with u show ?thesis by (auto simp: e json_unquote_u)
  next
    case plain
    then have "c \<noteq> CHR 0x22" "c \<noteq> CHR 0x5C" "\<not> (of_char c :: nat) < 32"
      by (auto simp: n_def)
    with plain show ?thesis by (simp add: e json_unquote_plain)
  next
    case 2
    then have "c = CHR 0x08" by (simp add: c char_of_eq_iff)
    then show ?thesis by (simp add: escape_char_def json_unquote_short short_escape_def)
  next
    case 3
    then have "c = CHR 0x0C" by (simp add: c char_of_eq_iff)
    then show ?thesis by (simp add: escape_char_def json_unquote_short short_escape_def)
  next
    case 4
    then have "c = CHR 0x0A" by (simp add: c char_of_eq_iff)
    then show ?thesis by (simp add: escape_char_def json_unquote_short short_escape_def)
  next
    case 5
    then have "c = CHR 0x0D" by (simp add: c char_of_eq_iff)
    then show ?thesis by (simp add: escape_char_def json_unquote_short short_escape_def)
  next
    case 6
    then have "c = CHR 0x09" by (simp add: c char_of_eq_iff)
    then show ?thesis by (simp add: escape_char_def json_unquote_short short_escape_def)
  qed
qed

lemma json_unquote_escape:
  "json_unquote (json_escape s @ CHR 0x22 # rest) = Some (s, rest)"
proof (induction s rule: json_escape.induct)
  case 1
  then show ?case by (simp add: json_unquote.simps(2))
next
  case (2 c cs)
  show ?case
  proof (cases "line_sep c cs")
    case True
    let ?u = "if cs ! 1 = CHR 0xA8 then 8232 else 8233 :: nat"
    have "?u < 55296" by simp
    then have "json_unquote (u_escape ?u @ json_escape (drop 2 cs) @ CHR 0x22 # rest) =
        Some (utf8 ?u @ drop 2 cs, rest)"
      using 2(1) [OF True] by (simp only: json_unquote_u) (simp add: prepend_def)
    then show ?thesis using True by (simp only: json_escape.simps if_True append_assoc line_sep_split [OF True, symmetric])
  next
    case False
    with 2 show ?thesis by (simp add: json_unquote_escape_char prepend_def)
  qed
qed

lemma json_element_string:
  "json_element (json_string s @ rest) = Some (s, rest)"
  by (simp add: json_element_def json_string_def json_ws_def json_unquote_escape)

lemma json_elements_items:
  "ss \<noteq> [] \<Longrightarrow> json_elements (json_items ss @ CHR '']'' # rest) = Some (ss, rest)"
proof (induction ss rule: json_items.induct)
  case (2 s)
  then show ?case by (simp add: json_elements.simps [of "json_string s @ _"] json_element_string json_ws_def)
next
  case (3 s s' ss)
  then show ?case
    by (simp add: json_elements.simps [of "json_string s @ _"] json_element_string json_ws_def prepend_def)
qed simp

lemma hd_json_items: "ss \<noteq> [] \<Longrightarrow> \<exists>r. json_items ss = CHR 0x22 # r"
  by (cases ss rule: json_items.cases) (auto simp: json_string_def)

lemma unmarshal_marshal [simp]: "unmarshal_names (marshal_names ss) = Some ss"
proof (cases "ss = []")
  case True
  then show ?thesis by (simp add: unmarshal_names_def marshal_names_def json_ws_def)
next
  case False
  then obtain r where r: "json_items ss = CHR 0x22 # r" using hd_json_items by blast
  have "json_elements (json_items ss @ [CHR '']'']) = Some (ss, [])"
    using False by (rule json_elements_items)
  then show ?thesis by (simp add: unmarshal_names_def marshal_names_def json_ws_def r)
qed

interpretation names_json: codec marshal_names unmarshal_names "\<lambda>_. True"
  by unfold_locales simp

end
