(* ===== verification/Fencing.thy ===== *)
theory Fencing
  imports Services Json_Names Sample
begin

text \<open>
  Fencing and failover: \<^verbatim>\<open>fencing.go\<close>, the requests to instance managers
  (\<^verbatim>\<open>promoteInstance\<close>, and \<^verbatim>\<open>postClusterJSON\<close> of \<^verbatim>\<open>cluster_bootstrap.go\<close>), and the coordinated
  handover of a shard in cluster mode (\<^verbatim>\<open>cluster_handover.go\<close>). The set of fenced pods lives
  in an annotation of the RedisCluster as a JSON list; the locale \<open>fence_store\<close> states what the
  operations rely on of that store, and the annotation encoding is shown to be one.
\<close>

section \<open>Requests to instance managers\<close>

abbreviation promote_path :: string where "promote_path \<equiv> ''/v1/promote''"

definition reply_text :: "reply \<Rightarrow> string" where
  "reply_text r = (case r of TextReply s \<Rightarrow> s | _ \<Rightarrow> [])"

definition instance_url :: "string \<Rightarrow> string \<Rightarrow> string" where
  "instance_url podIP endpoint = ''http://'' @ podIP @ '':8080'' @ endpoint"

definition promoteInstance :: "env \<Rightarrow> string \<Rightarrow> ('s, unit) io" where
  "promoteInstance env podIP =
     (let url = instance_url podIP promote_path in
      bnd (http env ''POST'' podIP promote_path NoBody) (\<lambda>r.
      case r of
        Inl e \<Rightarrow> throw (Wrap (''POST '' @ url) (Err e))
      | Inr (status, _) \<Rightarrow>
          if status \<noteq> 200 then throw (Err (''POST '' @ url @ '' returned '' @ itoa status))
          else ret ()))"

definition postClusterJSON :: "env \<Rightarrow> string \<Rightarrow> string \<Rightarrow> payload \<Rightarrow> ('s, unit) io" where
  "postClusterJSON env podIP endpoint body =
     (if podIP = [] then throw (Err ''pod IP is empty'')
      else
        let url = instance_url podIP endpoint in
        bnd (http env ''POST'' podIP endpoint body) (\<lambda>r.
        case r of
          Inl e \<Rightarrow> throw (Wrap (''POST '' @ url) (Err e))
        | Inr (status, answer) \<Rightarrow>
            if status \<noteq> 200
            then throw (HttpStatus url status (trimSpace (take 512 (reply_text answer))))
            else ret ()))"

section \<open>The fencing annotation\<close>

definition getFencedPods :: "RedisCluster \<Rightarrow> string list" where
  "getFencedPods cluster =
     (case map_of (c_Annotations cluster) FencingAnnotationKey of
        None \<Rightarrow> []
      | Some val \<Rightarrow>
          if val = [] then []
          else (case unmarshal_names val of None \<Rightarrow> [] | Some pods \<Rightarrow> pods))"

text \<open>The mutation of \<^verbatim>\<open>setFencedPods\<close> between taking the patch base and sending the patch.\<close>

definition with_fences :: "string list \<Rightarrow> RedisCluster \<Rightarrow> RedisCluster" where
  "with_fences pods cluster = cluster\<lparr>c_Annotations :=
     (if pods = [] then mdel FencingAnnotationKey (c_Annotations cluster)
      else mput FencingAnnotationKey (marshal_names pods) (c_Annotations cluster))\<rparr>"

definition setFencedPods :: "env \<Rightarrow> string list \<Rightarrow> (RedisCluster, unit) io" where
  "setFencedPods env pods = patch_cluster env False (with_fences pods)"

definition drop_handover :: "RedisCluster \<Rightarrow> RedisCluster" where
  "drop_handover cluster =
     cluster\<lparr>c_Annotations := mdel ClusterHandoverAnnotation (c_Annotations cluster)\<rparr>"

definition setFence :: "env \<Rightarrow> string \<Rightarrow> (RedisCluster, unit) io" where
  "setFence env podName =
     bnd obj (\<lambda>cluster.
     bnd (if fst (ClusterHandoverPods cluster) = podName
          then wrap_err ''escalating planned fence'' (patch_cluster env False drop_handover)
          else ret ()) (\<lambda>_.
     bnd obj (\<lambda>cluster.
     let fenced = getFencedPods cluster in
     if podName \<in> set fenced then ret ()
     else
       bnd (setFencedPods env (fenced @ [podName])) (\<lambda>_.
       eventf Warning ''FencingSet'' (''Pod '' @ podName @ '' has been fenced'')))))"

definition clearFence :: "env \<Rightarrow> string \<Rightarrow> (RedisCluster, unit) io" where
  "clearFence env podName =
     bnd obj (\<lambda>cluster.
     let remaining = filter (\<lambda>p. p \<noteq> podName) (getFencedPods cluster) in
     bnd (setFencedPods env remaining) (\<lambda>_.
     eventf Normal ''FencingCleared'' (''Fence cleared for pod '' @ podName)))"

section \<open>Failover\<close>

text \<open>
  The best candidate so far and its offset, folded over the status map in iteration order.
\<close>

definition candidate_step ::
  "string \<Rightarrow> string \<times> int \<Rightarrow> string \<times> InstanceStatus \<Rightarrow> string \<times> int" where
  "candidate_step primary best entry =
     (let (name, status) = entry in
      if name = primary then best
      else if \<not> is_Connected status then best
      else if is_ReplicationOffset status > snd best then (name, is_ReplicationOffset status)
      else best)"

definition selectFailoverCandidate :: "RedisCluster \<Rightarrow> string" where
  "selectFailoverCandidate cluster =
     fst (foldl (candidate_step (st_CurrentPrimary (c_Status cluster))) ([], -1)
       (st_InstancesStatus (c_Status cluster)))"

definition set_primary :: "string \<Rightarrow> string \<Rightarrow> RedisCluster \<Rightarrow> RedisCluster" where
  "set_primary name phase cluster =
     cluster\<lparr>c_Status := (c_Status cluster)\<lparr>st_CurrentPrimary := name, st_Phase := phase\<rparr>\<rparr>"

text \<open>Steps 2 to 6 of the failover, once the former primary is fenced.\<close>

definition promote_candidate :: "env \<Rightarrow> string \<Rightarrow> (RedisCluster, unit) io" where
  "promote_candidate env formerPrimary =
     bnd obj (\<lambda>cluster.
     let candidate = selectFailoverCandidate cluster in
     if candidate = [] then throw (Err ''no suitable failover candidate found'')
     else
       bnd (wrap_err ''listing pods for failover'' (listClusterPods env cluster)) (\<lambda>pods.
       bnd (case find (\<lambda>pod. p_Name pod = candidate \<and> p_IP pod \<noteq> []) pods of
              None \<Rightarrow> ret ()
            | Some pod \<Rightarrow> wrap_err (''promoting '' @ candidate) (promoteInstance env (p_IP pod))) (\<lambda>_.
       bnd (wrap_err ''updating status after failover''
             (patch_status env (set_primary candidate ClusterPhaseFailingOver))) (\<lambda>_.
       bnd (wrap_err ''updating leader service after failover'' (updateLeaderServiceSelector env)) (\<lambda>_.
       bnd (wrap_err (''clearing fence on '' @ formerPrimary) (clearFence env formerPrimary)) (\<lambda>_.
       bnd (eventf Normal ''FailoverCompleted'' (''Failover completed: new primary is '' @ candidate @
             '' (former: '' @ formerPrimary @ '')'')) (\<lambda>_.
       metric ''failover'')))))))"

definition failover :: "env \<Rightarrow> (RedisCluster, unit) io" where
  "failover env =
     bnd obj (\<lambda>cluster.
     let formerPrimary = st_CurrentPrimary (c_Status cluster) in
     bnd (eventf Warning ''FailoverStarted'' (''Failover initiated, former primary: '' @ formerPrimary)) (\<lambda>_.
     bnd (wrap_err (''fencing former primary '' @ formerPrimary) (setFence env formerPrimary)) (\<lambda>_.
     promote_candidate env formerPrimary)))"

section \<open>Coordinated handover in cluster mode\<close>

definition plan_handover :: "string \<Rightarrow> string \<Rightarrow> RedisCluster \<Rightarrow> RedisCluster" where
  "plan_handover owner heir cluster =
     (let fenced = getFencedPods cluster in
      cluster\<lparr>c_Annotations :=
        mput ClusterHandoverAnnotation (owner @ ''/'' @ heir)
          (mput FencingAnnotationKey (marshal_names (fenced @ [owner])) (c_Annotations cluster))\<rparr>)"

definition beginClusterHandover :: "env \<Rightarrow> string \<Rightarrow> string \<Rightarrow> (RedisCluster, unit) io" where
  "beginClusterHandover env owner heir =
     bnd obj (\<lambda>cluster.
     if mget [] (c_Annotations cluster) ClusterHandoverAnnotation \<noteq> []
     then throw (Err ''another cluster handover is pending'')
     else if owner \<in> set (getFencedPods cluster) \<or> heir \<in> set (getFencedPods cluster)
     then throw (Err (''cannot hand over between hard-fenced participants '' @ owner @ '' and '' @ heir))
     else
       bnd (wrap_err (''fencing handover primary '' @ owner)
             (patch_cluster env True (plan_handover owner heir))) (\<lambda>_.
       eventf Normal ''FencingSet'' (''Fenced '' @ owner @ '' for coordinated handover to '' @ heir)))"

definition end_handover :: "string \<Rightarrow> RedisCluster \<Rightarrow> RedisCluster" where
  "end_handover owner cluster =
     drop_handover (with_fences (filter (\<lambda>name. name \<noteq> owner) (getFencedPods cluster)) cluster)"

definition finishClusterHandover :: "env \<Rightarrow> string \<Rightarrow> (RedisCluster, unit) io" where
  "finishClusterHandover env owner =
     bnd (wrap_err ''clearing handover fence'' (patch_cluster env True (end_handover owner))) (\<lambda>_.
     eventf Normal ''FencingCleared'' (''Cleared coordinated handover fence on '' @ owner))"

text \<open>The last pod of a name in a listing, as the loop over the pods leaves it.\<close>

definition last_pod :: "string \<Rightarrow> Pod list \<Rightarrow> Pod option" where
  "last_pod name pods = find (\<lambda>p. p_Name p = name) (rev pods)"

text \<open>One step of a handover whose participants exist, with the owner fenced and the heir not.\<close>

definition handover_step ::
  "env \<Rightarrow> string \<Rightarrow> string \<Rightarrow> Pod \<Rightarrow> Pod \<Rightarrow> (string, InstanceStatus) gomap \<Rightarrow> (RedisCluster, bool) io" where
  "handover_step env owner heir ownerPod heirPod statuses =
     (let source = mget zero_InstanceStatus statuses owner;
          target = mget zero_InstanceStatus statuses heir
      in
      if \<not> is_Connected source \<or> \<not> is_Connected target then ret False
      else if is_Role target = ''master'' \<and> is_SlotsServed target \<noteq> [] \<and>
         is_Role source = ''slave'' \<and> is_PrimaryNodeID source = is_NodeID target \<and>
         is_SlotsServed source = []
      then bnd (finishClusterHandover env owner) (\<lambda>_. ret False)
      else if is_Role source \<noteq> ''master'' \<or> is_Role target \<noteq> ''slave'' \<or>
         is_PrimaryNodeID target \<noteq> is_NodeID source \<or> is_MasterLinkStatus target \<noteq> ''up'' \<or>
         p_IP heirPod = [] then ret False
      else if isPodRunningAndReady ownerPod then ret False
      else
        bnd (wrap_err (''promoting '' @ heir @ '' over fenced primary '' @ owner)
              (postClusterJSON env (p_IP heirPod) promote_path EmptyObject)) (\<lambda>_.
        bnd (eventf Normal ''ShardHandover''
              (''Requested coordinated promotion of '' @ heir @ '' over '' @ owner)) (\<lambda>_.
        ret False)))"

definition resumeClusterHandover ::
  "env \<Rightarrow> Pod list \<Rightarrow> (string, InstanceStatus) gomap \<Rightarrow> (RedisCluster, bool) io" where
  "resumeClusterHandover env pods statuses =
     bnd obj (\<lambda>cluster.
     let (owner, heir) = ClusterHandoverPods cluster;
         fenced = getFencedPods cluster;
         finish = bnd (finishClusterHandover env owner) (\<lambda>_. ret False)
     in
     if owner = [] then throw (Err ''invalid cluster handover annotation'')
     else
       case last_pod owner pods of
         None \<Rightarrow> finish
       | Some ownerPod \<Rightarrow>
           (case last_pod heir pods of
              None \<Rightarrow> finish
            | Some heirPod \<Rightarrow>
                if owner \<notin> set fenced \<or> heir \<in> set fenced then finish
                else handover_step env owner heir ownerPod heirPod statuses))"

section \<open>The store of fenced pods\<close>

locale fence_store =
  fixes fences :: "'c \<Rightarrow> string list" and put :: "string list \<Rightarrow> 'c \<Rightarrow> 'c"
  assumes fences_put: "fences (put ps c) = ps"
begin

definition add :: "string \<Rightarrow> 'c \<Rightarrow> 'c" where
  "add p c = (if p \<in> set (fences c) then c else put (fences c @ [p]) c)"

definition remove :: "string \<Rightarrow> 'c \<Rightarrow> 'c" where
  "remove p c = put (filter (\<lambda>q. q \<noteq> p) (fences c)) c"

lemma set_fences_add: "set (fences (add p c)) = insert p (set (fences c))"
  by (auto simp: add_def fences_put)

lemma set_fences_remove: "set (fences (remove p c)) = set (fences c) - {p}"
  by (auto simp: remove_def fences_put)

lemma distinct_fences_add: "distinct (fences c) \<Longrightarrow> distinct (fences (add p c))"
  by (simp add: add_def fences_put)

lemma fences_remove_add: "p \<notin> set (fences c) \<Longrightarrow> fences (remove p (add p c)) = fences c"
  by (simp add: add_def remove_def fences_put) (induction "fences c"; auto simp: filter_id_conv)

end

lemma marshal_names_nonempty [simp]: "marshal_names ps \<noteq> []"
  by (simp add: marshal_names_def)

lemma getFencedPods_mput_json [simp]:
  "getFencedPods (c\<lparr>c_Annotations := mput FencingAnnotationKey (marshal_names ps) m\<rparr>) = ps"
  by (simp add: getFencedPods_def amap.look_store_same)

interpretation annotation: fence_store getFencedPods with_fences
  by unfold_locales (simp add: with_fences_def getFencedPods_def amap.look_store_same amap.look_erase_same)

lemma fences_drop_handover [simp]: "getFencedPods (drop_handover c) = getFencedPods c"
  by (simp add: drop_handover_def getFencedPods_def amap.look_erase_other)

lemma handover_drop_handover [simp]: "ClusterHandoverPods (drop_handover c) = ([], [])"
  by (simp add: drop_handover_def ClusterHandoverPods_def mget_mdel cut_def)

lemma handover_with_fences [simp]: "ClusterHandoverPods (with_fences ps c) = ClusterHandoverPods c"
  by (simp add: with_fences_def ClusterHandoverPods_def mget_mdel mget_mput)

lemma status_with_fences [simp]:
  "c_Status (with_fences ps c) = c_Status c" "c_Spec (with_fences ps c) = c_Spec c"
  "c_Name (with_fences ps c) = c_Name c" "c_Namespace (with_fences ps c) = c_Namespace c"
  by (simp_all add: with_fences_def)

lemma status_drop_handover [simp]:
  "c_Status (drop_handover c) = c_Status c" "c_Spec (drop_handover c) = c_Spec c"
  "c_Name (drop_handover c) = c_Name c" "c_Namespace (drop_handover c) = c_Namespace c"
  by (simp_all add: drop_handover_def)

lemma fences_plan_handover [simp]:
  "getFencedPods (plan_handover owner heir c) = getFencedPods c @ [owner]"
  by (simp add: plan_handover_def getFencedPods_def Let_def amap.look_store_same amap.look_store_other)

lemma fences_end_handover [simp]:
  "getFencedPods (end_handover owner c) = filter (\<lambda>name. name \<noteq> owner) (getFencedPods c)"
  by (simp add: end_handover_def annotation.fences_put)

lemma handover_end_handover [simp]: "ClusterHandoverPods (end_handover owner c) = ([], [])"
  by (simp add: end_handover_def)

lemma handover_plan_handover:
  assumes "s_Mode (c_Spec c) = ClusterModeCluster" "owner \<noteq> []" "heir \<noteq> []" "owner \<noteq> heir"
    and "CHR ''/'' \<notin> set owner" "CHR ''/'' \<notin> set heir"
  shows "ClusterHandoverPods (plan_handover owner heir c) = (owner, heir)"
  using assms
  by (simp add: ClusterHandoverPods_iff plan_handover_def Let_def mget_mput)

section \<open>The failover candidate\<close>

definition eligible :: "string \<Rightarrow> string \<times> InstanceStatus \<Rightarrow> bool" where
  "eligible primary entry \<longleftrightarrow>
     fst entry \<noteq> primary \<and> is_Connected (snd entry) \<and> 0 \<le> is_ReplicationOffset (snd entry)"

lemma candidate_fold:
  assumes "-1 \<le> snd best"
  shows "let (n, k) = foldl (candidate_step primary) best entries in
    snd best \<le> k \<and> (\<forall>e \<in> set entries. eligible primary e \<longrightarrow> is_ReplicationOffset (snd e) \<le> k) \<and>
    ((n, k) = best \<or> (\<exists>e \<in> set entries. eligible primary e \<and> fst e = n \<and> is_ReplicationOffset (snd e) = k))"
  using assms
proof (induction entries arbitrary: best)
  case (Cons e entries)
  let ?best = "candidate_step primary best e"
  have step: "snd best \<le> snd ?best" "eligible primary e \<Longrightarrow> is_ReplicationOffset (snd e) \<le> snd ?best"
    "?best = best \<or> eligible primary e \<and> ?best = (fst e, is_ReplicationOffset (snd e))"
    using Cons.prems by (auto simp: candidate_step_def eligible_def split: prod.splits)
  then have "-1 \<le> snd ?best" using Cons.prems by simp
  from Cons.IH [OF this] step show ?case
    by (auto simp: split_beta Let_def dest: order_trans)
qed auto

lemma selectFailoverCandidate_best:
  assumes "e \<in> set (st_InstancesStatus (c_Status c))" "eligible (st_CurrentPrimary (c_Status c)) e"
  obtains s where "(selectFailoverCandidate c, s) \<in> set (st_InstancesStatus (c_Status c))"
    "eligible (st_CurrentPrimary (c_Status c)) (selectFailoverCandidate c, s)"
    "\<And>e'. e' \<in> set (st_InstancesStatus (c_Status c)) \<Longrightarrow>
       eligible (st_CurrentPrimary (c_Status c)) e' \<Longrightarrow>
       is_ReplicationOffset (snd e') \<le> is_ReplicationOffset s"
proof -
  let ?p = "st_CurrentPrimary (c_Status c)" and ?es = "st_InstancesStatus (c_Status c)"
  obtain n k where nk: "foldl (candidate_step ?p) ([], -1) ?es = (n, k)" by (cases "foldl (candidate_step ?p) ([], -1) ?es")
  with candidate_fold [of "([], -1)" ?p ?es]
  have all: "\<forall>e \<in> set ?es. eligible ?p e \<longrightarrow> is_ReplicationOffset (snd e) \<le> k"
    and some: "(n, k) = ([], -1) \<or> (\<exists>e \<in> set ?es. eligible ?p e \<and> fst e = n \<and> is_ReplicationOffset (snd e) = k)"
    by simp_all
  have "0 \<le> k" using all assms by (force simp: eligible_def)
  with some obtain e' where "e' \<in> set ?es" "eligible ?p e'" "fst e' = n" "is_ReplicationOffset (snd e') = k"
    by auto
  moreover have "selectFailoverCandidate c = n" using nk by (simp add: selectFailoverCandidate_def)
  ultimately show thesis using all by (intro that [of "snd e'"]) auto
qed

lemma selectFailoverCandidate_none:
  assumes "\<not> (\<exists>e \<in> set (st_InstancesStatus (c_Status c)). eligible (st_CurrentPrimary (c_Status c)) e)"
  shows "selectFailoverCandidate c = []"
proof -
  let ?p = "st_CurrentPrimary (c_Status c)" and ?es = "st_InstancesStatus (c_Status c)"
  obtain n k where nk: "foldl (candidate_step ?p) ([], -1) ?es = (n, k)" by (cases "foldl (candidate_step ?p) ([], -1) ?es")
  with candidate_fold [of "([], -1)" ?p ?es] assms have "n = []" by auto
  with nk show ?thesis by (simp add: selectFailoverCandidate_def)
qed

section \<open>Fencing comes first\<close>

definition is_promote :: "call \<Rightarrow> bool" where
  "is_promote c = (case c of Http meth _ path _ \<Rightarrow> meth = ''POST'' \<and> path = promote_path | _ \<Rightarrow> False)"

text \<open>
  What the operator knows of a fence: the object it started from carries it, the server sent
  back an object that carries it, or the server accepted a patch to an object that does.
\<close>

definition shows_fence :: "string \<Rightarrow> call \<times> bool \<Rightarrow> bool" where
  "shows_fence p x = (case x of
     (Observed (OCluster c), _) \<Rightarrow> p \<in> set (getFencedPods c)
   | (Patch _ _ (OCluster c), True) \<Rightarrow> p \<in> set (getFencedPods c)
   | _ \<Rightarrow> False)"

definition known_fenced :: "string \<Rightarrow> RedisCluster \<Rightarrow> log \<Rightarrow> bool" where
  "known_fenced p c0 l \<longleftrightarrow> p \<in> set (getFencedPods c0) \<or> (\<exists>x \<in> set l. shows_fence p x)"

lemma known_fenced_append: "known_fenced p c l \<Longrightarrow> known_fenced p c (l @ l')"
  by (auto simp: known_fenced_def)

lemma issues_setFence: "issues (\<lambda>c. \<not> is_promote c) (setFence env p)"
  by (auto simp: setFence_def setFencedPods_def is_promote_def Let_def intro!: issues_intros)

text \<open>After a successful \<^verbatim>\<open>setFence\<close> the fence is known.\<close>

lemma wp_setFence:
  "wp (setFence env p) (\<lambda>_ w'. \<exists>l. w_log w' = w_log w @ l \<and> known_fenced p (w_obj w) l) (\<lambda>_ _. True) w"
  by (simp add: setFence_def setFencedPods_def patch_cluster_def wp_simps Let_def logged_def
        annotation.fences_put shows_fence_def known_fenced_def split: sum.splits object.splits)

text \<open>A promotion anywhere in a log that begins with fencing steps finds the fence known.\<close>

lemma promote_after_fence:
  assumes "l1 @ l2 = pre @ (c, ok) # post" "is_promote c"
    and "\<forall>x \<in> set l1. \<not> is_promote (fst x)" "known_fenced p c0 l1"
  shows "known_fenced p c0 pre"
proof -
  from assms(1) consider us where "l1 = pre @ us" "us @ l2 = (c, ok) # post"
    | us where "l1 @ us = pre" by (auto simp: append_eq_append_conv2)
  then show ?thesis
  proof cases
    case 1
    then show ?thesis using assms by (cases us) auto
  next
    case 2
    then show ?thesis using assms(4) known_fenced_append by blast
  qed
qed

lemma issues_updateLeader:
  "(\<And>c. service_call c \<Longrightarrow> P c) \<Longrightarrow> issues P (updateLeaderServiceSelector env)"
  by (rule issues_mono [OF issues_updateLeaderServiceSelector])

lemma issues_clearFence:
  "(\<And>l a b. P (Patch l a b)) \<Longrightarrow> (\<And>s r m. P (Event s r m)) \<Longrightarrow> (\<And>x. P (Observed x)) \<Longrightarrow>
   issues P (clearFence env p)"
  by (auto simp: clearFence_def setFencedPods_def Let_def intro!: issues_intros)

lemma issues_promoteInstance:
  "P (Http ''POST'' ip promote_path NoBody) \<Longrightarrow> issues P (promoteInstance env ip)"
  by (auto simp: promoteInstance_def Let_def intro!: issues_intros)

lemma issues_promote_candidate: "issues (\<lambda>_. True) (promote_candidate env p)"
  by (auto simp: promote_candidate_def Let_def
      intro!: issues_intros issues_updateLeader issues_clearFence issues_promoteInstance)

lemma failover_run:
  assumes "p = st_CurrentPrimary (c_Status (w_obj w))"
  obtains (fence_failed) l1 where "w_log (snd (failover env w)) = w_log w @ l1"
      "\<forall>x \<in> set l1. \<not> is_promote (fst x)"
  | (fenced) l1 l2 where "w_log (snd (failover env w)) = w_log w @ l1 @ l2"
      "\<forall>x \<in> set l1. \<not> is_promote (fst x)" "known_fenced p (w_obj w) l1"
proof -
  let ?ev = "Event Warning ''FailoverStarted'' (''Failover initiated, former primary: '' @ p)"
  define w1 where "w1 = logged ?ev True w"
  have log1: "w_log w1 = w_log w @ [(?ev, True)]" and obj1: "w_obj w1 = w_obj w"
    by (simp_all add: w1_def logged_def)
  obtain r w2 where run: "setFence env p w1 = (r, w2)" by (cases "setFence env p w1")
  then obtain l where l: "w_log w2 = w_log w1 @ l" "\<forall>x \<in> set l. \<not> is_promote (fst x)"
    by (rule issuesE [OF issues_setFence])
  have fo: "failover env w =
      (case r of Inl e \<Rightarrow> (Inl (Wrap (''fencing former primary '' @ p) e), w2) | Inr _ \<Rightarrow> promote_candidate env p w2)"
    using run assms
    by (simp add: failover_def bnd_def obj_def eventf_def wrap_err_def w1_def Let_def split: sum.splits)
  show thesis
  proof (cases r)
    case (Inl e)
    with fo log1 l show thesis
      by (intro fence_failed [of "(?ev, True) # l"]) (auto simp: is_promote_def)
  next
    case (Inr u)
    from wp_result [OF wp_setFence [of env p w1]] run Inr log1 l obj1
    have "known_fenced p (w_obj w) l" by auto
    then have k: "known_fenced p (w_obj w) ((?ev, True) # l)" by (auto simp: known_fenced_def)
    obtain r3 w3 where "promote_candidate env p w2 = (r3, w3)" by (cases "promote_candidate env p w2")
    moreover from this obtain l2 where "w_log w3 = w_log w2 @ l2"
      by (rule issuesE [OF issues_promote_candidate])
    ultimately show thesis using fo log1 l Inr k
      by (intro fenced [of "(?ev, True) # l" l2]) (auto simp: is_promote_def)
  qed
qed

section \<open>An accepting API server\<close>

text \<open>
  The named assumption of the outcome theorems: patches of the cluster are accepted, and no
  other client writes in between, so that the answer is the object that was sent.
\<close>

definition accepts :: "env \<Rightarrow> bool" where
  "accepts env \<longleftrightarrow> (\<forall>l lock base x. e_patch env l lock base x = Inr x) \<and>
     (\<forall>l base x. e_status_patch env l base x = Inr x)"

lemma wp_patch_cluster_accepts:
  "accepts env \<Longrightarrow> wp (patch_cluster env lock f) Q E w =
     Q () (logged (Observed (OCluster (f (w_obj w)))) True
       (logged (Patch lock (OCluster (w_obj w)) (OCluster (f (w_obj w)))) True (w\<lparr>w_obj := f (w_obj w)\<rparr>)))"
  by (cases w) (simp add: patch_cluster_def wp_simps accepts_def Let_def logged_def)

lemma wp_patch_status_accepts:
  "accepts env \<Longrightarrow> wp (patch_status env f) Q E w =
     Q () (logged (Observed (OCluster (f (w_obj w)))) True
       (logged (StatusPatch (OCluster (w_obj w)) (OCluster (f (w_obj w)))) True (w\<lparr>w_obj := f (w_obj w)\<rparr>)))"
  by (cases w) (simp add: patch_status_def wp_simps accepts_def Let_def logged_def)

lemma set_primary_simps [simp]:
  "getFencedPods (set_primary p ph c) = getFencedPods c"
  "ClusterHandoverPods (set_primary p ph c) = ClusterHandoverPods c"
  "c_Name (set_primary p ph c) = c_Name c" "c_Namespace (set_primary p ph c) = c_Namespace c"
  "st_CurrentPrimary (c_Status (set_primary p ph c)) = p"
  "st_Phase (c_Status (set_primary p ph c)) = ph"
  by (simp_all add: set_primary_def getFencedPods_def ClusterHandoverPods_def)

lemma selectFailoverCandidate_annotations [simp]:
  "selectFailoverCandidate (with_fences ps c) = selectFailoverCandidate c"
  "selectFailoverCandidate (drop_handover c) = selectFailoverCandidate c"
  by (simp_all add: selectFailoverCandidate_def)

definition promotions :: "log \<Rightarrow> call list" where
  "promotions l = filter is_promote (map fst l)"

lemma promotions_append [simp]: "promotions (l @ l') = promotions l @ promotions l'"
  by (simp add: promotions_def)

lemma promotions_Cons [simp]:
  "promotions [] = []" "promotions ((Patch l a b, ok) # xs) = promotions xs"
  "promotions ((StatusPatch a b, ok) # xs) = promotions xs"
  "promotions ((Event s r m, ok) # xs) = promotions xs"
  "promotions ((Observed x, ok) # xs) = promotions xs"
  "promotions ((Metric n, ok) # xs) = promotions xs"
  "promotions ((Get k ns n, ok) # xs) = promotions xs"
  "promotions ((ListOf k ns sel, ok) # xs) = promotions xs"
  "promotions ((Clock, ok) # xs) = promotions xs"
  "promotions ((Http ''POST'' ip promote_path body, ok) # xs) = Http ''POST'' ip promote_path body # promotions xs"
  by (simp_all add: promotions_def is_promote_def)

text \<open>Fencing a pod with an accepting server: the pod is fenced, and a planned handover of it ends.\<close>

lemma wp_setFence_accepts:
  assumes "accepts env"
    and "\<And>w'. w_obj w' = annotation.add p (if fst (ClusterHandoverPods (w_obj w)) = p
           then drop_handover (w_obj w) else w_obj w) \<Longrightarrow>
         promotions (w_log w') = promotions (w_log w) \<Longrightarrow> Q () w'"
  shows "wp (setFence env p) Q E w"
  using assms(1)
  by (auto simp: setFence_def setFencedPods_def wp_simps wp_patch_cluster_accepts Let_def logged_def
        annotation.add_def intro!: assms(2))

lemma wp_clearFence_accepts:
  assumes "accepts env"
    and "\<And>w'. w_obj w' = annotation.remove p (w_obj w) \<Longrightarrow>
         promotions (w_log w') = promotions (w_log w) \<Longrightarrow> Q () w'"
  shows "wp (clearFence env p) Q E w"
  using assms(1)
  by (auto simp: clearFence_def setFencedPods_def wp_simps wp_patch_cluster_accepts Let_def logged_def
        annotation.remove_def intro!: assms(2))

lemma add_remove_simps [simp]:
  "c_Status (annotation.add p c) = c_Status c" "c_Name (annotation.add p c) = c_Name c"
  "c_Namespace (annotation.add p c) = c_Namespace c"
  "selectFailoverCandidate (annotation.add p c) = selectFailoverCandidate c"
  "c_Status (annotation.remove p c) = c_Status c"
  by (simp_all add: annotation.add_def annotation.remove_def)

text \<open>The selector update of the leader Service leaves the cluster alone and promotes nothing.\<close>

lemma wp_updateLeaderServiceSelector_accepts:
  assumes "accepts env"
    and "\<And>l. e_get env l KService (c_Namespace (w_obj w)) (leaderServiceName (c_Name (w_obj w))) = Inr (OService svc)"
    and "\<And>w'. w_obj w' = w_obj w \<Longrightarrow> promotions (w_log w') = promotions (w_log w) \<Longrightarrow> Q () w'"
  shows "wp (updateLeaderServiceSelector env) Q E w"
  using assms(1,2)
  by (auto simp: updateLeaderServiceSelector_def patch_service_def client_defs wp_simps Let_def
        logged_def accepts_def intro!: assms(3))

lemma wp_promote_candidate_accepts:
  assumes env: "accepts env"
    and pods: "\<And>l. e_list env l KPod (c_Namespace (w_obj w)) [(LabelCluster, c_Name (w_obj w))] = Inr (map OPod pods)"
    and svc: "\<And>l. e_get env l KService (c_Namespace (w_obj w)) (leaderServiceName (c_Name (w_obj w))) = Inr (OService svc)"
    and cand: "selectFailoverCandidate (w_obj w) \<noteq> []"
    and pod: "find (\<lambda>q. p_Name q = selectFailoverCandidate (w_obj w) \<and> p_IP q \<noteq> []) pods = Some pod"
    and http: "\<And>l. e_http env l ''POST'' (p_IP pod) promote_path NoBody = Inr (200, r)"
    and Q: "\<And>w'. w_obj w' = annotation.remove p (set_primary (selectFailoverCandidate (w_obj w)) ClusterPhaseFailingOver (w_obj w)) \<Longrightarrow>
         promotions (w_log w') = promotions (w_log w) @ [Http ''POST'' (p_IP pod) promote_path NoBody] \<Longrightarrow> Q () w'"
  shows "wp (promote_candidate env p) Q E w"
proof -
  have "List.map_filter (\<lambda>x. case x of OPod p \<Rightarrow> Some p | _ \<Rightarrow> None) (map OPod pods) = pods"
    by (induction pods) (simp_all add: List.map_filter_simps)
  with assms(1-6) show ?thesis
    unfolding promote_candidate_def
    by (auto simp: wp_simps Let_def listClusterPods_def list_pods_def list_objects_def
          promoteInstance_def logged_def wp_patch_status_accepts
        intro!: wp_updateLeaderServiceSelector_accepts wp_clearFence_accepts Q)
qed

text \<open>The same steps when the candidate has no listed pod with an IP: nothing is promoted.\<close>

lemma wp_promote_candidate_absent:
  assumes env: "accepts env"
    and pods: "\<And>l. e_list env l KPod (c_Namespace (w_obj w)) [(LabelCluster, c_Name (w_obj w))] = Inr (map OPod pods)"
    and svc: "\<And>l. e_get env l KService (c_Namespace (w_obj w)) (leaderServiceName (c_Name (w_obj w))) = Inr (OService svc)"
    and cand: "selectFailoverCandidate (w_obj w) \<noteq> []"
    and pod: "find (\<lambda>q. p_Name q = selectFailoverCandidate (w_obj w) \<and> p_IP q \<noteq> []) pods = None"
    and Q: "\<And>w'. w_obj w' = annotation.remove p (set_primary (selectFailoverCandidate (w_obj w)) ClusterPhaseFailingOver (w_obj w)) \<Longrightarrow>
         promotions (w_log w') = promotions (w_log w) \<Longrightarrow> Q () w'"
  shows "wp (promote_candidate env p) Q E w"
proof -
  have "List.map_filter (\<lambda>x. case x of OPod p \<Rightarrow> Some p | _ \<Rightarrow> None) (map OPod pods) = pods"
    by (induction pods) (simp_all add: List.map_filter_simps)
  with assms(1-5) show ?thesis
    unfolding promote_candidate_def
    by (auto simp: wp_simps Let_def listClusterPods_def list_pods_def list_objects_def
          logged_def wp_patch_status_accepts
        intro!: wp_updateLeaderServiceSelector_accepts wp_clearFence_accepts Q)
qed

section \<open>Footprint of the handover\<close>

lemma bnd_obj: "bnd obj f w = f (w_obj w) w"
  by (simp add: bnd_def obj_def)

lemma issues_finishClusterHandover:
  "(\<And>l a b. P (Patch l a b)) \<Longrightarrow> (\<And>s r m. P (Event s r m)) \<Longrightarrow> (\<And>x. P (Observed x)) \<Longrightarrow>
   issues P (finishClusterHandover env owner)"
  by (auto simp: finishClusterHandover_def intro!: issues_intros)

lemma issues_postClusterJSON:
  "(ip \<noteq> [] \<Longrightarrow> P (Http ''POST'' ip endpoint body)) \<Longrightarrow> issues P (postClusterJSON env ip endpoint body)"
  by (auto simp: postClusterJSON_def Let_def intro!: issues_intros)

text \<open>What must hold of the cluster and of the polled statuses when a handover promotes the heir.\<close>

definition handover_ready ::
  "RedisCluster \<Rightarrow> Pod list \<Rightarrow> (string, InstanceStatus) gomap \<Rightarrow> string \<Rightarrow> bool" where
  "handover_ready c pods statuses ip \<longleftrightarrow>
     (let (owner, heir) = ClusterHandoverPods c;
          source = mget zero_InstanceStatus statuses owner;
          target = mget zero_InstanceStatus statuses heir
      in owner \<in> set (getFencedPods c) \<and> heir \<notin> set (getFencedPods c) \<and> owner \<noteq> heir \<and>
         (\<exists>ownerPod. last_pod owner pods = Some ownerPod \<and> \<not> isPodRunningAndReady ownerPod) \<and>
         (\<exists>heirPod. last_pod heir pods = Some heirPod \<and> p_IP heirPod = ip) \<and>
         is_Connected source \<and> is_Role source = ''master'' \<and>
         is_Connected target \<and> is_Role target = ''slave'' \<and>
         is_PrimaryNodeID target = is_NodeID source \<and> is_MasterLinkStatus target = ''up'')"

lemma ClusterHandoverPods_distinct:
  "ClusterHandoverPods c = (owner, heir) \<Longrightarrow> owner \<noteq> [] \<Longrightarrow> owner \<noteq> heir"
  using ClusterHandoverPods_iff by blast

lemma issues_handover_step:
  assumes "\<And>c. \<not> is_promote c \<Longrightarrow> P c"
    and "is_Connected (mget zero_InstanceStatus statuses owner) \<Longrightarrow>
      is_Role (mget zero_InstanceStatus statuses owner) = ''master'' \<Longrightarrow>
      is_Connected (mget zero_InstanceStatus statuses heir) \<Longrightarrow>
      is_Role (mget zero_InstanceStatus statuses heir) = ''slave'' \<Longrightarrow>
      is_PrimaryNodeID (mget zero_InstanceStatus statuses heir) = is_NodeID (mget zero_InstanceStatus statuses owner) \<Longrightarrow>
      is_MasterLinkStatus (mget zero_InstanceStatus statuses heir) = ''up'' \<Longrightarrow>
      \<not> isPodRunningAndReady ownerPod \<Longrightarrow> P (Http ''POST'' (p_IP heirPod) promote_path EmptyObject)"
  shows "issues P (handover_step env owner heir ownerPod heirPod statuses)"
  unfolding handover_step_def Let_def
  by (auto intro!: issues_intros issues_finishClusterHandover issues_postClusterJSON assms(2)
      simp: assms(1) is_promote_def)

text \<open>A promotion sent while resuming a handover goes to the heir, and everything it needs holds.\<close>

lemma resume_promotes:
  assumes "resumeClusterHandover env pods statuses w = (r, w')"
  obtains l where "w_log w' = w_log w @ l"
    "\<forall>x \<in> set l. is_promote (fst x) \<longrightarrow>
       (\<exists>ip. fst x = Http ''POST'' ip promote_path EmptyObject \<and> handover_ready (w_obj w) pods statuses ip)"
proof -
  let ?P = "\<lambda>c. is_promote c \<longrightarrow>
    (\<exists>ip. c = Http ''POST'' ip promote_path EmptyObject \<and> handover_ready (w_obj w) pods statuses ip)"
  obtain owner heir where oh: "ClusterHandoverPods (w_obj w) = (owner, heir)" by (cases "ClusterHandoverPods (w_obj w)")
  note distinct = ClusterHandoverPods_distinct [OF oh]
  have "issues ?P (finishClusterHandover env owner)"
    by (rule issues_finishClusterHandover) (simp_all add: is_promote_def)
  moreover have "issues ?P (handover_step env owner heir ownerPod heirPod statuses)"
    if "owner \<noteq> []" "last_pod owner pods = Some ownerPod" "last_pod heir pods = Some heirPod"
      "owner \<in> set (getFencedPods (w_obj w))" "heir \<notin> set (getFencedPods (w_obj w))" for ownerPod heirPod
    using that distinct by (intro issues_handover_step) (auto simp: handover_ready_def oh)
  ultimately have body: "issues ?P (let fenced = getFencedPods (w_obj w); finish = bnd (finishClusterHandover env owner) (\<lambda>_. ret False) in
      if owner = [] then throw (Err ''invalid cluster handover annotation'')
      else case last_pod owner pods of None \<Rightarrow> finish
        | Some ownerPod \<Rightarrow> (case last_pod heir pods of None \<Rightarrow> finish
          | Some heirPod \<Rightarrow> if owner \<notin> set fenced \<or> heir \<in> set fenced then finish
              else handover_step env owner heir ownerPod heirPod statuses))"
    by (auto simp: Let_def intro!: issues_intros)
  show thesis
    by (rule issues_bnd_objE [OF _ assms [unfolded resumeClusterHandover_def], of ?P])
       (use body in \<open>simp add: oh Let_def\<close>, rule that)
qed

section \<open>Properties\<close>

text \<open>
  C1. Fencing-first failover. Whatever the API server and the network answer, whenever a
  failover sends a promotion to an instance, the fence of the former primary is already
  known: it was in the object the failover started from, or in an object the server sent back
  before, or in a patch the server accepted before.
\<close>

theorem failover_fences_first:
  assumes "w_log (snd (failover env w)) = w_log w @ pre @ (c, ok) # post" "is_promote c"
  shows "known_fenced (st_CurrentPrimary (c_Status (w_obj w))) (w_obj w) pre"
proof (rule failover_run [OF refl, of env w])
  fix l1
  assume "w_log (snd (failover env w)) = w_log w @ l1" "\<forall>x \<in> set l1. \<not> is_promote (fst x)"
  with assms show ?thesis by auto
next
  fix l1 l2
  assume run: "w_log (snd (failover env w)) = w_log w @ l1 @ l2"
    "\<forall>x \<in> set l1. \<not> is_promote (fst x)"
    "known_fenced (st_CurrentPrimary (c_Status (w_obj w))) (w_obj w) l1"
  with assms have "l1 @ l2 = pre @ (c, ok) # post" by simp
  then show ?thesis using assms(2) run(2,3) by (rule promote_after_fence)
qed

lemma split_at_promote:
  assumes "\<exists>x \<in> set l. is_promote (fst x)"
  obtains c ok post where "l = takeWhile (\<lambda>x. \<not> is_promote (fst x)) l @ (c, ok) # post" "is_promote c"
proof -
  let ?P = "\<lambda>x. \<not> is_promote (fst x)"
  from assms obtain x r where d: "dropWhile ?P l = x # r"
    by (cases "dropWhile ?P l") (auto simp: dropWhile_eq_Nil_conv)
  then have "is_promote (fst x)" using hd_dropWhile [of ?P l] by simp
  moreover have "l = takeWhile ?P l @ x # r" using d by (metis takeWhile_dropWhile_id)
  ultimately show thesis by (intro that [of "fst x" "snd x" r]) auto
qed

theorem failover_fences_first_witness:
  "let l = w_log (snd (failover (sample_env sample_pods) (sample_world sample_cluster))) in
   (\<exists>x \<in> set l. is_promote (fst x)) \<and>
   known_fenced ''r-0'' sample_cluster (takeWhile (\<lambda>x. \<not> is_promote (fst x)) l)"
proof -
  let ?w = "sample_world sample_cluster"
  let ?l = "w_log (snd (failover (sample_env sample_pods) ?w))"
  have promoted: "\<exists>x \<in> set ?l. is_promote (fst x)" by code_simp
  then obtain c ok post where l: "?l = takeWhile (\<lambda>x. \<not> is_promote (fst x)) ?l @ (c, ok) # post" "is_promote c"
    by (rule split_at_promote)
  have "w_log ?w = []" "w_obj ?w = sample_cluster" "st_CurrentPrimary (c_Status sample_cluster) = ''r-0''"
    by (simp_all add: sample_world_def sample_cluster_def)
  with failover_fences_first [of "sample_env sample_pods" ?w _ c ok post] l promoted show ?thesis
    by (simp add: Let_def)
qed


lemma sample_candidate: "selectFailoverCandidate sample_cluster = ''r-2''"
  by (simp add: selectFailoverCandidate_def candidate_step_def sample_simps)

lemma sample_accepts: "accepts (sample_env xs)"
  by (simp add: accepts_def sample_env_def)


text \<open>
  The failover candidate has the most data. Over every iteration order of the status map:
  when some replica other than the current primary is connected with a valid offset, the
  candidate is such a replica, and no other such replica has a larger replication offset.
\<close>

theorem failover_candidate_maximal:
  assumes "e \<in> set (st_InstancesStatus (c_Status c))" "eligible (st_CurrentPrimary (c_Status c)) e"
  shows "\<exists>s. (selectFailoverCandidate c, s) \<in> set (st_InstancesStatus (c_Status c)) \<and>
    eligible (st_CurrentPrimary (c_Status c)) (selectFailoverCandidate c, s) \<and>
    (\<forall>e' \<in> set (st_InstancesStatus (c_Status c)). eligible (st_CurrentPrimary (c_Status c)) e' \<longrightarrow>
      is_ReplicationOffset (snd e') \<le> is_ReplicationOffset s)"
  by (rule selectFailoverCandidate_best [OF assms]) blast

theorem failover_candidate_maximal_witness:
  "\<exists>s. (selectFailoverCandidate sample_cluster, s) \<in> set (st_InstancesStatus (c_Status sample_cluster)) \<and>
    is_ReplicationOffset s = 7"
  using failover_candidate_maximal [of "(''r-1'', sample_instance ''slave'' 5)" sample_cluster]
  by (auto simp: sample_candidate eligible_def) (auto simp: sample_simps)

text \<open>
  C25. A coordinated handover promotes only when it is safe. Whatever the environment answers,
  a promotion sent while a handover is resumed goes to the heir's pod, the owner is fenced and
  its pod is no longer ready, the heir is not fenced, and the polled statuses say that the owner
  is a connected master and the heir a connected replica of exactly that master with its link up.
\<close>

theorem handover_promotes_only_when_ready:
  assumes "w_log (snd (resumeClusterHandover env pods statuses w)) = w_log w @ l" "(call, ok) \<in> set l" "is_promote call"
  shows "\<exists>ip. call = Http ''POST'' ip promote_path EmptyObject \<and> handover_ready (w_obj w) pods statuses ip"
proof -
  obtain r w' where run: "resumeClusterHandover env pods statuses w = (r, w')"
    by (cases "resumeClusterHandover env pods statuses w")
  then obtain l' where "w_log w' = w_log w @ l'"
    "\<forall>x \<in> set l'. is_promote (fst x) \<longrightarrow>
       (\<exists>ip. fst x = Http ''POST'' ip promote_path EmptyObject \<and> handover_ready (w_obj w) pods statuses ip)"
    by (rule resume_promotes)
  with assms run show ?thesis by fastforce
qed

definition handover_cluster :: RedisCluster where
  "handover_cluster = plan_handover ''r-0'' ''r-3'' (sample_cluster\<lparr>c_Spec := sample_spec\<lparr>s_Mode := ClusterModeCluster\<rparr>\<rparr>)"

definition handover_statuses :: "(string, InstanceStatus) gomap" where
  "handover_statuses = [(''r-0'', (sample_instance ''master'' 9)\<lparr>is_NodeID := ''n0''\<rparr>),
     (''r-3'', (sample_instance ''slave'' 9)\<lparr>is_PrimaryNodeID := ''n0'', is_MasterLinkStatus := ''up''\<rparr>)]"

definition handover_pods :: "Pod list" where
  "handover_pods = [sample_pod ''r-0'' ''10.0.0.1'' [] False, sample_pod ''r-3'' ''10.0.0.4'' [] True]"

theorem handover_promotes_only_when_ready_witness:
  "let l = w_log (snd (resumeClusterHandover (sample_env []) handover_pods handover_statuses (sample_world handover_cluster)))
   in \<exists>call ok. (call, ok) \<in> set l \<and> is_promote call \<and>
     (\<exists>ip. call = Http ''POST'' ip promote_path EmptyObject \<and>
        handover_ready handover_cluster handover_pods handover_statuses ip)"
proof -
  let ?run = "resumeClusterHandover (sample_env []) handover_pods handover_statuses (sample_world handover_cluster)"
  let ?l = "w_log (snd ?run)"
  have "\<exists>x \<in> set ?l. is_promote (fst x)" by code_simp
  then obtain call ok where "(call, ok) \<in> set ?l" "is_promote call" by force
  moreover have "w_log (sample_world handover_cluster) = []" "w_obj (sample_world handover_cluster) = handover_cluster"
    by (simp_all add: sample_world_def)
  ultimately show ?thesis
    using handover_promotes_only_when_ready [of "sample_env []" handover_pods handover_statuses
      "sample_world handover_cluster" ?l call ok] by (auto simp: Let_def)
qed

text \<open>
  A handover leaves the fences as it found them. Planning a handover of an unfenced owner
  fences the owner and records the participants in cluster mode; ending it restores exactly the
  list of fenced pods from before and removes the record.
\<close>

theorem handover_restores_fences:
  assumes "s_Mode (c_Spec c) = ClusterModeCluster" "owner \<noteq> []" "heir \<noteq> []" "owner \<noteq> heir"
    and "CHR ''/'' \<notin> set owner" "CHR ''/'' \<notin> set heir" "owner \<notin> set (getFencedPods c)"
  shows "getFencedPods (plan_handover owner heir c) = getFencedPods c @ [owner] \<and>
    ClusterHandoverPods (plan_handover owner heir c) = (owner, heir) \<and>
    getFencedPods (end_handover owner (plan_handover owner heir c)) = getFencedPods c \<and>
    ClusterHandoverPods (end_handover owner (plan_handover owner heir c)) = ([], [])"
proof -
  have "filter (\<lambda>name. name \<noteq> owner) (getFencedPods c) = getFencedPods c"
    using assms(7) by (auto simp: filter_id_conv)
  then show ?thesis using assms handover_plan_handover [of c owner heir] by simp
qed

theorem handover_restores_fences_witness:
  "ClusterHandoverPods handover_cluster = (''r-0'', ''r-3'') \<and>
   getFencedPods (end_handover ''r-0'' handover_cluster) = []"
proof -
  let ?c = "sample_cluster\<lparr>c_Spec := sample_spec\<lparr>s_Mode := ClusterModeCluster\<rparr>\<rparr>"
  have "getFencedPods ?c = []" by (simp add: getFencedPods_def sample_cluster_def)
  with handover_restores_fences [of ?c "''r-0''" "''r-3''"] show ?thesis
    by (simp add: handover_cluster_def)
qed

text \<open>
  A failover can name a primary that was never promoted. When the selected candidate has no
  listed pod with an IP (its status entry is older than its pod, say), the failover sends no
  promotion at all and still returns without error, with the candidate recorded as the current
  primary and the fence of the former primary removed.
\<close>

theorem failover_without_promotion:
  assumes "accepts env" "w_obj w = c"
    and "\<And>l. e_list env l KPod (c_Namespace c) [(LabelCluster, c_Name c)] = Inr (map OPod pods)"
    and "\<And>l. e_get env l KService (c_Namespace c) (leaderServiceName (c_Name c)) = Inr (OService svc)"
    and "selectFailoverCandidate c \<noteq> []"
    and "find (\<lambda>q. p_Name q = selectFailoverCandidate c \<and> p_IP q \<noteq> []) pods = None"
  shows "\<exists>w'. failover env w = (Inr (), w') \<and> promotions (w_log w') = promotions (w_log w) \<and>
    st_CurrentPrimary (c_Status (w_obj w')) = selectFailoverCandidate c"
    (is "\<exists>w'. _ = (Inr (), w') \<and> ?Q w'")
proof -
  let ?p = "st_CurrentPrimary (c_Status c)"
  have step: "wp (promote_candidate env ?p) (\<lambda>_. ?Q) (\<lambda>_ _. False) w'"
    if w': "w_obj w' = annotation.add ?p (if fst (ClusterHandoverPods c) = ?p then drop_handover c else c)"
      "promotions (w_log w') = promotions (w_log w)" for w'
  proof -
    have same: "c_Name (w_obj w') = c_Name c" "c_Namespace (w_obj w') = c_Namespace c"
      "selectFailoverCandidate (w_obj w') = selectFailoverCandidate c"
      by (auto simp: w')
    show ?thesis
      by (rule wp_promote_candidate_absent [OF assms(1), where pods = pods and svc = svc])
         (simp_all add: same assms w'(2))
  qed
  have "wp (failover env) (\<lambda>_. ?Q) (\<lambda>_ _. False) w"
    unfolding failover_def by (simp add: wp_simps Let_def assms(2))
      (rule wp_setFence_accepts [OF assms(1)], rule step, simp_all add: logged_def assms(2))
  then show ?thesis by (auto simp: wp_def split: prod.splits sum.splits)
qed

theorem failover_without_promotion_witness:
  "\<exists>w'. failover (sample_env []) (sample_world sample_cluster) = (Inr (), w') \<and>
     promotions (w_log w') = [] \<and> st_CurrentPrimary (c_Status (w_obj w')) = ''r-2''"
proof -
  have "\<exists>w'. failover (sample_env []) (sample_world sample_cluster) = (Inr (), w') \<and>
    promotions (w_log w') = promotions (w_log (sample_world sample_cluster)) \<and>
    st_CurrentPrimary (c_Status (w_obj w')) = selectFailoverCandidate sample_cluster"
    by (rule failover_without_promotion [OF sample_accepts, where pods = "[]"
          and svc = "sample_service (leaderServiceName (c_Name sample_cluster))"])
       (simp_all add: sample_candidate, simp_all add: sample_simps)
  then show ?thesis by (simp add: sample_candidate sample_world_def)
qed

end
