(* ===== verification/Cluster_Status.thy ===== *)
theory Cluster_Status
  imports Shard_Layout Fencing
begin

text \<open>
  \<^verbatim>\<open>status.go\<close>: polling the instance managers, deriving the shard status, phase and conditions
  of a RedisCluster, writing them back, and the decisions that rest on the polled statuses
  (reachability and failover). The map of instance statuses is an association list whose order is
  the order in which Go happens to range over it.
\<close>

section \<open>Polling\<close>

abbreviation status_path :: string where "status_path \<equiv> ''/v1/status''"

definition pollPodStatus :: "env \<Rightarrow> string \<Rightarrow> ('s, podStatusResponse) io" where
  "pollPodStatus env podIP =
     (let url = instance_url podIP status_path in
      bnd (http env ''GET'' podIP status_path NoBody) (\<lambda>r.
      case r of
        Inl e \<Rightarrow> throw (Wrap (''HTTP GET '' @ url) (Err e))
      | Inr (status, answer) \<Rightarrow>
          if status \<noteq> 200 then throw (Err (''HTTP GET '' @ url @ '' returned '' @ itoa status))
          else
            (case answer of
               StatusReply s \<Rightarrow> ret s
             | BackupReply _ \<Rightarrow> ret zero_podStatusResponse
             | TextReply text \<Rightarrow> throw (Wrap ''decoding status response'' (Err text)))))"

definition observed_status :: "podStatusResponse \<Rightarrow> int \<Rightarrow> InstanceStatus" where
  "observed_status s seen = \<lparr>is_Role = r_Role s, is_Connected = r_Connected s,
     is_ReplicationOffset = r_ReplicationOffset s, is_ReplicaLagBytes = 0,
     is_ConnectedReplicas = int32 (r_ConnectedReplicas s), is_MasterLinkStatus = r_MasterLinkStatus s,
     is_NodeID = r_NodeID s, is_PrimaryNodeID = r_PrimaryNodeID s, is_SlotsServed = r_SlotsServed s,
     is_ClusterState = r_ClusterState s, is_CurrentEpoch = r_Epoch s, is_LastSeenAt = Some seen\<rparr>"

primrec poll_pods ::
  "env \<Rightarrow> Pod list \<Rightarrow> (string, InstanceStatus) gomap \<Rightarrow> ('s, (string, InstanceStatus) gomap) io" where
  "poll_pods env [] statuses = ret statuses"
| "poll_pods env (pod # pods) statuses =
     (if p_IP pod = [] then poll_pods env pods statuses
      else bnd (attempt (pollPodStatus env (p_IP pod))) (\<lambda>r.
        case r of
          Inl _ \<Rightarrow> poll_pods env pods (mput (p_Name pod) zero_InstanceStatus statuses)
        | Inr status \<Rightarrow> bnd (now env) (\<lambda>seen.
            poll_pods env pods (mput (p_Name pod) (observed_status status seen) statuses))))"

definition pollInstanceStatuses ::
  "env \<Rightarrow> RedisCluster \<Rightarrow> ('s, (string, InstanceStatus) gomap) io" where
  "pollInstanceStatuses env cluster =
     bnd (wrap_err ''listing pods for status poll'' (listDataPods env cluster)) (\<lambda>pods. poll_pods env pods [])"

section \<open>Shards\<close>

definition maxInt64 :: "int \<Rightarrow> int \<Rightarrow> int" where
  "maxInt64 a b = (if b > a then b else a)"

definition derive_shard ::
  "shardLayout \<Rightarrow> string \<times> InstanceStatus \<Rightarrow> string \<times> slot_array \<times> (string, ShardStatus) gomap \<Rightarrow>
   string \<times> slot_array \<times> (string, ShardStatus) gomap" where
  "derive_shard layout entry acc =
     (let (podName, status) = entry; (state, coverage, shards) = acc;
          state' = (if is_ClusterState status \<noteq> [] \<and> is_ClusterState status \<noteq> ''ok''
            then is_ClusterState status else state)
      in
      case map_of (shardOf layout) podName of
        None \<Rightarrow> (state', coverage, shards)
      | Some shardIndex \<Rightarrow>
          let name = shardName shardIndex;
              old = mget zero_ShardStatus shards name;
              s1 = old\<lparr>sh_Epoch := maxInt64 (sh_Epoch old) (is_CurrentEpoch status)\<rparr>;
              s2 = (if isPrimary layout podName \<and> \<not> handingOver layout shardIndex \<or>
                       mget [] (ownerOf layout) shardIndex = podName
                then s1\<lparr>sh_PrimaryPod := podName, sh_PrimaryNodeID := is_NodeID status,
                       sh_SlotRanges := is_SlotsServed status\<rparr>
                else s1\<lparr>sh_ReplicaPods := sh_ReplicaPods s1 @ [podName]\<rparr>)
          in (state', fold cover_range (is_SlotsServed status) coverage, mput name s2 shards))"

definition deriveClusterStatus ::
  "((int \<times> string list) list \<Rightarrow> (int \<times> string list) list) \<Rightarrow> RedisCluster option \<Rightarrow> Pod list \<Rightarrow>
   (string, InstanceStatus) gomap \<Rightarrow> (string \<times> int \<times> (string, ShardStatus) gomap) option" where
  "deriveClusterStatus rng clusterp pods statuses =
     (if clusterp = None then Some ([], 0, [])
      else
        case planShardLayout rng clusterp pods statuses of
          None \<Rightarrow> None
        | Some layout \<Rightarrow>
            let start = (if length statuses > 0 then ''ok'' else []);
                (state, coverage, shards) = fold (derive_shard layout) statuses (start, (\<lambda>_. False), [])
            in Some (state, int (length (filter coverage [0..16383])),
                 map (\<lambda>(name, s). (name, s\<lparr>sh_ReplicaPods := sort (sh_ReplicaPods s)\<rparr>)) shards))"

section \<open>Conditions\<close>

definition hasType :: "Condition list \<Rightarrow> string \<Rightarrow> bool" where
  "hasType conditions t = list_ex (\<lambda>c. cond_Type c = t) conditions"

definition preserve_one :: "Condition list \<Rightarrow> string \<Rightarrow> Condition list \<Rightarrow> Condition list" where
  "preserve_one existing t current =
     (if hasType current t then current
      else case find (\<lambda>c. cond_Type c = t) existing of None \<Rightarrow> current | Some c \<Rightarrow> current @ [c])"

definition preserveConditions :: "Condition list \<Rightarrow> Condition list \<Rightarrow> string list \<Rightarrow> Condition list" where
  "preserveConditions existing current conditionTypes =
     (if conditionTypes = [] then current else fold (preserve_one existing) conditionTypes current)"

definition carryTransitionTimes :: "Condition list \<Rightarrow> Condition list \<Rightarrow> Condition list" where
  "carryTransitionTimes existing current =
     map (\<lambda>c. case find (\<lambda>e. cond_Type e = cond_Type c) existing of
          None \<Rightarrow> c
        | Some e \<Rightarrow> if cond_Status e = cond_Status c
            then c\<lparr>cond_LastTransitionTime := cond_LastTransitionTime e\<rparr> else c) current"

text \<open>A condition that is true for one reason and message, false for another.\<close>

definition condition_of :: "string \<Rightarrow> int \<Rightarrow> bool \<Rightarrow> string \<times> string \<Rightarrow> string \<times> string \<Rightarrow> Condition" where
  "condition_of t seen ok yes no =
     \<lparr>cond_Type = t, cond_Status = (if ok then ConditionTrue else ConditionFalse),
      cond_LastTransitionTime = seen, cond_Reason = (if ok then fst yes else fst no),
      cond_Message = (if ok then snd yes else snd no)\<rparr>"

definition clusterPrimaryCount :: "RedisCluster \<Rightarrow> int" where
  "clusterPrimaryCount cluster =
     int (length (filter (\<lambda>(_, s). sh_PrimaryPod s \<noteq> []) (st_Shards (c_Status cluster))))"

definition shardReplicasHealthy :: "RedisCluster \<Rightarrow> (string, InstanceStatus) gomap \<Rightarrow> ShardStatus \<Rightarrow> bool" where
  "shardReplicasHealthy cluster statuses s \<longleftrightarrow>
     (s_ReplicasPerShard (c_Spec cluster) > 0 \<longrightarrow>
        \<not> int (length (sh_ReplicaPods s)) < s_ReplicasPerShard (c_Spec cluster) \<and>
        list_all (\<lambda>replicaPod. case map_of statuses replicaPod of
          None \<Rightarrow> False | Some status \<Rightarrow> is_Connected status) (sh_ReplicaPods s))"

definition clusterModeConditions ::
  "int \<Rightarrow> RedisCluster \<Rightarrow> (string, InstanceStatus) gomap \<Rightarrow> Condition list" where
  "clusterModeConditions seen cluster statuses =
     (let expectedShards = s_Shards (c_Spec cluster);
          available = clusterPrimaryCount cluster \<ge> expectedShards;
          healthy = list_all (\<lambda>(_, s). shardReplicasHealthy cluster statuses s) (st_Shards (c_Status cluster));
          ready = (st_ClusterState (c_Status cluster) = ''ok'' \<and>
            st_SlotsAssigned (c_Status cluster) = 16384 \<and> available)
      in
      [condition_of ConditionReady seen ready
         (''ClusterSlotsCovered'', ''Redis Cluster is healthy with complete slot coverage'')
         (''ClusterNotReady'', ''Redis Cluster is not healthy or slot coverage is incomplete''),
       condition_of ConditionPrimaryAvailable seen available
         (''ShardsAvailable'', ''Every shard has an available primary'')
         (''ShardsUnavailable'', ''One or more shards do not have an available primary''),
       condition_of ConditionReplicationHealthy seen healthy
         (''ClusterReplicasHealthy'', ''Shard replicas are connected'')
         (''ClusterReplicasDegraded'', ''One or more shard replicas are unavailable'')])"

definition replicaModeConditions ::
  "int \<Rightarrow> RedisCluster \<Rightarrow> (string, InstanceStatus) gomap \<Rightarrow> Condition list" where
  "replicaModeConditions seen cluster statuses =
     (let primary = st_CurrentPrimary (c_Status cluster);
          leaderConnected = (case map_of statuses primary of None \<Rightarrow> False | Some s \<Rightarrow> is_Connected s);
          allReplicasConnected = list_all (\<lambda>(_, s).
            \<not> (\<not> is_Connected s \<or> is_Role s \<noteq> ''slave'' \<or> is_MasterLinkStatus s \<noteq> ''up'')) statuses;
          healthy = (allReplicasConnected \<and> length statuses > 0)
      in
      [condition_of ConditionReady seen leaderConnected
         (''ReplicaModeReady'', ''Replica-mode leader is reachable'')
         (''ReplicaModeLeaderUnavailable'', ''Replica-mode leader is not reachable''),
       condition_of ConditionPrimaryAvailable seen leaderConnected
         (''ReplicaLeaderAvailable'', ''Replica leader '' @ primary @ '' is connected'')
         (''ReplicaLeaderUnavailable'', ''Replica leader is not available''),
       condition_of ConditionReplicationHealthy seen healthy
         (''ExternalReplicationHealthy'', ''All instances are replicating from the external source'')
         (''ExternalReplicationDegraded'',
          ''One or more instances are not replicating from the external source''),
       condition_of ConditionReplicaMode seen healthy
         (''ReplicatingFromExternal'', ''Replica mode is enabled and external replication is healthy'')
         (''ExternalReplicationUnhealthy'',
          ''Replica mode is enabled but external replication is unhealthy'')])"

definition standaloneConditions ::
  "int \<Rightarrow> RedisCluster \<Rightarrow> (string, InstanceStatus) gomap \<Rightarrow> Condition list" where
  "standaloneConditions seen cluster statuses =
     (let primary = st_CurrentPrimary (c_Status cluster);
          ready = list_ex (\<lambda>(_, s). is_Role s = ''master'' \<and> is_Connected s) statuses;
          allReplicasConnected = list_all (\<lambda>(name, s).
            name = primary \<or> \<not> (\<not> is_Connected s \<or> is_MasterLinkStatus s \<noteq> ''up'')) statuses;
          healthy = (allReplicasConnected \<and> length statuses > 1)
      in
      [condition_of ConditionReady seen ready
         (''ClusterReady'', ''Cluster has a reachable primary'')
         (''NoPrimaryAvailable'', ''No reachable primary instance found''),
       condition_of ConditionPrimaryAvailable seen ready
         (''PrimaryRunning'', ''Primary '' @ primary @ '' is running'')
         (''PrimaryUnavailable'', ''Primary is not available''),
       condition_of ConditionReplicationHealthy seen healthy
         (''ReplicasConnected'', ''All replicas are connected and replicating'')
         (''ReplicasNotHealthy'', ''One or more replicas are not connected'')])"

definition determineConditions ::
  "int \<Rightarrow> RedisCluster \<Rightarrow> (string, InstanceStatus) gomap \<Rightarrow> Condition list" where
  "determineConditions seen cluster statuses =
     (if s_Mode (c_Spec cluster) = ClusterModeCluster then clusterModeConditions seen cluster statuses
      else if isReplicaModeEnabled cluster then replicaModeConditions seen cluster statuses
      else standaloneConditions seen cluster statuses)"

section \<open>Phase\<close>

definition determinePhase :: "RedisCluster \<Rightarrow> (string, InstanceStatus) gomap \<Rightarrow> string" where
  "determinePhase cluster statuses =
     (let st = c_Status cluster; mode = s_Mode (c_Spec cluster);
          enough = int32 (int (length statuses)) \<ge> DesiredDataInstances (c_Spec cluster);
          allConnected = list_all (\<lambda>(_, s). is_Connected s) statuses
      in
      if length statuses = 0 then ClusterPhaseCreating
      else if mode = ClusterModeCluster then
        if st_ClusterState st = ''ok'' \<and> st_SlotsAssigned st = 16384 \<and> enough then ClusterPhaseHealthy
        else if st_SlotsAssigned st = 0 \<or> st_ClusterState st = [] then ClusterPhaseCreating
        else ClusterPhaseDegraded
      else if isReplicaModeEnabled cluster then
        let allReplicating = list_all (\<lambda>(_, s). is_Connected s \<and>
              \<not> (is_Role s \<noteq> ''slave'' \<or> is_MasterLinkStatus s \<noteq> ''up'')) statuses
        in if allConnected \<and> allReplicating \<and> enough then ClusterPhaseReplicating else ClusterPhaseDegraded
      else if \<not> list_ex (\<lambda>(_, s). is_Role s = ''master'') statuses then
        if mode = ClusterModeSentinel then ClusterPhaseDegraded else ClusterPhaseFailingOver
      else if allConnected \<and> enough then ClusterPhaseHealthy
      else ClusterPhaseDegraded)"

section \<open>Reachability and failover\<close>

definition connectedCount :: "(string, InstanceStatus) gomap \<Rightarrow> int" where
  "connectedCount statuses = int (length (filter (\<lambda>(_, s). is_Connected s) statuses))"

definition checkReachability :: "RedisCluster \<Rightarrow> (string, InstanceStatus) gomap \<Rightarrow> bool" where
  "checkReachability cluster statuses \<longleftrightarrow>
     (let expected = DesiredDataInstances (c_Spec cluster) in
      if int (length statuses) < expected then False else connectedCount statuses < expected)"

definition shouldTriggerFailover :: "RedisCluster option \<Rightarrow> (string, InstanceStatus) gomap \<Rightarrow> bool" where
  "shouldTriggerFailover clusterp statuses \<longleftrightarrow>
     (case clusterp of
        None \<Rightarrow> False
      | Some cluster \<Rightarrow>
          let currentPrimary = st_CurrentPrimary (c_Status cluster) in
          if isReplicaModeEnabled cluster then False
          else if s_Mode (c_Spec cluster) = ClusterModeSentinel then False
          else if s_Mode (c_Spec cluster) = ClusterModeCluster then False
          else if currentPrimary = [] then False
          else if (case map_of statuses currentPrimary of None \<Rightarrow> False | Some s \<Rightarrow> is_Connected s) then False
          else list_ex (\<lambda>(podName, s). podName \<noteq> currentPrimary \<and> is_Connected s) statuses)"

section \<open>Writing the status\<close>

definition countReadySentinelPods :: "env \<Rightarrow> RedisCluster \<Rightarrow> ('s, int) io" where
  "countReadySentinelPods env cluster =
     (if s_Mode (c_Spec cluster) \<noteq> ClusterModeSentinel then ret 0
      else bnd (listSentinelPods env cluster) (\<lambda>pods.
        ret (int32 (int (length (filter (\<lambda>pod.
          list_ex (\<lambda>c. fst c = ''Ready'' \<and> snd c = ConditionTrue) (p_Conditions pod)) pods))))))"

definition with_instances :: "(string, InstanceStatus) gomap \<Rightarrow> RedisClusterStatus \<Rightarrow> RedisClusterStatus" where
  "with_instances statuses st = st\<lparr>st_InstancesStatus := statuses,
     st_ReadyInstances := int32 (connectedCount statuses), st_Instances := int32 (int (length statuses))\<rparr>"

definition with_shards ::
  "string \<times> int \<times> (string, ShardStatus) gomap \<Rightarrow> RedisClusterStatus \<Rightarrow> RedisClusterStatus" where
  "with_shards derived st =
     (let (state, slots, shards) = derived;
          st1 = st\<lparr>st_ClusterState := state, st_SlotsAssigned := slots, st_Shards := shards,
                  st_CurrentPrimary := []\<rparr>
      in if \<not> st_BootstrapCompleted st1 \<and> state = ''ok'' \<and> slots = 16384
         then st1\<lparr>st_BootstrapCompleted := True\<rparr> else st1)"

definition without_shards :: "RedisClusterStatus \<Rightarrow> RedisClusterStatus" where
  "without_shards st = st\<lparr>st_ClusterState := [], st_SlotsAssigned := 0, st_BootstrapCompleted := False,
     st_Shards := []\<rparr>"

text \<open>The condition types that other components own and the status update carries over.\<close>

abbreviation preserved_types :: "string list" where
  "preserved_types \<equiv> [ConditionHibernated, ConditionMaintenanceInProgress,
     ConditionPrimaryUpdateWaiting, ConditionPVCResizeInProgress, ConditionReplicaMode]"

definition final_conditions ::
  "Condition list \<Rightarrow> int \<Rightarrow> RedisCluster \<Rightarrow> (string, InstanceStatus) gomap \<Rightarrow> Condition list" where
  "final_conditions existing seen cluster statuses =
     carryTransitionTimes existing
       (preserveConditions existing (determineConditions seen cluster statuses) preserved_types)"

text \<open>Semantic equality of two statuses: maps are compared as maps.\<close>

definition status_eq :: "RedisClusterStatus \<Rightarrow> RedisClusterStatus \<Rightarrow> bool" where
  "status_eq s t \<longleftrightarrow>
     map_eq (st_InstancesStatus s) (st_InstancesStatus t) \<and> map_eq (st_Shards s) (st_Shards t) \<and>
     map_eq (st_SecretsResourceVersion s) (st_SecretsResourceVersion t) \<and>
     s\<lparr>st_InstancesStatus := [], st_Shards := [], st_SecretsResourceVersion := []\<rparr> =
     t\<lparr>st_InstancesStatus := [], st_Shards := [], st_SecretsResourceVersion := []\<rparr>"

definition on_status :: "(RedisClusterStatus \<Rightarrow> RedisClusterStatus) \<Rightarrow> RedisCluster \<Rightarrow> RedisCluster" where
  "on_status f cluster = cluster\<lparr>c_Status := f (c_Status cluster)\<rparr>"

text \<open>A status patch whose base is an earlier copy of the cluster in memory.\<close>

definition patch_status_since :: "env \<Rightarrow> RedisCluster \<Rightarrow> (RedisCluster, unit) io" where
  "patch_status_since env before = bnd obj (\<lambda>cluster.
     bnd (set_obj (\<lambda>_. before)) (\<lambda>_. patch_status env (\<lambda>_. cluster)))"

definition update_shards ::
  "env \<Rightarrow> ((int \<times> string list) list \<Rightarrow> (int \<times> string list) list) \<Rightarrow> (string, InstanceStatus) gomap \<Rightarrow>
   (RedisCluster, unit) io" where
  "update_shards env rng statuses = bnd obj (\<lambda>cluster.
     if s_Mode (c_Spec cluster) = ClusterModeCluster then
       bnd (wrap_err ''listing data pods for shard status'' (listDataPods env cluster)) (\<lambda>pods.
       case deriveClusterStatus rng (Some cluster) pods statuses of
         None \<Rightarrow> throw (Panic ''slice bounds out of range'')
       | Some derived \<Rightarrow> set_obj (on_status (with_shards derived)))
     else set_obj (on_status without_shards))"

definition updateStatus ::
  "env \<Rightarrow> ((int \<times> string list) list \<Rightarrow> (int \<times> string list) list) \<Rightarrow> (string, InstanceStatus) gomap \<Rightarrow>
   (RedisCluster, unit) io" where
  "updateStatus env rng statuses = bnd obj (\<lambda>before.
     let existingConditions = st_Conditions (c_Status before) in
     bnd (set_obj (on_status (with_instances statuses))) (\<lambda>_.
     bnd (update_shards env rng statuses) (\<lambda>_.
     bnd (wrap_err ''counting ready sentinel pods'' (countReadySentinelPods env before)) (\<lambda>sentinelReady.
     bnd (set_obj (on_status (\<lambda>st. st\<lparr>st_SentinelReadyInstances := sentinelReady\<rparr>))) (\<lambda>_.
     bnd (set_obj (\<lambda>c. on_status (\<lambda>st. st\<lparr>st_Phase := determinePhase c statuses\<rparr>) c)) (\<lambda>_.
     bnd obj (\<lambda>cluster.
     bnd (if st_Phase (c_Status before) \<noteq> ClusterPhaseHealthy \<and> st_Phase (c_Status cluster) = ClusterPhaseHealthy
          then eventf Normal ''ClusterReady'' ''Cluster is healthy with all instances connected''
          else ret ()) (\<lambda>_.
     bnd (now env) (\<lambda>seen.
     bnd (set_obj (on_status (\<lambda>st. st\<lparr>st_Conditions :=
            final_conditions existingConditions seen cluster statuses\<rparr>))) (\<lambda>_.
     bnd obj (\<lambda>cluster.
     if status_eq (c_Status before) (c_Status cluster) then ret ()
     else patch_status_since env before)))))))))))"

section \<open>Facts about conditions\<close>

lemma find_condition_carry:
  "find_condition (carryTransitionTimes existing current) t =
     map_option (\<lambda>c. case find_condition existing t of
          None \<Rightarrow> c
        | Some e \<Rightarrow> if cond_Status e = cond_Status c
            then c\<lparr>cond_LastTransitionTime := cond_LastTransitionTime e\<rparr> else c)
       (find_condition current t)"
  by (induction current) (auto simp: carryTransitionTimes_def find_condition_def split: option.splits)

lemma types_carry: "map cond_Type (carryTransitionTimes existing current) = map cond_Type current"
  by (auto simp: carryTransitionTimes_def split: option.split)

lemma hasType_iff: "hasType cs t \<longleftrightarrow> find_condition cs t \<noteq> None"
  by (induction cs) (auto simp: hasType_def find_condition_def)

lemma find_condition_append:
  "find_condition (xs @ ys) t = (case find_condition xs t of None \<Rightarrow> find_condition ys t | Some c \<Rightarrow> Some c)"
  by (induction xs) (auto simp: find_condition_def)

lemma find_condition_type: "find_condition cs t = Some c \<Longrightarrow> cond_Type c = t"
  by (auto simp: find_condition_def find_Some_iff)

lemma find_condition_mem: "find_condition cs t = Some c \<Longrightarrow> c \<in> set cs"
  by (auto simp: find_condition_def find_Some_iff)

lemma find_preserve_one:
  "find_condition (preserve_one existing t current) t' =
     (if t' = t \<and> find_condition current t = None then find_condition existing t else find_condition current t')"
  by (cases "find_condition existing t")
     (auto simp: preserve_one_def hasType_iff find_condition_def [of existing, symmetric] find_condition_append
        find_condition_def [of "[_]"] dest: find_condition_type split: option.split)

lemma distinct_preserve_one:
  "distinct (map cond_Type cs) \<Longrightarrow> distinct (map cond_Type (preserve_one existing t cs))"
  by (auto simp: preserve_one_def hasType_def list_ex_iff find_Some_iff split: option.split)

lemma find_preserveConditions:
  "find_condition (preserveConditions existing current ts) t =
     (if find_condition current t = None \<and> t \<in> set ts then find_condition existing t else find_condition current t)"
proof -
  have "find_condition (fold (preserve_one existing) ts current) t =
     (if find_condition current t = None \<and> t \<in> set ts then find_condition existing t else find_condition current t)"
    by (induction ts arbitrary: current) (auto simp: find_preserve_one)
  then show ?thesis by (auto simp: preserveConditions_def)
qed

lemma distinct_preserveConditions:
  "distinct (map cond_Type current) \<Longrightarrow> distinct (map cond_Type (preserveConditions existing current ts))"
proof -
  assume "distinct (map cond_Type current)"
  then have "distinct (map cond_Type (fold (preserve_one existing) ts current))"
    by (rule fold_invariant) (rule distinct_preserve_one)
  with \<open>distinct (map cond_Type current)\<close> show ?thesis by (simp add: preserveConditions_def)
qed

lemmas condition_lists = clusterModeConditions_def replicaModeConditions_def standaloneConditions_def

lemma distinct_determineConditions: "distinct (map cond_Type (determineConditions seen cluster statuses))"
  by (auto simp: determineConditions_def condition_lists condition_of_def Let_def)

lemma final_condition_status:
  "find_condition (determineConditions seen cluster statuses) t = Some c \<Longrightarrow>
   map_option cond_Status (find_condition (final_conditions existing seen cluster statuses) t) = Some (cond_Status c)"
  by (simp add: final_conditions_def find_condition_carry find_preserveConditions split: option.split)

lemma determineConditions_seen:
  "c \<in> set (determineConditions seen cluster statuses) \<Longrightarrow> cond_LastTransitionTime c = seen"
  by (auto simp: determineConditions_def condition_lists condition_of_def Let_def split: if_splits)

section \<open>Facts about slots\<close>

lemma derive_shard_coverage:
  "fst (snd (derive_shard layout (n, s) (state, cov, shards))) =
     (if map_of (shardOf layout) n = None then cov else fold cover_range (is_SlotsServed s) cov)"
  by (auto simp: derive_shard_def Let_def split: option.split)

lemma fold_derive_coverage:
  "fst (snd (fold (derive_shard layout) statuses (state, cov, shards))) slot \<longleftrightarrow>
     cov slot \<or> (0 \<le> slot \<and> slot \<le> 16383 \<and>
       slot \<in> served_slots (filter (\<lambda>(n, s). map_of (shardOf layout) n \<noteq> None) statuses))"
proof (induction statuses arbitrary: state cov shards)
  case Nil
  then show ?case by (simp add: served_slots_def)
next
  case (Cons x statuses)
  obtain n s where x: "x = (n, s)" by (cases x)
  obtain state' cov' shards' where step: "derive_shard layout x (state, cov, shards) = (state', cov', shards')"
    by (metis prod_cases3)
  have "cov' = (if map_of (shardOf layout) n = None then cov else fold cover_range (is_SlotsServed s) cov)"
    using derive_shard_coverage [of layout n s state cov shards] step x by simp
  with Cons.IH [of state' cov' shards'] step x show ?case
    by (auto simp: served_slots_def fold_cover_range_iff slots_of_list_def)
qed

section \<open>Properties\<close>

text \<open>
  The conditions written to the status: no type occurs twice; a condition computed from the
  polled statuses keeps its earlier transition time exactly when its status did not change; and a
  condition another component owns (hibernation, maintenance, a waiting primary update, a claim
  resize, replica mode) is carried over as it was.
\<close>

theorem status_conditions:
  "distinct (map cond_Type (final_conditions existing seen cluster statuses)) \<and>
   find_condition (final_conditions existing seen cluster statuses) t =
     (case find_condition (determineConditions seen cluster statuses) t of
        None \<Rightarrow> (if t \<in> set preserved_types then find_condition existing t else None)
      | Some c \<Rightarrow> Some (c\<lparr>cond_LastTransitionTime :=
          (case find_condition existing t of
             None \<Rightarrow> seen
           | Some e \<Rightarrow> if cond_Status e = cond_Status c then cond_LastTransitionTime e else seen)\<rparr>))"
proof
  show "distinct (map cond_Type (final_conditions existing seen cluster statuses))"
    unfolding final_conditions_def types_carry
    by (rule distinct_preserveConditions [OF distinct_determineConditions])
  have seen: "cond_LastTransitionTime c = seen" if "find_condition (determineConditions seen cluster statuses) t = Some c" for c
    using find_condition_mem [OF that] by (rule determineConditions_seen)
  show "find_condition (final_conditions existing seen cluster statuses) t =
     (case find_condition (determineConditions seen cluster statuses) t of
        None \<Rightarrow> (if t \<in> set preserved_types then find_condition existing t else None)
      | Some c \<Rightarrow> Some (c\<lparr>cond_LastTransitionTime :=
          (case find_condition existing t of
             None \<Rightarrow> seen
           | Some e \<Rightarrow> if cond_Status e = cond_Status c then cond_LastTransitionTime e else seen)\<rparr>))"
  proof (cases "find_condition (determineConditions seen cluster statuses) t")
    case None
    then show ?thesis
      by (cases "find_condition existing t")
         (simp_all add: final_conditions_def find_condition_carry find_preserveConditions)
  next
    case (Some c)
    from seen [OF Some] have "c\<lparr>cond_LastTransitionTime := seen\<rparr> = c" by (cases c) simp
    with Some show ?thesis
      by (cases "find_condition existing t")
         (simp_all add: final_conditions_def find_condition_carry find_preserveConditions)
  qed
qed

text \<open>
  The number of assigned slots is the number of hash slots that some placed pod reports to
  serve; it is at most 16384, and reaches 16384 exactly when no slot is left out.
\<close>

theorem slots_assigned_count:
  assumes "planShardLayout rng (Some cluster) pods statuses = Some layout"
    and "deriveClusterStatus rng (Some cluster) pods statuses = Some (state, n, shards)"
  shows "n = int (card ({0..16383} \<inter> served_slots (filter (\<lambda>(name, _). map_of (shardOf layout) name \<noteq> None) statuses))) \<and>
    0 \<le> n \<and> n \<le> 16384 \<and>
    (n = 16384 \<longleftrightarrow>
      {0..16383} \<subseteq> served_slots (filter (\<lambda>(name, _). map_of (shardOf layout) name \<noteq> None) statuses))"
proof -
  define slots :: "int set" where "slots = {0..16383}"
  define served where "served = served_slots (filter (\<lambda>(name, _). map_of (shardOf layout) name \<noteq> None) statuses)"
  let ?start = "if length statuses > 0 then ''ok'' else []"
  let ?cov = "fst (snd (fold (derive_shard layout) statuses (?start, (\<lambda>_. False), [])))"
  have cov: "?cov s \<longleftrightarrow> s \<in> slots \<inter> served" for s
    using fold_derive_coverage [of layout statuses ?start "\<lambda>_. False" "[]" s]
    by (auto simp: slots_def served_def case_prod_beta)
  have "n = int (length (filter ?cov [0..16383]))"
    using assms by (simp add: deriveClusterStatus_def Let_def case_prod_beta)
  also have "length (filter ?cov [0..16383]) = card (set (filter ?cov [0..16383]))"
    by (rule distinct_card [symmetric]) simp
  also have "set [0..16383] = slots" by (simp only: slots_def set_upto)
  then have "set (filter ?cov [0..16383]) = slots \<inter> served"
    unfolding set_filter using cov by blast
  finally have n: "n = int (card (slots \<inter> served))" .
  have fin: "finite slots" unfolding slots_def by (rule finite_atLeastAtMost_int)
  have size: "card slots = 16384" unfolding slots_def card_atLeastAtMost_int by simp
  have "card (slots \<inter> served) \<le> 16384" using card_mono [OF fin, of "slots \<inter> served"] size by auto
  moreover have "card (slots \<inter> served) = 16384 \<longleftrightarrow> slots \<subseteq> served"
    using card_subset_eq [OF fin, of "slots \<inter> served"] size by (auto simp: Int_absorb2)
  ultimately show ?thesis unfolding slots_def [symmetric] served_def [symmetric] n by linarith
qed

text \<open>
  Outside cluster mode and replica mode, a cluster reported as Healthy has true Ready and
  PrimaryAvailable conditions, and is not requeued for unreachable pods.
\<close>

theorem healthy_is_ready:
  assumes "determinePhase cluster statuses = ClusterPhaseHealthy"
    and "s_Mode (c_Spec cluster) \<noteq> ClusterModeCluster"
  shows "\<not> checkReachability cluster statuses \<and>
    map_option cond_Status (find_condition (final_conditions existing seen cluster statuses) ConditionReady) =
      Some ConditionTrue \<and>
    map_option cond_Status (find_condition (final_conditions existing seen cluster statuses) ConditionPrimaryAvailable) =
      Some ConditionTrue"
proof -
  let ?len = "int (length statuses)"
  have mode: "\<not> isReplicaModeEnabled cluster"
    and all: "list_all (\<lambda>(_, s). is_Connected s) statuses"
    and master: "list_ex (\<lambda>(_, s). is_Role s = ''master'') statuses"
    and enough: "int32 ?len \<ge> DesiredDataInstances (c_Spec cluster)"
    using assms by (auto simp: determinePhase_def Let_def split: if_splits)
  have "int32 ?len \<le> ?len"
    using zmod_le_nonneg_dividend [of "?len + 2 ^ 31" "2 ^ 32"] by (simp add: int32_def)
  moreover have "connectedCount statuses = ?len"
    using all by (simp add: connectedCount_def list_all_iff filter_True)
  ultimately have "\<not> checkReachability cluster statuses" using enough by (simp add: checkReachability_def)
  moreover have "list_ex (\<lambda>(_, s). is_Role s = ''master'' \<and> is_Connected s) statuses"
    using all master by (auto simp: list_all_iff list_ex_iff)
  note standalone = this mode assms(2)
  obtain c d where "find_condition (determineConditions seen cluster statuses) ConditionReady = Some c"
    and "find_condition (determineConditions seen cluster statuses) ConditionPrimaryAvailable = Some d"
    and "cond_Status c = ConditionTrue" and "cond_Status d = ConditionTrue"
    using standalone
    by (simp add: determineConditions_def standaloneConditions_def find_condition_def condition_of_def Let_def)
  from final_condition_status [OF this(1), of existing] final_condition_status [OF this(2), of existing] this(3,4)
  have "map_option cond_Status (find_condition (final_conditions existing seen cluster statuses) ConditionReady) =
      Some ConditionTrue \<and>
    map_option cond_Status (find_condition (final_conditions existing seen cluster statuses) ConditionPrimaryAvailable) =
      Some ConditionTrue" by simp
  ultimately show ?thesis by blast
qed

text \<open>
  C18. A failover that is triggered by the statuses just written finds a candidate, as long as
  connected instances report valid offsets; the candidate is connected and is not the lost primary,
  so the failover does not leave the primary fenced for want of a replica.
\<close>

theorem triggered_failover_has_candidate:
  assumes "shouldTriggerFailover (Some cluster) statuses"
    and "st_InstancesStatus (c_Status cluster) = statuses"
    and "list_all (\<lambda>(name, s). name \<noteq> [] \<and> (is_Connected s \<longrightarrow> 0 \<le> is_ReplicationOffset s)) statuses"
  shows "selectFailoverCandidate cluster \<noteq> [] \<and>
    selectFailoverCandidate cluster \<noteq> st_CurrentPrimary (c_Status cluster) \<and>
    (\<exists>s. (selectFailoverCandidate cluster, s) \<in> set statuses \<and> is_Connected s)"
proof -
  from assms(1) obtain e where "e \<in> set statuses" "fst e \<noteq> st_CurrentPrimary (c_Status cluster)" "is_Connected (snd e)"
    by (auto simp: shouldTriggerFailover_def Let_def list_ex_iff split: if_splits)
  then have "e \<in> set (st_InstancesStatus (c_Status cluster))" "eligible (st_CurrentPrimary (c_Status cluster)) e"
    using assms(2,3) by (auto simp: eligible_def list_all_iff)
  then obtain s where "(selectFailoverCandidate cluster, s) \<in> set statuses"
    "eligible (st_CurrentPrimary (c_Status cluster)) (selectFailoverCandidate cluster, s)"
    using assms(2) by (auto elim: selectFailoverCandidate_best)
  with assms(3) show ?thesis by (auto simp: eligible_def list_all_iff)
qed

text \<open>The calls a status update may make on a cluster.\<close>

definition status_only :: "RedisCluster \<Rightarrow> call \<Rightarrow> bool" where
  "status_only c x = (case x of
     StatusPatch (OCluster a) (OCluster b) \<Rightarrow> a = c \<and> b\<lparr>c_Status := c_Status c\<rparr> = c
   | ListOf k _ _ \<Rightarrow> k = KPod
   | Event _ _ _ \<Rightarrow> True
   | Clock \<Rightarrow> True
   | Observed _ \<Rightarrow> True
   | _ \<Rightarrow> False)"

definition status_frame :: "RedisCluster world \<Rightarrow> RedisCluster world \<Rightarrow> bool" where
  "status_frame w w' \<longleftrightarrow> (\<exists>l. w_log w' = w_log w @ l \<and> list_all (\<lambda>x. status_only (w_obj w) (fst x)) l)"

definition status_moved :: "RedisCluster world \<Rightarrow> RedisCluster world \<Rightarrow> bool" where
  "status_moved w w' \<longleftrightarrow> status_frame w w' \<and> (w_obj w')\<lparr>c_Status := c_Status (w_obj w)\<rparr> = w_obj w"

lemma status_frame_logged:
  "status_frame w w' \<Longrightarrow> status_only (w_obj w) c \<Longrightarrow> status_frame w (logged c ok w')"
  by (auto simp: status_frame_def logged_def)

lemma status_moved_refl: "status_moved w w"
  by (simp add: status_moved_def status_frame_def)

lemma status_moved_set: "status_moved w w' \<Longrightarrow> status_moved w (w'\<lparr>w_obj := on_status f (w_obj w')\<rparr>)"
  by (simp add: status_moved_def status_frame_def on_status_def)

lemma status_moved_logged:
  "status_moved w w' \<Longrightarrow> status_only (w_obj w) c \<Longrightarrow> status_moved w (logged c ok w')"
  by (simp add: status_moved_def status_frame_logged) (simp add: logged_def)

text \<open>A step that leaves everything but the status as it was, from whatever state the update has reached.\<close>

definition moves_status :: "(RedisCluster, 'a) io \<Rightarrow> bool" where
  "moves_status m \<longleftrightarrow> (\<forall>w w'. status_moved w w' \<longrightarrow> wp m (\<lambda>_. status_moved w) (\<lambda>_. status_moved w) w')"

lemma moves_status_bnd:
  assumes "moves_status m" and "\<And>a. moves_status (f a)"
  shows "moves_status (bnd m f)"
  unfolding moves_status_def
proof (intro allI impI)
  fix w w' :: "RedisCluster world" assume "status_moved w w'"
  with assms(1) have "wp m (\<lambda>_. status_moved w) (\<lambda>_. status_moved w) w'" by (simp add: moves_status_def)
  then show "wp (bnd m f) (\<lambda>_. status_moved w) (\<lambda>_. status_moved w) w'"
    unfolding wp_bnd by (rule wp_mono) (use assms(2) in \<open>auto simp: moves_status_def\<close>)
qed

lemma moves_status_basic:
  "moves_status (ret a)" "moves_status (throw e)" "moves_status obj"
  "moves_status (eventf s r msg)" "moves_status (now env)" "moves_status (set_obj (on_status f))"
  "moves_status (list_objects env KPod ns sel)"
  by (auto simp: moves_status_def wp_simps status_moved_set list_objects_def status_only_def
        intro!: status_moved_logged split: sum.split)

lemma moves_status_if: "moves_status m \<Longrightarrow> moves_status n \<Longrightarrow> moves_status (if b then m else n)"
  by simp

lemma moves_status_wrap: "moves_status m \<Longrightarrow> moves_status (wrap_err msg m)"
  by (simp add: moves_status_def wp_simps)

lemmas moves_status_intros = moves_status_bnd moves_status_basic moves_status_wrap

lemma moves_status_lists:
  "moves_status (listDataPods env c)" "moves_status (countReadySentinelPods env c)"
  unfolding listDataPods_def listClusterPods_def countReadySentinelPods_def listSentinelPods_def list_pods_def
  by (auto intro!: moves_status_intros)

lemma moves_status_update_shards: "moves_status (update_shards env rng statuses)"
  unfolding update_shards_def
  by (auto intro!: moves_status_intros moves_status_lists split: option.split)

lemma moves_status_set_phase:
  "moves_status (set_obj (\<lambda>c. on_status (\<lambda>st. st\<lparr>st_Phase := determinePhase c statuses\<rparr>) c))"
  by (auto simp: moves_status_def wp_simps intro!: status_moved_set
        [where f = "\<lambda>st. st\<lparr>st_Phase := determinePhase (w_obj _) statuses\<rparr>"])

lemma wp_bnd_obj: "wp (bnd obj f) Q E w = wp (f (w_obj w)) Q E w"
  by (simp add: wp_simps)

lemma wp_moves_status:
  assumes "moves_status m" and "status_moved w w'"
    and "\<And>a w''. status_moved w w'' \<Longrightarrow> wp (f a) (\<lambda>_. status_frame w) (\<lambda>_. status_frame w) w''"
  shows "wp (bnd m f) (\<lambda>_. status_frame w) (\<lambda>_. status_frame w) w'"
proof -
  have "wp m (\<lambda>_. status_moved w) (\<lambda>_. status_moved w) w'" using assms(1,2) by (simp add: moves_status_def)
  then show ?thesis unfolding wp_bnd
    by (rule wp_mono) (use assms(3) in \<open>auto simp: status_moved_def\<close>)
qed

lemma wp_patch_status_since:
  assumes "status_moved w w'"
  shows "wp (patch_status_since env (w_obj w)) (\<lambda>_. status_frame w) (\<lambda>_. status_frame w) w'"
proof -
  have "status_frame w (w'\<lparr>w_obj := x\<rparr>)" for x using assms by (simp add: status_moved_def status_frame_def)
  moreover have "status_only (w_obj w) (StatusPatch (OCluster (w_obj w)) (OCluster (w_obj w')))"
    using assms by (simp add: status_moved_def status_only_def)
  moreover have "status_only (w_obj w) (Observed x)" for x by (simp add: status_only_def)
  ultimately show ?thesis
    by (auto simp: patch_status_since_def patch_status_def wp_simps Let_def status_frame_def logged_def
        split: sum.split object.split)
qed

lemma wp_status_end:
  assumes "status_moved w w'"
  shows "wp (if status_eq (c_Status (w_obj w)) (c_Status c) then ret () else patch_status_since env (w_obj w))
    (\<lambda>_. status_frame w) (\<lambda>_. status_frame w) w'"
  using assms wp_patch_status_since [OF assms] by (simp add: wp_simps status_moved_def)

text \<open>
  Updating the status only ever lists pods, reads the clock, records events, and patches the
  status subresource against the copy of the cluster it started from: specification, annotations
  and identity of the cluster are what they were, whatever the API server answers.
\<close>

theorem status_update_writes_only_status:
  "\<exists>l. w_log (snd (updateStatus env rng statuses w)) = w_log w @ l \<and>
     list_all (\<lambda>x. status_only (w_obj w) (fst x)) l"
proof -
  have "wp (updateStatus env rng statuses) (\<lambda>_. status_frame w) (\<lambda>_. status_frame w) w"
    unfolding updateStatus_def wp_bnd_obj Let_def
    by (rule status_moved_refl wp_moves_status moves_status_basic moves_status_update_shards
          moves_status_wrap moves_status_lists moves_status_set_phase moves_status_if wp_status_end | assumption)+
  then show ?thesis by (auto simp: wp_def status_frame_def split: prod.splits sum.splits)
qed

section \<open>Witnesses\<close>

lemma scaled_served:
  "{0..16383} \<subseteq> served_slots (filter (\<lambda>(name, _). map_of (shardOf scaled_layout) name \<noteq> None) scaled_statuses)"
  by (auto simp: served_slots_def slots_of_list_def slots_of_def scaled_statuses_def scaled_layout_def scaled_node_def)

theorem slots_assigned_count_witness:
  "\<exists>state shards. planShardLayout (\<lambda>m. m) (Some scaled_cluster) scaled_pods scaled_statuses = Some scaled_layout \<and>
     deriveClusterStatus (\<lambda>m. m) (Some scaled_cluster) scaled_pods scaled_statuses = Some (state, 16384, shards)"
proof -
  obtain state n shards where d:
    "deriveClusterStatus (\<lambda>m. m) (Some scaled_cluster) scaled_pods scaled_statuses = Some (state, n, shards)"
    by (simp add: deriveClusterStatus_def scaled_plan Let_def case_prod_beta)
  from slots_assigned_count [OF scaled_plan d] scaled_served have "n = 16384" by blast
  with d scaled_plan show ?thesis by blast
qed

text \<open>Three connected instances of a standalone cluster, the primary among them.\<close>

lemma sample_healthy:
  "determinePhase sample_cluster (st_InstancesStatus (c_Status sample_cluster)) = ClusterPhaseHealthy"
  by code_simp

theorem healthy_is_ready_witness:
  "\<not> checkReachability sample_cluster (st_InstancesStatus (c_Status sample_cluster)) \<and>
   determinePhase sample_cluster (st_InstancesStatus (c_Status sample_cluster)) = ClusterPhaseHealthy"
proof -
  have "s_Mode (c_Spec sample_cluster) \<noteq> ClusterModeCluster" by code_simp
  from healthy_is_ready [OF sample_healthy this] sample_healthy show ?thesis by blast
qed

text \<open>The same cluster after its primary stopped answering.\<close>

definition lost_cluster :: RedisCluster where
  "lost_cluster = sample_cluster\<lparr>c_Status := (c_Status sample_cluster)\<lparr>st_InstancesStatus :=
     [(''r-0'', zero_InstanceStatus), (''r-1'', sample_instance ''slave'' 5), (''r-2'', sample_instance ''slave'' 7)]\<rparr>\<rparr>"

theorem triggered_failover_has_candidate_witness:
  "shouldTriggerFailover (Some lost_cluster) (st_InstancesStatus (c_Status lost_cluster)) \<and>
   selectFailoverCandidate lost_cluster \<noteq> []"
proof -
  have "shouldTriggerFailover (Some lost_cluster) (st_InstancesStatus (c_Status lost_cluster))"
    and "list_all (\<lambda>(name, s). name \<noteq> [] \<and> (is_Connected s \<longrightarrow> 0 \<le> is_ReplicationOffset s))
      (st_InstancesStatus (c_Status lost_cluster))"
    by code_simp+
  with triggered_failover_has_candidate [OF this(1) refl this(2)] show ?thesis by blast
qed

end
