(* ===== verification/Rolling_Update.thy ===== *)
theory Rolling_Update
  imports Call_Order Cluster_Status
begin

text \<open>
  \<^verbatim>\<open>rolling_update.go\<close>: replacing pods whose specification hash is out of date, replicas before
  primaries, the approval of a supervised primary update, the switchover, and the restarts that
  finish a filesystem resize. Each function does one step per reconciliation and says whether
  reconciliation should stop there. Sorting pods by index panics when one of at least two names is
  too short to carry an index.
\<close>

section \<open>Helpers\<close>

abbreviation primaryUpdateApprovalMessage :: string where
  "primaryUpdateApprovalMessage \<equiv>
     ''Replicas are updated. Set annotation redis.io/approve-primary-update=\"true\" to continue.''"

definition sortByIndexDesc :: "RedisCluster \<Rightarrow> Pod list \<Rightarrow> ('s, Pod list) io" where
  "sortByIndexDesc cluster pods =
     (if 2 \<le> length pods \<and> list_ex (\<lambda>p. podIndex (c_Name cluster) (p_Name p) = None) pods
      then throw (Panic ''slice bounds out of range'')
      else ret (sort_key (\<lambda>p. - index_of cluster (p_Name p)) pods))"

text \<open>Deleting a pod; that it is already gone is no error.\<close>

definition delete_pod :: "env \<Rightarrow> string \<Rightarrow> Pod \<Rightarrow> ('s, unit) io" where
  "delete_pod env msg pod =
     bnd (attempt (delete env KPod (om_Namespace (p_Meta pod)) (p_Name pod))) (\<lambda>r.
     case r of Inl e \<Rightarrow> if IsNotFound e then ret () else throw (Wrap msg e) | Inr _ \<Rightarrow> ret ())"

definition isPrimaryUpdateApproved :: "RedisCluster \<Rightarrow> bool" where
  "isPrimaryUpdateApproved cluster \<longleftrightarrow>
     mget [] (c_Annotations cluster) AnnotationApprovePrimaryUpdate = ''true''"

definition isPrimaryUpdateWaiting :: "RedisCluster \<Rightarrow> bool" where
  "isPrimaryUpdateWaiting cluster =
     list_ex (\<lambda>c. cond_Type c = ConditionPrimaryUpdateWaiting \<and> cond_Status c = ConditionTrue)
       (st_Conditions (c_Status cluster))"

definition podHasPendingResizePVC :: "Pod \<Rightarrow> string set \<Rightarrow> bool" where
  "podHasPendingResizePVC pod pendingPVCs =
     list_ex (\<lambda>v. case vol_Source v of PersistentVolumeClaimSource claimName \<Rightarrow> claimName \<in> pendingPVCs | _ \<Rightarrow> False)
       (ps_Volumes (p_Spec pod))"

section \<open>Approval of a supervised primary update\<close>

definition waiting_condition :: "int \<Rightarrow> Condition" where
  "waiting_condition seen = \<lparr>cond_Type = ConditionPrimaryUpdateWaiting, cond_Status = ConditionTrue,
     cond_LastTransitionTime = seen, cond_Reason = ''AwaitingApproval'',
     cond_Message = primaryUpdateApprovalMessage\<rparr>"

definition pauseForPrimaryApproval :: "env \<Rightarrow> (RedisCluster, bool) io" where
  "pauseForPrimaryApproval env = bnd obj (\<lambda>cluster.
     let waiting = isPrimaryUpdateWaiting cluster in
     if waiting \<and> st_Phase (c_Status cluster) = ClusterPhaseWaitingForUser then ret True
     else
       bnd (if waiting then ret 0 else now env) (\<lambda>seen.
       bnd (wrap_err ''patching waiting-for-user status'' (patch_status env (on_status (\<lambda>st.
              let st1 = st\<lparr>st_Phase := ClusterPhaseWaitingForUser\<rparr> in
              if waiting then st1
              else st1\<lparr>st_Conditions := setCondition (st_Conditions st1) (waiting_condition seen)\<rparr>)))) (\<lambda>_.
       bnd (if waiting then ret ()
            else eventf Normal ''PrimaryUpdatePaused'' primaryUpdateApprovalMessage) (\<lambda>_.
       ret True))))"

definition drop_approval :: "RedisCluster \<Rightarrow> RedisCluster" where
  "drop_approval cluster =
     cluster\<lparr>c_Annotations := mdel AnnotationApprovePrimaryUpdate (c_Annotations cluster)\<rparr>"

definition consumed_condition :: "int \<Rightarrow> Condition" where
  "consumed_condition seen = \<lparr>cond_Type = ConditionPrimaryUpdateWaiting, cond_Status = ConditionFalse,
     cond_LastTransitionTime = seen, cond_Reason = ''ApprovalConsumed'',
     cond_Message = ''Primary update approval consumed; rolling update resumed.''\<rparr>"

definition clearPrimaryUpdateApproval :: "env \<Rightarrow> (RedisCluster, unit) io" where
  "clearPrimaryUpdateApproval env = bnd obj (\<lambda>cluster.
     bnd (if map_of (c_Annotations cluster) AnnotationApprovePrimaryUpdate \<noteq> None
          then wrap_err ''patching cluster annotations'' (patch_cluster env False drop_approval)
          else ret ()) (\<lambda>_.
     bnd (now env) (\<lambda>seen.
     wrap_err ''patching status after approval'' (patch_status env (on_status (\<lambda>st.
       let st1 = st\<lparr>st_Conditions := setCondition (st_Conditions st) (consumed_condition seen)\<rparr> in
       if st_Phase st1 = ClusterPhaseWaitingForUser then st1\<lparr>st_Phase := ClusterPhaseUpdating\<rparr> else st1))))))"

section \<open>Switchover\<close>

definition switch_primary :: "string \<Rightarrow> RedisClusterStatus \<Rightarrow> RedisClusterStatus" where
  "switch_primary name st = st\<lparr>st_CurrentPrimary := name\<rparr>"

text \<open>The steps after the promotion was acknowledged.\<close>

definition adopt_primary :: "env \<Rightarrow> string \<Rightarrow> string \<Rightarrow> (RedisCluster, unit) io" where
  "adopt_primary env candidate formerPrimary =
     bnd (wrap_err ''updating status after switchover'' (patch_status env (on_status (switch_primary candidate)))) (\<lambda>_.
     bnd (wrap_err ''updating leader service after switchover'' (updateLeaderServiceSelector env)) (\<lambda>_.
     wrap_err (''clearing fence on '' @ formerPrimary @ '' after switchover'') (clearFence env formerPrimary)))"

definition switchover :: "env \<Rightarrow> (RedisCluster, unit) io" where
  "switchover env = bnd obj (\<lambda>cluster.
     let formerPrimary = st_CurrentPrimary (c_Status cluster) in
     if formerPrimary = [] then throw (Err ''current primary is empty'')
     else
       bnd (wrap_err (''fencing former primary '' @ formerPrimary) (setFence env formerPrimary)) (\<lambda>_.
       bnd obj (\<lambda>cluster.
       let candidate = selectFailoverCandidate cluster in
       if candidate = [] then throw (Err ''no suitable replica found for switchover'')
       else
         bnd (wrap_err ''listing pods for switchover'' (listClusterPods env cluster)) (\<lambda>pods.
         case find (\<lambda>pod. p_Name pod = candidate \<and> p_IP pod \<noteq> []) pods of
           None \<Rightarrow> throw (Err (''candidate '' @ candidate @ '' has no reachable pod IP''))
         | Some pod \<Rightarrow>
             bnd (wrap_err (''promoting '' @ candidate) (promoteInstance env (p_IP pod))) (\<lambda>_.
             adopt_primary env candidate formerPrimary)))))"

section \<open>Rolling update outside cluster mode\<close>

primrec replace_first_stale :: "env \<Rightarrow> string \<Rightarrow> string \<Rightarrow> Pod list \<Rightarrow> (RedisCluster, bool) io" where
  "replace_first_stale env what desiredHash [] = ret False"
| "replace_first_stale env what desiredHash (replica # replicas) =
     (if getPodSpecHash replica = desiredHash then replace_first_stale env what desiredHash replicas
      else bnd (delete_pod env (''deleting '' @ what @ '' '' @ p_Name replica @ '' for update'') replica)
             (\<lambda>_. ret True))"

definition update_primary :: "env \<Rightarrow> RedisCluster \<Rightarrow> Pod list \<Rightarrow> Pod \<Rightarrow> (RedisCluster, bool) io" where
  "update_primary env cluster replicas primary =
     (let isSupervised = s_PrimaryUpdateStrategy (c_Spec cluster) = PrimaryUpdateStrategySupervised;
         approved = isPrimaryUpdateApproved cluster;
         clear = (if isSupervised \<and> approved
           then wrap_err ''clearing primary update approval'' (clearPrimaryUpdateApproval env) else ret ())
     in
     if isSupervised \<and> \<not> approved then pauseForPrimaryApproval env
     else if replicas = [] then
       bnd (delete_pod env (''deleting primary '' @ p_Name primary @ '' for update'') primary) (\<lambda>_.
       bnd clear (\<lambda>_. ret True))
     else
       bnd (wrap_err ''switchover during rolling update'' (switchover env)) (\<lambda>_.
       bnd clear (\<lambda>_. ret True)))"

definition rolling_update_pods :: "env \<Rightarrow> string \<Rightarrow> Pod list \<Rightarrow> (RedisCluster, bool) io" where
  "rolling_update_pods env desiredHash pods = bnd obj (\<lambda>cluster.
     let current = st_CurrentPrimary (c_Status cluster);
         replicas = filter (\<lambda>p. p_Name p \<noteq> current) pods;
         primary = last_pod current pods
     in
     bnd (eventf Normal ''RollingUpdateStarted'' ''Rolling update started'') (\<lambda>_.
     bnd (sortByIndexDesc cluster replicas) (\<lambda>replicas.
     bnd (replace_first_stale env ''replica'' desiredHash replicas) (\<lambda>stop.
     let completed = bnd (eventf Normal ''RollingUpdateCompleted'' ''Rolling update completed'') (\<lambda>_. ret False) in
     if stop then ret True
     else
       case primary of
         None \<Rightarrow> completed
       | Some p \<Rightarrow>
           if getPodSpecHash p \<noteq> desiredHash then update_primary env cluster replicas p else completed))))"

section \<open>Rolling update in cluster mode\<close>

definition shard_members :: "Pod list \<Rightarrow> ShardStatus \<Rightarrow> Pod list" where
  "shard_members pods shardStatus =
     List.map_filter (\<lambda>name. last_pod name pods) (sh_PrimaryPod shardStatus # sh_ReplicaPods shardStatus)"

text \<open>The stale primary of a shard: replaced when alone, otherwise handed over to the first replica.\<close>

definition update_shard_primary :: "env \<Rightarrow> Pod list \<Rightarrow> Pod \<Rightarrow> (RedisCluster, bool) io" where
  "update_shard_primary env replicas primary =
     (case replicas of
        [] \<Rightarrow> bnd (delete_pod env (''deleting shard primary '' @ p_Name primary @ '' for update'') primary)
               (\<lambda>_. ret True)
      | candidate # _ \<Rightarrow>
          if p_IP candidate = [] then ret True
          else
            bnd (wrap_err (''fencing shard primary '' @ p_Name primary) (setFence env (p_Name primary))) (\<lambda>_.
            bnd (wrap_err (''promoting shard failover candidate '' @ p_Name candidate)
                  (promoteInstance env (p_IP candidate))) (\<lambda>_.
            bnd (wrap_err (''clearing fence on shard primary '' @ p_Name primary)
                  (clearFence env (p_Name primary))) (\<lambda>_. ret True))))"

primrec rolling_shards ::
  "env \<Rightarrow> RedisCluster \<Rightarrow> string \<Rightarrow> Pod list \<Rightarrow> int list \<Rightarrow> (RedisCluster, bool) io" where
  "rolling_shards env cluster desiredHash pods [] = ret False"
| "rolling_shards env cluster desiredHash pods (shardIndex # indices) =
     (case map_of (st_Shards (c_Status cluster)) (shardName shardIndex) of
        None \<Rightarrow> rolling_shards env cluster desiredHash pods indices
      | Some shardStatus \<Rightarrow>
          let shardMembers = shard_members pods shardStatus;
              primary = last_pod (sh_PrimaryPod shardStatus) shardMembers
          in
          if shardMembers = [] then rolling_shards env cluster desiredHash pods indices
          else
            bnd (sortByIndexDesc cluster (filter (\<lambda>p. p_Name p \<noteq> sh_PrimaryPod shardStatus) shardMembers)) (\<lambda>replicas.
            bnd (replace_first_stale env ''shard replica'' desiredHash replicas) (\<lambda>stop.
            if stop then ret True
            else
              case primary of
                None \<Rightarrow> rolling_shards env cluster desiredHash pods indices
              | Some p \<Rightarrow>
                  if getPodSpecHash p = desiredHash
                  then rolling_shards env cluster desiredHash pods indices
                  else update_shard_primary env replicas p)))"

definition rollingUpdateClusterMode :: "env \<Rightarrow> string \<Rightarrow> (RedisCluster, bool) io" where
  "rollingUpdateClusterMode env desiredHash = bnd obj (\<lambda>cluster.
     bnd (wrap_err ''listing pods for cluster rolling update'' (listDataPods env cluster)) (\<lambda>pods.
     if pods = [] then ret False
     else rolling_shards env cluster desiredHash pods (rev [0..s_Shards (c_Spec cluster) - 1])))"

definition rollingUpdate :: "env \<Rightarrow> string \<Rightarrow> (RedisCluster, bool) io" where
  "rollingUpdate env desiredHash = bnd obj (\<lambda>cluster.
     if s_Mode (c_Spec cluster) = ClusterModeCluster then rollingUpdateClusterMode env desiredHash
     else bnd (wrap_err ''listing pods for rolling update'' (listDataPods env cluster))
       (rolling_update_pods env desiredHash))"

section \<open>Restarts for a pending filesystem resize\<close>

text \<open>The first pending replica that is ready is restarted; the others wait.\<close>

definition restart_replicas :: "env \<Rightarrow> Pod list \<Rightarrow> (RedisCluster, bool) io" where
  "restart_replicas env pendingReplicas =
     (case find isPodRunningAndReady pendingReplicas of
        Some target \<Rightarrow>
          bnd (eventf Normal ''PVCResizeRestart'' (''Restarting replica '' @ p_Name target @
                '' to complete filesystem expansion'')) (\<lambda>_.
          bnd (delete_pod env (''deleting replica '' @ p_Name target @ '' for PVC resize restart'') target) (\<lambda>_.
          ret True))
      | None \<Rightarrow> ret (length pendingReplicas > 0))"

definition restart_primary :: "env \<Rightarrow> Pod list \<Rightarrow> Pod \<Rightarrow> (RedisCluster, bool) io" where
  "restart_primary env allReplicas pendingPrimary =
     (if \<not> isPodRunningAndReady pendingPrimary then ret True
      else if allReplicas = [] then
        bnd (eventf Normal ''PVCResizeRestart'' (''Restarting primary '' @ p_Name pendingPrimary @
              '' to complete filesystem expansion'')) (\<lambda>_.
        bnd (delete_pod env (''deleting primary '' @ p_Name pendingPrimary @ '' for PVC resize restart'')
              pendingPrimary) (\<lambda>_.
        ret True))
      else if \<not> list_ex isPodRunningAndReady allReplicas then ret True
      else
        bnd (eventf Normal ''PVCResizeRestart'' (''Primary '' @ p_Name pendingPrimary @
              '' requires filesystem resize; performing switchover before restart'')) (\<lambda>_.
        bnd (wrap_err ''switchover for PVC resize restart'' (switchover env)) (\<lambda>_.
        ret True)))"

definition restartPodsForPendingResize :: "env \<Rightarrow> string set \<Rightarrow> (RedisCluster, bool) io" where
  "restartPodsForPendingResize env pendingPVCs = bnd obj (\<lambda>cluster.
     bnd (wrap_err ''listing pods for PVC resize restart'' (listDataPods env cluster)) (\<lambda>pods.
     let current = st_CurrentPrimary (c_Status cluster);
         pending = (\<lambda>pod. podHasPendingResizePVC pod pendingPVCs);
         allReplicas = filter (\<lambda>p. p_Name p \<noteq> current) pods;
         pendingPrimary = find (\<lambda>p. p_Name p = current \<and> pending p) (rev pods)
     in
     bnd (sortByIndexDesc cluster (filter pending allReplicas)) (\<lambda>pendingReplicas.
     bnd (restart_replicas env pendingReplicas) (\<lambda>stop.
     if stop then ret True
     else
       case pendingPrimary of
         None \<Rightarrow> ret False
       | Some p \<Rightarrow> restart_primary env allReplicas p))))"

section \<open>Deletions\<close>

definition is_delete :: "call \<Rightarrow> bool" where
  "is_delete c = (case c of Delete _ _ _ \<Rightarrow> True | _ \<Rightarrow> False)"

lemma bnd_ret [simp]: "bnd (ret a) f = f a"
  by (simp add: bnd_def ret_def)

lemma bnd_throw [simp]: "bnd (throw e) f = throw e"
  by (simp add: bnd_def throw_def)

lemma bnd_bnd: "bnd (bnd m f) g = bnd m (\<lambda>a. bnd (f a) g)"
  by (auto simp: bnd_def split: prod.splits sum.splits)

lemma replace_first_stale_find:
  "replace_first_stale env what h replicas =
     (case find (\<lambda>p. getPodSpecHash p \<noteq> h) replicas of
        None \<Rightarrow> ret False
      | Some p \<Rightarrow> bnd (delete_pod env (''deleting '' @ what @ '' '' @ p_Name p @ '' for update'') p) (\<lambda>_. ret True))"
  by (induction replicas) auto

text \<open>Steps that delete nothing.\<close>

lemma issues_setFence_any:
  assumes "\<And>lock a b. P (Patch lock (OCluster a) (OCluster b))" "\<And>x. P (Observed x)" "\<And>a b c. P (Event a b c)"
  shows "issues P (setFence env p)"
  using assms by (auto simp: setFence_def setFencedPods_def Let_def intro!: issues_intros)

lemma issues_clearFence_any:
  assumes "\<And>lock a b. P (Patch lock (OCluster a) (OCluster b))" "\<And>x. P (Observed x)" "\<And>a b c. P (Event a b c)"
  shows "issues P (clearFence env p)"
  using assms by (auto simp: clearFence_def setFencedPods_def Let_def intro!: issues_intros)

lemma issues_promoteInstance_any:
  "P (Http ''POST'' ip promote_path NoBody) \<Longrightarrow> issues P (promoteInstance env ip)"
  by (auto simp: promoteInstance_def Let_def intro!: issues_intros)

lemma issues_service_any: "(\<And>c. service_call c \<Longrightarrow> P c) \<Longrightarrow> issues P (updateLeaderServiceSelector env)"
  by (rule issues_mono [OF issues_updateLeaderServiceSelector])

lemma issues_switchover:
  assumes "\<And>ip. P (Http ''POST'' ip promote_path NoBody)" "\<And>lock a b. P (Patch lock (OCluster a) (OCluster b))"
    "\<And>a b. P (StatusPatch (OCluster a) (OCluster b))"
    "\<And>x. P (Observed x)" "\<And>a b c. P (Event a b c)" "\<And>ns sel. P (ListOf KPod ns sel)"
    "\<And>ns n. P (Get KService ns n)" "\<And>lock a b. P (Patch lock (OService a) (OService b))"
  shows "issues P (switchover env)"
proof -
  have "issues P (updateLeaderServiceSelector env)"
    using assms(7,8) by (auto simp: updateLeaderServiceSelector_def patch_service_def Let_def intro!: issues_intros)
  then show ?thesis
    using assms unfolding switchover_def adopt_primary_def Let_def
    by (auto intro!: issues_intros issues_setFence_any issues_clearFence_any issues_promoteInstance_any)
qed

lemma issues_approval:
  assumes "\<And>lock a b. P (Patch lock (OCluster a) (OCluster b))" "\<And>a b. P (StatusPatch (OCluster a) (OCluster b))"
    "\<And>x. P (Observed x)" "\<And>a b c. P (Event a b c)" "P Clock"
  shows "issues P (pauseForPrimaryApproval env)" and "issues P (clearPrimaryUpdateApproval env)"
  using assms unfolding pauseForPrimaryApproval_def clearPrimaryUpdateApproval_def Let_def
  by (auto intro!: issues_intros)

lemma issues_sortByIndexDesc: "issues P (sortByIndexDesc cluster pods)"
  by (auto simp: sortByIndexDesc_def intro!: issues_intros)

lemma issues_delete_pod:
  "P (Delete KPod (om_Namespace (p_Meta pod)) (p_Name pod)) \<Longrightarrow> issues P (delete_pod env msg pod)"
  by (auto simp: delete_pod_def intro!: issues_intros)

lemma budget_delete_pod: "budget P 1 (delete_pod env msg pod)"
  unfolding delete_pod_def
  by (intro budget_last budget_attempt budget_delete) (auto intro!: issues_intros)

lemma no_deletes:
  "issues (\<lambda>c. \<not> is_delete c) (switchover env)"
  "issues (\<lambda>c. \<not> is_delete c) (pauseForPrimaryApproval env)"
  "issues (\<lambda>c. \<not> is_delete c) (clearPrimaryUpdateApproval env)"
  "issues (\<lambda>c. \<not> is_delete c) (setFence env p)"
  "issues (\<lambda>c. \<not> is_delete c) (clearFence env p)"
  "issues (\<lambda>c. \<not> is_delete c) (promoteInstance env ip)"
  "issues (\<lambda>c. \<not> is_delete c) (listDataPods env c)"
  "issues (\<lambda>c. \<not> is_delete c) (sortByIndexDesc c pods)"
  "issues (\<lambda>c. \<not> is_delete c) (eventf a b d)"
  by (auto simp: is_delete_def intro!: issues_switchover issues_approval issues_setFence_any issues_clearFence_any
      issues_promoteInstance_any issues_sortByIndexDesc issues_intros)

lemma bnd_replace:
  "bnd (replace_first_stale env what h replicas) f =
     (case find (\<lambda>p. getPodSpecHash p \<noteq> h) replicas of
        None \<Rightarrow> f False
      | Some p \<Rightarrow> bnd (delete_pod env (''deleting '' @ what @ '' '' @ p_Name p @ '' for update'') p) (\<lambda>_. f True))"
  by (simp add: replace_first_stale_find bnd_bnd split: option.split)

lemma bnd_restart_replicas:
  "bnd (restart_replicas env pods) f =
     (case find isPodRunningAndReady pods of
        Some p \<Rightarrow> bnd (eventf Normal ''PVCResizeRestart'' (''Restarting replica '' @ p_Name p @
                '' to complete filesystem expansion'')) (\<lambda>_.
          bnd (delete_pod env (''deleting replica '' @ p_Name p @ '' for PVC resize restart'') p) (\<lambda>_. f True))
      | None \<Rightarrow> f (length pods > 0))"
  by (simp add: restart_replicas_def bnd_bnd split: option.split)

lemma bnd_sort:
  "bnd (sortByIndexDesc cluster pods) f =
     (if 2 \<le> length pods \<and> list_ex (\<lambda>p. podIndex (c_Name cluster) (p_Name p) = None) pods
      then throw (Panic ''slice bounds out of range'')
      else f (sort_key (\<lambda>p. - index_of cluster (p_Name p)) pods))"
  by (simp add: sortByIndexDesc_def)

lemma budget_update_primary: "budget is_delete 1 (update_primary env cluster replicas p)"
  unfolding update_primary_def Let_def
  by (intro budget_if budget_0 budget_last [OF budget_delete_pod] issues_bnd issues_if issues_wrap_err
      issues_ret no_deletes)

lemma budget_rolling_update_pods: "budget is_delete 1 (rolling_update_pods env h pods)"
  unfolding rolling_update_pods_def Let_def bnd_replace bnd_sort
  by (intro budget_obj budget_then budget_if budget_case_option budget_throw budget_ret budget_update_primary
      budget_last [OF budget_delete_pod] no_deletes)
     (auto intro!: issues_intros)

lemma budget_update_shard_primary: "budget is_delete 1 (update_shard_primary env replicas p)"
proof (cases replicas)
  case Nil
  show ?thesis
    unfolding update_shard_primary_def Nil list.case by (intro budget_last [OF budget_delete_pod] issues_ret)
next
  case (Cons r rs)
  then show ?thesis
    unfolding update_shard_primary_def
    by (auto intro!: budget_0 issues_if issues_bnd issues_wrap_err issues_ret no_deletes)
qed

lemma budget_rolling_shards: "budget is_delete 1 (rolling_shards env cluster h pods indices)"
proof (induction indices)
  case (Cons i indices)
  then show ?case
    unfolding rolling_shards.simps Let_def bnd_replace bnd_sort
    by (intro budget_if budget_case_option budget_throw budget_ret budget_update_shard_primary
        budget_last [OF budget_delete_pod]) (auto intro!: issues_intros)
qed (simp add: budget_ret)

lemma budget_restart_primary: "budget is_delete 1 (restart_primary env replicas p)"
  unfolding restart_primary_def
  by (intro budget_if budget_ret budget_then [OF no_deletes(9)] budget_last [OF budget_delete_pod] budget_0
      issues_bnd issues_wrap_err issues_ret no_deletes)

section \<open>Properties\<close>


text \<open>
  What a rolling update outside cluster mode may do, given the data pods that were listed: it only
  deletes listed pods with an outdated hash; it touches the primary (by deletion when it is
  alone, by a promotion otherwise) only when no other pod is outdated, and under supervision only
  with the approval.
\<close>

definition primary_update_allowed :: "RedisCluster \<Rightarrow> string \<Rightarrow> Pod list \<Rightarrow> bool" where
  "primary_update_allowed cluster h pods \<longleftrightarrow>
     (\<forall>q \<in> set pods. p_Name q \<noteq> st_CurrentPrimary (c_Status cluster) \<longrightarrow> getPodSpecHash q = h) \<and>
     (s_PrimaryUpdateStrategy (c_Spec cluster) = PrimaryUpdateStrategySupervised \<longrightarrow> isPrimaryUpdateApproved cluster)"

definition rolling_ok :: "RedisCluster \<Rightarrow> string \<Rightarrow> Pod list \<Rightarrow> call \<Rightarrow> bool" where
  "rolling_ok cluster h pods c = (case c of
     Delete k ns name \<Rightarrow> k = KPod \<and> (\<exists>p \<in> set pods. p_Name p = name \<and> getPodSpecHash p \<noteq> h) \<and>
       (name = st_CurrentPrimary (c_Status cluster) \<longrightarrow> primary_update_allowed cluster h pods \<and>
          (\<forall>q \<in> set pods. p_Name q = name))
   | Http _ _ _ _ \<Rightarrow> primary_update_allowed cluster h pods
   | _ \<Rightarrow> True)"

lemma issues_rolling_update_primary:
  assumes fresh: "\<forall>q \<in> set pods. p_Name q \<noteq> st_CurrentPrimary (c_Status cluster) \<longrightarrow> getPodSpecHash q = h"
    and p: "p \<in> set pods" "p_Name p = st_CurrentPrimary (c_Status cluster)" "getPodSpecHash p \<noteq> h"
    and replicas: "set replicas = {q \<in> set pods. p_Name q \<noteq> st_CurrentPrimary (c_Status cluster)}"
  shows "issues (rolling_ok cluster h pods) (update_primary env cluster replicas p)"
proof -
  let ?P = "rolling_ok cluster h pods"
  have pause: "issues ?P (pauseForPrimaryApproval env)" and clear: "issues ?P (clearPrimaryUpdateApproval env)"
    by (auto simp: rolling_ok_def intro!: issues_approval)
  show ?thesis
  proof (cases "s_PrimaryUpdateStrategy (c_Spec cluster) = PrimaryUpdateStrategySupervised \<and> \<not> isPrimaryUpdateApproved cluster")
    case True
    with pause show ?thesis by (simp add: update_primary_def Let_def)
  next
    case False
    then have allowed: "primary_update_allowed cluster h pods"
      using fresh by (auto simp: primary_update_allowed_def)
    have "issues ?P (switchover env)" using allowed by (auto simp: rolling_ok_def intro!: issues_switchover)
    moreover have "issues ?P (delete_pod env msg p)" if "replicas = []" for msg
      using allowed p replicas that by (auto simp: rolling_ok_def intro!: issues_delete_pod)
    ultimately show ?thesis
      using False clear unfolding update_primary_def Let_def by (auto intro!: issues_intros)
  qed
qed

lemma find_SomeD: "find P xs = Some x \<Longrightarrow> x \<in> set xs \<and> P x"
  by (induction xs) (auto split: if_splits)

lemma last_pod_SomeD: "last_pod name pods = Some p \<Longrightarrow> p \<in> set pods \<and> p_Name p = name"
  using find_SomeD [of "\<lambda>p. p_Name p = name" "rev pods" p] by (simp add: last_pod_def)

lemma issues_rolling_step:
  assumes "cluster = w_obj w"
  shows "issues (rolling_ok cluster h pods) (bnd (replace_first_stale env ''replica'' h
    (sort_key (\<lambda>p. - index_of cluster (p_Name p)) (filter (\<lambda>p. p_Name p \<noteq> st_CurrentPrimary (c_Status cluster)) pods)))
    (\<lambda>stop. if stop then ret True
       else case last_pod (st_CurrentPrimary (c_Status cluster)) pods of
         None \<Rightarrow> bnd (eventf Normal ''RollingUpdateCompleted'' ''Rolling update completed'') (\<lambda>_. ret False)
       | Some p \<Rightarrow>
           if getPodSpecHash p \<noteq> h then update_primary env cluster
             (sort_key (\<lambda>p. - index_of cluster (p_Name p)) (filter (\<lambda>p. p_Name p \<noteq> st_CurrentPrimary (c_Status cluster)) pods)) p
           else bnd (eventf Normal ''RollingUpdateCompleted'' ''Rolling update completed'') (\<lambda>_. ret False)))"
  (is "issues ?P (bnd (replace_first_stale env _ h ?rs) _)")
proof -
  have event: "issues ?P (bnd (eventf a b c) (\<lambda>_. ret False))" for a b c
    by (auto simp: rolling_ok_def intro!: issues_intros)
  show ?thesis
  proof (cases "find (\<lambda>p. getPodSpecHash p \<noteq> h) ?rs")
    case None
    then have fresh: "\<forall>q \<in> set pods. p_Name q \<noteq> st_CurrentPrimary (c_Status cluster) \<longrightarrow> getPodSpecHash q = h"
      by (auto simp: find_None_iff)
    have "issues ?P (update_primary env cluster ?rs p)"
      if "last_pod (st_CurrentPrimary (c_Status cluster)) pods = Some p" "getPodSpecHash p \<noteq> h" for p
      using fresh that last_pod_SomeD [OF that(1)] by (intro issues_rolling_update_primary) auto
    then show ?thesis
      unfolding bnd_replace None option.case using event by (auto split: option.split)
  next
    case (Some p)
    then have p: "p \<in> set pods" "p_Name p \<noteq> st_CurrentPrimary (c_Status cluster)" "getPodSpecHash p \<noteq> h"
      by (auto dest: find_SomeD)
    then have "issues ?P (delete_pod env msg p)" for msg
      by (auto simp: rolling_ok_def intro!: issues_delete_pod)
    then show ?thesis
      unfolding bnd_replace Some option.case by (auto intro!: issues_intros)
  qed
qed

lemma rolling_update_pods_issues:
  assumes "rolling_update_pods env h pods w = (r, w')"
  obtains l where "w_log w' = w_log w @ l" "\<forall>x \<in> set l. rolling_ok (w_obj w) h pods (fst x)"
proof (rule issues_bnd_objE [OF _ assms [unfolded rolling_update_pods_def]])
  show "issues (rolling_ok (w_obj w) h pods)
    (let current = st_CurrentPrimary (c_Status (w_obj w));
         replicas = filter (\<lambda>p. p_Name p \<noteq> current) pods;
         primary = last_pod current pods
     in
     bnd (eventf Normal ''RollingUpdateStarted'' ''Rolling update started'') (\<lambda>_.
     bnd (sortByIndexDesc (w_obj w) replicas) (\<lambda>replicas.
     bnd (replace_first_stale env ''replica'' h replicas) (\<lambda>stop.
     let completed = bnd (eventf Normal ''RollingUpdateCompleted'' ''Rolling update completed'') (\<lambda>_. ret False) in
     if stop then ret True
     else
       case primary of
         None \<Rightarrow> completed
       | Some p \<Rightarrow>
           if getPodSpecHash p \<noteq> h then update_primary env (w_obj w) replicas p else completed))))"
    unfolding Let_def bnd_sort
    by (intro issues_bnd issues_if issues_eventf issues_throw issues_rolling_step [OF refl]) (simp add: rolling_ok_def)
qed (rule that)

text \<open>The data pods among listed objects.\<close>

definition data_pods :: "object list \<Rightarrow> Pod list" where
  "data_pods xs = filter isDataPod (List.map_filter (\<lambda>x. case x of OPod p \<Rightarrow> Some p | _ \<Rightarrow> None) xs)"

lemma listDataPods_run:
  assumes "e_list env (w_log w) KPod (c_Namespace c) [(LabelCluster, c_Name c)] = Inr xs"
  shows "listDataPods env c w =
    (Inr (data_pods xs), logged (ListOf KPod (c_Namespace c) [(LabelCluster, c_Name c)]) True w)"
  using assms
  by (simp add: listDataPods_def listClusterPods_def list_pods_def list_objects_def perform_def bnd_def ret_def data_pods_def)


text \<open>A promotion request that was answered with status 200, and patches of the status.\<close>

definition acknowledged_promotion :: "call \<times> bool \<Rightarrow> bool" where
  "acknowledged_promotion x \<longleftrightarrow> is_promote (fst x) \<and> snd x"

definition is_status_patch :: "call \<Rightarrow> bool" where
  "is_status_patch c = (case c of StatusPatch _ _ \<Rightarrow> True | _ \<Rightarrow> False)"

lemma secures_promoteInstance: "secures acknowledged_promotion is_status_patch (promoteInstance env ip)"
  unfolding secures_def
  by (auto simp: promoteInstance_def Let_def bnd_def http_def logged_def throw_def ret_def is_status_patch_def
      acknowledged_promotion_def is_promote_def split: sum.split prod.split)

lemma guarded_switchover: "guarded acknowledged_promotion is_status_patch (switchover env)"
proof -
  have any: "issues (\<lambda>_. True) (adopt_primary env c p)" for c p
    unfolding adopt_primary_def
    by (auto intro!: issues_intros issues_clearFence_any issues_service_any)
  show ?thesis
    unfolding switchover_def Let_def
    by (intro guarded_then [OF issues_obj] guarded_intros guarded_then guarded_secured secures_wrap_err
        secures_promoteInstance any issues_wrap_err issues_setFence_any issues_listClusterPods guarded_none)
       (auto simp: is_status_patch_def intro!: issues_intros issues_setFence_any)
qed

text \<open>
  A switchover changes the recorded primary only after an instance acknowledged its
  promotion: every status patch it sends comes after a promotion request that was answered with
  status 200.
\<close>

theorem switchover_adopts_after_promotion:
  assumes "w_log (snd (switchover env w)) = w_log w @ pre @ (StatusPatch a b, ok) # post"
  shows "\<exists>x \<in> set pre. acknowledged_promotion x"
proof -
  obtain l where "w_log (snd (switchover env w)) = w_log w @ l" "only_after acknowledged_promotion is_status_patch l"
    using guarded_switchover unfolding guarded_def by blast
  with assms have "only_after acknowledged_promotion is_status_patch (pre @ (StatusPatch a b, ok) # post)" by simp
  then show ?thesis unfolding only_after_def by (auto simp: is_status_patch_def)
qed

lemma split_at_status_patch:
  assumes "\<exists>x \<in> set l. is_status_patch (fst x)"
  obtains a b ok post where "l = takeWhile (\<lambda>x. \<not> is_status_patch (fst x)) l @ (StatusPatch a b, ok) # post"
proof -
  let ?P = "\<lambda>x. \<not> is_status_patch (fst x)"
  from assms obtain x r where d: "dropWhile ?P l = x # r"
    by (cases "dropWhile ?P l") (auto simp: dropWhile_eq_Nil_conv)
  then have "is_status_patch (fst x)" using hd_dropWhile [of ?P l] by simp
  moreover have "l = takeWhile ?P l @ x # r" using d by (metis takeWhile_dropWhile_id)
  ultimately show thesis by (cases x; cases "fst x") (auto simp: is_status_patch_def intro: that)
qed

theorem switchover_adopts_after_promotion_witness:
  "let l = w_log (snd (switchover (sample_env sample_pods) (sample_world sample_cluster))) in
   (\<exists>x \<in> set l. is_status_patch (fst x)) \<and>
   (\<exists>x \<in> set (takeWhile (\<lambda>x. \<not> is_status_patch (fst x)) l). acknowledged_promotion x)"
proof -
  let ?w = "sample_world sample_cluster"
  let ?l = "w_log (snd (switchover (sample_env sample_pods) ?w))"
  have patched: "\<exists>x \<in> set ?l. is_status_patch (fst x)" by code_simp
  then obtain a b ok post where l: "?l = takeWhile (\<lambda>x. \<not> is_status_patch (fst x)) ?l @ (StatusPatch a b, ok) # post"
    by (rule split_at_status_patch)
  have "w_log ?w = []" by (simp add: sample_world_def)
  with switchover_adopts_after_promotion [of "sample_env sample_pods" ?w _ a b ok post] l patched show ?thesis
    by (simp add: Let_def)
qed

text \<open>
  A switchover fences before it knows a candidate. With an accepting API server and no
  eligible replica, it returns an error and leaves the current primary fenced, so that a cluster
  that had a serving primary has none until the fence is removed.
\<close>

theorem switchover_leaves_fence:
  assumes "accepts env" and "st_CurrentPrimary (c_Status (w_obj w)) \<noteq> []"
    and "selectFailoverCandidate (w_obj w) = []"
  shows "\<exists>w'. switchover env w = (Inl (Err ''no suitable replica found for switchover''), w') \<and>
    st_CurrentPrimary (c_Status (w_obj w)) \<in> set (getFencedPods (w_obj w')) \<and>
    st_CurrentPrimary (c_Status (w_obj w')) = st_CurrentPrimary (c_Status (w_obj w))"
proof -
  let ?p = "st_CurrentPrimary (c_Status (w_obj w))"
  let ?E = "\<lambda>e w'. e = Err ''no suitable replica found for switchover'' \<and> ?p \<in> set (getFencedPods (w_obj w')) \<and>
    st_CurrentPrimary (c_Status (w_obj w')) = ?p"
  have "wp (setFence env ?p) (\<lambda>_ w'. selectFailoverCandidate (w_obj w') = [] \<and> ?p \<in> set (getFencedPods (w_obj w')) \<and>
      st_CurrentPrimary (c_Status (w_obj w')) = ?p) (\<lambda>_ _. False) w"
    by (rule wp_setFence_accepts [OF assms(1)]) (simp add: assms(3) annotation.set_fences_add)
  then have "wp (switchover env) (\<lambda>_ _. False) ?E w"
    using assms(2) unfolding switchover_def
    by (simp add: wp_simps Let_def) (erule wp_mono, auto simp: wp_simps)
  then show ?thesis by (auto simp: wp_def split: prod.splits sum.splits)
qed

text \<open>A cluster of a single instance.\<close>

definition lone_cluster :: RedisCluster where
  "lone_cluster = sample_cluster\<lparr>c_Status := (c_Status sample_cluster)\<lparr>st_InstancesStatus :=
     [(''r-0'', sample_instance ''master'' 9)]\<rparr>\<rparr>"

theorem switchover_leaves_fence_witness:
  "\<exists>w'. switchover (sample_env []) (sample_world lone_cluster) =
      (Inl (Err ''no suitable replica found for switchover''), w') \<and> ''r-0'' \<in> set (getFencedPods (w_obj w'))"
proof -
  have "st_CurrentPrimary (c_Status (w_obj (sample_world lone_cluster))) \<noteq> []"
    and "selectFailoverCandidate (w_obj (sample_world lone_cluster)) = []"
    and p: "st_CurrentPrimary (c_Status (w_obj (sample_world lone_cluster))) = ''r-0''"
    by code_simp+
  from switchover_leaves_fence [OF sample_accepts this(1,2)] show ?thesis unfolding p by blast
qed


end
