(* ===== verification/Pods.thy ===== *)
theory Pods
  imports Rolling_Update
begin

text \<open>
  \<^verbatim>\<open>pods.go\<close>: building the data and sentinel pods, adopting and relabelling existing ones, scaling
  the pods of a cluster up and down, and the ConfigMap with the \<^verbatim>\<open>redis.conf\<close> template. The operator's
  own image is the parameter \<open>operatorImage\<close>. A pod that is created has an empty status.
\<close>

section \<open>Constants and fixed parts\<close>

abbreviation instanceManagerBinaryPath :: string where "instanceManagerBinaryPath \<equiv> ''/controller/manager''"
abbreviation redisDataVolumeName :: string where "redisDataVolumeName \<equiv> ''data''"
abbreviation redisDataMountPath :: string where "redisDataMountPath \<equiv> ''/data''"
abbreviation controllerVolumeName :: string where "controllerVolumeName \<equiv> ''controller''"
abbreviation controllerMountPath :: string where "controllerMountPath \<equiv> ''/controller''"
abbreviation stagedCACertPath :: string where "stagedCACertPath \<equiv> ''/controller/ca-certificates.crt''"
abbreviation projectedVolumeName :: string where "projectedVolumeName \<equiv> ''projected-secrets''"
abbreviation projectedMountPath :: string where "projectedMountPath \<equiv> ''/projected''"
abbreviation tlsVolumeName :: string where "tlsVolumeName \<equiv> ''tls-certs''"
abbreviation tlsMountPath :: string where "tlsMountPath \<equiv> ''/tls''"
abbreviation restoreDataInitName :: string where "restoreDataInitName \<equiv> ''restore-data''"
abbreviation backupCredsVolumeName :: string where "backupCredsVolumeName \<equiv> ''backup-credentials''"
abbreviation backupCredsMountPath :: string where "backupCredsMountPath \<equiv> ''/backup-credentials''"

definition redisPodSecurityContext :: PodSecurityContext where
  "redisPodSecurityContext = \<lparr>psc_RunAsNonRoot = True, psc_RunAsUser = 999, psc_RunAsGroup = 999,
     psc_FSGroup = 999, psc_SeccompProfile = ''RuntimeDefault''\<rparr>"

definition redisContainerSecurityContext :: "bool \<Rightarrow> SecurityContext" where
  "redisContainerSecurityContext readOnlyRootFilesystem = \<lparr>sc_RunAsNonRoot = True,
     sc_AllowPrivilegeEscalation = False, sc_ReadOnlyRootFilesystem = readOnlyRootFilesystem,
     sc_DropCapabilities = [''ALL'']\<rparr>"

definition mount :: "string \<Rightarrow> string \<Rightarrow> bool \<Rightarrow> VolumeMount" where
  "mount name path readOnly = \<lparr>vm_Name = name, vm_MountPath = path, vm_ReadOnly = readOnly\<rparr>"

definition volume :: "string \<Rightarrow> VolumeSource \<Rightarrow> Volume" where
  "volume name source = \<lparr>vol_Name = name, vol_Source = source\<rparr>"

definition probe :: "string \<Rightarrow> int \<Rightarrow> int \<Rightarrow> Probe" where
  "probe path delay period = \<lparr>pr_Path = path, pr_Port = 8080, pr_InitialDelaySeconds = delay,
     pr_PeriodSeconds = period, pr_FailureThreshold = 0, pr_TimeoutSeconds = 0\<rparr>"

definition tcp_port :: "string \<Rightarrow> int \<Rightarrow> ContainerPort" where
  "tcp_port name port = \<lparr>cp_Name = name, cp_ContainerPort = port, cp_Protocol = ''TCP''\<rparr>"

definition copyManagerContainer :: "string \<Rightarrow> Container" where
  "copyManagerContainer operatorImage =
     (new_container ''copy-manager'' operatorImage [''/manager'', ''copy-binary'', instanceManagerBinaryPath])
       \<lparr>ct_SecurityContext := Some (redisContainerSecurityContext False),
        ct_VolumeMounts := [mount controllerVolumeName controllerMountPath False]\<rparr>"

text \<open>Values are put between double quotes, as \<^verbatim>\<open>%q\<close> prints names without special characters.\<close>

definition quoted :: "string \<Rightarrow> string" where
  "quoted s = [CHR 0x22] @ s @ [CHR 0x22]"

section \<open>Volumes\<close>

definition dataVolumeSource :: "RedisCluster \<Rightarrow> int \<Rightarrow> VolumeSource" where
  "dataVolumeSource cluster index =
     (if IsEphemeral (s_Storage (c_Spec cluster)) then
        let size = ss_Size (s_Storage (c_Spec cluster)) in
        EmptyDir (if q_nano size \<noteq> 0 then Some size else None)
      else PersistentVolumeClaimSource (pvcNameForIndex (c_Name cluster) index))"

definition tlsCertVolume :: "string \<Rightarrow> string \<Rightarrow> Volume" where
  "tlsCertVolume tlsSecret caSecret = volume tlsVolumeName (Projected
     [\<lparr>sp_Name = tlsSecret, sp_Items = [(''tls.crt'', ''tls.crt''), (''tls.key'', ''tls.key'')]\<rparr>,
      \<lparr>sp_Name = caSecret, sp_Items = [(''ca.crt'', ''ca.crt'')]\<rparr>])"

definition tlsCertVolumeMount :: VolumeMount where
  "tlsCertVolumeMount = mount tlsVolumeName tlsMountPath True"

text \<open>The keys to project of each Secret, collected in a map of sets of keys.\<close>

definition addProjectedSecretKey ::
  "string \<Rightarrow> string \<Rightarrow> (string, string list) gomap \<Rightarrow> (string, string list) gomap" where
  "addProjectedSecretKey secretName key m =
     (let name = trimSpace secretName; k = trimSpace key; keys = mget [] m name in
      if name = [] \<or> k = [] then m else mput name (if k \<in> set keys then keys else keys @ [k]) m)"

definition projectedSecretKeys :: "RedisCluster \<Rightarrow> (string, string list) gomap" where
  "projectedSecretKeys cluster =
     (let s = c_Spec cluster;
          m1 = (case s_AuthSecret s of None \<Rightarrow> [] | Some name \<Rightarrow> addProjectedSecretKey name ''password'' []);
          m2 = (case s_ACLConfigSecret s of None \<Rightarrow> m1 | Some name \<Rightarrow> addProjectedSecretKey name ''acl'' m1);
          source = replicaModeSourceAuthSecretName cluster
      in if source \<noteq> [] then addProjectedSecretKey source ''password'' m2 else m2)"

definition projectedSources :: "RedisCluster \<Rightarrow> SecretProjection list" where
  "projectedSources cluster =
     (let m = projectedSecretKeys cluster in
      map (\<lambda>name. \<lparr>sp_Name = name,
             sp_Items = map (\<lambda>key. (key, name @ ''/'' @ key)) (sort (mget [] m name))\<rparr>)
        (sort (map fst m)))"

text \<open>
  The volumes and mounts that depend on the configuration: projected Secrets, TLS certificates
  and backup credentials, each a volume with its mount in the Redis container.
\<close>

definition optional_volumes :: "RedisCluster \<Rightarrow> SecretProjection list \<Rightarrow> (Volume \<times> VolumeMount) list" where
  "optional_volumes cluster sources =
     (if sources \<noteq> []
      then [(volume projectedVolumeName (Projected sources), mount projectedVolumeName projectedMountPath False)]
      else []) @
     (case (s_TLSSecret (c_Spec cluster), s_CASecret (c_Spec cluster)) of
        (Some tls, Some ca) \<Rightarrow> [(tlsCertVolume tls ca, tlsCertVolumeMount)]
      | _ \<Rightarrow> [])"

definition backupCredsSecretName :: "RedisCluster \<Rightarrow> string" where
  "backupCredsSecretName cluster =
     (case s_BackupCredentialsSecret (c_Spec cluster) of None \<Rightarrow> [] | Some name \<Rightarrow> name)"

definition backup_volumes :: "RedisCluster \<Rightarrow> (Volume \<times> VolumeMount) list" where
  "backup_volumes cluster =
     (if backupCredsSecretName cluster \<noteq> []
      then [(volume backupCredsVolumeName (Projected [\<lparr>sp_Name = backupCredsSecretName cluster, sp_Items = []\<rparr>]),
             mount backupCredsVolumeName backupCredsMountPath True)]
      else [])"

section \<open>Restore on bootstrap\<close>

definition shouldRestoreFromBackup :: "RedisCluster \<Rightarrow> string \<Rightarrow> int \<Rightarrow> string \<Rightarrow> bool" where
  "shouldRestoreFromBackup cluster podName index role \<longleftrightarrow>
     (case s_Bootstrap (c_Spec cluster) of
        None \<Rightarrow> False
      | Some backupName \<Rightarrow>
          if backupName = [] then False
          else if s_Mode (c_Spec cluster) = ClusterModeCluster
          then \<not> st_BootstrapCompleted (c_Status cluster) \<and> role = LabelRolePrimary
          else st_CurrentPrimary (c_Status cluster) = [] \<and> index = 0 \<and>
            podName = podNameForIndex (c_Name cluster) 0)"

definition getBootstrapBackup :: "env \<Rightarrow> RedisCluster \<Rightarrow> ('s, RedisBackup) io" where
  "getBootstrapBackup env cluster =
     (case s_Bootstrap (c_Spec cluster) of
        None \<Rightarrow> throw (Err ''spec.bootstrap.backupName is required'')
      | Some backupName \<Rightarrow>
          if backupName = [] then throw (Err ''spec.bootstrap.backupName is required'')
          else get_backup env (c_Namespace cluster) backupName)"

text \<open>The checks of a bootstrap backup, in order; \<open>None\<close> when it can be restored.\<close>

definition bootstrap_backup_error :: "RedisBackup \<Rightarrow> goerr option" where
  "bootstrap_backup_error backup =
     (let what = ''bootstrap backup '' @ om_Namespace (b_Meta backup) @ ''/'' @ om_Name (b_Meta backup);
          meth = (if bs_Method (b_Spec backup) = [] then BackupMethodRDB else bs_Method (b_Spec backup))
      in
      if bst_Phase (b_Status backup) \<noteq> BackupPhaseCompleted
      then Some (Err (what @ '' is not completed (phase='' @ bst_Phase (b_Status backup) @ '')''))
      else
        case Validate (bs_Destination (b_Spec backup)) of
          Some e \<Rightarrow> Some (Wrap (what @ '' has invalid destination'') (Err e))
        | None \<Rightarrow>
            if bst_BackupPath (b_Status backup) = [] then Some (Err (what @ '' has empty status.backupPath''))
            else if meth \<noteq> BackupMethodRDB \<and> meth \<noteq> BackupMethodAOF
            then Some (Err (what @ '' uses unsupported method '' @ quoted meth))
            else None)"

definition restoreContainer :: "string \<Rightarrow> RedisCluster \<Rightarrow> RedisBackup \<Rightarrow> string \<Rightarrow> Container" where
  "restoreContainer operatorImage cluster backup podName =
     (new_container restoreDataInitName operatorImage [''/manager'', ''restore''])
       \<lparr>ct_SecurityContext := Some (redisContainerSecurityContext False),
        ct_Args := [''--cluster-name='' @ c_Name cluster, ''--backup-name='' @ om_Name (b_Meta backup),
          ''--backup-namespace='' @ om_Namespace (b_Meta backup), ''--data-dir='' @ redisDataMountPath,
          ''--pod-name='' @ podName],
        ct_VolumeMounts := mount redisDataVolumeName redisDataMountPath False #
          (if backupCredsSecretName cluster \<noteq> []
           then [mount backupCredsVolumeName backupCredsMountPath True] else [])\<rparr>"

definition init_containers ::
  "env \<Rightarrow> string \<Rightarrow> RedisCluster \<Rightarrow> string \<Rightarrow> int \<Rightarrow> string \<Rightarrow> ('s, Container list) io" where
  "init_containers env operatorImage cluster podName index role =
     (if shouldRestoreFromBackup cluster podName index role then
        bnd (wrap_err (''getting bootstrap backup '' @
              quoted (case s_Bootstrap (c_Spec cluster) of None \<Rightarrow> [] | Some n \<Rightarrow> n))
              (getBootstrapBackup env cluster)) (\<lambda>backup.
        case bootstrap_backup_error backup of
          Some e \<Rightarrow> throw e
        | None \<Rightarrow> ret [copyManagerContainer operatorImage, restoreContainer operatorImage cluster backup podName])
      else ret [copyManagerContainer operatorImage])"

section \<open>Data pods\<close>

definition instance_args :: "RedisCluster \<Rightarrow> string \<Rightarrow> string list" where
  "instance_args cluster podName = [''--cluster-name='' @ c_Name cluster, ''--pod-name='' @ podName,
     ''--pod-namespace='' @ c_Namespace cluster]"

definition instance_env :: "RedisCluster \<Rightarrow> string \<Rightarrow> EnvVar list" where
  "instance_env cluster podName = [EnvValue ''POD_NAME'' podName, EnvValue ''CLUSTER_NAME'' (c_Name cluster),
     EnvValue ''POD_NAMESPACE'' (c_Namespace cluster), EnvValue ''SSL_CERT_FILE'' stagedCACertPath]"

definition redisContainer :: "RedisCluster \<Rightarrow> string \<Rightarrow> VolumeMount list \<Rightarrow> Container" where
  "redisContainer cluster podName extraMounts =
     (let clusterMode = s_Mode (c_Spec cluster) = ClusterModeCluster in
      (new_container ''redis'' (s_ImageName (c_Spec cluster)) [instanceManagerBinaryPath, ''instance''])
        \<lparr>ct_Args := instance_args cluster podName,
         ct_Ports := [tcp_port ''redis'' 6379, tcp_port ''http'' 8080] @
           (if clusterMode then [tcp_port ''cluster-bus'' 16379] else []),
         ct_Resources := s_Resources (c_Spec cluster),
         ct_SecurityContext := Some (redisContainerSecurityContext False),
         ct_VolumeMounts := [mount redisDataVolumeName redisDataMountPath False,
           mount controllerVolumeName controllerMountPath False] @ extraMounts,
         ct_Env := instance_env cluster podName @
           (if clusterMode then [EnvFieldRef ''POD_IP'' ''status.podIP''] else []),
         ct_LivenessProbe := Some ((probe ''/healthz'' 10 10)
           \<lparr>pr_FailureThreshold := 3, pr_TimeoutSeconds := livenessTimeoutSeconds cluster\<rparr>),
         ct_ReadinessProbe := Some (probe ''/readyz'' 5 5)\<rparr>)"

definition base_pod_spec :: "RedisCluster \<Rightarrow> Container list \<Rightarrow> Container list \<Rightarrow> Volume list \<Rightarrow> PodSpec" where
  "base_pod_spec cluster inits containers volumes =
     (let s = c_Spec cluster in
      \<lparr>ps_ServiceAccountName = serviceAccountName (c_Name cluster), ps_NodeSelector = s_NodeSelector s,
       ps_Affinity = s_Affinity s, ps_Tolerations = s_Tolerations s,
       ps_TopologySpreadConstraints = s_TopologySpreadConstraints s,
       ps_SecurityContext = Some redisPodSecurityContext, ps_InitContainers = inits,
       ps_Containers = containers, ps_Volumes = volumes\<rparr>)"

definition newDataPod ::
  "string \<Rightarrow> RedisCluster \<Rightarrow> string \<Rightarrow> int \<Rightarrow> (string, string) gomap \<Rightarrow> Container list \<Rightarrow> Pod" where
  "newDataPod operatorImage cluster podName index labels inits =
     (let extra = optional_volumes cluster (projectedSources cluster) @ backup_volumes cluster in
      \<lparr>p_Meta = (new_meta podName (c_Namespace cluster) labels)
         \<lparr>om_Annotations := [(specHashAnnotation, computeSpecHash operatorImage cluster)]\<rparr>,
       p_Spec = base_pod_spec cluster inits [redisContainer cluster podName (map snd extra)]
         ([volume redisDataVolumeName (dataVolumeSource cluster index), volume controllerVolumeName (EmptyDir None)] @
          map fst extra),
       p_Phase = [], p_IP = [], p_Conditions = []\<rparr>)"

text \<open>Labels and the owner reference of a pod that exists are brought up to date in one patch.\<close>

definition merge_labels :: "(string, string) gomap \<Rightarrow> (string, string) gomap \<Rightarrow> (string, string) gomap" where
  "merge_labels labels existing =
     fold (\<lambda>(k, v) m. if mget [] m k \<noteq> v then mput k v m else m) labels existing"

definition adopt_pod ::
  "env \<Rightarrow> RedisCluster \<Rightarrow> string \<Rightarrow> (string, string) gomap \<Rightarrow> Pod \<Rightarrow> ('s, unit) io" where
  "adopt_pod env cluster what labels existing =
     (let m = p_Meta existing;
          relabelled = list_ex (\<lambda>(k, v). mget [] (om_Labels m) k \<noteq> v) labels;
          m1 = m\<lparr>om_Labels := merge_labels labels (om_Labels m)\<rparr>
      in
      bnd (if om_Controller m = None
           then wrap_err (''setting '' @ what @ '' owner reference'') (set_controller env cluster m1)
           else ret m1) (\<lambda>m2.
      if relabelled \<or> om_Controller m = None
      then bnd (wrap_err (''patching '' @ what @ '' metadata'')
             (patch env (OPod existing) (OPod (existing\<lparr>p_Meta := m2\<rparr>)))) (\<lambda>_. ret ())
      else ret ()))"

definition createPodWithLabels ::
  "env \<Rightarrow> string \<Rightarrow> RedisCluster \<Rightarrow> string \<Rightarrow> int \<Rightarrow> string \<Rightarrow> (string, string) gomap \<Rightarrow> ('s, unit) io" where
  "createPodWithLabels env operatorImage cluster podName index role labels =
     bnd (attempt (get_pod env (c_Namespace cluster) podName)) (\<lambda>r.
     case r of
       Inr existing \<Rightarrow> adopt_pod env cluster (''pod '' @ podName) labels existing
     | Inl _ \<Rightarrow>
         bnd (init_containers env operatorImage cluster podName index role) (\<lambda>inits.
         let pod = newDataPod operatorImage cluster podName index labels inits in
         bnd (wrap_err ''setting pod owner reference'' (set_controller env cluster (p_Meta pod))) (\<lambda>m.
         bnd (wrap_err ''creating pod'' (create env (OPod (pod\<lparr>p_Meta := m\<rparr>)))) (\<lambda>_.
         eventf Normal ''PodCreated'' (''Created pod '' @ podName @ '' with role '' @ role)))))"

definition createPod :: "env \<Rightarrow> string \<Rightarrow> RedisCluster \<Rightarrow> string \<Rightarrow> int \<Rightarrow> string \<Rightarrow> ('s, unit) io" where
  "createPod env operatorImage cluster podName index role =
     createPodWithLabels env operatorImage cluster podName index role (podLabels (c_Name cluster) podName role)"

section \<open>Sentinel pods\<close>

definition sentinelPodHasAuthProjection :: "Pod \<Rightarrow> string \<Rightarrow> bool" where
  "sentinelPodHasAuthProjection pod secretName =
     list_ex (\<lambda>v. vol_Name v = projectedVolumeName \<and>
        (case vol_Source v of
           Projected sources \<Rightarrow> list_ex (\<lambda>s. sp_Name s = secretName) sources
         | _ \<Rightarrow> False)) (ps_Volumes (p_Spec pod))"

definition sentinelSources :: "RedisCluster \<Rightarrow> SecretProjection list" where
  "sentinelSources cluster =
     (case s_AuthSecret (c_Spec cluster) of
        None \<Rightarrow> []
      | Some name \<Rightarrow>
          if trimSpace name \<noteq> [] then [\<lparr>sp_Name = name, sp_Items = [(''password'', name @ ''/password'')]\<rparr>] else [])"

definition sentinelContainer :: "RedisCluster \<Rightarrow> string \<Rightarrow> VolumeMount list \<Rightarrow> Container" where
  "sentinelContainer cluster podName extraMounts =
     (new_container ''sentinel'' (s_ImageName (c_Spec cluster)) [instanceManagerBinaryPath, ''instance''])
       \<lparr>ct_Args := instance_args cluster podName @ [''--role=sentinel''],
        ct_Ports := [tcp_port ''sentinel'' SentinelPort, tcp_port ''http'' 8080],
        ct_Resources := s_Resources (c_Spec cluster),
        ct_SecurityContext := Some (redisContainerSecurityContext False),
        ct_VolumeMounts := [mount redisDataVolumeName redisDataMountPath False,
          mount controllerVolumeName controllerMountPath False] @ extraMounts,
        ct_Env := instance_env cluster podName,
        ct_LivenessProbe := Some (probe ''/healthz'' 10 10),
        ct_ReadinessProbe := Some (probe ''/readyz'' 5 5)\<rparr>"

definition newSentinelPod :: "string \<Rightarrow> RedisCluster \<Rightarrow> string \<Rightarrow> Pod" where
  "newSentinelPod operatorImage cluster podName =
     (let extra = optional_volumes cluster (sentinelSources cluster) in
      \<lparr>p_Meta = new_meta podName (c_Namespace cluster) (podLabels (c_Name cluster) podName LabelRoleSentinel),
       p_Spec = base_pod_spec cluster [copyManagerContainer operatorImage]
         [sentinelContainer cluster podName (map snd extra)]
         ([volume redisDataVolumeName (EmptyDir None), volume controllerVolumeName (EmptyDir None)] @ map fst extra),
       p_Phase = [], p_IP = [], p_Conditions = []\<rparr>)"

definition createSentinelPod :: "env \<Rightarrow> string \<Rightarrow> RedisCluster \<Rightarrow> string \<Rightarrow> ('s, unit) io" where
  "createSentinelPod env operatorImage cluster podName =
     (let labels = podLabels (c_Name cluster) podName LabelRoleSentinel in
     bnd (attempt (get_pod env (c_Namespace cluster) podName)) (\<lambda>r.
     case r of
       Inr existing \<Rightarrow>
         if (case s_AuthSecret (c_Spec cluster) of
               None \<Rightarrow> False | Some name \<Rightarrow> \<not> sentinelPodHasAuthProjection existing name)
         then delete_pod env (''deleting sentinel pod '' @ podName @ '' for auth projection update'') existing
         else adopt_pod env cluster (''sentinel pod '' @ podName) labels existing
     | Inl _ \<Rightarrow>
         let pod = newSentinelPod operatorImage cluster podName in
         bnd (wrap_err ''setting sentinel pod owner reference'' (set_controller env cluster (p_Meta pod))) (\<lambda>m.
         bnd (wrap_err ''creating sentinel pod'' (create env (OPod (pod\<lparr>p_Meta := m\<rparr>)))) (\<lambda>_.
         eventf Normal ''SentinelPodCreated'' (''Created sentinel pod '' @ podName)))))"

definition reconcileSentinelPods :: "env \<Rightarrow> string \<Rightarrow> (RedisCluster, unit) io" where
  "reconcileSentinelPods env operatorImage = bnd obj (\<lambda>cluster.
     if s_Mode (c_Spec cluster) \<noteq> ClusterModeSentinel then ret ()
     else if st_CurrentPrimary (c_Status cluster) = [] then ret ()
     else
       bnd (wrap_err ''listing sentinel pods'' (listSentinelPods env cluster)) (\<lambda>existingPods.
       let current = int (length existingPods); desired = SentinelInstances in
       bnd (for_each (\<lambda>i. let podName = sentinelPodNameForIndex (c_Name cluster) i in
              wrap_err (''creating sentinel pod '' @ podName) (createSentinelPod env operatorImage cluster podName))
            [0..desired - 1]) (\<lambda>_.
       if current > desired then
         for_each (\<lambda>pod. delete_pod env (''deleting sentinel pod '' @ p_Name pod) pod)
           (take (nat (current - desired)) (rev (sort_key p_Name existingPods)))
       else ret ())))"

section \<open>Scaling\<close>

definition pod_role :: "RedisCluster \<Rightarrow> shardLayout \<Rightarrow> int \<Rightarrow> string" where
  "pod_role cluster layout i =
     (let podName = podNameForIndex (c_Name cluster) i; primary = st_CurrentPrimary (c_Status cluster) in
      if s_Mode (c_Spec cluster) = ClusterModeCluster
      then (if isPrimary layout podName then LabelRolePrimary else LabelRoleReplica)
      else (if podName = primary \<or> primary = [] \<and> i = 0 then LabelRolePrimary else LabelRoleReplica))"

definition ensure_pod :: "env \<Rightarrow> string \<Rightarrow> RedisCluster \<Rightarrow> shardLayout \<Rightarrow> int \<Rightarrow> (RedisCluster, unit) io" where
  "ensure_pod env operatorImage cluster layout i =
     (let podName = podNameForIndex (c_Name cluster) i;
          role = pod_role cluster layout i;
          labels = fold (\<lambda>(k, v). mput k v) (layoutLabels layout podName) (podLabels (c_Name cluster) podName role)
      in wrap_err (''creating pod '' @ podName) (createPodWithLabels env operatorImage cluster podName i role labels))"

text \<open>
  Scaling down deletes the pods with the highest indices but never the current primary. A negative
  number of desired instances runs past the end of the slice.
\<close>

definition scale_down :: "env \<Rightarrow> RedisCluster \<Rightarrow> Pod list \<Rightarrow> int \<Rightarrow> (RedisCluster, unit) io" where
  "scale_down env cluster existingPods desired =
     (let current = int (length existingPods) in
      bnd (eventf Normal ''ScaleDown'' (''Scaling down from '' @ itoa current @ '' to '' @ itoa desired @ '' instances'')) (\<lambda>_.
      bnd (sortByIndexDesc cluster existingPods) (\<lambda>sorted.
      bnd (for_each (\<lambda>pod.
            if p_Name pod = st_CurrentPrimary (c_Status cluster) then ret ()
            else bnd (delete_pod env (''deleting pod '' @ p_Name pod) pod) (\<lambda>_.
              eventf Normal ''PodDeleted'' (''Deleted pod '' @ p_Name pod @ '' during scale-down'')))
          (take (nat (current - desired)) sorted)) (\<lambda>_.
      if desired < 0 then throw (Panic ''index out of range'') else ret ()))))"

definition reconcilePods ::
  "env \<Rightarrow> string \<Rightarrow> ((int \<times> string list) list \<Rightarrow> (int \<times> string list) list) \<Rightarrow> (string, InstanceStatus) gomap \<Rightarrow>
   (RedisCluster, unit) io" where
  "reconcilePods env operatorImage rng statuses = bnd obj (\<lambda>cluster.
     bnd (wrap_err ''listing pods'' (listDataPods env cluster)) (\<lambda>existingPods.
     let desired = DesiredDataInstances (c_Spec cluster); current = int (length existingPods) in
     bnd (if current < desired
          then eventf Normal ''ScaleUp'' (''Scaling up from '' @ itoa current @ '' to '' @ itoa desired @ '' instances'')
          else ret ()) (\<lambda>_.
     case (if s_Mode (c_Spec cluster) = ClusterModeCluster
           then planShardLayout rng (Some cluster) existingPods statuses else Some emptyLayout) of
       None \<Rightarrow> throw (Panic ''slice bounds out of range'')
     | Some layout \<Rightarrow>
         bnd (for_each (ensure_pod env operatorImage cluster layout) [0..desired - 1]) (\<lambda>_.
         bnd (if current > desired then scale_down env cluster existingPods desired else ret ()) (\<lambda>_.
         if s_Mode (c_Spec cluster) \<noteq> ClusterModeCluster \<and> st_CurrentPrimary (c_Status cluster) = [] \<and> desired > 0
         then wrap_err ''setting initial primary''
           (patch_status env (set_primary (podNameForIndex (c_Name cluster) 0) ClusterPhaseCreating))
         else ret ())))))"

section \<open>ConfigMap\<close>

definition redisConfTemplate :: "RedisCluster \<Rightarrow> string" where
  "redisConfTemplate cluster =
     (let s = c_Spec cluster in
      ''port 6379'' @ newline @ ''bind 0.0.0.0'' @ newline @ ''appendonly yes'' @ newline @
      ''aof-use-rdb-preamble yes'' @ newline @ ''appenddirname appendonlydir'' @ newline @
      concat (map (\<lambda>(key, val). key @ '' '' @ val @ newline) (s_Redis s)) @
      (let (bytes, ok) = ResolveMaxMemoryBytes s in if ok then ''maxmemory '' @ itoa bytes @ newline else []) @
      (let policy = EffectiveMaxMemoryPolicy s in
       if policy \<noteq> [] then ''maxmemory-policy '' @ policy @ newline else []))"

definition reconcileConfigMap :: "env \<Rightarrow> (RedisCluster, unit) io" where
  "reconcileConfigMap env = bnd obj (\<lambda>cluster.
     let cmName = c_Name cluster @ ''-config'' in
     bnd (attempt (get_object env KConfigMap (c_Namespace cluster) cmName)) (\<lambda>r.
     case r of
       Inr _ \<Rightarrow> ret ()
     | Inl _ \<Rightarrow> create env (OConfigMap
         \<lparr>cm_Meta = new_meta cmName (c_Namespace cluster) [(LabelCluster, c_Name cluster)],
          cm_Data = [(''redis.conf'', redisConfTemplate cluster)]\<rparr>)))"

section \<open>Facts\<close>

lemma issues_scale_down:
  assumes "\<And>a b c. P (Event a b c)"
    and "\<And>ns name. name \<noteq> st_CurrentPrimary (c_Status cluster) \<Longrightarrow> P (Delete KPod ns name)"
  shows "issues P (scale_down env cluster pods desired)"
  unfolding scale_down_def Let_def
  by (intro issues_bnd issues_sortByIndexDesc issues_for_each issues_if issues_ret issues_throw issues_delete_pod
      issues_eventf assms)

text \<open>Every container drops its privileges, and the pod runs as an ordinary user.\<close>

definition hardened :: "Pod \<Rightarrow> bool" where
  "hardened p \<longleftrightarrow>
     list_all (\<lambda>c. ct_SecurityContext c = Some (redisContainerSecurityContext False))
       (ps_InitContainers (p_Spec p) @ ps_Containers (p_Spec p)) \<and>
     ps_SecurityContext (p_Spec p) = Some redisPodSecurityContext"

lemma hardened_sentinel: "hardened ((newSentinelPod img cluster name)\<lparr>p_Meta := m\<rparr>)"
  by (simp add: hardened_def newSentinelPod_def base_pod_spec_def sentinelContainer_def copyManagerContainer_def
      new_container_def Let_def)

lemma hardened_data:
  assumes "list_all (\<lambda>c. ct_SecurityContext c = Some (redisContainerSecurityContext False)) inits"
  shows "hardened ((newDataPod img cluster name i labels inits)\<lparr>p_Meta := m\<rparr>)"
  using assms by (simp add: hardened_def newDataPod_def base_pod_spec_def redisContainer_def Let_def)

lemma init_containers_hardened:
  "returns (list_all (\<lambda>c. ct_SecurityContext c = Some (redisContainerSecurityContext False)))
     (init_containers env img cluster name i role)"
  unfolding init_containers_def getBootstrapBackup_def get_backup_def get_object_def
  by (rule returns_wp)
     (auto simp: wp_simps copyManagerContainer_def restoreContainer_def split: option.split sum.split object.split)

text \<open>A pod as the operator creates it for a cluster.\<close>

definition created_ok :: "string \<Rightarrow> RedisCluster \<Rightarrow> Pod \<Rightarrow> bool" where
  "created_ok img cluster p \<longleftrightarrow> hardened p \<and> getPodSpecHash p = computeSpecHash img cluster \<and>
     om_Namespace (p_Meta p) = c_Namespace cluster \<and>
     mget [] (p_Labels p) LabelCluster = c_Name cluster \<and> isDataPod p"

definition reconcile_ok :: "string \<Rightarrow> RedisCluster \<Rightarrow> call \<Rightarrow> bool" where
  "reconcile_ok img cluster c = (case c of
     Create (OPod p) \<Rightarrow> created_ok img cluster p
   | Create _ \<Rightarrow> False
   | Delete k _ name \<Rightarrow> k = KPod \<and> name \<noteq> st_CurrentPrimary (c_Status cluster)
   | _ \<Rightarrow> True)"

lemma reconcile_ok_simps [simp]:
  "reconcile_ok img c (Get k ns n)" "reconcile_ok img c (ListOf k ns sel)" "reconcile_ok img c (Event a b d)"
  "reconcile_ok img c (StatusPatch x y)" "reconcile_ok img c (Observed x)" "reconcile_ok img c (Patch lock x y)"
  "reconcile_ok img c (Create (OPod p)) \<longleftrightarrow> created_ok img c p"
  "reconcile_ok img c (Delete k ns n) \<longleftrightarrow> k = KPod \<and> n \<noteq> st_CurrentPrimary (c_Status c)"
  by (simp_all add: reconcile_ok_def)

lemma newDataPod_created_ok:
  assumes "list_all (\<lambda>c. ct_SecurityContext c = Some (redisContainerSecurityContext False)) inits"
    and "mget [] labels LabelCluster = c_Name cluster" and "mget [] labels LabelRole \<noteq> LabelRoleSentinel"
  shows "created_ok img cluster ((newDataPod img cluster name i labels inits)
    \<lparr>p_Meta := (p_Meta (newDataPod img cluster name i labels inits))\<lparr>om_Controller := owner\<rparr>\<rparr>)"
  using hardened_data [OF assms(1)] assms(2,3)
  by (simp add: created_ok_def getPodSpecHash_def isDataPod_def) (simp add: newDataPod_def new_meta_def Let_def)

lemma issues_createPodWithLabels:
  assumes "mget [] labels LabelCluster = c_Name cluster" and "mget [] labels LabelRole \<noteq> LabelRoleSentinel"
  shows "issues (reconcile_ok img cluster) (createPodWithLabels env img cluster name i role labels)"
proof -
  let ?P = "reconcile_ok img cluster"
  have adopt: "issues ?P (adopt_pod env cluster what labels pod)" for what pod
    unfolding adopt_pod_def Let_def by (auto intro!: issues_intros)
  have init: "issues ?P (init_containers env img cluster name i role)"
    unfolding init_containers_def getBootstrapBackup_def by (auto intro!: issues_intros)
  have make: "issues ?P (bnd (wrap_err ''setting pod owner reference''
        (set_controller env cluster (p_Meta (newDataPod img cluster name i labels inits)))) (\<lambda>m.
      bnd (wrap_err ''creating pod'' (create env (OPod ((newDataPod img cluster name i labels inits)\<lparr>p_Meta := m\<rparr>)))) (\<lambda>_.
      eventf Normal ''PodCreated'' (''Created pod '' @ name @ '' with role '' @ role))))"
    if "list_all (\<lambda>c. ct_SecurityContext c = Some (redisContainerSecurityContext False)) inits" for inits
    by (rule issues_bnd_returns [OF _ returns_wrap_err [OF returns_set_controller]])
       (use newDataPod_created_ok [OF that assms] in \<open>auto intro!: issues_intros\<close>)
  show ?thesis
    unfolding createPodWithLabels_def Let_def
    by (intro issues_bnd [OF issues_attempt [OF issues_get_pod]] issues_case_sum adopt
        issues_bnd_returns [OF init init_containers_hardened] make) simp
qed

lemma ensure_pod_labels:
  defines "labels cluster layout i \<equiv> fold (\<lambda>(k, v). mput k v) (layoutLabels layout (podNameForIndex (c_Name cluster) i))
    (podLabels (c_Name cluster) (podNameForIndex (c_Name cluster) i) (pod_role cluster layout i))"
  shows "mget [] (labels cluster layout i) LabelCluster = c_Name cluster"
    and "mget [] (labels cluster layout i) LabelRole \<noteq> LabelRoleSentinel"
  by (auto simp: labels_def layoutLabels_def podLabels_def pod_role_def mget_Cons Let_def split: option.split)

section \<open>Properties\<close>

text \<open>
  C26. Reconciling the pods of a cluster never deletes its current primary, and every pod it creates
  is a data pod of the cluster that carries the current specification hash, so that the next
  rolling update leaves it alone, and whose containers run unprivileged. This holds for every
  behaviour of the API server, in every mode.
\<close>

theorem reconcile_pods_footprint:
  "\<exists>l. w_log (snd (reconcilePods env img rng statuses w)) = w_log w @ l \<and>
     list_all (\<lambda>x. reconcile_ok img (w_obj w) (fst x)) l"
proof -
  let ?P = "reconcile_ok img (w_obj w)"
  have ensure: "issues ?P (ensure_pod env img (w_obj w) layout i)" for layout i
    unfolding ensure_pod_def Let_def
    by (intro issues_wrap_err issues_createPodWithLabels ensure_pod_labels)
  show ?thesis
    unfolding reconcilePods_def Let_def
    by (rule footprint_obj) (intro issues_intros issues_scale_down ensure; simp)
qed

text \<open>
  C27. The specification hash does not depend on the order in which Go ranges over the maps of the
  specification: two orders of the Redis parameters and of the resource lists give the same hash, so
  that map iteration never triggers a rolling update.
\<close>

theorem spec_hash_order_independent:
  assumes "wf_map (s_Redis s)" "wf_map redis" "map_of redis = map_of (s_Redis s)"
    and "wf_map (rr_Limits (s_Resources s))" "wf_map limits" "map_of limits = map_of (rr_Limits (s_Resources s))"
    and "wf_map (rr_Requests (s_Resources s))" "wf_map requests" "map_of requests = map_of (rr_Requests (s_Resources s))"
  shows "computeSpecHash img (cluster\<lparr>c_Spec := s\<lparr>s_Redis := redis,
      s_Resources := \<lparr>rr_Limits = limits, rr_Requests = requests\<rparr>\<rparr>\<rparr>) =
    computeSpecHash img (cluster\<lparr>c_Spec := s\<rparr>)"
proof -
  have "redisConfigLines redis = redisConfigLines (s_Redis s)"
    using assms(1-3) by (intro redisConfigLines_cong)
  moreover have "appendResourceListHash ''resources.limits'' limits =
      appendResourceListHash ''resources.limits'' (rr_Limits (s_Resources s))"
    using assms(4-6) by (intro appendResourceListHash_cong)
  moreover have "appendResourceListHash ''resources.requests'' requests =
      appendResourceListHash ''resources.requests'' (rr_Requests (s_Resources s))"
    using assms(7-9) by (intro appendResourceListHash_cong)
  ultimately show ?thesis by (simp add: computeSpecHash_def specHashInput_def Let_def)
qed

theorem spec_hash_order_independent_witness:
  "computeSpecHash ''op'' (sample_cluster\<lparr>c_Spec := sample_spec\<lparr>
      s_Redis := [(''b'', ''2''), (''a'', ''1'')], s_Resources := \<lparr>rr_Limits = [], rr_Requests = []\<rparr>\<rparr>\<rparr>) =
   computeSpecHash ''op'' (sample_cluster\<lparr>c_Spec := sample_spec\<lparr>s_Redis := [(''a'', ''1''), (''b'', ''2'')]\<rparr>\<rparr>)"
proof -
  let ?s = "sample_spec\<lparr>s_Redis := [(''a'', ''1''), (''b'', ''2'')]\<rparr>"
  have "map_of [(''b'', ''2''), (''a'', ''1'')] = map_of (s_Redis ?s)" by (simp add: fun_upd_twist)
  from spec_hash_order_independent [OF _ _ this, of "[]" "[]" "''op''" sample_cluster]
  show ?thesis by (simp add: wf_map_def sample_spec_def)
qed

text \<open>
  The liveness probe waits at least as long as the two isolation checks the probe handler makes,
  plus two seconds, and less than one second longer, for timeouts of less than a thousand hours.
\<close>

theorem liveness_timeout_covers:
  assumes "s_PrimaryIsolation (c_Spec cluster) =
      Some \<lparr>pis_Enabled = on, pis_APIServerTimeout = Some api, pis_PeerTimeout = Some peer\<rparr>"
    and "0 < api" "0 < peer" "api < 3600 * 10 ^ 12" "peer < 3600 * 10 ^ 12"
  shows "api + peer + 2 * 10 ^ 9 \<le> livenessTimeoutSeconds cluster * 10 ^ 9 \<and>
    livenessTimeoutSeconds cluster * 10 ^ 9 < api + peer + 3 * 10 ^ 9"
proof -
  define total where "total = api + peer + 2000000000"
  have range: "0 < total" "total < 8000000000000000" using assms(2-5) by (simp_all add: total_def)
  have i: "int64 (int64 (api + peer) + 2000000000) = total"
  proof -
    have "in_int64 (api + peer)" using assms(2-5) by (simp add: in_int64_def)
    moreover have "in_int64 total" using range by (simp add: in_int64_def)
    ultimately show ?thesis by (simp add: total_def)
  qed
  define q where "q = - ((- total) div 1000000000)"
  have q: "(- total) = (- total) div 1000000000 * 1000000000 + (- total) mod 1000000000"
    by (rule div_mult_mod_eq [symmetric])
  have m: "0 \<le> (- total) mod 1000000000" "(- total) mod 1000000000 < 1000000000" by simp_all
  have bounds: "total \<le> q * 1000000000" "q * 1000000000 < total + 1000000000"
    using q m unfolding q_def by linarith+
  then have "0 < q" "q < 9000000" using range by linarith+
  then have "int32 q = q" by (simp add: in_int32_def)
  then have "livenessTimeoutSeconds cluster = q"
    using assms(1-3) i \<open>0 < q\<close> by (simp add: livenessTimeoutSeconds_def Let_def q_def)
  with bounds show ?thesis by (simp add: total_def)
qed

theorem liveness_timeout_covers_witness:
  "let cluster = sample_cluster\<lparr>c_Spec := sample_spec\<lparr>s_PrimaryIsolation :=
      Some \<lparr>pis_Enabled = None, pis_APIServerTimeout = Some 1500000000, pis_PeerTimeout = Some 1\<rparr>\<rparr>\<rparr>
   in 1500000001 + 2 * 10 ^ 9 \<le> livenessTimeoutSeconds cluster * 10 ^ 9"
  using liveness_timeout_covers [of "sample_cluster\<lparr>c_Spec := sample_spec\<lparr>s_PrimaryIsolation :=
      Some \<lparr>pis_Enabled = None, pis_APIServerTimeout = Some 1500000000, pis_PeerTimeout = Some 1\<rparr>\<rparr>\<rparr>"]
  by (simp add: Let_def)

lemma take_1_sort_key:
  assumes "p \<in> set xs" and "\<forall>q \<in> set xs. q \<noteq> p \<longrightarrow> f p < f q"
  shows "take (Suc 0) (sort_key f xs) = [p]"
proof (cases "sort_key f xs")
  case Nil
  then have "set (sort_key f xs) = {}" by simp
  with assms(1) show ?thesis by simp
next
  case (Cons y ys)
  have y: "y \<in> set xs" using Cons by (metis list.set_intros(1) set_sort)
  have "p \<in> set (y # ys)" using assms(1) Cons by (metis set_sort)
  moreover have "sorted (map f (y # ys))" using sorted_sort_key [of f xs] Cons by simp
  ultimately have "f y \<le> f p" by auto
  with assms(2) y have "y = p" by force
  with Cons show ?thesis by simp
qed

text \<open>
  A scale-down by one does not converge when the current primary is the pod with the highest
  index: the step selects that pod, skips it because it is the primary, and deletes nothing, so
  that the next reconciliation finds the same pods.
\<close>

theorem scale_down_stalls:
  assumes "int (length pods) = desired + 1" and "0 \<le> desired"
    and "\<forall>q \<in> set pods. podIndex (c_Name cluster) (p_Name q) \<noteq> None"
    and "p \<in> set pods" "p_Name p = st_CurrentPrimary (c_Status cluster)"
    and "\<forall>q \<in> set pods. q \<noteq> p \<longrightarrow> index_of cluster (p_Name q) < index_of cluster (p_Name p)"
  shows "scale_down env cluster pods desired w =
    (Inr (), logged (Event Normal ''ScaleDown'' (''Scaling down from '' @ itoa (desired + 1) @ '' to '' @
       itoa desired @ '' instances'')) True w)"
proof -
  have sorted: "take (Suc 0) (sort_key (\<lambda>p. - index_of cluster (p_Name p)) pods) = [p]"
    using assms(4,6) by (intro take_1_sort_key) auto
  have "\<not> list_ex (\<lambda>p. podIndex (c_Name cluster) (p_Name p) = None) pods"
    using assms(3) by (auto simp: list_ex_iff)
  then show ?thesis
    using assms(1,2,5) sorted
    by (simp add: scale_down_def sortByIndexDesc_def Let_def bnd_def eventf_def ret_def logged_def)
qed

text \<open>A cluster of three pods with one instance too many, whose primary is the third pod.\<close>

definition shrinking_cluster :: RedisCluster where
  "shrinking_cluster = sample_cluster\<lparr>c_Spec := sample_spec\<lparr>s_Instances := 2\<rparr>,
     c_Status := (c_Status sample_cluster)\<lparr>st_CurrentPrimary := ''r-2''\<rparr>\<rparr>"

theorem scale_down_stalls_witness:
  "scale_down (sample_env sample_pods) shrinking_cluster (data_pods sample_pods) 2 (sample_world shrinking_cluster) =
    (Inr (), logged (Event Normal ''ScaleDown'' (''Scaling down from '' @ itoa (2 + 1) @ '' to '' @
       itoa 2 @ '' instances'')) True (sample_world shrinking_cluster))"
proof -
  let ?pods = "[sample_pod ''r-0'' ''10.0.0.1'' [] False, sample_pod ''r-1'' ''10.0.0.2'' [] True,
    sample_pod ''r-2'' ''10.0.0.3'' [] True]"
  have pods: "data_pods sample_pods = ?pods"
    by (simp add: data_pods_def sample_pods_def List.map_filter_simps isDataPod_def sample_pod_def new_meta_def)
  have "p_Name (sample_pod ''r-2'' ''10.0.0.3'' [] True) = st_CurrentPrimary (c_Status shrinking_cluster)"
    and "\<forall>q \<in> set ?pods. podIndex (c_Name shrinking_cluster) (p_Name q) \<noteq> None"
    and "\<forall>q \<in> set ?pods. q \<noteq> sample_pod ''r-2'' ''10.0.0.3'' [] True \<longrightarrow> index_of shrinking_cluster (p_Name q) <
      index_of shrinking_cluster (p_Name (sample_pod ''r-2'' ''10.0.0.3'' [] True))"
    by code_simp+
  with scale_down_stalls [of ?pods 2 shrinking_cluster "sample_pod ''r-2'' ''10.0.0.3'' [] True"]
  show ?thesis unfolding pods by simp
qed

end
