(* ===== verification/Secrets.thy ===== *)
theory Secrets
  imports Pods
begin

text \<open>
  Secrets (\<^verbatim>\<open>internal/controller/cluster/secrets.go\<close> and \<^verbatim>\<open>connection_secret.go\<close>): generating the
  password of a cluster, recording the versions of the Secrets it refers to, and publishing the
  optional connection Secret with its URLs. The part of \<^verbatim>\<open>net/url\<close> that prints a URL with user
  information is modelled, with the decoder of percent-encoding as its specification.
\<close>

section \<open>Auth Secret\<close>

definition generatedAuthSecretName :: "string \<Rightarrow> string" where
  "generatedAuthSecretName clusterName = clusterName @ ''-auth''"

definition effectiveAuthSecretName :: "RedisCluster \<Rightarrow> string" where
  "effectiveAuthSecretName cluster =
     (let fallback = (if trimSpace (c_Name cluster) = [] then [] else generatedAuthSecretName (c_Name cluster)) in
      case s_AuthSecret (c_Spec cluster) of
        Some ref \<Rightarrow> if trimSpace ref \<noteq> [] then trimSpace ref else fallback
      | None \<Rightarrow> fallback)"

definition UsesSecret :: "RedisCluster \<Rightarrow> string \<Rightarrow> bool" where
  "UsesSecret cluster secretName \<longleftrightarrow> map_of (st_SecretsResourceVersion (c_Status cluster)) secretName \<noteq> None"

abbreviation SecretTypeOpaque :: string where "SecretTypeOpaque \<equiv> ''Opaque''"

definition ensureAuthSecret :: "env \<Rightarrow> RedisCluster \<Rightarrow> string \<Rightarrow> ('s, unit) io" where
  "ensureAuthSecret env cluster secretName =
     bnd (attempt (get_secret env (c_Namespace cluster) secretName)) (\<lambda>r.
     case r of
       Inr _ \<Rightarrow> ret ()
     | Inl e \<Rightarrow>
         if \<not> IsNotFound e then throw (Wrap ''checking auth secret'' e)
         else bnd (wrap_err ''generating random password'' (random_bytes env)) (\<lambda>passwordBytes.
           wrap_err ''creating auth secret'' (create env (OSecret
             \<lparr>sec_Meta = new_meta secretName (c_Namespace cluster) [(LabelCluster, c_Name cluster)],
              sec_Type = SecretTypeOpaque,
              sec_Data = [(''password'', EncodeToString (map of_char passwordBytes))]\<rparr>))))"

section \<open>Secret references\<close>

text \<open>The references by the field they come from; a field that is not set is a nil pointer.\<close>

definition secretRefs :: "RedisCluster \<Rightarrow> (string, string option) gomap" where
  "secretRefs cluster =
     (let s = c_Spec cluster; auth = effectiveAuthSecretName cluster;
          source = replicaModeSourceAuthSecretName cluster in
      [(''aclConfigSecret'', s_ACLConfigSecret s), (''tlsSecret'', s_TLSSecret s), (''caSecret'', s_CASecret s),
       (''backupCredentialsSecret'', s_BackupCredentialsSecret s)] @
      (if auth \<noteq> [] then [(''authSecret'', Some auth)] else []) @
      (if source \<noteq> [] then [(''replicaMode.source.authSecretName'', Some source)] else []))"

text \<open>The versions of the Secrets that exist; a missing Secret is skipped.\<close>

primrec secret_versions ::
  "env \<Rightarrow> string \<Rightarrow> (string \<times> string option) list \<Rightarrow> (string, string) gomap \<Rightarrow> ('s, (string, string) gomap) io" where
  "secret_versions env ns [] newVersions = ret newVersions"
| "secret_versions env ns (x # refs) newVersions =
     (case snd x of
        None \<Rightarrow> secret_versions env ns refs newVersions
      | Some name \<Rightarrow>
          bnd (attempt (get_secret env ns name)) (\<lambda>r.
          case r of
            Inl e \<Rightarrow> if IsNotFound e then secret_versions env ns refs newVersions
                     else throw (Wrap (''getting secret '' @ name) e)
          | Inr secret \<Rightarrow>
              secret_versions env ns refs (mput name (om_ResourceVersion (sec_Meta secret)) newVersions)))"

definition rotation_event :: "RedisCluster \<Rightarrow> string \<times> string \<Rightarrow> ('s, unit) io" where
  "rotation_event cluster x =
     (case map_of (st_SecretsResourceVersion (c_Status cluster)) (fst x) of
        Some oldVer \<Rightarrow>
          if oldVer \<noteq> snd x
          then eventf Normal ''SecretRotated''
            (''Secret '' @ fst x @ '' rotated (resourceVersion '' @ oldVer @ '' -> '' @ snd x @ '')'')
          else ret ()
      | None \<Rightarrow> ret ())"

text \<open>The two orders are those in which Go ranges over the references and over the versions.\<close>

definition reconcileSecrets ::
  "env \<Rightarrow> ((string \<times> string option) list \<Rightarrow> (string \<times> string option) list) \<Rightarrow>
   ((string \<times> string) list \<Rightarrow> (string \<times> string) list) \<Rightarrow> (RedisCluster, unit) io" where
  "reconcileSecrets env rngRefs rngVers = bnd obj (\<lambda>start.
     bnd (if s_AuthSecret (c_Spec start) = None
          then let secretName = generatedAuthSecretName (c_Name start) in
            bnd (wrap_err ''ensuring auth secret'' (ensureAuthSecret env start secretName)) (\<lambda>_.
            bnd (wrap_err ''persisting generated auth secret reference''
              (patch_cluster env False (\<lambda>c. c\<lparr>c_Spec := (c_Spec c)\<lparr>s_AuthSecret := Some secretName\<rparr>\<rparr>))) (\<lambda>_.
            wrap_err ''refetching cluster after auth secret persistence'' (refetch_cluster env)))
          else ret ()) (\<lambda>_.
     bnd obj (\<lambda>cluster.
     bnd (secret_versions env (c_Namespace cluster) (rngRefs (secretRefs cluster)) []) (\<lambda>newVersions.
     bnd (for_each (rotation_event cluster) (rngVers newVersions)) (\<lambda>_.
     wrap_err ''patching secrets resource version''
       (patch_status env (on_status (\<lambda>st. st\<lparr>st_SecretsResourceVersion := newVersions\<rparr>))))))))"

section \<open>URLs\<close>

text \<open>The two modes of \<^verbatim>\<open>net/url\<close>'s escaping that printing a URL without a path needs.\<close>

datatype escape_mode = encodeHost | encodeUserPassword

definition is_alnum :: "char \<Rightarrow> bool" where
  "is_alnum c = (let n = of_char c :: nat in 97 \<le> n \<and> n \<le> 122 \<or> 65 \<le> n \<and> n \<le> 90 \<or> 48 \<le> n \<and> n \<le> 57)"

definition shouldEscape :: "escape_mode \<Rightarrow> char \<Rightarrow> bool" where
  "shouldEscape mode c \<longleftrightarrow> \<not> (is_alnum c \<or>
     mode = encodeHost \<and> c \<in> set (''!$&'' @ [CHR 0x27] @ ''()*+,;=:[]<>'' @ [CHR 0x22]) \<or>
     c \<in> set ''-_.~'' \<or>
     mode = encodeUserPassword \<and> c \<in> set ''$&+,;='')"

definition upperhex :: "nat \<Rightarrow> char" where
  "upperhex n = (if n < 10 then digit n else char_of (55 + n))"

definition escape :: "escape_mode \<Rightarrow> string \<Rightarrow> string" where
  "escape mode s = concat (map (\<lambda>c.
     if shouldEscape mode c
     then [CHR ''%'', upperhex (of_char c div 16), upperhex (of_char c mod 16)] else [c]) s)"

definition JoinHostPort :: "string \<Rightarrow> string \<Rightarrow> string" where
  "JoinHostPort host port =
     (if CHR '':'' \<in> set host then CHR ''['' # host @ '']:'' @ port else host @ CHR '':'' # port)"

section \<open>Connection Secret\<close>

abbreviation redisDefaultUser :: string where "redisDefaultUser \<equiv> ''default''"
abbreviation connectionSecretLabel :: string where "connectionSecretLabel \<equiv> ''redis.io/connection-secret''"

definition redisDataPort :: int where "redisDataPort = 6379"

definition serviceFQDN :: "string \<Rightarrow> string \<Rightarrow> string" where
  "serviceFQDN service namespace = service @ ''.'' @ namespace @ ''.svc''"

definition redisURL :: "string \<Rightarrow> string \<Rightarrow> string \<Rightarrow> string \<Rightarrow> string" where
  "redisURL scheme password host port =
     scheme @ ''://'' @
     (if password \<noteq> [] then escape encodeUserPassword redisDefaultUser @ '':'' @
        escape encodeUserPassword password @ ''@'' else []) @
     escape encodeHost (JoinHostPort host port)"

definition buildConnectionSecretData :: "RedisCluster \<Rightarrow> string \<Rightarrow> (string, string) gomap" where
  "buildConnectionSecretData cluster password =
     (let ns = c_Namespace cluster; name = c_Name cluster; mode = s_Mode (c_Spec cluster);
          scheme = (if isTLSEnabled cluster then ''rediss'' else ''redis'');
          port = itoa redisDataPort in
      [(''cluster_name'', name), (''namespace'', ns), (''mode'', mode), (''port'', port),
       (''username'', redisDefaultUser)] @
      (if password \<noteq> [] then [(''password'', password)] else []) @
      (if mode = ClusterModeCluster then
         let host = serviceFQDN (clusterHeadlessServiceName name) ns in
         [(''host'', host), (''url'', redisURL scheme password host port)]
       else
         let leaderHost = serviceFQDN (leaderServiceName name) ns;
             replicaHost = serviceFQDN (replicaServiceName name) ns in
         [(''host'', leaderHost), (''url'', redisURL scheme password leaderHost port),
          (''leader_host'', leaderHost), (''leader_url'', redisURL scheme password leaderHost port),
          (''replica_host'', replicaHost), (''replica_url'', redisURL scheme password replicaHost port)] @
         (if mode = ClusterModeSentinel then
            [(''sentinel_host'', serviceFQDN (sentinelServiceName name) ns),
             (''sentinel_port'', itoa SentinelPort), (''master_name'', name)]
          else [])))"

definition resolveAuthPassword :: "env \<Rightarrow> RedisCluster \<Rightarrow> ('s, string) io" where
  "resolveAuthPassword env cluster =
     (let name = effectiveAuthSecretName cluster in
      if name = [] then ret []
      else bnd (wrap_err (''getting auth secret '' @ name) (get_secret env (c_Namespace cluster) name))
        (\<lambda>secret. ret (mget [] (sec_Data secret) ''password'')))"

definition connection_up_to_date :: "Secret \<Rightarrow> (string, string) gomap \<Rightarrow> bool" where
  "connection_up_to_date existing data \<longleftrightarrow> sec_Type existing = SecretTypeOpaque \<and>
     map_eq (sec_Data existing) data \<and>
     mget [] (om_Labels (sec_Meta existing)) connectionSecretLabel = ''true''"

definition renewed_connection :: "RedisCluster \<Rightarrow> (string, string) gomap \<Rightarrow> Secret \<Rightarrow> Secret" where
  "renewed_connection cluster data existing = existing
     \<lparr>sec_Data := data,
      sec_Meta := (sec_Meta existing)\<lparr>om_Labels :=
        mput connectionSecretLabel ''true'' (mput LabelCluster (c_Name cluster) (om_Labels (sec_Meta existing)))\<rparr>\<rparr>"

definition ensureConnectionSecret :: "env \<Rightarrow> RedisCluster \<Rightarrow> string \<Rightarrow> ('s, unit) io" where
  "ensureConnectionSecret env cluster name =
     bnd (wrap_err ''resolving auth password for connection secret'' (resolveAuthPassword env cluster)) (\<lambda>password.
     let data = buildConnectionSecretData cluster password;
         labels = [(LabelCluster, c_Name cluster), (connectionSecretLabel, ''true'')] in
     bnd (wrap_err ''setting connection secret owner reference''
       (set_controller env cluster (new_meta name (c_Namespace cluster) labels))) (\<lambda>meta.
     bnd (attempt (get_secret env (c_Namespace cluster) name)) (\<lambda>r.
     case r of
       Inl e \<Rightarrow>
         if \<not> IsNotFound e then throw (Wrap (''getting connection secret '' @ name) e)
         else bnd (wrap_err (''creating connection secret '' @ name)
             (create env (OSecret \<lparr>sec_Meta = meta, sec_Type = SecretTypeOpaque, sec_Data = data\<rparr>))) (\<lambda>_.
           eventf Normal ''ConnectionSecretPublished'' (''Published connection secret '' @ name))
     | Inr existing \<Rightarrow>
         if \<not> IsControlledBy (sec_Meta existing) cluster
         then eventf Warning ''ConnectionSecretConflict'' (''Secret '' @ name @
           '' already exists and is not owned by this RedisCluster; refusing to overwrite'')
         else if connection_up_to_date existing data then ret ()
         else wrap_err (''updating connection secret '' @ name)
           (update env (OSecret (renewed_connection cluster data existing))))))"

definition prune_one :: "env \<Rightarrow> RedisCluster \<Rightarrow> string \<Rightarrow> Secret \<Rightarrow> ('s, unit) io" where
  "prune_one env cluster keepName secret =
     (let name = om_Name (sec_Meta secret) in
      if name = keepName \<or> \<not> IsControlledBy (sec_Meta secret) cluster then ret ()
      else bnd (attempt (delete env KSecret (om_Namespace (sec_Meta secret)) name)) (\<lambda>r.
        case r of
          Inl e \<Rightarrow> if IsNotFound e then eventf Normal ''ConnectionSecretRemoved'' (''Removed connection secret '' @ name)
                   else throw (Wrap (''deleting stale connection secret '' @ name) e)
        | Inr _ \<Rightarrow> eventf Normal ''ConnectionSecretRemoved'' (''Removed connection secret '' @ name)))"

definition pruneConnectionSecrets :: "env \<Rightarrow> RedisCluster \<Rightarrow> string \<Rightarrow> ('s, unit) io" where
  "pruneConnectionSecrets env cluster keepName =
     bnd (wrap_err ''listing connection secrets''
       (list_secrets env (c_Namespace cluster) [(LabelCluster, c_Name cluster)]))
       (for_each (prune_one env cluster keepName))"

definition reconcileConnectionSecret :: "env \<Rightarrow> (RedisCluster, unit) io" where
  "reconcileConnectionSecret env = bnd obj (\<lambda>cluster.
     let desiredName = (case s_ConnectionSecret (c_Spec cluster) of None \<Rightarrow> [] | Some ref \<Rightarrow> trimSpace ref) in
     if desiredName = [] then pruneConnectionSecrets env cluster []
     else bnd (ensureConnectionSecret env cluster desiredName) (\<lambda>_.
       pruneConnectionSecrets env cluster desiredName))"

section \<open>Facts\<close>

text \<open>The decoder of percent-encoding, the specification of \<open>escape\<close>.\<close>

definition unhex :: "char \<Rightarrow> nat option" where
  "unhex c = (let n = of_char c in
     if 48 \<le> n \<and> n \<le> 57 then Some (n - 48) else if 65 \<le> n \<and> n \<le> 70 then Some (n - 55) else None)"

fun unescape :: "string \<Rightarrow> string option" where
  "unescape [] = Some []"
| "unescape (c # s) =
     (if c \<noteq> CHR ''%'' then map_option ((#) c) (unescape s)
      else case s of
        a # b # r \<Rightarrow> (case (unhex a, unhex b) of
            (Some x, Some y) \<Rightarrow> map_option ((#) (char_of (16 * x + y))) (unescape r)
          | _ \<Rightarrow> None)
      | _ \<Rightarrow> None)"

lemma unhex_upperhex: "n < 16 \<Longrightarrow> unhex (upperhex n) = Some n"
  by (simp add: unhex_def upperhex_def digit_def Let_def)

lemma escape_Nil [simp]: "escape mode [] = []"
  by (simp add: escape_def)

lemma escape_Cons:
  "escape mode (c # s) = (if shouldEscape mode c
     then [CHR ''%'', upperhex (of_char c div 16), upperhex (of_char c mod 16)] else [c]) @ escape mode s"
  by (simp add: escape_def)

lemma shouldEscape_percent: "shouldEscape mode (CHR ''%'')"
  by (cases mode) (simp_all add: shouldEscape_def is_alnum_def Let_def)

lemma unescape_escape: "unescape (escape mode s) = Some s"
proof (induction s)
  case (Cons c s)
  show ?case
  proof (cases "shouldEscape mode c")
    case True
    have "(of_char c :: nat) div 16 < 16" using nat_of_char_less_256 [of c] by (simp add: div_less_iff_less_mult)
    then show ?thesis using True Cons by (simp add: escape_Cons unhex_upperhex)
  next
    case False
    then have "c \<noteq> CHR ''%''" using shouldEscape_percent by metis
    with False Cons show ?thesis by (simp add: escape_Cons)
  qed
qed simp

interpretation url_text: codec "escape mode" unescape "\<lambda>_. True" for mode
  by unfold_locales (rule unescape_escape)

text \<open>No delimiter of a URL's authority survives in the user information, nor an at sign in the host.\<close>

lemma upperhex_alnum: "n < 16 \<Longrightarrow> is_alnum (upperhex n)"
  by (simp add: is_alnum_def upperhex_def digit_def Let_def)

lemma escape_charset:
  assumes "c \<in> set (escape mode s)"
  shows "\<not> shouldEscape mode c \<or> c = CHR ''%''"
proof -
  from assms obtain d where "d \<in> set s"
    and c: "c \<in> set (if shouldEscape mode d
      then [CHR ''%'', upperhex (of_char d div 16), upperhex (of_char d mod 16)] else [d])"
    unfolding escape_def set_concat set_map by blast
  have "(of_char d :: nat) div 16 < 16" using nat_of_char_less_256 [of d] by (simp add: div_less_iff_less_mult)
  then have "is_alnum (upperhex (of_char d div 16))" "is_alnum (upperhex (of_char d mod 16))"
    by (simp_all add: upperhex_alnum)
  with c show ?thesis by (auto simp: shouldEscape_def split: if_splits)
qed

lemma userinfo_delimiters:
  "CHR ''@'' \<notin> set (escape mode s)" "CHR '':'' \<notin> set (escape encodeUserPassword s)"
proof -
  have "shouldEscape mode (CHR ''@'')" "shouldEscape encodeUserPassword (CHR '':'')"
    by (cases mode; simp add: shouldEscape_def is_alnum_def Let_def)+
  then show "CHR ''@'' \<notin> set (escape mode s)" "CHR '':'' \<notin> set (escape encodeUserPassword s)"
    using escape_charset [of "CHR ''@''" mode s] escape_charset [of "CHR '':''" encodeUserPassword s] by auto
qed

text \<open>
  How a client reads a URL: the scheme up to the first colon, the user information up to the first
  at sign, the user up to the colon in it, and every part percent-decoded.
\<close>

definition parse_redis_url :: "string \<Rightarrow> (string \<times> (string \<times> string) option \<times> string) option" where
  "parse_redis_url u =
     (case cut (CHR '':'') u of
        Some (scheme, rest) \<Rightarrow>
          if take 2 rest \<noteq> ''//'' then None
          else (case cut (CHR ''@'') (drop 2 rest) of
              None \<Rightarrow> map_option (\<lambda>h. (scheme, None, h)) (unescape (drop 2 rest))
            | Some (userinfo, host) \<Rightarrow>
                (case cut (CHR '':'') userinfo of
                   None \<Rightarrow> None
                 | Some (user, password) \<Rightarrow>
                     (case (unescape user, unescape password, unescape host) of
                        (Some a, Some b, Some h) \<Rightarrow> Some (scheme, Some (a, b), h)
                      | _ \<Rightarrow> None)))
      | None \<Rightarrow> None)"

lemma parse_redisURL:
  assumes "CHR '':'' \<notin> set scheme"
  shows "parse_redis_url (redisURL scheme password host port) =
    Some (scheme, if password = [] then None else Some (redisDefaultUser, password), JoinHostPort host port)"
proof -
  let ?h = "escape encodeHost (JoinHostPort host port)"
  define user where "user = escape encodeUserPassword redisDefaultUser"
  define info where "info = escape encodeUserPassword password"
  have at: "CHR ''@'' \<notin> set ?h" "CHR ''@'' \<notin> set user" "CHR ''@'' \<notin> set info" "CHR '':'' \<notin> set user"
    by (simp_all add: userinfo_delimiters user_def info_def)
  have dec: "unescape user = Some redisDefaultUser" "unescape info = Some password"
    by (simp_all only: user_def info_def unescape_escape)
  define rest where "rest = (if password \<noteq> [] then user @ CHR '':'' # info @ CHR ''@'' # ?h else ?h)"
  have url: "redisURL scheme password host port = scheme @ CHR '':'' # ''//'' @ rest"
    by (simp add: redisURL_def rest_def user_def info_def)
  have first: "cut (CHR '':'') (redisURL scheme password host port) = Some (scheme, ''//'' @ rest)"
    unfolding url using assms by (simp add: cut_eq_Some)
  show ?thesis
  proof (cases "password = []")
    case True
    then have "cut (CHR ''@'') rest = None" using at by (simp add: rest_def cut_def)
    with True first show ?thesis by (simp add: parse_redis_url_def rest_def unescape_escape)
  next
    case False
    then have second: "cut (CHR ''@'') rest = Some (user @ CHR '':'' # info, ?h)"
      using at by (simp add: cut_eq_Some rest_def)
    have third: "cut (CHR '':'') (user @ CHR '':'' # info) = Some (user, info)"
      using at by (simp add: cut_eq_Some)
    show ?thesis
      using False by (simp add: parse_redis_url_def first second third dec unescape_escape)
  qed
qed

lemma wp_run:
  assumes "wp m Q (\<lambda>_ _. False) w"
  shows "\<exists>a w'. m w = (Inr a, w') \<and> Q a w'"
  using assms by (auto simp: wp_def split: prod.splits sum.splits)

text \<open>An API server whose Secrets do not change.\<close>

definition serves_secrets :: "env \<Rightarrow> string \<Rightarrow> (string \<Rightarrow> Secret option) \<Rightarrow> bool" where
  "serves_secrets env ns store \<longleftrightarrow> (\<forall>l name. e_get env l KSecret ns name =
     (case store name of None \<Rightarrow> Inl NotFound | Some s \<Rightarrow> Inr (OSecret s)))"

abbreviation version_of :: "(string \<Rightarrow> Secret option) \<Rightarrow> string \<Rightarrow> string option" where
  "version_of store name \<equiv> map_option (\<lambda>s. om_ResourceVersion (sec_Meta s)) (store name)"

lemma wp_secret_versions:
  assumes "serves_secrets env ns store"
  shows "wp (secret_versions env ns refs vs)
    (\<lambda>vs' w'. w_obj w' = w_obj w \<and> (\<forall>n. map_of vs' n =
       (if Some n \<in> snd ` set refs \<and> store n \<noteq> None then version_of store n else map_of vs n)))
    (\<lambda>_ _. False) w"
proof (induction refs arbitrary: vs w)
  case Nil
  then show ?case by (simp add: wp_simps)
next
  case (Cons x refs)
  show ?case
  proof (cases "snd x")
    case None
    then show ?thesis using Cons [of vs w] by simp
  next
    case (Some name)
    have get: "e_get env l KSecret ns name = (case store name of None \<Rightarrow> Inl NotFound | Some s \<Rightarrow> Inr (OSecret s))" for l
      using assms by (simp add: serves_secrets_def)
    let ?w = "\<lambda>ok. logged (Get KSecret ns name) ok w"
    show ?thesis
    proof (cases "store name")
      case None
      then have "(if Some n \<in> snd ` set (x # refs) \<and> store n \<noteq> None then version_of store n else map_of vs n) =
          (if Some n \<in> snd ` set refs \<and> store n \<noteq> None then version_of store n else map_of vs n)" for n
        using Some by auto
      then show ?thesis
        using Some None get Cons [of vs "?w False"]
        by (simp add: wp_simps get_secret_def get_object_def logged_def)
    next
      case (Some s)
      then have "(if Some n \<in> snd ` set (x # refs) \<and> store n \<noteq> None then version_of store n else map_of vs n) =
          (if Some n \<in> snd ` set refs \<and> store n \<noteq> None then version_of store n
           else map_of (mput name (om_ResourceVersion (sec_Meta s)) vs) n)" for n
        using \<open>snd x = Some name\<close> by auto
      then show ?thesis
        using Some \<open>snd x = Some name\<close> get Cons [of "mput name (om_ResourceVersion (sec_Meta s)) vs" "?w True"]
        by (simp add: wp_simps get_secret_def get_object_def logged_def)
    qed
  qed
qed

text \<open>The calls of the connection Secret: which Secrets they may touch.\<close>

definition connection_ok :: "env \<Rightarrow> RedisCluster \<Rightarrow> string \<Rightarrow> call \<Rightarrow> bool" where
  "connection_ok env cluster desired c = (case c of
     Update x \<Rightarrow> (\<exists>s. x = OSecret s \<and> IsControlledBy (sec_Meta s) cluster)
   | Create x \<Rightarrow> (\<exists>s owner. x = OSecret s \<and> om_Name (sec_Meta s) = desired \<and> desired \<noteq> [] \<and>
       e_owner env (c_UID cluster) None = Inr owner \<and> om_Controller (sec_Meta s) = owner)
   | Delete k ns name \<Rightarrow> k = KSecret \<and> name \<noteq> desired \<and>
       (\<exists>l items s. e_list env l KSecret (c_Namespace cluster) [(LabelCluster, c_Name cluster)] = Inr items \<and>
          OSecret s \<in> set items \<and> om_Name (sec_Meta s) = name \<and> IsControlledBy (sec_Meta s) cluster)
   | Get k ns name \<Rightarrow> k = KSecret
   | ListOf k ns sel \<Rightarrow> k = KSecret
   | Event a b d \<Rightarrow> True
   | _ \<Rightarrow> False)"

lemma connection_ok_simps [simp]:
  "connection_ok env c d (Get KSecret ns n)" "connection_ok env c d (ListOf KSecret ns sel)"
  "connection_ok env c d (Event a b e)"
  "connection_ok env c d (Update (OSecret s)) \<longleftrightarrow> IsControlledBy (sec_Meta s) c"
  by (simp_all add: connection_ok_def)

lemma returns_list_secrets:
  "returns (\<lambda>ss. \<exists>l items. e_list env l KSecret ns sel = Inr items \<and> (\<forall>s \<in> set ss. OSecret s \<in> set items))
     (list_secrets env ns sel)"
proof (rule returns_wp)
  fix w :: "'a world"
  have "s \<in> set (List.map_filter (\<lambda>x. case x of OSecret s \<Rightarrow> Some s | _ \<Rightarrow> None) items) \<Longrightarrow> OSecret s \<in> set items"
    for s items by (induction items) (auto simp: List.map_filter_simps split: object.splits)
  then show "wp (list_secrets env ns sel) (\<lambda>ss _. \<exists>l items. e_list env l KSecret ns sel = Inr items \<and>
      (\<forall>s \<in> set ss. OSecret s \<in> set items)) (\<lambda>_ _. True) w"
    by (auto simp: list_secrets_def list_objects_def wp_simps split: sum.split)
qed

lemma issues_prune: "issues (connection_ok env cluster keep) (pruneConnectionSecrets env cluster keep)"
proof -
  have "issues (connection_ok env cluster keep) (prune_one env cluster keep s)"
    if "e_list env l KSecret (c_Namespace cluster) [(LabelCluster, c_Name cluster)] = Inr items" "OSecret s \<in> set items"
    for l items s
    unfolding prune_one_def Let_def
    by (intro issues_if issues_ret issues_bnd issues_attempt issues_delete issues_case_sum issues_eventf issues_throw)
       (use that in \<open>auto simp: connection_ok_def\<close>)
  then show ?thesis
    unfolding pruneConnectionSecrets_def
    by (intro issues_bnd_returns [OF _ returns_wrap_err [OF returns_list_secrets]] issues_intros) auto
qed

lemma issues_ensure_connection:
  assumes "name \<noteq> []"
  shows "issues (connection_ok env cluster name) (ensureConnectionSecret env cluster name)"
proof -
  have password: "issues (connection_ok env cluster name) (resolveAuthPassword env cluster)"
    unfolding resolveAuthPassword_def Let_def by (intro issues_intros; simp)
  have create: "connection_ok env cluster name (Create (OSecret \<lparr>sec_Meta = m, sec_Type = t, sec_Data = d\<rparr>))"
    if "\<exists>owner. e_owner env (c_UID cluster) (om_Controller (new_meta name ns labels)) = Inr owner \<and>
      m = (new_meta name ns labels)\<lparr>om_Controller := owner\<rparr>" for m t d ns labels
    using that assms by (auto simp: connection_ok_def new_meta_def)
  show ?thesis
    unfolding ensureConnectionSecret_def Let_def
    by (intro issues_bnd [OF issues_wrap_err [OF password]]
        issues_bnd_returns [OF _ returns_wrap_err [OF returns_set_controller]] issues_intros create)
       (auto simp: renewed_connection_def IsControlledBy_def)
qed

section \<open>Properties\<close>

text \<open>
  Maintaining the connection Secret never writes to a Secret of somebody else: every update is
  of a Secret the cluster controls, every deletion is of a listed Secret the cluster controls whose
  name is not the configured one, a creation carries the cluster's owner reference, and nothing but
  Secrets is read or written, whatever the API server answers.
\<close>

theorem connection_secret_footprint:
  "\<exists>l. w_log (snd (reconcileConnectionSecret env w)) = w_log w @ l \<and>
     list_all (\<lambda>x. connection_ok env (w_obj w)
       (case s_ConnectionSecret (c_Spec (w_obj w)) of None \<Rightarrow> [] | Some ref \<Rightarrow> trimSpace ref) (fst x)) l"
  unfolding reconcileConnectionSecret_def Let_def
  by (rule footprint_obj) (auto intro!: issues_if issues_bnd issues_prune issues_ensure_connection)

text \<open>
  C28. The published URL is read back by a client as it was meant: its scheme says whether TLS is on,
  its user information is the default user and exactly the password, whatever characters the
  password has, and absent when there is none, and its address is the published host with the data
  port.
\<close>

theorem connection_url_roundtrip:
  "\<exists>host url. map_of (buildConnectionSecretData cluster password) ''host'' = Some host \<and>
     map_of (buildConnectionSecretData cluster password) ''url'' = Some url \<and>
     parse_redis_url url = Some (if isTLSEnabled cluster then ''rediss'' else ''redis'',
       if password = [] then None else Some (redisDefaultUser, password), JoinHostPort host (itoa redisDataPort))"
proof -
  define host where "host = (if s_Mode (c_Spec cluster) = ClusterModeCluster
    then serviceFQDN (clusterHeadlessServiceName (c_Name cluster)) (c_Namespace cluster)
    else serviceFQDN (leaderServiceName (c_Name cluster)) (c_Namespace cluster))"
  define scheme where "scheme = (if isTLSEnabled cluster then ''rediss'' else ''redis'')"
  have "map_of (buildConnectionSecretData cluster password) ''host'' = Some host"
    "map_of (buildConnectionSecretData cluster password) ''url'' = Some (redisURL scheme password host (itoa redisDataPort))"
    by (simp_all add: buildConnectionSecretData_def Let_def host_def scheme_def map_add_def)
  moreover have "CHR '':'' \<notin> set scheme" by (simp add: scheme_def)
  ultimately show ?thesis using parse_redisURL [of scheme] unfolding scheme_def by blast
qed

text \<open>
  With the authentication Secret configured and an API server that accepts the status patch,
  reconciling the Secrets succeeds and the status records exactly the Secrets that the cluster
  refers to and that exist, each with its current version, in whatever order Go ranges over the
  maps.
\<close>

theorem secret_versions_recorded:
  assumes "accepts env" and "serves_secrets env (c_Namespace (w_obj w)) store"
    and "s_AuthSecret (c_Spec (w_obj w)) \<noteq> None" and "\<forall>m. set (rngRefs m) = set m"
  shows "\<exists>w'. reconcileSecrets env rngRefs rngVers w = (Inr (), w') \<and>
    (\<forall>name. map_of (st_SecretsResourceVersion (c_Status (w_obj w'))) name =
       (if Some name \<in> snd ` set (secretRefs (w_obj w)) then version_of store name else None)) \<and>
    (\<forall>name. UsesSecret (w_obj w') name \<longleftrightarrow> Some name \<in> snd ` set (secretRefs (w_obj w)) \<and> store name \<noteq> None)"
proof -
  let ?want = "\<lambda>name. if Some name \<in> snd ` set (secretRefs (w_obj w)) \<and> store name \<noteq> None then version_of store name else None"
  have rest: "wp (bnd (for_each (rotation_event cluster) (rngVers vs)) (\<lambda>_. wrap_err msg
      (patch_status env (on_status (\<lambda>st. st\<lparr>st_SecretsResourceVersion := vs\<rparr>)))))
      (\<lambda>_ w'. map_of (st_SecretsResourceVersion (c_Status (w_obj w'))) = map_of vs) (\<lambda>_ _. False) w1" for cluster vs w1 msg
  proof -
    have "wp (for_each (rotation_event cluster) (rngVers vs)) (\<lambda>_ _. True) (\<lambda>_ _. False) w1"
      by (rule wp_for_each) (auto simp: rotation_event_def wp_simps split: option.split)
    then show ?thesis
      unfolding wp_bnd wp_wrap_err wp_patch_status_accepts [OF assms(1)]
      by (rule wp_mono) (simp_all add: on_status_def logged_def)
  qed
  have "wp (secret_versions env (c_Namespace (w_obj w)) (rngRefs (secretRefs (w_obj w))) [])
      (\<lambda>vs _. map_of vs = ?want) (\<lambda>_ _. False) w"
    by (rule wp_mono [OF wp_secret_versions [OF assms(2)]]) (use assms(4) in \<open>auto simp: fun_eq_iff\<close>)
  moreover have none: "(s_AuthSecret (c_Spec (w_obj w)) = None) = False" using assms(3) by simp
  ultimately have "wp (reconcileSecrets env rngRefs rngVers)
      (\<lambda>_ w'. map_of (st_SecretsResourceVersion (c_Status (w_obj w'))) = ?want) (\<lambda>_ _. False) w"
    unfolding reconcileSecrets_def wp_bnd wp_obj none if_False wp_ret
    by (elim wp_mono) (auto intro: wp_mono [OF rest [unfolded wp_bnd]])
  then obtain w' where "reconcileSecrets env rngRefs rngVers w = (Inr (), w')"
    and "map_of (st_SecretsResourceVersion (c_Status (w_obj w'))) = ?want" by (auto dest: wp_run)
  then show ?thesis by (auto simp: UsesSecret_def)
qed

text \<open>A server that has one Secret.\<close>

definition secret_env :: env where
  "secret_env = (sample_env [])\<lparr>e_get := (\<lambda>l k ns name. if k = KSecret \<and> name = ''pw''
     then Inr (OSecret \<lparr>sec_Meta = (new_meta ''pw'' ''ns'' [])\<lparr>om_ResourceVersion := ''7''\<rparr>, sec_Type = SecretTypeOpaque,
       sec_Data = [(''password'', ''x'')]\<rparr>) else Inl NotFound)\<rparr>"

definition secret_cluster :: RedisCluster where
  "secret_cluster = sample_cluster\<lparr>c_Spec := sample_spec\<lparr>s_AuthSecret := Some ''pw'', s_TLSSecret := Some ''tls''\<rparr>\<rparr>"

theorem secret_versions_recorded_witness:
  "\<exists>w'. reconcileSecrets secret_env (\<lambda>m. m) rev (sample_world secret_cluster) = (Inr (), w') \<and>
     map_of (st_SecretsResourceVersion (c_Status (w_obj w'))) ''pw'' = Some ''7'' \<and> \<not> UsesSecret (w_obj w') ''tls''"
proof -
  let ?store = "\<lambda>name. if name = ''pw'' then Some \<lparr>sec_Meta = (new_meta ''pw'' ''ns'' [])\<lparr>om_ResourceVersion := ''7''\<rparr>,
    sec_Type = SecretTypeOpaque, sec_Data = [(''password'', ''x'')]\<rparr> else None"
  have "accepts secret_env" by (simp add: secret_env_def accepts_def sample_env_def)
  moreover have "serves_secrets secret_env ''ns'' ?store" by (simp add: serves_secrets_def secret_env_def)
  moreover have "Some ''pw'' \<in> snd ` set (secretRefs secret_cluster)"
    by (simp add: secretRefs_def secret_cluster_def effectiveAuthSecretName_def trimSpace_def is_space_def Let_def
        sample_cluster_def)
  moreover have "c_Namespace (w_obj (sample_world secret_cluster)) = ''ns''"
    "s_AuthSecret (c_Spec (w_obj (sample_world secret_cluster))) \<noteq> None"
    "w_obj (sample_world secret_cluster) = secret_cluster"
    by (simp_all add: sample_world_def secret_cluster_def sample_cluster_def)
  ultimately obtain w' where "reconcileSecrets secret_env (\<lambda>m. m) rev (sample_world secret_cluster) = (Inr (), w')"
    and "\<forall>name. map_of (st_SecretsResourceVersion (c_Status (w_obj w'))) name =
       (if Some name \<in> snd ` set (secretRefs secret_cluster) then version_of ?store name else None)"
    and "\<forall>name. UsesSecret (w_obj w') name \<longleftrightarrow> Some name \<in> snd ` set (secretRefs secret_cluster) \<and> ?store name \<noteq> None"
    using secret_versions_recorded [of secret_env "sample_world secret_cluster" ?store "\<lambda>m. m" rev] by auto
  with \<open>Some ''pw'' \<in> snd ` set (secretRefs secret_cluster)\<close> show ?thesis
    by (intro exI [of _ w']) (simp add: new_meta_def)
qed

end
