(* ===== verification/Resources.thy ===== *)
theory Resources
  imports Secrets
begin

text \<open>
  The resources around the pods: the service account and role of the instance managers
  (\<^verbatim>\<open>internal/controller/cluster/rbac.go\<close>), the disruption budget (\<^verbatim>\<open>pdb.go\<close>), the volumes and
  their growth (\<^verbatim>\<open>pvcs.go\<close>), and node maintenance windows (\<^verbatim>\<open>maintenance.go\<close>). The minimum of a
  disruption budget is kept by its integer value, which is all the source reads of it.
\<close>

section \<open>Service account and role\<close>

definition reconcileServiceAccount :: "env \<Rightarrow> (RedisCluster, unit) io" where
  "reconcileServiceAccount env = bnd obj (\<lambda>cluster.
     let name = serviceAccountName (c_Name cluster) in
     bnd (wrap_err ''setting serviceaccount owner reference''
       (set_controller env cluster (new_meta name (c_Namespace cluster) [(LabelCluster, c_Name cluster)]))) (\<lambda>sa.
     bnd (attempt (get_object env KServiceAccount (c_Namespace cluster) name)) (\<lambda>r.
     case r of
       Inl e \<Rightarrow>
         if \<not> IsNotFound e then throw (Wrap (''getting serviceaccount '' @ name) e)
         else wrap_err (''creating serviceaccount '' @ name) (create env (OServiceAccount sa))
     | Inr _ \<Rightarrow> ret ())))"

definition instanceManagerRoleRules :: "PolicyRule list" where
  "instanceManagerRoleRules =
     [\<lparr>rule_APIGroups = [''redis.io''], rule_Resources = [''redisclusters''], rule_Verbs = [''get'', ''list'', ''watch'']\<rparr>,
      \<lparr>rule_APIGroups = [''redis.io''], rule_Resources = [''redisclusters/status''], rule_Verbs = [''get'', ''patch'', ''update'']\<rparr>,
      \<lparr>rule_APIGroups = [''redis.io''], rule_Resources = [''redisbackups''], rule_Verbs = [''get'']\<rparr>,
      \<lparr>rule_APIGroups = [[]], rule_Resources = [''pods''], rule_Verbs = [''get'', ''list'']\<rparr>,
      \<lparr>rule_APIGroups = [[]], rule_Resources = [''secrets''], rule_Verbs = [''get'']\<rparr>,
      \<lparr>rule_APIGroups = [[]], rule_Resources = [''events''], rule_Verbs = [''create'', ''patch'']\<rparr>]"

text \<open>Taking over the metadata of an object that is not controlled by the cluster.\<close>

definition adopt_meta :: "env \<Rightarrow> RedisCluster \<Rightarrow> string \<Rightarrow> ObjectMeta \<Rightarrow> ('s, ObjectMeta) io" where
  "adopt_meta env cluster msg m =
     (if IsControlledBy m cluster then ret m else wrap_err msg (set_controller env cluster m))"

definition reconcile_role :: "env \<Rightarrow> RedisCluster \<Rightarrow> ('s, unit) io" where
  "reconcile_role env cluster =
     (let name = serviceAccountName (c_Name cluster); labels = [(LabelCluster, c_Name cluster)] in
      bnd (wrap_err ''setting role owner reference''
        (set_controller env cluster (new_meta name (c_Namespace cluster) labels))) (\<lambda>meta.
      bnd (attempt (get_role env (c_Namespace cluster) name)) (\<lambda>r.
      case r of
        Inl e \<Rightarrow>
          if \<not> IsNotFound e then throw (Wrap (''getting role '' @ name) e)
          else wrap_err (''creating role '' @ name)
            (create env (ORole \<lparr>role_Meta = meta, role_Rules = instanceManagerRoleRules\<rparr>))
      | Inr existing \<Rightarrow>
          let m = role_Meta existing;
              changed = (\<not> map_eq (om_Labels m) labels \<or> role_Rules existing \<noteq> instanceManagerRoleRules \<or>
                \<not> IsControlledBy m cluster) in
          bnd (adopt_meta env cluster ''setting role owner reference''
            (if map_eq (om_Labels m) labels then m else m\<lparr>om_Labels := labels\<rparr>)) (\<lambda>m'.
          if changed
          then wrap_err (''updating role '' @ name)
            (update env (ORole \<lparr>role_Meta = m', role_Rules = instanceManagerRoleRules\<rparr>))
          else ret ()))))"

definition binding_subjects :: "RedisCluster \<Rightarrow> Subject list" where
  "binding_subjects cluster =
     [\<lparr>sub_Kind = ''ServiceAccount'', sub_Name = serviceAccountName (c_Name cluster), sub_Namespace = c_Namespace cluster\<rparr>]"

definition binding_role :: "RedisCluster \<Rightarrow> RoleRef" where
  "binding_role cluster =
     \<lparr>ref_APIGroup = ''rbac.authorization.k8s.io'', ref_Kind = ''Role'', ref_Name = serviceAccountName (c_Name cluster)\<rparr>"

definition reconcile_role_binding :: "env \<Rightarrow> RedisCluster \<Rightarrow> ('s, unit) io" where
  "reconcile_role_binding env cluster =
     (let name = serviceAccountName (c_Name cluster); labels = [(LabelCluster, c_Name cluster)] in
      bnd (wrap_err ''setting rolebinding owner reference''
        (set_controller env cluster (new_meta name (c_Namespace cluster) labels))) (\<lambda>meta.
      let desired = \<lparr>rb_Meta = meta, rb_Subjects = binding_subjects cluster, rb_RoleRef = binding_role cluster\<rparr> in
      bnd (attempt (get_role_binding env (c_Namespace cluster) name)) (\<lambda>r.
      case r of
        Inl e \<Rightarrow>
          if \<not> IsNotFound e then throw (Wrap (''getting rolebinding '' @ name) e)
          else wrap_err (''creating rolebinding '' @ name) (create env (ORoleBinding desired))
      | Inr existing \<Rightarrow>
          let m = rb_Meta existing in
          if rb_RoleRef existing \<noteq> rb_RoleRef desired then
            bnd (attempt (delete env KRoleBinding (om_Namespace m) (om_Name m))) (\<lambda>r.
            bnd (case r of
                   Inl e \<Rightarrow> if IsNotFound e then ret ()
                     else throw (Wrap (''deleting rolebinding '' @ name @ '' for immutable roleRef drift'') e)
                 | Inr _ \<Rightarrow> ret ()) (\<lambda>_.
            wrap_err (''recreating rolebinding '' @ name) (create env (ORoleBinding desired))))
          else
            let changed = (\<not> map_eq (om_Labels m) labels \<or> rb_Subjects existing \<noteq> rb_Subjects desired \<or>
                  \<not> IsControlledBy m cluster) in
            bnd (adopt_meta env cluster ''setting rolebinding owner reference''
              (if map_eq (om_Labels m) labels then m else m\<lparr>om_Labels := labels\<rparr>)) (\<lambda>m'.
            if changed
            then wrap_err (''updating rolebinding '' @ name)
              (update env (ORoleBinding (existing\<lparr>rb_Meta := m', rb_Subjects := rb_Subjects desired\<rparr>)))
            else ret ()))))"

definition reconcileRBAC :: "env \<Rightarrow> (RedisCluster, unit) io" where
  "reconcileRBAC env = bnd obj (\<lambda>cluster.
     bnd (reconcile_role env cluster) (\<lambda>_. reconcile_role_binding env cluster))"

section \<open>Maintenance windows\<close>

definition isMaintenanceInProgress :: "RedisCluster \<Rightarrow> bool" where
  "isMaintenanceInProgress cluster \<longleftrightarrow>
     (case s_NodeMaintenanceWindow (c_Spec cluster) of None \<Rightarrow> False | Some window \<Rightarrow> nmw_InProgress window)"

definition maintenanceReusePVC :: "RedisCluster \<Rightarrow> bool" where
  "maintenanceReusePVC cluster \<longleftrightarrow>
     (case s_NodeMaintenanceWindow (c_Spec cluster) of
        None \<Rightarrow> True
      | Some window \<Rightarrow> (case nmw_ReusePVC window of None \<Rightarrow> True | Some reuse \<Rightarrow> reuse))"

section \<open>Disruption budget\<close>

definition pdbMinAvailable :: "int \<Rightarrow> int" where
  "pdbMinAvailable instances = (let m = int32 (instances - 1) in if m < 1 then 1 else m)"

definition pdbName :: "RedisCluster \<Rightarrow> string" where
  "pdbName cluster = c_Name cluster @ ''-pdb''"

definition deletePDB :: "env \<Rightarrow> RedisCluster \<Rightarrow> ('s, unit) io" where
  "deletePDB env cluster =
     bnd (attempt (get_pdb env (c_Namespace cluster) (pdbName cluster))) (\<lambda>r.
     case r of
       Inl e \<Rightarrow> if IsNotFound e then ret () else throw e
     | Inr existing \<Rightarrow> delete env KPDB (om_Namespace (pdb_Meta existing)) (om_Name (pdb_Meta existing)))"

definition desiredPDB :: "RedisCluster \<Rightarrow> PodDisruptionBudget" where
  "desiredPDB cluster =
     \<lparr>pdb_Meta = new_meta (pdbName cluster) (c_Namespace cluster) [(LabelCluster, c_Name cluster)],
      pdb_MinAvailable = Some (
        if s_Mode (c_Spec cluster) = ClusterModeCluster then pdbMinAvailable (s_Shards (c_Spec cluster))
        else pdbMinAvailable (DesiredDataInstances (c_Spec cluster))),
      pdb_MatchLabels = [(LabelCluster, c_Name cluster)]\<rparr>"

definition reconcilePDB :: "env \<Rightarrow> (RedisCluster, unit) io" where
  "reconcilePDB env = bnd obj (\<lambda>cluster.
     if isMaintenanceInProgress cluster then deletePDB env cluster
     else if s_EnablePodDisruptionBudget (c_Spec cluster) = Some False then deletePDB env cluster
     else
       bnd (attempt (get_pdb env (c_Namespace cluster) (pdbName cluster))) (\<lambda>r.
       case r of
         Inl e \<Rightarrow> if IsNotFound e then create env (OPDB (desiredPDB cluster)) else throw (Wrap ''getting PDB'' e)
       | Inr existing \<Rightarrow>
           if pdb_MinAvailable existing \<noteq> pdb_MinAvailable (desiredPDB cluster)
           then bnd (patch env (OPDB existing) (OPDB (existing\<lparr>pdb_MinAvailable := pdb_MinAvailable (desiredPDB cluster)\<rparr>)))
             (\<lambda>_. ret ())
           else ret ()))"

section \<open>Volumes\<close>

abbreviation ResourceStorage :: string where "ResourceStorage \<equiv> ''storage''"

definition zero_quantity :: quantity where
  "zero_quantity = \<lparr>q_nano = 0, q_text = ''0''\<rparr>"

definition desiredSize :: "RedisCluster \<Rightarrow> quantity" where
  "desiredSize cluster =
     (let size = ss_Size (s_Storage (c_Spec cluster)) in
      if q_nano size = 0 then \<lparr>q_nano = 1073741824 * 1000000000, q_text = ''1Gi''\<rparr> else size)"

definition hasFileSystemResizePending :: "PersistentVolumeClaim \<Rightarrow> bool" where
  "hasFileSystemResizePending pvc \<longleftrightarrow>
     list_ex (\<lambda>(t, status). t = ''FileSystemResizePending'' \<and> status = ConditionTrue) (pvc_Conditions pvc)"

definition createPVC :: "env \<Rightarrow> RedisCluster \<Rightarrow> string \<Rightarrow> ('s, unit) io" where
  "createPVC env cluster name = create env (OPVC
     \<lparr>pvc_Meta = new_meta name (c_Namespace cluster) [(LabelCluster, c_Name cluster)],
      pvc_AccessModes = [''ReadWriteOnce''], pvc_Requests = [(ResourceStorage, desiredSize cluster)],
      pvc_StorageClassName = ss_StorageClassName (s_Storage (c_Spec cluster)), pvc_Conditions = []\<rparr>)"

definition listClusterPVCs :: "env \<Rightarrow> RedisCluster \<Rightarrow> ('s, PersistentVolumeClaim list) io" where
  "listClusterPVCs env cluster = list_pvcs env (c_Namespace cluster) [(LabelCluster, c_Name cluster)]"

definition canExpandPVC :: "env \<Rightarrow> RedisCluster \<Rightarrow> PersistentVolumeClaim \<Rightarrow> ('s, bool \<times> string) io" where
  "canExpandPVC env cluster pvc =
     (let own = (case pvc_StorageClassName pvc of None \<Rightarrow> [] | Some n \<Rightarrow> n);
          storageClassName = (if own = [] then (case ss_StorageClassName (s_Storage (c_Spec cluster)) of
            None \<Rightarrow> [] | Some n \<Rightarrow> n) else own) in
      if storageClassName = [] then ret (True, [])
      else bnd (attempt (get_storage_class env storageClassName)) (\<lambda>r.
        case r of
          Inl e \<Rightarrow>
            if IsNotFound e then ret (False, ''StorageClass '' @ quoted storageClassName @ '' not found'') else throw e
        | Inr storageClass \<Rightarrow>
            if stc_AllowVolumeExpansion storageClass \<noteq> Some True
            then ret (False, ''StorageClass '' @ quoted storageClassName @ '' does not allow volume expansion'')
            else ret (True, [])))"

text \<open>On success the answer of the server replaces the claim in memory.\<close>

definition patch_pvc :: "env \<Rightarrow> PersistentVolumeClaim \<Rightarrow> PersistentVolumeClaim \<Rightarrow> ('s, PersistentVolumeClaim) io" where
  "patch_pvc env base new = bnd (patch env (OPVC base) (OPVC new))
     (\<lambda>x. case x of OPVC v \<Rightarrow> ret v | _ \<Rightarrow> throw wrong_kind)"

record pvc_scan =
  sc_healthy :: int
  sc_pending :: "string set"
  sc_resize :: bool

definition currentRequest :: "PersistentVolumeClaim \<Rightarrow> quantity" where
  "currentRequest pvc = mget zero_quantity (pvc_Requests pvc) ResourceStorage"

text \<open>Growing one claim; the claim as it is afterwards.\<close>

definition expand_pvc :: "env \<Rightarrow> RedisCluster \<Rightarrow> string \<Rightarrow> PersistentVolumeClaim \<Rightarrow> ('s, PersistentVolumeClaim) io" where
  "expand_pvc env cluster pvcName existing =
     (let sizes = pvcName @ '' from '' @ q_text (currentRequest existing) @ '' to '' @ q_text (desiredSize cluster) in
      bnd (wrap_err (''checking PVC '' @ pvcName @ '' expansion support'') (canExpandPVC env cluster existing)) (\<lambda>(expandable, reason).
      if \<not> expandable
      then bnd (eventf Warning ''PVCResizeFailed'' (''Cannot resize PVC '' @ sizes @ '': '' @ reason)) (\<lambda>_. ret existing)
      else bnd (attempt (patch_pvc env existing
             (existing\<lparr>pvc_Requests := mput ResourceStorage (desiredSize cluster) (pvc_Requests existing)\<rparr>))) (\<lambda>r.
        case r of
          Inl e \<Rightarrow>
            bnd (eventf Warning ''PVCResizeFailed'' (''Failed to patch PVC '' @ sizes @ '': '' @ error_text e)) (\<lambda>_.
            throw (Wrap (''patching PVC '' @ pvcName @ '' storage request'') e))
        | Inr answer \<Rightarrow> ret answer)))"

definition scan_pvc :: "env \<Rightarrow> RedisCluster \<Rightarrow> int \<Rightarrow> pvc_scan \<Rightarrow> ('s, pvc_scan) io" where
  "scan_pvc env cluster i acc =
     (let pvcName = pvcNameForIndex (c_Name cluster) i; acc = acc\<lparr>sc_healthy := sc_healthy acc + 1\<rparr> in
      bnd (attempt (get_pvc env (c_Namespace cluster) pvcName)) (\<lambda>r.
      case r of
        Inl e \<Rightarrow>
          if \<not> IsNotFound e then throw (Wrap (''getting PVC '' @ pvcName) e)
          else bnd (wrap_err (''creating PVC '' @ pvcName) (createPVC env cluster pvcName)) (\<lambda>_. ret acc)
      | Inr existing \<Rightarrow>
          let grow = (q_nano (desiredSize cluster) > q_nano (currentRequest existing)) in
          bnd (if grow then expand_pvc env cluster pvcName existing else ret existing) (\<lambda>existing.
          ret (
            if hasFileSystemResizePending existing
            then acc\<lparr>sc_resize := True, sc_pending := insert pvcName (sc_pending acc)\<rparr>
            else acc\<lparr>sc_resize := sc_resize acc \<or> grow\<rparr>))))"

primrec scan_pvcs :: "env \<Rightarrow> RedisCluster \<Rightarrow> int list \<Rightarrow> pvc_scan \<Rightarrow> ('s, pvc_scan) io" where
  "scan_pvcs env cluster [] acc = ret acc"
| "scan_pvcs env cluster (i # is) acc = bnd (scan_pvc env cluster i acc) (scan_pvcs env cluster is)"

definition danglingPVCs :: "PersistentVolumeClaim list \<Rightarrow> Pod list \<Rightarrow> string list" where
  "danglingPVCs pvcs pods = filter (\<lambda>name. \<not> list_ex (\<lambda>pod.
     list_ex (\<lambda>vol. vol_Source vol = PersistentVolumeClaimSource name) (ps_Volumes (p_Spec pod))) pods)
     (map (\<lambda>pvc. om_Name (pvc_Meta pvc)) pvcs)"

definition resize_condition :: "bool \<Rightarrow> int \<Rightarrow> Condition" where
  "resize_condition pending t =
     (if pending
      then \<lparr>cond_Type = ConditionPVCResizeInProgress, cond_Status = ConditionTrue, cond_LastTransitionTime = t,
        cond_Reason = ''PVCResizePending'',
        cond_Message = ''One or more PVCs are being resized or waiting for filesystem expansion''\<rparr>
      else \<lparr>cond_Type = ConditionPVCResizeInProgress, cond_Status = ConditionFalse, cond_LastTransitionTime = t,
        cond_Reason = ''PVCResizeComplete'', cond_Message = ''All PVCs are at the requested storage size''\<rparr>)"

definition pvc_status :: "pvc_scan \<Rightarrow> string list \<Rightarrow> bool \<Rightarrow> int \<Rightarrow> RedisClusterStatus \<Rightarrow> RedisClusterStatus" where
  "pvc_status acc dangling was t st = st
     \<lparr>st_HealthyPVC := sc_healthy acc, st_DanglingPVC := dangling,
      st_Conditions := (if sc_resize acc \<or> was
        then setCondition (st_Conditions st) (resize_condition (sc_resize acc) t) else st_Conditions st)\<rparr>"

definition reconcilePVCs :: "env \<Rightarrow> (RedisCluster, string set) io" where
  "reconcilePVCs env = bnd obj (\<lambda>cluster.
     let was = (case find_condition (st_Conditions (c_Status cluster)) ConditionPVCResizeInProgress of
           None \<Rightarrow> False | Some c \<Rightarrow> cond_Status c = ConditionTrue) in
     bnd (scan_pvcs env cluster [0..DesiredDataInstances (c_Spec cluster) - 1]
       \<lparr>sc_healthy = 0, sc_pending = {}, sc_resize = False\<rparr>) (\<lambda>acc.
     bnd (wrap_err ''listing PVCs'' (listClusterPVCs env cluster)) (\<lambda>allPVCs.
     bnd (wrap_err ''listing pods for PVC check'' (listClusterPods env cluster)) (\<lambda>existingPods.
     bnd (if sc_resize acc \<or> was then now env else ret 0) (\<lambda>t.
     bnd (wrap_err ''patching PVC status''
       (patch_status env (on_status (pvc_status acc (danglingPVCs allPVCs existingPods) was t)))) (\<lambda>_.
     bnd (if sc_resize acc \<and> \<not> was
          then eventf Normal ''PVCResizeStarted''
            (''PVC resize started; reconciling requested storage to '' @ q_text (desiredSize cluster))
          else if \<not> sc_resize acc \<and> was
          then eventf Normal ''PVCResizeCompleted'' ''PVC resize completed for all cluster PVCs''
          else ret ()) (\<lambda>_.
     ret (sc_pending acc))))))))"

section \<open>Reconciling maintenance\<close>

definition maintenance_condition :: "bool \<Rightarrow> int \<Rightarrow> Condition" where
  "maintenance_condition on t =
     (if on
      then \<lparr>cond_Type = ConditionMaintenanceInProgress, cond_Status = ConditionTrue, cond_LastTransitionTime = t,
        cond_Reason = ''MaintenanceEnabled'', cond_Message = ''Node maintenance window is in progress''\<rparr>
      else \<lparr>cond_Type = ConditionMaintenanceInProgress, cond_Status = ConditionFalse, cond_LastTransitionTime = t,
        cond_Reason = ''MaintenanceDisabled'', cond_Message = ''Node maintenance window is not in progress''\<rparr>)"

definition set_condition :: "Condition \<Rightarrow> RedisCluster \<Rightarrow> RedisCluster" where
  "set_condition c = on_status (\<lambda>st. st\<lparr>st_Conditions := setCondition (st_Conditions st) c\<rparr>)"

definition condition_true :: "RedisCluster \<Rightarrow> string \<Rightarrow> bool" where
  "condition_true cluster type \<longleftrightarrow>
     (case find_condition (st_Conditions (c_Status cluster)) type of None \<Rightarrow> False | Some c \<Rightarrow> cond_Status c = ConditionTrue)"

definition reconcileMaintenance :: "env \<Rightarrow> (RedisCluster, bool) io" where
  "reconcileMaintenance env = bnd obj (\<lambda>cluster.
     let current = condition_true cluster ConditionMaintenanceInProgress in
     if \<not> isMaintenanceInProgress cluster then
       if \<not> current then ret False
       else
         bnd (eventf Normal ''MaintenanceWindowEnded'' ''Node maintenance window ended, normal reconciliation resumed'') (\<lambda>_.
         bnd (now env) (\<lambda>t.
         bnd (wrap_err ''patching status after maintenance end''
           (patch_status env (set_condition (maintenance_condition False t)))) (\<lambda>_. ret False)))
     else
       bnd (wrap_err ''deleting PDB during maintenance'' (deletePDB env cluster)) (\<lambda>_.
       if current then ret True
       else
         bnd (eventf Normal ''MaintenanceWindowStarted'' ''Node maintenance window started, pod self-healing is suspended'') (\<lambda>_.
         bnd (now env) (\<lambda>t.
         bnd (wrap_err ''patching status for maintenance start''
           (patch_status env (set_condition (maintenance_condition True t)))) (\<lambda>_. ret True)))))"

definition recycle_pvc :: "env \<Rightarrow> RedisCluster \<Rightarrow> string set \<Rightarrow> int \<Rightarrow> ('s, unit) io" where
  "recycle_pvc env cluster existingPods i =
     (let podName = podNameForIndex (c_Name cluster) i; pvcName = pvcNameForIndex (c_Name cluster) i in
      if podName \<in> existingPods then ret ()
      else bnd (attempt (get_pvc env (c_Namespace cluster) pvcName)) (\<lambda>r.
        case r of
          Inl e \<Rightarrow> if IsNotFound e then ret ()
            else throw (Wrap (''getting PVC '' @ pvcName @ '' for maintenance recycle'') e)
        | Inr pvc \<Rightarrow>
            if om_DeletionTimestamp (pvc_Meta pvc) \<noteq> None then ret ()
            else bnd (attempt (delete env KPVC (om_Namespace (pvc_Meta pvc)) (om_Name (pvc_Meta pvc)))) (\<lambda>r.
              let recycled = eventf Normal ''MaintenancePVCRecycled'' (''Deleted PVC '' @ pvcName @
                '' for maintenance replacement of missing pod '' @ podName) in
              case r of
                Inl e \<Rightarrow> if IsNotFound e then recycled
                  else throw (Wrap (''deleting PVC '' @ pvcName @ '' for maintenance recycle'') e)
              | Inr _ \<Rightarrow> recycled)))"

definition recyclePVCsForMissingPods :: "env \<Rightarrow> (RedisCluster, unit) io" where
  "recyclePVCsForMissingPods env = bnd obj (\<lambda>cluster.
     if \<not> isMaintenanceInProgress cluster \<or> maintenanceReusePVC cluster then ret ()
     else
       bnd (wrap_err ''listing data pods for maintenance PVC recycle'' (listDataPods env cluster)) (\<lambda>pods.
       for_each (recycle_pvc env cluster (p_Name ` set pods)) [0..DesiredDataInstances (c_Spec cluster) - 1]))"

section \<open>Facts\<close>

text \<open>The writes of the role and its binding.\<close>

definition rbac_ok :: "RedisCluster \<Rightarrow> call \<Rightarrow> bool" where
  "rbac_ok cluster c = (case c of
     Create (ORole r) \<Rightarrow> role_Rules r = instanceManagerRoleRules
   | Update (ORole r) \<Rightarrow> role_Rules r = instanceManagerRoleRules
   | Create (ORoleBinding b) \<Rightarrow> rb_Subjects b = binding_subjects cluster \<and> rb_RoleRef b = binding_role cluster
   | Update (ORoleBinding b) \<Rightarrow> rb_Subjects b = binding_subjects cluster \<and> rb_RoleRef b = binding_role cluster
   | Delete k ns name \<Rightarrow> k = KRoleBinding
   | Get k ns name \<Rightarrow> k \<in> {KRole, KRoleBinding}
   | _ \<Rightarrow> False)"

lemma issues_reconcile_role: "issues (rbac_ok cluster) (reconcile_role env cluster)"
  unfolding reconcile_role_def adopt_meta_def Let_def
  by (intro issues_intros; simp add: rbac_ok_def)

lemma issues_reconcile_role_binding: "issues (rbac_ok cluster) (reconcile_role_binding env cluster)"
  unfolding reconcile_role_binding_def adopt_meta_def Let_def
  by (intro issues_intros; simp add: rbac_ok_def)

text \<open>The writes of the volume claims.\<close>

definition volume_ok :: "RedisCluster \<Rightarrow> call \<Rightarrow> bool" where
  "volume_ok cluster c = (case c of
     Create x \<Rightarrow> (\<exists>v. x = OPVC v \<and> pvc_Requests v = [(ResourceStorage, desiredSize cluster)])
   | Patch lock base x \<Rightarrow> (\<exists>v. base = OPVC v \<and> q_nano (currentRequest v) < q_nano (desiredSize cluster) \<and>
       x = OPVC (v\<lparr>pvc_Requests := mput ResourceStorage (desiredSize cluster) (pvc_Requests v)\<rparr>))
   | Update x \<Rightarrow> False
   | Delete k ns name \<Rightarrow> False
   | Http m ip path body \<Rightarrow> False
   | _ \<Rightarrow> True)"

lemma volume_ok_simps [simp]:
  "volume_ok c (Get k ns n)" "volume_ok c (ListOf k ns sel)" "volume_ok c (Event a b d)" "volume_ok c Clock"
  "volume_ok c (StatusPatch x y)" "volume_ok c (Observed x)"
  "volume_ok c (Create (OPVC v)) \<longleftrightarrow> pvc_Requests v = [(ResourceStorage, desiredSize c)]"
  by (simp_all add: volume_ok_def)

lemma issues_case_object [issues_intros]:
  assumes "\<And>v. x = OPVC v \<Longrightarrow> issues P (f v)" and "issues P d"
  shows "issues P (case x of OPVC v \<Rightarrow> f v | _ \<Rightarrow> d)"
  using assms by (cases x) simp_all

lemma issues_canExpandPVC: "issues (volume_ok cluster) (canExpandPVC env cluster pvc)"
  unfolding canExpandPVC_def Let_def by (intro issues_intros; simp)

lemma issues_expand_pvc:
  assumes "q_nano (currentRequest v) < q_nano (desiredSize cluster)"
  shows "issues (volume_ok cluster) (expand_pvc env cluster name v)"
  unfolding expand_pvc_def patch_pvc_def Let_def
  by (intro issues_canExpandPVC issues_intros; use assms in \<open>simp add: volume_ok_def\<close>)

lemma issues_scan_pvcs: "issues (volume_ok cluster) (scan_pvcs env cluster is acc)"
proof (induction "is" arbitrary: acc)
  case (Cons i "is")
  have "issues (volume_ok cluster) (scan_pvc env cluster i acc)" for acc
    unfolding scan_pvc_def createPVC_def Let_def
    by (intro issues_expand_pvc issues_intros; simp)
  with Cons show ?case by (auto intro!: issues_bnd)
qed (simp add: issues_ret)

text \<open>
  The documented behaviour of a read: an object of the kind and the name asked for.
\<close>

definition reads_by_name :: "env \<Rightarrow> bool" where
  "reads_by_name env \<longleftrightarrow> (\<forall>l k ns name x. e_get env l k ns name = Inr x \<longrightarrow> kind_of x = k \<and> name_of x = name)"

lemma returns_get_pvc:
  assumes "reads_by_name env"
  shows "returns (\<lambda>r. \<forall>v. r = Inr v \<longrightarrow> om_Name (pvc_Meta v) = name) (attempt (get_pvc env ns name))"
proof (rule returns_wp)
  fix w :: "'a world"
  have "om_Name (pvc_Meta v) = name" if "e_get env (w_log w) KPVC ns name = Inr (OPVC v)" for v
    using assms that unfolding reads_by_name_def by force
  then show "wp (attempt (get_pvc env ns name)) (\<lambda>r _. \<forall>v. r = Inr v \<longrightarrow> om_Name (pvc_Meta v) = name) (\<lambda>_ _. True) w"
    by (auto simp: get_pvc_def get_object_def wp_simps split: sum.split object.split)
qed

lemma returns_listDataPods:
  "returns (\<lambda>pods. \<exists>l items. e_list env l KPod (c_Namespace cluster) [(LabelCluster, c_Name cluster)] = Inr items \<and>
     pods = data_pods items) (listDataPods env cluster)"
  by (rule returns_wp)
     (auto simp: listDataPods_def listClusterPods_def list_pods_def list_objects_def data_pods_def wp_simps split: sum.split)

text \<open>A claim may be recycled when the pod of its index is missing from a listing of the cluster's pods.\<close>

definition recycle_ok :: "env \<Rightarrow> RedisCluster \<Rightarrow> call \<Rightarrow> bool" where
  "recycle_ok env cluster c = (case c of
     Delete k ns name \<Rightarrow> k = KPVC \<and> isMaintenanceInProgress cluster \<and> \<not> maintenanceReusePVC cluster \<and>
       (\<exists>i l items. 0 \<le> i \<and> i < DesiredDataInstances (c_Spec cluster) \<and> name = pvcNameForIndex (c_Name cluster) i \<and>
          e_list env l KPod (c_Namespace cluster) [(LabelCluster, c_Name cluster)] = Inr items \<and>
          podNameForIndex (c_Name cluster) i \<notin> p_Name ` set (data_pods items))
   | Get k ns name \<Rightarrow> k = KPVC
   | ListOf k ns sel \<Rightarrow> k = KPod
   | Event a b d \<Rightarrow> True
   | _ \<Rightarrow> False)"

lemma recycle_ok_simps [simp]:
  "recycle_ok env c (Get KPVC ns n)" "recycle_ok env c (ListOf KPod ns sel)" "recycle_ok env c (Event a b d)"
  by (simp_all add: recycle_ok_def)

lemma issues_recycle_pvc:
  assumes "reads_by_name env" and "isMaintenanceInProgress cluster" "\<not> maintenanceReusePVC cluster"
    and "e_list env l KPod (c_Namespace cluster) [(LabelCluster, c_Name cluster)] = Inr items"
    and "0 \<le> i" "i < DesiredDataInstances (c_Spec cluster)"
  shows "issues (recycle_ok env cluster) (recycle_pvc env cluster (p_Name ` set (data_pods items)) i)"
proof (cases "podNameForIndex (c_Name cluster) i \<in> p_Name ` set (data_pods items)")
  case True
  then show ?thesis by (simp add: recycle_pvc_def issues_ret)
next
  case False
  have del: "recycle_ok env cluster (Delete KPVC ns (om_Name (pvc_Meta v)))"
    if "om_Name (pvc_Meta v) = pvcNameForIndex (c_Name cluster) i" for ns v
    using assms(2-6) False that unfolding recycle_ok_def by auto
  have get: "issues (recycle_ok env cluster) (attempt (get_pvc env (c_Namespace cluster) name))" for name
    by (intro issues_intros) simp
  show ?thesis
    using False unfolding recycle_pvc_def Let_def if_not_P [OF False]
    by (intro issues_bnd_returns [OF get returns_get_pvc [OF assms(1)]] issues_intros del; simp)
qed

section \<open>Properties\<close>

text \<open>
  C29. Volumes only grow. Whatever the API server answers, reconciling the volume claims deletes
  nothing, creates claims of the desired size only, and changes a claim only by raising its storage
  request to the desired size, from a smaller one.
\<close>

theorem volumes_only_grow:
  "\<exists>l. w_log (snd (reconcilePVCs env w)) = w_log w @ l \<and> list_all (\<lambda>x. volume_ok (w_obj w) (fst x)) l"
  unfolding reconcilePVCs_def Let_def
  by (rule footprint_obj)
     (unfold listClusterPVCs_def listClusterPods_def, intro issues_scan_pvcs issues_intros; simp)

text \<open>
  Recycling volumes deletes only what it may: outside a maintenance window, or when the window
  reuses volumes, it deletes nothing, and otherwise only claims of indices below the desired number
  whose data pod is missing from a listing of the cluster's pods.
\<close>

theorem recycles_only_missing:
  assumes "reads_by_name env"
  shows "\<exists>l. w_log (snd (recyclePVCsForMissingPods env w)) = w_log w @ l \<and>
    list_all (\<lambda>x. recycle_ok env (w_obj w) (fst x)) l"
proof -
  have list: "issues (recycle_ok env (w_obj w)) (wrap_err msg (listDataPods env (w_obj w)))" for msg
    unfolding listDataPods_def listClusterPods_def by (intro issues_intros) simp
  have "issues (recycle_ok env (w_obj w)) (for_each (recycle_pvc env (w_obj w) (p_Name ` set pods))
      [0..DesiredDataInstances (c_Spec (w_obj w)) - 1])"
    if "\<exists>l items. e_list env l KPod (c_Namespace (w_obj w)) [(LabelCluster, c_Name (w_obj w))] = Inr items \<and> pods = data_pods items"
      and "\<not> (\<not> isMaintenanceInProgress (w_obj w) \<or> maintenanceReusePVC (w_obj w))" for pods
    using that assms by (intro issues_for_each) (auto intro!: issues_recycle_pvc)
  then show ?thesis
    unfolding recyclePVCsForMissingPods_def
    by (intro footprint_obj issues_if issues_ret issues_bnd_returns [OF list returns_wrap_err [OF returns_listDataPods]])
qed

text \<open>A maintenance window without volume reuse, with one of three pods left.\<close>

definition maintained_cluster :: RedisCluster where
  "maintained_cluster = sample_cluster\<lparr>c_Spec := sample_spec\<lparr>s_NodeMaintenanceWindow :=
     Some \<lparr>nmw_InProgress = True, nmw_ReusePVC = Some False\<rparr>\<rparr>\<rparr>"

definition volume_env :: env where
  "volume_env = (sample_env [OPod (sample_pod ''r-0'' ''10.0.0.1'' [] True)])\<lparr>e_get := (\<lambda>l k ns name.
     if k = KPVC then Inr (OPVC \<lparr>pvc_Meta = new_meta name ns [], pvc_AccessModes = [], pvc_Requests = [],
       pvc_StorageClassName = None, pvc_Conditions = []\<rparr>) else Inl NotFound)\<rparr>"

theorem recycles_only_missing_witness:
  "\<exists>l. w_log (snd (recyclePVCsForMissingPods volume_env (sample_world maintained_cluster))) =
     w_log (sample_world maintained_cluster) @ l \<and> list_all (\<lambda>x. recycle_ok volume_env maintained_cluster (fst x)) l"
proof -
  have "reads_by_name volume_env" by (simp add: reads_by_name_def volume_env_def new_meta_def)
  from recycles_only_missing [OF this, of "sample_world maintained_cluster"] show ?thesis
    by (simp add: sample_world_def)
qed

text \<open>
  The instance managers never get more than their role: whatever the API server answers, every
  role the operator writes has exactly the instance manager's rules, every binding it creates or
  updates binds this role to the cluster's service account only, and nothing but a role binding is
  ever deleted.
\<close>

theorem rbac_least_privilege:
  "\<exists>l. w_log (snd (reconcileRBAC env w)) = w_log w @ l \<and> list_all (\<lambda>x. rbac_ok (w_obj w) (fst x)) l"
  unfolding reconcileRBAC_def
  by (intro footprint_obj issues_bnd issues_reconcile_role issues_reconcile_role_binding)

text \<open>Whether a budget counts a pod.\<close>

definition selects :: "PodDisruptionBudget \<Rightarrow> Pod \<Rightarrow> bool" where
  "selects pdb pod = list_all (\<lambda>(k, v). map_of (p_Labels pod) k = Some v) (pdb_MatchLabels pdb)"

text \<open>
  The disruption budget does not protect the data of a sentinel cluster of two to four
  instances: it selects the sentinel pods as well, and the sentinels alone already meet its
  minimum, so that the eviction of every data pod is within the budget.
\<close>

theorem pdb_met_by_sentinels:
  assumes "s_Mode (c_Spec cluster) = ClusterModeSentinel" "2 \<le> s_Instances (c_Spec cluster)" "s_Instances (c_Spec cluster) \<le> 4"
  shows "list_all (selects (desiredPDB cluster)) (map (newSentinelPod img cluster) names) \<and>
    pdb_MinAvailable (desiredPDB cluster) = Some (s_Instances (c_Spec cluster) - 1) \<and>
    s_Instances (c_Spec cluster) - 1 \<le> SentinelInstances"
proof -
  have "in_int32 (s_Instances (c_Spec cluster) - 1)" using assms(2,3) by (simp add: in_int32_def)
  then show ?thesis
    using assms
    by (simp add: desiredPDB_def pdbMinAvailable_def DesiredDataInstances_def SentinelInstances_def Let_def
        list_all_iff selects_def newSentinelPod_def new_meta_def podLabels_def)
qed

theorem pdb_met_by_sentinels_witness:
  "let cluster = sample_cluster\<lparr>c_Spec := sample_spec\<lparr>s_Mode := ClusterModeSentinel\<rparr>\<rparr> in
   list_all (selects (desiredPDB cluster)) (map (newSentinelPod ''op'' cluster) [''r-sentinel-0'', ''r-sentinel-1'', ''r-sentinel-2'']) \<and>
   pdb_MinAvailable (desiredPDB cluster) = Some 2"
  using pdb_met_by_sentinels [of "sample_cluster\<lparr>c_Spec := sample_spec\<lparr>s_Mode := ClusterModeSentinel\<rparr>\<rparr>" "''op''"
    "[''r-sentinel-0'', ''r-sentinel-1'', ''r-sentinel-2'']"]
  by (simp add: Let_def sample_spec_def)

end
