(* ===== verification/Hibernation.thy ===== *)
theory Hibernation
  imports Resources
begin

text \<open>
  Hibernation (\<^verbatim>\<open>internal/controller/cluster/hibernate.go\<close>) and the end of replica mode
  (\<^verbatim>\<open>replica_mode.go\<close>): deleting every pod of a cluster and bringing it back, and recording that a
  replica cluster has become a primary of its own.
\<close>

section \<open>Hibernation\<close>

definition isHibernationEnabled :: "RedisCluster \<Rightarrow> bool" where
  "isHibernationEnabled cluster \<longleftrightarrow>
     (case map_of (c_Annotations cluster) AnnotationHibernation of
        None \<Rightarrow> False
      | Some val \<Rightarrow> let v = toLower (trimSpace val) in v = ''on'' \<or> v = ''true'')"

definition wasHibernated :: "RedisCluster \<Rightarrow> bool" where
  "wasHibernated cluster \<longleftrightarrow> st_Phase (c_Status cluster) = ClusterPhaseHibernating"

definition hibernated_condition :: "bool \<Rightarrow> int \<Rightarrow> Condition" where
  "hibernated_condition on t =
     (if on
      then \<lparr>cond_Type = ConditionHibernated, cond_Status = ConditionTrue, cond_LastTransitionTime = t,
        cond_Reason = ''HibernationEnabled'', cond_Message = ''Cluster is hibernated, all pods deleted''\<rparr>
      else \<lparr>cond_Type = ConditionHibernated, cond_Status = ConditionFalse, cond_LastTransitionTime = t,
        cond_Reason = ''HibernationDisabled'', cond_Message = ''Cluster is resuming from hibernation''\<rparr>)"

definition hibernated_status :: "int \<Rightarrow> RedisClusterStatus \<Rightarrow> RedisClusterStatus" where
  "hibernated_status t st = st
     \<lparr>st_Phase := ClusterPhaseHibernating, st_ReadyInstances := 0, st_Instances := 0, st_InstancesStatus := [],
      st_Conditions := setCondition (st_Conditions st) (hibernated_condition True t)\<rparr>"

definition resumed_status :: "int \<Rightarrow> RedisClusterStatus \<Rightarrow> RedisClusterStatus" where
  "resumed_status t st = st
     \<lparr>st_Conditions := setCondition (st_Conditions st) (hibernated_condition False t), st_Phase := ClusterPhaseCreating\<rparr>"

definition hibernate :: "env \<Rightarrow> RedisCluster \<Rightarrow> (RedisCluster, bool) io" where
  "hibernate env cluster =
     bnd (if \<not> wasHibernated cluster
          then eventf Normal ''Hibernating'' ''Cluster is entering hibernation, deleting all pods'' else ret ()) (\<lambda>_.
     bnd (wrap_err ''listing pods for hibernation'' (listClusterPods env cluster)) (\<lambda>pods.
     bnd (for_each (\<lambda>pod. delete_pod env (''deleting pod '' @ p_Name pod @ '' for hibernation'') pod) pods) (\<lambda>_.
     bnd (wrap_err ''clearing leader service selector'' (clearLeaderServiceSelector env)) (\<lambda>_.
     bnd (now env) (\<lambda>t.
     bnd (wrap_err ''patching status for hibernation'' (patch_status env (on_status (hibernated_status t)))) (\<lambda>_.
     ret True))))))"

definition reconcileHibernation :: "env \<Rightarrow> (RedisCluster, bool) io" where
  "reconcileHibernation env = bnd obj (\<lambda>cluster.
     if isHibernationEnabled cluster then hibernate env cluster
     else if wasHibernated cluster then
       bnd (eventf Normal ''Resuming'' ''Cluster is resuming from hibernation'') (\<lambda>_.
       bnd (now env) (\<lambda>t.
       bnd (wrap_err ''patching status for resume'' (patch_status env (on_status (resumed_status t)))) (\<lambda>_.
       ret False)))
     else ret False)"

section \<open>The end of replica mode\<close>

definition replicaModePromotedConditionSet :: "RedisCluster \<Rightarrow> bool" where
  "replicaModePromotedConditionSet cluster \<longleftrightarrow>
     list_ex (\<lambda>c. cond_Type c = ConditionReplicaMode \<and> cond_Status c = ConditionFalse \<and>
       cond_Reason c = ''ReplicaClusterPromoted'') (st_Conditions (c_Status cluster))"

definition replicaModePromotionFinalizationPending :: "RedisCluster \<Rightarrow> bool" where
  "replicaModePromotionFinalizationPending cluster \<longleftrightarrow>
     (case s_ReplicaMode (c_Spec cluster) of
        None \<Rightarrow> False
      | Some rm \<Rightarrow> \<not> rm_Enabled rm \<and> \<not> replicaModePromotedConditionSet cluster)"

definition leave_replica_mode :: "RedisCluster \<Rightarrow> RedisCluster" where
  "leave_replica_mode cluster = cluster\<lparr>c_Spec := (c_Spec cluster)\<lparr>s_ReplicaMode :=
     map_option (\<lambda>rm. rm\<lparr>rm_Enabled := False, rm_Promote := False\<rparr>) (s_ReplicaMode (c_Spec cluster))\<rparr>\<rparr>"

definition promoted_condition :: "string \<Rightarrow> int \<Rightarrow> Condition" where
  "promoted_condition primary t =
     \<lparr>cond_Type = ConditionReplicaMode, cond_Status = ConditionFalse, cond_LastTransitionTime = t,
      cond_Reason = ''ReplicaClusterPromoted'',
      cond_Message = ''Replica mode disabled after promoting '' @ primary @ '' to standalone primary''\<rparr>"

definition reports_master :: "(string, InstanceStatus) gomap \<Rightarrow> string \<Rightarrow> bool" where
  "reports_master statuses name \<longleftrightarrow>
     (case map_of statuses name of None \<Rightarrow> False | Some s \<Rightarrow> is_Connected s \<and> is_Role s = ''master'')"

definition promotionRequested :: "RedisCluster \<Rightarrow> bool" where
  "promotionRequested cluster \<longleftrightarrow>
     isReplicaModeEnabled cluster \<and> (case s_ReplicaMode (c_Spec cluster) of None \<Rightarrow> False | Some rm \<Rightarrow> rm_Promote rm)"

definition record_promotion :: "env \<Rightarrow> (RedisCluster, bool) io" where
  "record_promotion env = bnd obj (\<lambda>cluster.
     if replicaModePromotedConditionSet cluster then ret True
     else
       bnd (now env) (\<lambda>t.
       bnd (wrap_err ''patching replica mode promotion condition'' (patch_status env
         (set_condition (promoted_condition (st_CurrentPrimary (c_Status cluster)) t)))) (\<lambda>_.
       bnd obj (\<lambda>cluster.
       bnd (eventf Normal ''ReplicaClusterPromoted''
         (''Replica cluster promoted to standalone primary on pod '' @ st_CurrentPrimary (c_Status cluster))) (\<lambda>_.
       ret True)))))"

definition reconcileReplicaModePromotion ::
  "env \<Rightarrow> (string, InstanceStatus) gomap \<Rightarrow> (RedisCluster, bool) io" where
  "reconcileReplicaModePromotion env statuses = bnd obj (\<lambda>cluster.
     if s_ReplicaMode (c_Spec cluster) = None then ret False
     else if \<not> promotionRequested cluster \<and> \<not> replicaModePromotionFinalizationPending cluster then ret False
     else if st_CurrentPrimary (c_Status cluster) = [] then ret False
     else if \<not> reports_master statuses (st_CurrentPrimary (c_Status cluster)) then ret False
     else
       bnd (if promotionRequested cluster
            then bnd (wrap_err ''disabling replicaMode after promotion'' (patch_cluster env False leave_replica_mode)) (\<lambda>_.
              wrap_err ''refetching cluster after replicaMode promotion patch'' (refetch_cluster env))
            else ret ()) (\<lambda>_.
       record_promotion env))"

section \<open>Facts\<close>

lemma wp_delete [wp_simps]:
  "wp (delete env k ns name) Q E w =
     (case e_delete env (w_log w) k ns name of
        None \<Rightarrow> Q () (logged (Delete k ns name) True w)
      | Some e \<Rightarrow> E (Api e) (logged (Delete k ns name) False w))"
  by (simp add: delete_def wp_simps split: option.split)

lemma for_each_delete_pods:
  assumes "\<forall>l k ns name. e_delete env l k ns name = None"
  shows "for_each (\<lambda>pod. delete_pod env (msg pod) pod) pods w =
    (Inr (), w\<lparr>w_log := w_log w @ map (\<lambda>p. (Delete KPod (om_Namespace (p_Meta p)) (p_Name p), True)) pods\<rparr>)"
proof (induction pods arbitrary: w)
  case (Cons p pods)
  have "delete_pod env (msg p) p w = (Inr (), logged (Delete KPod (om_Namespace (p_Meta p)) (p_Name p)) True w)"
    using assms by (simp add: delete_pod_def delete_def perform_def attempt_def bnd_def ret_def)
  with Cons show ?case by (simp add: bnd_def logged_def)
qed (simp add: ret_def)

lemma listClusterPods_run:
  assumes "e_list env (w_log w) KPod (c_Namespace c) [(LabelCluster, c_Name c)] = Inr items"
  shows "listClusterPods env c w =
    (Inr (List.map_filter (\<lambda>x. case x of OPod p \<Rightarrow> Some p | _ \<Rightarrow> None) items),
     logged (ListOf KPod (c_Namespace c) [(LabelCluster, c_Name c)]) True w)"
  using assms by (simp add: listClusterPods_def list_pods_def list_objects_def perform_def bnd_def ret_def)

lemma map_filter_pods: "OPod p \<in> set items \<Longrightarrow> p \<in> set (List.map_filter (\<lambda>x. case x of OPod p \<Rightarrow> Some p | _ \<Rightarrow> None) items)"
  by (induction items) (auto simp: List.map_filter_simps split: object.splits)

text \<open>The leader Service was given a selector that matches no pod.\<close>

definition parked :: "RedisCluster \<Rightarrow> log \<Rightarrow> bool" where
  "parked cluster l \<longleftrightarrow> (\<exists>s. (Patch False (OService s) (OService (s\<lparr>sv_Selector :=
     [(LabelCluster, c_Name cluster), (LabelInstance, ''none'')]\<rparr>)), True) \<in> set l)"

definition pod_deleted :: "Pod \<Rightarrow> log \<Rightarrow> bool" where
  "pod_deleted p l \<longleftrightarrow> (Delete KPod (om_Namespace (p_Meta p)) (p_Name p), True) \<in> set l"

lemma wp_clearLeaderServiceSelector:
  assumes "accepts env"
    and "\<forall>l. \<exists>s. e_get env l KService (c_Namespace (w_obj w)) (leaderServiceName (c_Name (w_obj w))) = Inr (OService s)"
  shows "wp (clearLeaderServiceSelector env)
    (\<lambda>_ w'. w_obj w' = w_obj w \<and> set (w_log w) \<subseteq> set (w_log w') \<and> parked (w_obj w) (w_log w')) (\<lambda>_ _. False) w"
proof -
  obtain s where "e_get env (w_log w) KService (c_Namespace (w_obj w)) (leaderServiceName (c_Name (w_obj w))) = Inr (OService s)"
    using assms(2) by blast
  with assms(1) show ?thesis
    by (auto simp: clearLeaderServiceSelector_def get_service_def get_object_def patch_service_def patch_def accepts_def
        wp_simps logged_def parked_def)
qed

lemma wp_hibernate:
  assumes "accepts env" and "\<forall>l k ns name. e_delete env l k ns name = None"
    and "\<forall>l. e_list env l KPod (c_Namespace (w_obj w)) [(LabelCluster, c_Name (w_obj w))] = Inr items"
    and "\<forall>l. \<exists>s. e_get env l KService (c_Namespace (w_obj w)) (leaderServiceName (c_Name (w_obj w))) = Inr (OService s)"
  shows "wp (hibernate env (w_obj w)) (\<lambda>r w'. r \<and> (\<forall>p. OPod p \<in> set items \<longrightarrow> pod_deleted p (w_log w')) \<and>
    parked (w_obj w) (w_log w') \<and> (\<exists>t. w_obj w' = on_status (hibernated_status t) (w_obj w))) (\<lambda>_ _. False) w"
proof -
  let ?c = "w_obj w" and ?pods = "List.map_filter (\<lambda>x. case x of OPod p \<Rightarrow> Some p | _ \<Rightarrow> None) items"
  let ?deletes = "map (\<lambda>p. (Delete KPod (om_Namespace (p_Meta p)) (p_Name p), True)) ?pods"
  have run: "wp (bnd (wrap_err m0 (listClusterPods env ?c)) (\<lambda>pods. bnd (for_each (\<lambda>pod. delete_pod env (msg pod) pod) pods) k)) Q E w0 =
    wp (k ()) Q E (w0\<lparr>w_log := w_log w0 @ (ListOf KPod (c_Namespace ?c) [(LabelCluster, c_Name ?c)], True) # ?deletes\<rparr>)"
    for w0 :: "RedisCluster world" and k :: "unit \<Rightarrow> (RedisCluster, bool) io" and Q E m0 msg
    using assms(3) by (simp add: wp_def bnd_def wrap_err_def listClusterPods_run for_each_delete_pods [OF assms(2)] logged_def)
  have tail: "wp (bnd (wrap_err m1 (clearLeaderServiceSelector env)) (\<lambda>_. bnd (now env) (\<lambda>t.
      bnd (wrap_err m2 (patch_status env (on_status (hibernated_status t)))) (\<lambda>_. ret True))))
      (\<lambda>r w'. r \<and> (\<forall>p. OPod p \<in> set items \<longrightarrow> pod_deleted p (w_log w')) \<and> parked ?c (w_log w') \<and>
        (\<exists>t. w_obj w' = on_status (hibernated_status t) ?c)) (\<lambda>_ _. False) w1"
    if w1: "set ?deletes \<subseteq> set (w_log w1)" "w_obj w1 = ?c" for w1 m1 m2
  proof -
    have clear: "wp (clearLeaderServiceSelector env)
      (\<lambda>_ w'. w_obj w' = ?c \<and> set (w_log w1) \<subseteq> set (w_log w') \<and> parked ?c (w_log w')) (\<lambda>_ _. False) w1"
      using wp_clearLeaderServiceSelector [OF assms(1), of w1] assms(4) w1(2) by simp
    have deleted: "pod_deleted p l" if "OPod p \<in> set items" "set (w_log w1) \<subseteq> set l" for p l
      using map_filter_pods [OF that(1)] that(2) w1(1) by (auto simp: pod_deleted_def)
    show ?thesis
      unfolding wp_bnd wp_wrap_err wp_now wp_patch_status_accepts [OF assms(1)] wp_ret
      by (rule wp_mono [OF clear]) (auto simp: logged_def parked_def intro!: deleted)
  qed
  show ?thesis
    unfolding hibernate_def wp_bnd [of "if _ then _ else _"] wp_if wp_eventf wp_ret run
    by (auto intro!: tail simp: logged_def)
qed

section \<open>Properties\<close>

text \<open>
  Hibernating a cluster, with a server that carries out the calls: every listed pod of the
  cluster is deleted, the leader Service is parked on a selector that matches no pod, and the status
  says so, with no instances; the remembered primary, the specification and the annotations stay, so
  that resuming starts from them.
\<close>

theorem hibernation_parks_cluster:
  assumes "isHibernationEnabled (w_obj w)" and "accepts env" and "\<forall>l k ns name. e_delete env l k ns name = None"
    and "\<forall>l. e_list env l KPod (c_Namespace (w_obj w)) [(LabelCluster, c_Name (w_obj w))] = Inr items"
    and "\<forall>l. \<exists>s. e_get env l KService (c_Namespace (w_obj w)) (leaderServiceName (c_Name (w_obj w))) = Inr (OService s)"
  shows "\<exists>w'. reconcileHibernation env w = (Inr True, w') \<and>
    (\<forall>p. OPod p \<in> set items \<longrightarrow> pod_deleted p (w_log w')) \<and> parked (w_obj w) (w_log w') \<and>
    wasHibernated (w_obj w') \<and> condition_true (w_obj w') ConditionHibernated \<and>
    st_InstancesStatus (c_Status (w_obj w')) = [] \<and>
    st_CurrentPrimary (c_Status (w_obj w')) = st_CurrentPrimary (c_Status (w_obj w)) \<and>
    c_Spec (w_obj w') = c_Spec (w_obj w) \<and> c_Annotations (w_obj w') = c_Annotations (w_obj w)"
proof -
  obtain w' t where "reconcileHibernation env w = (Inr True, w')"
    and "\<forall>p. OPod p \<in> set items \<longrightarrow> pod_deleted p (w_log w')" "parked (w_obj w) (w_log w')"
    and "w_obj w' = on_status (hibernated_status t) (w_obj w)"
    using wp_run [OF wp_hibernate [OF assms(2-5)]] assms(1) by (auto simp: reconcileHibernation_def bnd_obj)
  moreover have "condition_true (on_status (hibernated_status t) (w_obj w)) ConditionHibernated"
    by (simp add: condition_true_def on_status_def hibernated_status_def find_setCondition hibernated_condition_def)
  ultimately show ?thesis
    by (intro exI [of _ w']) (simp add: on_status_def hibernated_status_def wasHibernated_def)
qed

definition sleepy_cluster :: RedisCluster where
  "sleepy_cluster = sample_cluster\<lparr>c_Annotations := [(AnnotationHibernation, '' On'')]\<rparr>"

theorem hibernation_parks_cluster_witness:
  "\<exists>w'. reconcileHibernation (sample_env sample_pods) (sample_world sleepy_cluster) = (Inr True, w') \<and>
     pod_deleted (sample_pod ''r-0'' ''10.0.0.1'' [] False) (w_log w') \<and> wasHibernated (w_obj w')"
proof -
  have "isHibernationEnabled (w_obj (sample_world sleepy_cluster))" by code_simp
  moreover have "\<forall>l k ns name. e_delete (sample_env sample_pods) l k ns name = None" by (simp add: sample_env_def)
  moreover have "\<forall>l. e_list (sample_env sample_pods) l KPod (c_Namespace (w_obj (sample_world sleepy_cluster)))
      [(LabelCluster, c_Name (w_obj (sample_world sleepy_cluster)))] = Inr sample_pods"
    by (simp add: sample_env_def sample_pods_def)
  moreover have "\<forall>l. \<exists>s. e_get (sample_env sample_pods) l KService (c_Namespace (w_obj (sample_world sleepy_cluster)))
      (leaderServiceName (c_Name (w_obj (sample_world sleepy_cluster)))) = Inr (OService s)"
    by (simp add: sample_env_def)
  ultimately obtain w' where "reconcileHibernation (sample_env sample_pods) (sample_world sleepy_cluster) = (Inr True, w')"
    and "\<forall>p. OPod p \<in> set sample_pods \<longrightarrow> pod_deleted p (w_log w')" "wasHibernated (w_obj w')"
    using hibernation_parks_cluster [OF _ sample_accepts] by blast
  then show ?thesis by (simp add: sample_pods_def)
qed

text \<open>
  A cluster that was never a replica cluster is reported as promoted: a specification that
  mentions replica mode only to switch it off, with a connected primary, gets the condition and the
  event that its replica mode ended with a promotion.
\<close>

theorem promotion_reported_without_replica_mode:
  assumes "accepts env" and "s_ReplicaMode (c_Spec (w_obj w)) = Some rm" "\<not> rm_Enabled rm"
    and "st_Conditions (c_Status (w_obj w)) = []"
    and "st_CurrentPrimary (c_Status (w_obj w)) \<noteq> []" "reports_master statuses (st_CurrentPrimary (c_Status (w_obj w)))"
  shows "\<exists>w'. reconcileReplicaModePromotion env statuses w = (Inr True, w') \<and>
    replicaModePromotedConditionSet (w_obj w') \<and>
    (Event Normal ''ReplicaClusterPromoted'' (''Replica cluster promoted to standalone primary on pod '' @
       st_CurrentPrimary (c_Status (w_obj w))), True) \<in> set (w_log w')"
proof -
  have "wp (reconcileReplicaModePromotion env statuses) (\<lambda>r w'. r \<and> replicaModePromotedConditionSet (w_obj w') \<and>
    (Event Normal ''ReplicaClusterPromoted'' (''Replica cluster promoted to standalone primary on pod '' @
       st_CurrentPrimary (c_Status (w_obj w))), True) \<in> set (w_log w')) (\<lambda>_ _. False) w"
    using assms(2-6)
    by (simp add: reconcileReplicaModePromotion_def record_promotion_def promotionRequested_def isReplicaModeEnabled_def
        replicaModePromotionFinalizationPending_def replicaModePromotedConditionSet_def wp_simps
        wp_patch_status_accepts [OF assms(1)] set_condition_def on_status_def promoted_condition_def logged_def)
  then show ?thesis by (auto dest!: wp_run)
qed

theorem promotion_reported_without_replica_mode_witness:
  "\<exists>w'. reconcileReplicaModePromotion (sample_env []) (st_InstancesStatus (c_Status sample_cluster))
     (sample_world (sample_cluster\<lparr>c_Spec := sample_spec\<lparr>s_ReplicaMode :=
       Some \<lparr>rm_Enabled = False, rm_Source = None, rm_Promote = False\<rparr>\<rparr>\<rparr>)) = (Inr True, w') \<and>
     replicaModePromotedConditionSet (w_obj w')"
proof -
  let ?c = "sample_cluster\<lparr>c_Spec := sample_spec\<lparr>s_ReplicaMode :=
    Some \<lparr>rm_Enabled = False, rm_Source = None, rm_Promote = False\<rparr>\<rparr>\<rparr>"
  have "reports_master (st_InstancesStatus (c_Status sample_cluster)) (st_CurrentPrimary (c_Status (w_obj (sample_world ?c))))"
    "st_Conditions (c_Status (w_obj (sample_world ?c))) = []" "st_CurrentPrimary (c_Status (w_obj (sample_world ?c))) \<noteq> []"
    by (simp_all add: reports_master_def sample_simps)
  with promotion_reported_without_replica_mode [OF sample_accepts, of "sample_world ?c"] show ?thesis
    by (fastforce simp: sample_world_def)
qed

end
