(* ===== verification/Sentinel.thy ===== *)
theory Sentinel
  imports Hibernation
begin

text \<open>
  Following the Sentinels (\<^verbatim>\<open>internal/controller/cluster/sentinel.go\<close>): asking them for the elected
  master and bringing the status, the leader Service and the role labels in line. The connection is
  the environment's; certificates are opaque, and parsing and verifying them (\<^verbatim>\<open>crypto/x509\<close>) are
  parameters.
\<close>

section \<open>Querying a Sentinel\<close>

fun reply_type :: "redis_reply \<Rightarrow> string" where
  "reply_type (RStr _) = ''string''"
| "reply_type (RInt _) = ''int64''"
| "reply_type (RArr _) = ''[]interface {}''"
| "reply_type RNil = ''<nil>''"

fun reply_value :: "redis_reply \<Rightarrow> string" and reply_values :: "redis_reply list \<Rightarrow> string" where
  "reply_value (RStr s) = s"
| "reply_value (RInt i) = itoa i"
| "reply_value (RArr xs) = ''['' @ reply_values xs @ '']''"
| "reply_value RNil = ''<nil>''"
| "reply_values [] = []"
| "reply_values (x # xs) = reply_value x @ (if xs = [] then [] else '' '' @ reply_values xs)"

definition sentinelValueToString :: "redis_reply \<Rightarrow> goerr + string" where
  "sentinelValueToString v =
     (case v of RStr val \<Rightarrow> Inr val | _ \<Rightarrow> Inl (Err (''unexpected value type '' @ reply_type v)))"

text \<open>The error of \<^verbatim>\<open>strconv.Atoi\<close>.\<close>

definition atoi_error :: "string \<Rightarrow> goerr" where
  "atoi_error s = Err (''strconv.Atoi: parsing '' @ quoted s @ '': '' @
     (if fst (atoi s) = 0 then ''invalid syntax'' else ''value out of range''))"

definition parse_master_reply :: "redis_reply \<Rightarrow> goerr + string \<times> int" where
  "parse_master_reply resp =
     (case resp of
        RArr [h, p] \<Rightarrow>
          (case sentinelValueToString h of
             Inl e \<Rightarrow> Inl (Wrap ''decoding sentinel host'' e)
           | Inr host \<Rightarrow>
               (case sentinelValueToString p of
                  Inl e \<Rightarrow> Inl (Wrap ''decoding sentinel port'' e)
                | Inr portStr \<Rightarrow>
                    let (port, ok) = atoi portStr in
                    if \<not> ok then Inl (Wrap (''parsing sentinel port '' @ quoted portStr) (atoi_error portStr))
                    else Inr (host, port)))
      | _ \<Rightarrow> Inl (Err (''unexpected sentinel response type '' @ reply_type resp @ '': '' @ reply_value resp)))"

definition querySentinelMaster :: "env \<Rightarrow> string \<Rightarrow> string \<Rightarrow> ('s, string \<times> int) io" where
  "querySentinelMaster env sentinelAddr masterName =
     bnd (redis_do env sentinelAddr [''SENTINEL'', ''get-master-addr-by-name'', masterName]) (\<lambda>resp.
     case parse_master_reply resp of Inl e \<Rightarrow> throw e | Inr r \<Rightarrow> ret r)"

section \<open>TLS\<close>

text \<open>
  The configuration is the trusted roots, as PEM text. A connection is accepted when the server
  presents a chain that verifies against them.
\<close>

definition sentinelClientTLSConfig :: "env \<Rightarrow> (string \<Rightarrow> bool) \<Rightarrow> RedisCluster \<Rightarrow> ('s, string option) io" where
  "sentinelClientTLSConfig env pem_ok cluster =
     (case (s_CASecret (c_Spec cluster), s_TLSSecret (c_Spec cluster)) of
        (Some ca, Some _) \<Rightarrow>
          bnd (wrap_err (''getting CA secret '' @ ca) (get_secret env (c_Namespace cluster) ca)) (\<lambda>caSecret.
          let caPEM = mget [] (sec_Data caSecret) ''ca.crt'' in
          if caPEM = [] then throw (Err (''CA secret '' @ ca @ '' is missing key ca.crt''))
          else if \<not> pem_ok caPEM then throw (Err (''parsing ca.crt from secret '' @ ca))
          else ret (Some caPEM))
      | _ \<Rightarrow> ret None)"

definition verifyConnection ::
  "(string \<Rightarrow> 'cert list \<Rightarrow> 'cert \<Rightarrow> string option) \<Rightarrow> string \<Rightarrow> 'cert list \<Rightarrow> goerr option" where
  "verifyConnection verify rootCAs peerCertificates =
     (case peerCertificates of
        [] \<Rightarrow> Some (Err ''sentinel did not present a certificate'')
      | leaf # intermediates \<Rightarrow>
          (case verify rootCAs intermediates leaf of
             Some e \<Rightarrow> Some (Wrap ''verifying sentinel server certificate chain'' (Err e))
           | None \<Rightarrow> None))"

section \<open>Following the master\<close>

text \<open>The first data pod whose address or name is the reported host.\<close>

fun findPrimaryPodBySentinelHost :: "Pod list \<Rightarrow> string \<Rightarrow> string \<Rightarrow> string" where
  "findPrimaryPodBySentinelHost [] namespace host = []"
| "findPrimaryPodBySentinelHost (pod # pods) namespace host =
     (if p_IP pod = host then p_Name pod
      else if p_Name pod @ ''.'' @ namespace @ ''.svc.cluster.local'' = host then p_Name pod
      else findPrimaryPodBySentinelHost pods namespace host)"

definition desiredRole :: "string \<Rightarrow> string \<Rightarrow> Pod \<Rightarrow> string" where
  "desiredRole oldPrimary newPrimary pod =
     (let currentRole = mget [] (p_Labels pod) LabelRole in
      if p_Name pod = newPrimary then LabelRolePrimary
      else if p_Name pod = oldPrimary \<or> currentRole = LabelRolePrimary then LabelRoleReplica
      else currentRole)"

definition with_role :: "string \<Rightarrow> Pod \<Rightarrow> Pod" where
  "with_role role pod = pod\<lparr>p_Meta := (p_Meta pod)\<lparr>om_Labels := mput LabelRole role (p_Labels pod)\<rparr>\<rparr>"

definition updateDataPodRoleLabels :: "env \<Rightarrow> RedisCluster \<Rightarrow> string \<Rightarrow> string \<Rightarrow> ('s, unit) io" where
  "updateDataPodRoleLabels env cluster oldPrimary newPrimary =
     bnd (wrap_err ''listing data pods for role label update'' (listDataPods env cluster))
       (for_each (\<lambda>pod.
          let role = desiredRole oldPrimary newPrimary pod in
          if role = mget [] (p_Labels pod) LabelRole then ret ()
          else bnd (wrap_err (''patching role label for pod '' @ p_Name pod)
            (patch env (OPod pod) (OPod (with_role role pod)))) (\<lambda>_. ret ())))"

text \<open>Asking the Sentinels in turn: how many were asked, the errors, and the first host reported.\<close>

primrec query_sentinels ::
  "env \<Rightarrow> string \<Rightarrow> Pod list \<Rightarrow> nat \<Rightarrow> string list \<Rightarrow> ('s, nat \<times> string list \<times> string) io" where
  "query_sentinels env masterName [] attempted errs = ret (attempted, errs, [])"
| "query_sentinels env masterName (pod # pods) attempted errs =
     (if p_IP pod = [] then query_sentinels env masterName pods attempted errs
      else
        let sentinelAddr = p_IP pod @ '':'' @ itoa SentinelPort in
        bnd (attempt (querySentinelMaster env sentinelAddr masterName)) (\<lambda>r.
        case r of
          Inl e \<Rightarrow> query_sentinels env masterName pods (attempted + 1) (errs @ [sentinelAddr @ '': '' @ error_text e])
        | Inr (host, _) \<Rightarrow> ret (attempted + 1, errs, host)))"

fun join :: "string \<Rightarrow> string list \<Rightarrow> string" where
  "join sep [] = []"
| "join sep [x] = x"
| "join sep (x # y # xs) = x @ sep @ join sep (y # xs)"

definition follow_master :: "env \<Rightarrow> RedisCluster \<Rightarrow> string \<Rightarrow> (RedisCluster, unit) io" where
  "follow_master env cluster newPrimary =
     (let oldPrimary = st_CurrentPrimary (c_Status cluster) in
      bnd (wrap_err ''patching currentPrimary from sentinel'' (patch_status env (on_status (switch_primary newPrimary)))) (\<lambda>_.
      bnd (wrap_err ''updating leader service selector from sentinel'' (updateLeaderServiceSelector env)) (\<lambda>_.
      bnd obj (\<lambda>cluster.
      bnd (wrap_err ''updating pod role labels from sentinel'' (updateDataPodRoleLabels env cluster oldPrimary newPrimary)) (\<lambda>_.
      eventf Normal ''SentinelFailover'' (''Sentinel promoted '' @ newPrimary @ '' (former primary: '' @ oldPrimary @ '')''))))))"

definition reconcileSentinelMaster :: "env \<Rightarrow> (string \<Rightarrow> bool) \<Rightarrow> (RedisCluster, unit) io" where
  "reconcileSentinelMaster env pem_ok = bnd obj (\<lambda>cluster.
     if s_Mode (c_Spec cluster) \<noteq> ClusterModeSentinel then ret ()
     else
       bnd (wrap_err ''listing sentinel pods'' (listSentinelPods env cluster)) (\<lambda>sentinelPods.
       bnd (wrap_err ''building sentinel client TLS config'' (sentinelClientTLSConfig env pem_ok cluster)) (\<lambda>tlsConfig.
       bnd (query_sentinels env (c_Name cluster) sentinelPods 0 []) (\<lambda>(attempted, queryErrors, masterHost).
       if attempted = 0 then ret ()
       else if masterHost = []
       then throw (Err (''failed querying sentinel master from '' @ itoa (int attempted) @ '' endpoints: '' @ join ''; '' queryErrors))
       else
         bnd (wrap_err ''listing data pods'' (listDataPods env cluster)) (\<lambda>dataPods.
         let newPrimary = findPrimaryPodBySentinelHost dataPods (c_Namespace cluster) masterHost in
         if newPrimary = []
         then throw (Err (''sentinel reported master '' @ quoted masterHost @ '' but no matching data pod found''))
         else if newPrimary = st_CurrentPrimary (c_Status cluster) then ret ()
         else follow_master env cluster newPrimary)))))"

section \<open>Facts\<close>

text \<open>The pod found is a data pod the reported host names.\<close>

definition names_pod :: "string \<Rightarrow> string \<Rightarrow> Pod \<Rightarrow> bool" where
  "names_pod namespace host pod \<longleftrightarrow> p_IP pod = host \<or> p_Name pod @ ''.'' @ namespace @ ''.svc.cluster.local'' = host"

lemma findPrimary_Some:
  assumes "findPrimaryPodBySentinelHost pods ns host \<noteq> []"
  shows "\<exists>p \<in> set pods. p_Name p = findPrimaryPodBySentinelHost pods ns host \<and> names_pod ns host p"
  using assms by (induction pods) (auto simp: names_pod_def split: if_splits)

text \<open>After relabelling, exactly the new primary is labelled as the primary.\<close>

lemma desiredRole_primary: "desiredRole old new pod = LabelRolePrimary \<longleftrightarrow> p_Name pod = new"
  by (auto simp: desiredRole_def Let_def)

lemma parse_master_reply_Inr:
  "parse_master_reply resp = Inr (host, port) \<Longrightarrow> \<exists>p. resp = RArr [RStr host, RStr p]"
  by (auto simp: parse_master_reply_def sentinelValueToString_def Let_def
      split: redis_reply.splits list.splits if_splits prod.splits)

definition reported :: "env \<Rightarrow> string \<Rightarrow> string \<Rightarrow> bool" where
  "reported env masterName host \<longleftrightarrow> (\<exists>l addr p.
     e_redis env l addr [''SENTINEL'', ''get-master-addr-by-name'', masterName] = Inr (RArr [RStr host, RStr p]))"

lemma returns_query_sentinels:
  "returns (\<lambda>(attempted, errs, host). host \<noteq> [] \<longrightarrow> reported env masterName host)
     (query_sentinels env masterName pods attempted errs :: ('s, _) io)"
proof (rule returns_wp, induction pods arbitrary: attempted errs)
  case Nil
  then show ?case by (simp add: wp_simps)
next
  case (Cons pod pods)
  have step: "wp (case r of
          Inl e \<Rightarrow> query_sentinels env masterName pods (attempted + 1) (errs @ [addr @ '': '' @ error_text e])
        | Inr (host, _) \<Rightarrow> ret (attempted + 1, errs, host))
      (\<lambda>a _. case a of (attempted, errs, host) \<Rightarrow> host \<noteq> [] \<longrightarrow> reported env masterName host) (\<lambda>_ _. True) w"
    if "\<And>host port. r = Inr (host, port) \<Longrightarrow> reported env masterName host" for r addr and w :: "'s world"
    using that Cons by (cases r) (auto simp: wp_simps)
  have "wp (attempt (querySentinelMaster env addr masterName))
      (\<lambda>r _. \<forall>host port. r = Inr (host, port) \<longrightarrow> reported env masterName host) (\<lambda>_ _. True) w" for addr and w :: "'s world"
    using parse_master_reply_Inr
    by (auto simp: querySentinelMaster_def wp_simps reported_def split: sum.splits) metis
  then have "wp (attempt (querySentinelMaster env addr masterName)) (\<lambda>r. wp (case r of
          Inl e \<Rightarrow> query_sentinels env masterName pods (attempted + 1) (errs @ [addr @ '': '' @ error_text e])
        | Inr (host, _) \<Rightarrow> ret (attempted + 1, errs, host))
      (\<lambda>a _. case a of (attempted, errs, host) \<Rightarrow> host \<noteq> [] \<longrightarrow> reported env masterName host) (\<lambda>_ _. True))
      (\<lambda>_ _. True) w" for addr and w :: "'s world"
    by (rule wp_mono) (auto intro!: step)
  then show ?case using Cons unfolding query_sentinels.simps Let_def wp_if wp_bnd by (cases "p_IP pod = []") (simp_all only: if_True if_False simp_thms)
qed

text \<open>The calls that follow the master: what they may write.\<close>

definition follows :: "env \<Rightarrow> RedisCluster \<Rightarrow> call \<Rightarrow> bool" where
  "follows env cluster c = (case c of
     StatusPatch base new \<Rightarrow> (\<exists>b p host l items. base = OCluster b \<and> new = OCluster (on_status (switch_primary (p_Name p)) b) \<and>
       reported env (c_Name cluster) host \<and> names_pod (c_Namespace cluster) host p \<and>
       e_list env l KPod (c_Namespace cluster) [(LabelCluster, c_Name cluster)] = Inr items \<and> p \<in> set (data_pods items))
   | Patch lock base new \<Rightarrow>
       (\<exists>p role. base = OPod p \<and> new = OPod (with_role role p) \<and> role \<noteq> mget [] (p_Labels p) LabelRole) \<or>
       (\<exists>s sel. base = OService s \<and> new = OService (s\<lparr>sv_Selector := sel\<rparr>))
   | Create x \<Rightarrow> False
   | Update x \<Rightarrow> False
   | Delete k ns name \<Rightarrow> False
   | Http m ip path body \<Rightarrow> False
   | _ \<Rightarrow> True)"

lemma follows_simps [simp]:
  "follows env c (Get k ns n)" "follows env c (ListOf k ns sel)" "follows env c (Event a b d)"
  "follows env c (RedisDo addr args)" "follows env c (Observed x)"
  "follows env c (Patch lock (OService s) (OService (s\<lparr>sv_Selector := sel\<rparr>)))"
  "follows env c (Patch lock (OPod p) (OPod (with_role role p))) \<longleftrightarrow>
     (\<exists>q role'. OPod p = OPod q \<and> with_role role p = with_role role' q \<and> role' \<noteq> mget [] (p_Labels q) LabelRole)"
  by (auto simp: follows_def)

lemma issues_case_prod_eq:
  "(\<And>a b. x = (a, b) \<Longrightarrow> issues P (f a b)) \<Longrightarrow> issues P (case x of (a, b) \<Rightarrow> f a b)"
  by (cases x) simp

lemma issues_query_sentinels: "issues (follows env c) (query_sentinels env' masterName pods n errs)"
proof (induction pods arbitrary: n errs)
  case (Cons pod pods)
  show ?case
    unfolding query_sentinels.simps querySentinelMaster_def Let_def
    by (intro issues_intros Cons; simp)
qed (simp add: issues_ret)

lemma issues_follow_master:
  assumes "reported env (c_Name cluster) host" "names_pod (c_Namespace cluster) host p" "p \<in> set (data_pods items)"
    and "e_list env l KPod (c_Namespace cluster) [(LabelCluster, c_Name cluster)] = Inr items"
  shows "issues (follows env cluster) (follow_master env cluster (p_Name p))"
proof -
  have patch: "issues (follows env cluster) (patch_status env (on_status (switch_primary (p_Name p))))"
    by (intro issues_intros) (use assms in \<open>auto simp: follows_def\<close>)
  have svc: "issues (follows env cluster) (updateLeaderServiceSelector env)"
    unfolding updateLeaderServiceSelector_def patch_service_def Let_def by (intro issues_intros; simp)
  have labels: "issues (follows env cluster) (updateDataPodRoleLabels env c old new)" for c old new
    unfolding updateDataPodRoleLabels_def listDataPods_def listClusterPods_def Let_def
    by (intro issues_intros; auto)
  show ?thesis
    unfolding follow_master_def Let_def by (intro issues_intros patch svc labels; simp)
qed

section \<open>Properties\<close>

text \<open>
  C30. Following the Sentinels, the operator makes a pod the current primary only when a Sentinel
  reported a master whose host is the address or the name of a listed data pod of the cluster, and
  writes nothing else than this one field of the status, the selector of a Service and role labels
  of pods, whatever the Sentinels and the API server answer.
\<close>

theorem sentinel_primary_is_reported:
  "\<exists>l. w_log (snd (reconcileSentinelMaster env pem_ok w)) = w_log w @ l \<and>
     list_all (\<lambda>x. follows env (w_obj w) (fst x)) l"
proof -
  let ?c = "w_obj w"
  have tls: "issues (follows env ?c) (sentinelClientTLSConfig env pem_ok ?c)"
    unfolding sentinelClientTLSConfig_def Let_def prod.case by (intro issues_intros; simp)
  have list: "issues (follows env ?c) (wrap_err msg (listSentinelPods env ?c))"
    "issues (follows env ?c) (wrap_err msg (listDataPods env ?c))" for msg
    unfolding listSentinelPods_def listDataPods_def listClusterPods_def by (intro issues_intros; simp)+
  have adopt: "issues (follows env ?c) (follow_master env ?c (findPrimaryPodBySentinelHost pods (c_Namespace ?c) host))"
    if "findPrimaryPodBySentinelHost pods (c_Namespace ?c) host \<noteq> []" "reported env (c_Name ?c) host"
      "\<exists>l items. e_list env l KPod (c_Namespace ?c) [(LabelCluster, c_Name ?c)] = Inr items \<and> pods = data_pods items"
    for pods host
    using findPrimary_Some [OF that(1)] that(2,3) issues_follow_master by metis
  show ?thesis
    unfolding reconcileSentinelMaster_def Let_def
    by (intro footprint_obj issues_if issues_ret issues_bnd [OF list(1)] issues_bnd [OF issues_wrap_err [OF tls]]
        issues_bnd_returns [OF issues_query_sentinels returns_query_sentinels] issues_case_prod_eq issues_throw
        issues_bnd_returns [OF list(2) returns_wrap_err [OF returns_listDataPods]] adopt) auto
qed

end
