(* ===== verification/Cluster_Slots.thy ===== *)
theory Cluster_Slots
  imports Sentinel
begin

text \<open>
  Forming and rebalancing a Redis Cluster (\<^verbatim>\<open>internal/controller/cluster/cluster_bootstrap.go\<close> and
  \<^verbatim>\<open>cluster_reshard.go\<close>): introducing the nodes to each other, assigning the slots nobody serves,
  attaching replicas, and moving slots towards the planned layout, one request per reconciliation.
  A Go array of 16384 owners is a function on the slots.
\<close>

section \<open>Bootstrap\<close>

text \<open>The address of a pod in the map of pods by name; a missing pod reads as the zero pod.\<close>

definition ip_of :: "Pod list \<Rightarrow> string \<Rightarrow> string" where
  "ip_of pods name = (case last_pod name pods of None \<Rightarrow> [] | Some pod \<Rightarrow> p_IP pod)"

definition node_ready :: "(string, InstanceStatus) gomap \<Rightarrow> string \<Rightarrow> bool" where
  "node_ready statuses name \<longleftrightarrow>
     (case map_of statuses name of None \<Rightarrow> False | Some status \<Rightarrow> is_Connected status \<and> is_NodeID status \<noteq> [])"

primrec add_slot_ranges ::
  "env \<Rightarrow> string \<Rightarrow> string \<Rightarrow> SlotRange list \<Rightarrow> slot_array \<times> bool \<Rightarrow> ('s, slot_array \<times> bool) io" where
  "add_slot_ranges env podName ip [] acc = ret acc"
| "add_slot_ranges env podName ip (r # rs) acc =
     bnd (wrap_err (''assigning slots '' @ itoa (Start r) @ ''-'' @ itoa (End r) @ '' on '' @ podName)
       (postClusterJSON env ip ''/v1/cluster/addslots'' (AddSlotsPayload (Start r) (End r)))) (\<lambda>_.
     add_slot_ranges env podName ip rs
       (fold (\<lambda>slot cov. cov(slot := True)) [Start r..End r] (fst acc), True))"

text \<open>The slots nobody serves, shard by shard; \<open>None\<close> when a shard has no primary yet.\<close>

primrec assign_slots ::
  "env \<Rightarrow> Pod list \<Rightarrow> shardLayout \<Rightarrow> (int \<times> SlotRange) list \<Rightarrow> slot_array \<times> bool \<Rightarrow> ('s, bool option) io" where
  "assign_slots env pods layout [] acc = ret (Some (snd acc))"
| "assign_slots env pods layout (x # xs) acc =
     (let podName = primaryName layout (fst x) in
      if podName = [] then ret None
      else bnd (add_slot_ranges env podName (ip_of pods podName) (calculateUncoveredSlotRanges (snd x) (fst acc)) acc)
        (assign_slots env pods layout xs))"

definition replica_shard :: "shardLayout \<Rightarrow> string \<Rightarrow> int" where
  "replica_shard layout podName =
     (case map_of (replicaMoves layout) podName of Some target \<Rightarrow> target | None \<Rightarrow> mget 0 (shardOf layout) podName)"

definition skips_replica :: "shardLayout \<Rightarrow> (string, InstanceStatus) gomap \<Rightarrow> string \<Rightarrow> bool" where
  "skips_replica layout statuses podName \<longleftrightarrow> isPrimary layout podName \<or>
     length (is_SlotsServed (mget zero_InstanceStatus statuses podName)) > 0 \<or>
     handingOver layout (replica_shard layout podName)"

primrec attach_replicas ::
  "env \<Rightarrow> Pod list \<Rightarrow> shardLayout \<Rightarrow> (string, InstanceStatus) gomap \<Rightarrow> string list \<Rightarrow> bool \<Rightarrow> ('s, bool option) io" where
  "attach_replicas env pods layout statuses [] performed = ret (Some performed)"
| "attach_replicas env pods layout statuses (podName # names) performed =
     (let status = mget zero_InstanceStatus statuses podName;
          shard = replica_shard layout podName;
          primaryNodeID = is_NodeID (mget zero_InstanceStatus statuses (primaryName layout shard)) in
      if skips_replica layout statuses podName then attach_replicas env pods layout statuses names performed
      else if primaryNodeID = [] then ret None
      else if is_Role status = ''slave'' \<and> (is_PrimaryNodeID status = [] \<or> is_PrimaryNodeID status = primaryNodeID)
      then attach_replicas env pods layout statuses names performed
      else
        bnd (attempt (postClusterJSON env (ip_of pods podName) ''/v1/cluster/replicate'' (ReplicatePayload primaryNodeID))) (\<lambda>r.
        case r of
          Inl e \<Rightarrow>
            if http_status e = Some 409 then ret None
            else throw (Wrap (''replicating '' @ podName @ '' to shard '' @ itoa shard) e)
        | Inr _ \<Rightarrow> attach_replicas env pods layout statuses names True))"

definition expected_names :: "RedisCluster \<Rightarrow> string list" where
  "expected_names cluster = map (podNameForIndex (c_Name cluster)) [0..DesiredDataInstances (c_Spec cluster) - 1]"

definition meet_nodes :: "env \<Rightarrow> Pod list \<Rightarrow> string list \<Rightarrow> ('s, unit) io" where
  "meet_nodes env pods names =
     (let coordinator = hd names in
      for_each (\<lambda>podName. wrap_err (''cluster meet '' @ podName @ '' via '' @ coordinator)
        (postClusterJSON env (ip_of pods coordinator) ''/v1/cluster/meet'' (MeetPayload (ip_of pods podName) 6379))) (tl names))"

definition form_cluster ::
  "env \<Rightarrow> ((int \<times> string list) list \<Rightarrow> (int \<times> string list) list) \<Rightarrow> RedisCluster \<Rightarrow> Pod list \<Rightarrow>
   (string, InstanceStatus) gomap \<Rightarrow> ('s, bool) io" where
  "form_cluster env rng cluster pods statuses =
     (let names = expected_names cluster; shardCount = desiredShardCount cluster in
      bnd (meet_nodes env pods names) (\<lambda>_.
      case planShardLayout rng (Some cluster) pods statuses of
        None \<Rightarrow> throw (Panic ''slice bounds out of range'')
      | Some layout \<Rightarrow>
          bnd (assign_slots env pods layout (zip [0..shardCount - 1] (calculateClusterSlotRanges shardCount))
            (calculateSlotCoverage statuses, False)) (\<lambda>r.
          case r of
            None \<Rightarrow> ret False
          | Some performed \<Rightarrow>
              bnd (attach_replicas env pods layout statuses names performed) (\<lambda>r.
              case r of
                None \<Rightarrow> ret False
              | Some performed \<Rightarrow>
                  if performed then ret False
                  else ret (st_ClusterState (c_Status cluster) = ''ok'' \<and> st_SlotsAssigned (c_Status cluster) = 16384)))))"

definition reconcileClusterBootstrap ::
  "env \<Rightarrow> ((int \<times> string list) list \<Rightarrow> (int \<times> string list) list) \<Rightarrow> (string, InstanceStatus) gomap \<Rightarrow>
   (RedisCluster, bool) io" where
  "reconcileClusterBootstrap env rng statuses = bnd obj (\<lambda>cluster.
     let desired = DesiredDataInstances (c_Spec cluster) in
     if desired = 0 then ret True
     else
       bnd (wrap_err ''listing data pods'' (listDataPods env cluster)) (\<lambda>pods.
       if mget [] (c_Annotations cluster) ClusterHandoverAnnotation \<noteq> [] then resumeClusterHandover env pods statuses
       else if int (length pods) < desired then ret True
       else if desired < 0 then throw (Panic ''makeslice: cap out of range'')
       else if \<not> list_all (\<lambda>name. ip_of pods name \<noteq> [] \<and> node_ready statuses name) (expected_names cluster) then ret True
       else form_cluster env rng cluster pods statuses))"

section \<open>Resharding\<close>

text \<open>Who serves each slot, from the polled statuses; of two claims the last one visited counts.\<close>

definition own_range :: "string \<Rightarrow> SlotRange \<Rightarrow> (int \<Rightarrow> string) \<Rightarrow> int \<Rightarrow> string" where
  "own_range podName r slotOwner =
     (let start = (if Start r < 0 then 0 else Start r);
          stop = (if End r > 16383 then 16383 else End r)
      in fold (\<lambda>slot f. f(slot := podName)) [start..stop] slotOwner)"

definition slotOwnerArray :: "(string, InstanceStatus) gomap \<Rightarrow> int \<Rightarrow> string" where
  "slotOwnerArray statuses =
     fold (\<lambda>(podName, status). fold (own_range podName) (is_SlotsServed status)) statuses (\<lambda>_. [])"

text \<open>
  The walk over one target range: the first stretch of slots with one owner that is not the target,
  with its ends and the owner.
\<close>

function next_segment :: "(int \<Rightarrow> string) \<Rightarrow> string \<Rightarrow> int \<Rightarrow> int \<Rightarrow> (int \<times> int \<times> string) option" where
  "next_segment slotOwner target slot stop =
     (if slot > stop then None
      else
        let owner = slotOwner slot; nxt = skip_uncovered (\<lambda>s. slotOwner s \<noteq> owner) slot stop in
        if owner = target then next_segment slotOwner target nxt stop
        else Some (slot, nxt - 1, owner))"
  by auto
termination
proof (relation "measure (\<lambda>(_, _, slot, stop). nat (stop + 1 - slot))", goal_cases)
  case (2 slotOwner target slot stop owner nxt)
  then have "slot < nxt" using skip_uncovered_gt [of slot stop "\<lambda>s. slotOwner s \<noteq> owner"] by simp
  with 2 show ?case by simp
qed simp

declare next_segment.simps [simp del]

fun first_segment :: "(int \<Rightarrow> string) \<Rightarrow> (string \<times> SlotRange) list \<Rightarrow> (string \<times> int \<times> int \<times> string) option" where
  "first_segment slotOwner [] = None"
| "first_segment slotOwner ((target, r) # rest) =
     (case next_segment slotOwner target (Start r) (End r) of
        None \<Rightarrow> first_segment slotOwner rest
      | Some (segmentStart, segmentEnd, owner) \<Rightarrow> Some (target, segmentStart, segmentEnd, owner))"

definition handOverShard ::
  "env \<Rightarrow> string \<Rightarrow> InstanceStatus \<Rightarrow> string \<Rightarrow> string \<Rightarrow> InstanceStatus \<Rightarrow> (RedisCluster, unit) io" where
  "handOverShard env owner ownerStatus heir heirIP heirStatus =
     (if is_Role heirStatus \<noteq> ''slave'' \<or> is_PrimaryNodeID heirStatus \<noteq> is_NodeID ownerStatus then
        bnd (attempt (postClusterJSON env heirIP ''/v1/cluster/replicate'' (ReplicatePayload (is_NodeID ownerStatus)))) (\<lambda>r.
        case r of
          Inl e \<Rightarrow>
            if http_status e = Some 409 then ret ()
            else throw (Wrap (''attaching '' @ heir @ '' to doomed primary '' @ owner) e)
        | Inr _ \<Rightarrow> eventf Normal ''ShardHandover'' (''Replicating '' @ heir @ '' from '' @ owner @ '' before scale-down''))
      else if is_MasterLinkStatus heirStatus \<noteq> ''up'' then ret ()
      else beginClusterHandover env owner heir)"

definition migration :: "Pod list \<Rightarrow> (string, InstanceStatus) gomap \<Rightarrow> string \<Rightarrow> string \<Rightarrow> int \<Rightarrow> int \<Rightarrow> clusterMigrateRangePayload" where
  "migration pods statuses target owner s e =
     \<lparr>mr_TargetIP = ip_of pods target, mr_TargetPort = 6379,
      mr_TargetNodeID = is_NodeID (mget zero_InstanceStatus statuses target),
      mr_SourceNodeID = is_NodeID (mget zero_InstanceStatus statuses owner),
      mr_Start = s, mr_End = e, mr_BatchSize = 64, mr_TimeoutMS = 5000\<rparr>"

text \<open>One step for a stretch of slots that is not where it belongs.\<close>

definition move_segment ::
  "env \<Rightarrow> RedisCluster \<Rightarrow> Pod list \<Rightarrow> (string, InstanceStatus) gomap \<Rightarrow> string \<times> int \<times> int \<times> string \<Rightarrow> (RedisCluster, unit) io" where
  "move_segment env cluster pods statuses seg =
     (case seg of (target, s, e, owner) \<Rightarrow>
      let range = itoa s @ ''-'' @ itoa e;
          targetStatus = mget zero_InstanceStatus statuses target;
          sourceStatus = mget zero_InstanceStatus statuses owner in
      if owner = [] then
        wrap_err (''adding unowned slots '' @ range @ '' to '' @ target)
          (postClusterJSON env (ip_of pods target) ''/v1/cluster/addslots'' (AddSlotsPayload s e))
      else if map_of statuses owner = None \<or> is_NodeID sourceStatus = [] then ret ()
      else if ip_of pods owner = [] then ret ()
      else
        case podIndex (c_Name cluster) owner of
          None \<Rightarrow> throw (Panic ''slice bounds out of range'')
        | Some i \<Rightarrow>
            if i \<ge> DesiredDataInstances (c_Spec cluster) \<and> length (is_SlotsServed targetStatus) = 0
            then handOverShard env owner sourceStatus target (ip_of pods target) targetStatus
            else wrap_err (''migrating slots '' @ range @ '' from '' @ owner @ '' to '' @ target)
              (postClusterJSON env (ip_of pods owner) ''/v1/cluster/migrate-range''
                (MigrateRangePayload (migration pods statuses target owner s e))))"

definition reshard_due :: "RedisCluster \<Rightarrow> (string, InstanceStatus) gomap \<Rightarrow> bool" where
  "reshard_due cluster statuses \<longleftrightarrow> s_Mode (c_Spec cluster) = ClusterModeCluster \<and>
     DesiredDataInstances (c_Spec cluster) \<le> int (length statuses) \<and>
     st_ClusterState (c_Status cluster) = ''ok'' \<and> 16384 \<le> st_SlotsAssigned (c_Status cluster)"

definition planned_primaries :: "RedisCluster \<Rightarrow> shardLayout \<Rightarrow> string list" where
  "planned_primaries cluster layout = map (primaryName layout) [0..desiredShardCount cluster - 1]"

definition planned_targets :: "RedisCluster \<Rightarrow> shardLayout \<Rightarrow> (string \<times> SlotRange) list" where
  "planned_targets cluster layout =
     (let ps = planned_primaries cluster layout in zip ps (calculateClusterSlotRanges (int (length ps))))"

definition reconcileClusterReshard ::
  "env \<Rightarrow> ((int \<times> string list) list \<Rightarrow> (int \<times> string list) list) \<Rightarrow> (string, InstanceStatus) gomap \<Rightarrow>
   (RedisCluster, bool) io" where
  "reconcileClusterReshard env rng statuses = bnd obj (\<lambda>cluster.
     if \<not> reshard_due cluster statuses then ret True
     else
       bnd (wrap_err ''listing data pods for reshard'' (listDataPods env cluster)) (\<lambda>pods.
       case planShardLayout rng (Some cluster) pods statuses of
         None \<Rightarrow> throw (Panic ''slice bounds out of range'')
       | Some layout \<Rightarrow>
           let primaries = planned_primaries cluster layout in
           if [] \<in> set primaries then ret False
           else if \<not> list_all (\<lambda>p. node_ready statuses p \<and> ip_of pods p \<noteq> []) primaries
           then ret (\<not> int (length statuses) > DesiredDataInstances (c_Spec cluster))
           else
             case first_segment (slotOwnerArray statuses) (planned_targets cluster layout) of
               None \<Rightarrow> ret True
             | Some seg \<Rightarrow> bnd (move_segment env cluster pods statuses seg) (\<lambda>_. ret False)))"

section \<open>Facts\<close>

text \<open>The owners of the slots.\<close>

definition serves :: "(string, InstanceStatus) gomap \<Rightarrow> string \<Rightarrow> int \<Rightarrow> bool" where
  "serves statuses name slot \<longleftrightarrow> (\<exists>st. (name, st) \<in> set statuses \<and> slot \<in> slots_of_list (is_SlotsServed st))"

lemma fold_own: "fold (\<lambda>slot f. f(slot := v)) xs f s = (if s \<in> set xs then v else f s)"
  by (induction xs arbitrary: f) auto

lemma own_range_eq:
  "own_range n r f s = (if s \<in> slots_of r \<and> 0 \<le> s \<and> s \<le> 16383 then n else f s)"
proof -
  define start where "start = (if Start r < 0 then 0 else Start r)"
  define stop where "stop = (if End r > 16383 then 16383 else End r)"
  have "own_range n r f s = (if start \<le> s \<and> s \<le> stop then n else f s)"
    unfolding own_range_def Let_def start_def [symmetric] stop_def [symmetric] by (simp add: fold_own)
  then show ?thesis by (auto simp: start_def stop_def slots_of_def split: if_splits)
qed

lemma fold_own_range_eq:
  "fold (own_range n) rs f s = (if s \<in> slots_of_list rs \<and> 0 \<le> s \<and> s \<le> 16383 then n else f s)"
  by (induction rs arbitrary: f) (auto simp: own_range_eq slots_of_list_def)

lemma slotOwner_step:
  "fold (\<lambda>(podName, status). fold (own_range podName) (is_SlotsServed status)) statuses f s = n \<Longrightarrow>
   serves statuses n s \<or> (f s = n \<and> (0 \<le> s \<and> s \<le> 16383 \<longrightarrow> s \<notin> served_slots statuses))"
proof (induction statuses arbitrary: f)
  case (Cons x statuses)
  from Cons.prems have "fold (\<lambda>(podName, status). fold (own_range podName) (is_SlotsServed status)) statuses
      (fold (own_range (fst x)) (is_SlotsServed (snd x)) f) s = n" by (cases x) simp
  from Cons.IH [OF this] show ?case
    by (cases x) (auto simp: fold_own_range_eq serves_def served_slots_def split: if_splits)
qed (simp add: served_slots_def)

lemma slotOwnerArray_serves:
  assumes "slotOwnerArray statuses s = n" "n \<noteq> []"
  shows "serves statuses n s"
  using slotOwner_step [of statuses "\<lambda>_. []" s n] assms by (auto simp: slotOwnerArray_def)

lemma slotOwnerArray_none:
  assumes "slotOwnerArray statuses s = []" "[] \<notin> fst ` set statuses" "0 \<le> s" "s \<le> 16383"
  shows "s \<notin> served_slots statuses"
  using slotOwner_step [of statuses "\<lambda>_. []" s "[]"] assms
  by (auto simp: slotOwnerArray_def serves_def) (metis fst_conv imageI)

text \<open>The walk finds a stretch of one owner that is not the target, or the target owns the whole range.\<close>

lemma next_segment_spec:
  "(\<forall>s e owner. next_segment f t slot stop = Some (s, e, owner) \<longrightarrow>
      slot \<le> s \<and> s \<le> e \<and> e \<le> stop \<and> owner \<noteq> t \<and> (\<forall>x. s \<le> x \<and> x \<le> e \<longrightarrow> f x = owner)) \<and>
   (next_segment f t slot stop = None \<longrightarrow> (\<forall>x. slot \<le> x \<and> x \<le> stop \<longrightarrow> f x = t))"
proof (induction f t slot stop rule: next_segment.induct)
  case (1 f t slot stop)
  show ?case
  proof (cases "slot > stop")
    case True
    then show ?thesis by (auto simp: next_segment.simps [of f t slot])
  next
    case False
    define n where "n = skip_uncovered (\<lambda>s. f s \<noteq> f slot) slot stop"
    have "slot \<le> stop + 1" "slot \<le> stop" using False by simp_all
    note skip = skip_uncovered_spec [OF this(1), of "\<lambda>s. f s \<noteq> f slot", folded n_def]
    have n: "slot < n"
      using skip_uncovered_gt [OF \<open>slot \<le> stop\<close>, of "\<lambda>s. f s \<noteq> f slot"] unfolding n_def by simp
    moreover have "n \<le> stop + 1" "\<And>x. slot \<le> x \<Longrightarrow> x < n \<Longrightarrow> f x = f slot" using skip by blast+
    ultimately have n: "slot < n" "n \<le> stop + 1" "\<And>x. slot \<le> x \<Longrightarrow> x < n \<Longrightarrow> f x = f slot" by blast+
    have step: "next_segment f t slot stop =
        (if f slot = t then next_segment f t n stop else Some (slot, n - 1, f slot))"
      using False by (subst next_segment.simps) (simp add: n_def Let_def)
    show ?thesis
    proof (cases "f slot = t")
      case True
      have IH: "(\<forall>s e owner. next_segment f t n stop = Some (s, e, owner) \<longrightarrow>
          n \<le> s \<and> s \<le> e \<and> e \<le> stop \<and> owner \<noteq> t \<and> (\<forall>x. s \<le> x \<and> x \<le> e \<longrightarrow> f x = owner)) \<and>
        (next_segment f t n stop = None \<longrightarrow> (\<forall>x. n \<le> x \<and> x \<le> stop \<longrightarrow> f x = t))"
        using "1" [OF False refl n_def] True by blast
      have "f x = t" if "slot \<le> x" "x \<le> stop" "next_segment f t n stop = None" for x
        using IH n(3) [of x] that True by (cases "x < n") auto
      moreover have "slot \<le> s" if "next_segment f t n stop = Some (s, e, owner)" for s e owner
      proof -
        have "n \<le> s" using IH that by blast
        with n(1) show ?thesis by simp
      qed
      ultimately show ?thesis unfolding step if_P [OF True] using IH by blast
    next
      case other: False
      have "f x = f slot" if "slot \<le> x" "x \<le> n - 1" for x using n(3) [of x] that by simp
      moreover have "slot \<le> slot" "slot \<le> n - 1" "n - 1 \<le> stop" using n(1,2) by simp_all
      ultimately show ?thesis
        unfolding step if_not_P [OF other] option.inject prod.inject using other by blast
    qed
  qed
qed

lemma first_segment_Some:
  "first_segment f xs = Some (t, s, e, owner) \<Longrightarrow>
   \<exists>r. (t, r) \<in> set xs \<and> Start r \<le> s \<and> s \<le> e \<and> e \<le> End r \<and> owner \<noteq> t \<and> (\<forall>x. s \<le> x \<and> x \<le> e \<longrightarrow> f x = owner)"
proof (induction f xs rule: first_segment.induct)
  case (2 f target r rest)
  show ?case
  proof (cases "next_segment f target (Start r) (End r)")
    case None
    with 2 show ?thesis by auto
  next
    case (Some seg)
    with 2(2) have "next_segment f t (Start r) (End r) = Some (s, e, owner)" "target = t"
      by (auto split: prod.splits)
    with next_segment_spec [of f t "Start r" "End r"] show ?thesis by auto
  qed
qed simp

lemma first_segment_None:
  "first_segment f xs = None \<Longrightarrow> (t, r) \<in> set xs \<Longrightarrow> Start r \<le> x \<Longrightarrow> x \<le> End r \<Longrightarrow> f x = t"
proof (induction f xs rule: first_segment.induct)
  case (2 f target r' rest)
  then have none: "next_segment f target (Start r') (End r') = None" "first_segment f rest = None"
    by (auto split: option.splits prod.splits)
  with 2 next_segment_spec [of f target "Start r'" "End r'"] show ?case by auto
qed simp

lemma planned_targets_member:
  assumes "(t, r) \<in> set (planned_targets cluster layout)"
  shows "t \<in> set (planned_primaries cluster layout)" "r \<in> set (calculateClusterSlotRanges (desiredShardCount cluster))"
proof -
  have len: "int (length (planned_primaries cluster layout)) = desiredShardCount cluster"
    by (simp add: planned_primaries_def desiredShardCount_def)
  show "t \<in> set (planned_primaries cluster layout)" "r \<in> set (calculateClusterSlotRanges (desiredShardCount cluster))"
    using assms unfolding planned_targets_def Let_def len by (auto dest: set_zip_leftD set_zip_rightD)
qed

text \<open>Every slot lies in the range of some planned primary.\<close>

lemma planned_targets_cover:
  assumes "0 \<le> slot" "slot \<le> 16383"
  shows "\<exists>(t, r) \<in> set (planned_targets cluster layout). Start r \<le> slot \<and> slot \<le> End r"
proof -
  let ?n = "desiredShardCount cluster"
  have len: "int (length (planned_primaries cluster layout)) = ?n"
    by (simp add: planned_primaries_def desiredShardCount_def)
  have pos: "0 < ?n" by (simp add: desiredShardCount_def)
  note ranges = slot_ranges_spec [OF pos]
  have "slot \<in> set (enumerate_slots (calculateClusterSlotRanges ?n))" using ranges assms by simp
  then obtain r where r: "r \<in> set (calculateClusterSlotRanges ?n)" "Start r \<le> slot" "slot \<le> End r"
    by (auto simp: enumerate_slots_def)
  have "length (planned_primaries cluster layout) = length (calculateClusterSlotRanges ?n)"
    using ranges len by simp
  with r(1) obtain t where "(t, r) \<in> set (planned_targets cluster layout)"
    unfolding planned_targets_def Let_def len by (metis in_set_impl_in_set_zip2)
  with r show ?thesis by blast
qed

lemma slot_range_bounds:
  assumes "r \<in> set (calculateClusterSlotRanges n)" "Start r \<le> x" "x \<le> End r" "0 < n"
  shows "0 \<le> x \<and> x \<le> 16383"
proof -
  have "x \<in> set (enumerate_slots (calculateClusterSlotRanges n))"
    using assms(1-3) by (auto simp: enumerate_slots_def)
  then show ?thesis using slot_ranges_spec [OF assms(4)] by simp
qed

text \<open>The listed pods and the plan made from them.\<close>

definition planned :: "env \<Rightarrow> ((int \<times> string list) list \<Rightarrow> (int \<times> string list) list) \<Rightarrow> RedisCluster \<Rightarrow>
    (string, InstanceStatus) gomap \<Rightarrow> Pod list \<Rightarrow> shardLayout \<Rightarrow> bool" where
  "planned env rng cluster statuses pods layout \<longleftrightarrow>
     (\<exists>l items. e_list env l KPod (c_Namespace cluster) [(LabelCluster, c_Name cluster)] = Inr items \<and> pods = data_pods items) \<and>
     planShardLayout rng (Some cluster) pods statuses = Some layout"

text \<open>What one request of a resharding may ask for.\<close>

definition moves_by_plan :: "RedisCluster \<Rightarrow> (string, InstanceStatus) gomap \<Rightarrow> Pod list \<Rightarrow> shardLayout \<Rightarrow> string \<Rightarrow> payload \<Rightarrow> bool" where
  "moves_by_plan cluster statuses pods layout ip body \<longleftrightarrow>
     (\<exists>t r s e owner. (t, r) \<in> set (planned_targets cluster layout) \<and> Start r \<le> s \<and> s \<le> e \<and> e \<le> End r \<and> owner \<noteq> t \<and>
        (\<forall>x. s \<le> x \<and> x \<le> e \<longrightarrow> slotOwnerArray statuses x = owner) \<and>
        (body = AddSlotsPayload s e \<and> ip = ip_of pods t \<and> owner = [] \<or>
         body = MigrateRangePayload (migration pods statuses t owner s e) \<and> ip = ip_of pods owner \<and> owner \<noteq> [] \<or>
         body = ReplicatePayload (is_NodeID (mget zero_InstanceStatus statuses owner)) \<and> ip = ip_of pods t \<and>
           doomed cluster owner \<and> is_SlotsServed (mget zero_InstanceStatus statuses t) = []))"

definition reshard_ok :: "env \<Rightarrow> ((int \<times> string list) list \<Rightarrow> (int \<times> string list) list) \<Rightarrow> RedisCluster \<Rightarrow>
    (string, InstanceStatus) gomap \<Rightarrow> call \<Rightarrow> bool" where
  "reshard_ok env rng cluster statuses c = (case c of
     Http m ip path body \<Rightarrow> (\<exists>pods layout. planned env rng cluster statuses pods layout \<and>
       moves_by_plan cluster statuses pods layout ip body)
   | Create x \<Rightarrow> False | Update x \<Rightarrow> False | Delete k ns name \<Rightarrow> False | StatusPatch x y \<Rightarrow> False
   | _ \<Rightarrow> True)"

lemma reshard_ok_simps [simp]:
  "reshard_ok env rng c ss (Get k ns n)" "reshard_ok env rng c ss (ListOf k ns sel)" "reshard_ok env rng c ss (Event a b d)"
  "reshard_ok env rng c ss (Patch lock x y)" "reshard_ok env rng c ss (Observed x)"
  by (simp_all add: reshard_ok_def)

lemma issues_post:
  "P (Http ''POST'' ip path body) \<Longrightarrow> issues P (postClusterJSON env ip path body)"
  unfolding postClusterJSON_def Let_def by (intro issues_intros)

lemma issues_begin_handover:
  assumes "\<And>lock x y. P (Patch lock x y)" "\<And>a b c. P (Event a b c)" "\<And>x. P (Observed x)"
  shows "issues P (beginClusterHandover env owner heir)"
  unfolding beginClusterHandover_def by (intro issues_intros assms)

lemma issues_move_segment:
  assumes plan: "planned env rng cluster statuses pods layout"
    and seg: "first_segment (slotOwnerArray statuses) (planned_targets cluster layout) = Some seg"
  shows "issues (reshard_ok env rng cluster statuses) (move_segment env cluster pods statuses seg)"
proof -
  obtain t s e owner where seg_eq: "seg = (t, s, e, owner)" by (cases seg)
  from first_segment_Some [OF seg [unfolded seg_eq]] obtain r
    where r: "(t, r) \<in> set (planned_targets cluster layout)" "Start r \<le> s" "s \<le> e" "e \<le> End r" "owner \<noteq> t"
      "\<forall>x. s \<le> x \<and> x \<le> e \<longrightarrow> slotOwnerArray statuses x = owner" by blast
  have add: "reshard_ok env rng cluster statuses (Http m (ip_of pods t) path (AddSlotsPayload s e))" if "owner = []" for m path
    using plan r that unfolding reshard_ok_def moves_by_plan_def call.case by blast
  have migrate: "reshard_ok env rng cluster statuses (Http m (ip_of pods owner) path
      (MigrateRangePayload (migration pods statuses t owner s e)))" if "owner \<noteq> []" for m path
    using plan r that unfolding reshard_ok_def moves_by_plan_def call.case by blast
  have attach: "reshard_ok env rng cluster statuses (Http m (ip_of pods t) path
      (ReplicatePayload (is_NodeID (mget zero_InstanceStatus statuses owner))))"
    if "doomed cluster owner" "is_SlotsServed (mget zero_InstanceStatus statuses t) = []" for m path
    using plan r that unfolding reshard_ok_def moves_by_plan_def call.case by blast
  have hand: "issues (reshard_ok env rng cluster statuses) (handOverShard env owner
      (mget zero_InstanceStatus statuses owner) t (ip_of pods t) (mget zero_InstanceStatus statuses t))"
    if "doomed cluster owner" "is_SlotsServed (mget zero_InstanceStatus statuses t) = []"
    unfolding handOverShard_def
    by (intro issues_intros issues_post issues_begin_handover attach that reshard_ok_simps)
  show ?thesis
    unfolding move_segment_def seg_eq Let_def prod.case
    by (intro issues_intros issues_post hand add migrate; simp add: doomed_def index_of_def)
qed

lemma budget_http: "budget P 1 (http env m ip path body)"
  by (simp add: budget_def http_def logged_def Let_def)

lemma budget_postClusterJSON: "budget P 1 (postClusterJSON env ip path body)"
  unfolding postClusterJSON_def Let_def
  by (intro budget_intros budget_last [OF budget_http] issues_intros)

definition is_http :: "call \<Rightarrow> bool" where
  "is_http c = (case c of Http m ip path body \<Rightarrow> True | _ \<Rightarrow> False)"

lemma is_http_simps [simp]:
  "\<not> is_http (Event a b c)" "\<not> is_http (Patch lock x y)" "\<not> is_http (Observed x)" "\<not> is_http (ListOf k ns sel)"
  by (simp_all add: is_http_def)

lemma budget_move_segment: "budget is_http 1 (move_segment env cluster pods statuses seg)"
proof -
  have hand: "budget is_http 1 (handOverShard env owner os t ip ts)" for owner os t ip ts
    unfolding handOverShard_def
    by (intro budget_intros budget_last [OF budget_attempt [OF budget_postClusterJSON]] budget_0 [OF issues_begin_handover]
        issues_intros; simp)
  show ?thesis
    unfolding move_segment_def Let_def
    by (cases seg) (simp only: prod.case, intro budget_intros budget_wrap_err budget_postClusterJSON hand)
qed

text \<open>When a due scale-in is reported as complete, the walk over a plan found nothing to move.\<close>

lemma reshard_done_plan:
  assumes "reconcileClusterReshard env rng statuses w = (Inr True, w')"
    and "reshard_due (w_obj w) statuses" "DesiredDataInstances (c_Spec (w_obj w)) < int (length statuses)"
  shows "\<exists>pods layout. planShardLayout rng (Some (w_obj w)) pods statuses = Some layout \<and>
    [] \<notin> set (planned_primaries (w_obj w) layout) \<and>
    first_segment (slotOwnerArray statuses) (planned_targets (w_obj w) layout) = None"
  using assms
  by (auto simp: reconcileClusterReshard_def bnd_def obj_def ret_def throw_def Let_def
      split: prod.splits sum.splits option.splits if_splits)

lemma reshard_done_survivors:
  assumes "\<forall>m. mset (rng m) = mset m"
    and "reconcileClusterReshard env rng statuses w = (Inr True, w')"
    and "reshard_due (w_obj w) statuses" "DesiredDataInstances (c_Spec (w_obj w)) < int (length statuses)"
    and "0 \<le> slot" "slot \<le> 16383"
  shows "\<exists>name. serves statuses name slot \<and> \<not> doomed (w_obj w) name"
proof -
  let ?c = "w_obj w"
  obtain pods layout where plan: "planShardLayout rng (Some ?c) pods statuses = Some layout"
    and named: "[] \<notin> set (planned_primaries ?c layout)"
    and fin: "first_segment (slotOwnerArray statuses) (planned_targets ?c layout) = None"
    using reshard_done_plan [OF assms(2-4)] by blast
  obtain t r where tr: "(t, r) \<in> set (planned_targets ?c layout)" "Start r \<le> slot" "slot \<le> End r"
    using planned_targets_cover [OF assms(5,6), of ?c layout] by blast
  have own: "slotOwnerArray statuses slot = t" using first_segment_None [OF fin tr] .
  have t: "t \<in> set (planned_primaries ?c layout)" using planned_targets_member(1) [OF tr(1)] .
  then obtain i where i: "t = primaryName layout i" by (auto simp: planned_primaries_def)
  have ne: "t \<noteq> []" using t named by auto
  have "\<not> doomed ?c t"
    using layout_invD(3) [OF planShardLayout_spec(1) [OF assms(1) plan], of i] ne i by simp
  with slotOwnerArray_serves [OF own ne] show ?thesis by blast
qed

section \<open>Properties\<close>

text \<open>
  C14. Resharding follows the plan, one request at a time. Whatever the API server and the instances
  answer, one reconciliation sends at most one request, and that request assigns unowned slots to
  the planned primary of their range, migrates slots that another pod owns to it, or attaches an
  empty planned primary to an owner that is to be removed; nothing is created, deleted or written to
  the status.
\<close>

theorem reshard_follows_plan:
  "\<exists>l. w_log (snd (reconcileClusterReshard env rng statuses w)) = w_log w @ l \<and>
     list_all (\<lambda>x. reshard_ok env rng (w_obj w) statuses (fst x)) l \<and> length (filter (\<lambda>x. is_http (fst x)) l) \<le> 1"
proof -
  let ?c = "w_obj w" and ?m = "reconcileClusterReshard env rng statuses"
  have list: "issues (reshard_ok env rng ?c statuses) (wrap_err msg (listDataPods env ?c))" for msg
    unfolding listDataPods_def listClusterPods_def by (intro issues_intros) simp
  have "\<exists>l. w_log (snd (?m w)) = w_log w @ l \<and> list_all (\<lambda>x. reshard_ok env rng ?c statuses (fst x)) l"
    unfolding reconcileClusterReshard_def Let_def
    by (intro footprint_obj issues_if issues_ret issues_case_option issues_throw
        issues_bnd_returns [OF list returns_wrap_err [OF returns_listDataPods]]
        issues_bnd [OF issues_move_segment]) (auto simp: planned_def)
  moreover have "budget is_http 1 ?m"
    unfolding reconcileClusterReshard_def listDataPods_def listClusterPods_def Let_def
    by (intro budget_obj budget_intros budget_then budget_last [OF budget_move_segment] issues_intros; simp)
  ultimately show ?thesis unfolding budget_def by (metis same_append_eq)
qed

text \<open>
  Scaling in loses no slots: when more instances report than are desired and resharding of a due
  cluster reports completion, every one of the 16384 slots is served by a pod that is not going to
  be removed.
\<close>

theorem reshard_done_frees_doomed:
  assumes "\<forall>m. mset (rng m) = mset m"
    and "reconcileClusterReshard env rng statuses w = (Inr True, w')"
    and "reshard_due (w_obj w) statuses" "DesiredDataInstances (c_Spec (w_obj w)) < int (length statuses)"
    and "0 \<le> slot" "slot \<le> 16383"
  shows "\<exists>name. serves statuses name slot \<and> \<not> doomed (w_obj w) name"
  using assms by (rule reshard_done_survivors)

text \<open>A scale-in whose removed pod \<open>r-6\<close> serves nothing any more.\<close>

definition drained_cluster :: RedisCluster where
  "drained_cluster = on_status (\<lambda>st. st\<lparr>st_ClusterState := ''ok'', st_SlotsAssigned := 16384\<rparr>) scaled_cluster"

definition drained_statuses :: "(string, InstanceStatus) gomap" where
  "drained_statuses = uneven_statuses @ [(''r-6'', scaled_node ''slave'' ''n6'' ''n0'' [])]"

lemma next_segment_owned: "(\<And>x. a \<le> x \<Longrightarrow> x \<le> b \<Longrightarrow> f x = t) \<Longrightarrow> next_segment f t a b = None"
proof (cases "next_segment f t a b")
  case (Some seg)
  assume own: "\<And>x. a \<le> x \<Longrightarrow> x \<le> b \<Longrightarrow> f x = t"
  obtain s e owner where seg: "next_segment f t a b = Some (s, e, owner)" using Some by (cases seg) auto
  with next_segment_spec [of f t a b] have "a \<le> s" "s \<le> e" "e \<le> b" "owner \<noteq> t" "f s = owner" by blast+
  with own [of s] show ?thesis by simp
qed

lemma drained_owners:
  "slotOwnerArray drained_statuses x = (if 0 \<le> x \<and> x \<le> 5461 then ''r-0'' else if 5462 \<le> x \<and> x \<le> 10922 then ''r-1''
     else if 10923 \<le> x \<and> x \<le> 16383 then ''r-2'' else [])"
  by (auto simp: slotOwnerArray_def drained_statuses_def uneven_statuses_def scaled_node_def sample_instance_def
      zero_InstanceStatus_def own_range_eq slots_of_def)

lemma drained_run:
  "\<exists>w'. reconcileClusterReshard (sample_env (map OPod scaled_pods)) (\<lambda>m. m) drained_statuses (sample_world drained_cluster) = (Inr True, w')"
proof -
  have pods: "data_pods (map OPod scaled_pods) = scaled_pods"
    by (simp add: data_pods_def scaled_pods_def List.map_filter_simps isDataPod_def sample_pod_def new_meta_def)
  have "map_option (planned_primaries drained_cluster) (planShardLayout (\<lambda>m. m) (Some drained_cluster) scaled_pods drained_statuses) =
      Some [''r-0'', ''r-1'', ''r-2'']" by code_simp
  then obtain layout where plan: "planShardLayout (\<lambda>m. m) (Some drained_cluster) scaled_pods drained_statuses = Some layout"
    and primaries: "planned_primaries drained_cluster layout = [''r-0'', ''r-1'', ''r-2'']" by auto
  have ranges: "calculateClusterSlotRanges 3 =
      [\<lparr>Start = 0, End = 5461\<rparr>, \<lparr>Start = 5462, End = 10922\<rparr>, \<lparr>Start = 10923, End = 16383\<rparr>]" by code_simp
  have "first_segment (slotOwnerArray drained_statuses) (planned_targets drained_cluster layout) = None"
    by (simp add: planned_targets_def primaries ranges next_segment_owned drained_owners)
  moreover have "reshard_due drained_cluster drained_statuses" by code_simp
  moreover have "list_all (\<lambda>p. node_ready drained_statuses p \<and> ip_of scaled_pods p \<noteq> []) [''r-0'', ''r-1'', ''r-2'']"
    by code_simp
  moreover have "listDataPods (sample_env (map OPod scaled_pods)) drained_cluster (sample_world drained_cluster) =
      (Inr scaled_pods, logged (ListOf KPod (c_Namespace drained_cluster) [(LabelCluster, c_Name drained_cluster)]) True
        (sample_world drained_cluster))"
    using listDataPods_run [of "sample_env (map OPod scaled_pods)" "sample_world drained_cluster" drained_cluster "map OPod scaled_pods"]
    by (simp add: pods sample_env_def comp_def)
  ultimately show ?thesis
    by (simp add: reconcileClusterReshard_def bnd_obj) (simp add: bnd_def wrap_err_def sample_world_def plan primaries ret_def)
qed

theorem reshard_done_frees_doomed_witness:
  "doomed drained_cluster ''r-6'' \<and> (\<exists>name. serves drained_statuses name 11000 \<and> \<not> doomed drained_cluster name)"
proof -
  obtain w' where "reconcileClusterReshard (sample_env (map OPod scaled_pods)) (\<lambda>m. m) drained_statuses (sample_world drained_cluster) = (Inr True, w')"
    using drained_run by blast
  moreover have "reshard_due drained_cluster drained_statuses" "doomed drained_cluster ''r-6''"
    "DesiredDataInstances (c_Spec drained_cluster) < int (length drained_statuses)" by code_simp+
  ultimately show ?thesis
    using reshard_done_frees_doomed [of "\<lambda>m. m" "sample_env (map OPod scaled_pods)" drained_statuses
        "sample_world drained_cluster" w' 11000] by (simp add: sample_world_def)
qed

end
