(* ===== verification/Frames.thy ===== *)
theory Frames
  imports Call_Order
begin

named_theorems keeps_intros \<open>computations that leave the object in memory alone\<close>

text \<open>
  Two more judgements, from a given state. \<open>footprint P m w\<close>: run from \<open>w\<close>, the computation only
  appends calls that satisfy \<open>P\<close>; unlike \<open>issues\<close> it knows the object in memory. \<open>keeps m\<close>: the
  computation leaves that object as it is, so that what is known of it before a step is known after.
\<close>

section \<open>Footprints from a state\<close>

definition footprint :: "(call \<Rightarrow> bool) \<Rightarrow> ('s, 'a) io \<Rightarrow> 's world \<Rightarrow> bool" where
  "footprint P m w \<longleftrightarrow> (\<exists>l. w_log (snd (m w)) = w_log w @ l \<and> list_all (\<lambda>x. P (fst x)) l)"

lemma footprint_issues: "issues P m \<Longrightarrow> footprint P m w"
  unfolding issues_def footprint_def list_all_iff by blast

lemma footprint_ret: "footprint P (ret a) w"
  by (rule footprint_issues) (rule issues_ret)

lemma footprint_bnd:
  assumes "footprint P m w" and "\<And>a w'. m w = (Inr a, w') \<Longrightarrow> footprint P (f a) w'"
  shows "footprint P (bnd m f) w"
proof -
  obtain r w' where mw: "m w = (r, w')" by (cases "m w")
  obtain l where l: "w_log w' = w_log w @ l" "list_all (\<lambda>x. P (fst x)) l"
    using assms(1) mw by (auto simp: footprint_def)
  show ?thesis
  proof (cases r)
    case (Inl e)
    with mw l show ?thesis by (auto simp: footprint_def bnd_def)
  next
    case (Inr a)
    with assms(2) mw obtain l2 where "w_log (snd (f a w')) = w_log w' @ l2" "list_all (\<lambda>x. P (fst x)) l2"
      by (auto simp: footprint_def)
    with mw l Inr show ?thesis
      by (auto simp: footprint_def bnd_def intro!: exI [of _ "l @ l2"])
  qed
qed

lemma footprint_bnd_obj: "footprint P (f (w_obj w)) w \<Longrightarrow> footprint P (bnd obj f) w"
  by (simp add: footprint_def bnd_def obj_def)

lemma footprint_if:
  "(b \<Longrightarrow> footprint P m w) \<Longrightarrow> (\<not> b \<Longrightarrow> footprint P n w) \<Longrightarrow> footprint P (if b then m else n) w"
  by simp

lemma footprint_wrap_err: "footprint P m w \<Longrightarrow> footprint P (wrap_err msg m) w"
  by (auto simp: footprint_def wrap_err_def split: prod.splits sum.splits)

section \<open>The object in memory\<close>

definition keeps :: "('s, 'a) io \<Rightarrow> bool" where
  "keeps m \<longleftrightarrow> (\<forall>w. w_obj (snd (m w)) = w_obj w)"

lemma keepsD: "keeps m \<Longrightarrow> m w = (r, w') \<Longrightarrow> w_obj w' = w_obj w"
  unfolding keeps_def by (metis snd_conv)

lemma keeps_bnd [keeps_intros]:
  assumes "keeps m" "\<And>a. keeps (f a)"
  shows "keeps (bnd m f)"
  unfolding keeps_def
proof
  fix w
  obtain r w' where mw: "m w = (r, w')" by (cases "m w")
  then have "w_obj w' = w_obj w" using assms(1) keepsD by blast
  with mw assms(2) show "w_obj (snd (bnd m f w)) = w_obj w"
    by (cases r) (auto simp: bnd_def keeps_def)
qed

lemma keeps_basic [keeps_intros]:
  "keeps (ret a)" "keeps (throw e)" "keeps obj" "keeps (eventf s r msg)" "keeps (metric n)" "keeps (now env)"
  "keeps (http env m ip path body)" "keeps (redis_do env addr args)" "keeps (random_bytes env)"
  by (simp_all add: keeps_def ret_def throw_def obj_def eventf_def metric_def now_def http_def redis_do_def
      random_bytes_def logged_def Let_def split: sum.split)

lemma keeps_perform [keeps_intros]: "keeps (perform c f)"
  by (simp add: keeps_def perform_def logged_def split: sum.split)

lemma keeps_attempt [keeps_intros]: "keeps m \<Longrightarrow> keeps (attempt m)"
  by (auto simp: keeps_def attempt_def split: prod.splits sum.splits) (metis snd_conv)+

lemma keeps_wrap_err [keeps_intros]: "keeps m \<Longrightarrow> keeps (wrap_err msg m)"
  by (auto simp: keeps_def wrap_err_def split: prod.splits sum.splits) (metis snd_conv)+

lemma keeps_if [keeps_intros]: "(b \<Longrightarrow> keeps m) \<Longrightarrow> (\<not> b \<Longrightarrow> keeps n) \<Longrightarrow> keeps (if b then m else n)"
  by simp

lemma keeps_case_option [keeps_intros]:
  "(x = None \<Longrightarrow> keeps m) \<Longrightarrow> (\<And>y. x = Some y \<Longrightarrow> keeps (f y)) \<Longrightarrow> keeps (case x of None \<Rightarrow> m | Some y \<Rightarrow> f y)"
  by (cases x) simp_all

lemma keeps_case_sum [keeps_intros]:
  "(\<And>e. x = Inl e \<Longrightarrow> keeps (f e)) \<Longrightarrow> (\<And>y. x = Inr y \<Longrightarrow> keeps (g y)) \<Longrightarrow> keeps (case x of Inl e \<Rightarrow> f e | Inr y \<Rightarrow> g y)"
  by (cases x) simp_all

lemma keeps_case_prod [keeps_intros]: "(\<And>a b. keeps (f a b)) \<Longrightarrow> keeps (case x of (a, b) \<Rightarrow> f a b)"
  by (cases x) simp

lemma keeps_for_each [keeps_intros]: "(\<And>x. x \<in> set xs \<Longrightarrow> keeps (f x)) \<Longrightarrow> keeps (for_each f xs)"
  by (induction xs) (auto intro!: keeps_intros)

lemma keeps_client [keeps_intros]:
  "keeps (get_object env k ns name)" "keeps (get_pod env ns name)" "keeps (get_pdb env ns name)"
  "keeps (get_role env ns name)" "keeps (get_role_binding env ns name)" "keeps (list_objects env k ns sel)"
  "keeps (list_pods env ns sel)" "keeps (create env x)" "keeps (update env x)" "keeps (patch env base x)"
  "keeps (delete env k ns name)"
  unfolding get_object_def get_pod_def get_pdb_def get_role_def get_role_binding_def list_objects_def list_pods_def
    create_def update_def patch_def delete_def
  by (intro keeps_intros | simp split: object.split add: keeps_basic)+

lemma keeps_set_controller [keeps_intros]: "keeps (set_controller env c m)"
  unfolding set_controller_def by (intro keeps_intros)

end
