(* ===== verification/Reconciler.thy ===== *)
theory Reconciler
  imports Cluster_Slots Frames
begin

text \<open>
  The reconciliation of a RedisCluster as a whole (\<^verbatim>\<open>internal/controller/cluster/reconciler.go\<close>) and
  its metrics (\<^verbatim>\<open>metrics.go\<close>): the steps of the other theories in the order of the source, with
  its early returns. The result of a reconciliation is the delay after which it is repeated, in
  nanoseconds; an error is a thrown one. What the Go runtime and the libraries leave open is a
  record of parameters: the orders of the map iterations and the parser of PEM certificates.
\<close>

section \<open>The reconciler\<close>

definition requeueInterval :: int where "requeueInterval = 30 * 1000000000"
definition statusPollTimeout :: int where "statusPollTimeout = 5 * 1000000000"
definition defaultMaxConcurrentReconciles :: int where "defaultMaxConcurrentReconciles = 5"
abbreviation defaultOperatorImage :: string where "defaultOperatorImage \<equiv> ''redis-operator:latest''"

record ClusterReconciler =
  OperatorImage :: string
  MaxConcurrentReconciles :: int

text \<open>The first argument is the value of the environment variable, empty when it is not set.\<close>

definition NewClusterReconciler :: "string \<Rightarrow> int \<Rightarrow> ClusterReconciler" where
  "NewClusterReconciler operatorImageName maxConcurrentReconciles =
     \<lparr>OperatorImage = (if operatorImageName = [] then defaultOperatorImage else operatorImageName),
      MaxConcurrentReconciles =
        (if maxConcurrentReconciles \<le> 0 then defaultMaxConcurrentReconciles else maxConcurrentReconciles)\<rparr>"

record runtime =
  rt_shards :: "(int \<times> string list) list \<Rightarrow> (int \<times> string list) list"
  rt_refs :: "(string \<times> string option) list \<Rightarrow> (string \<times> string option) list"
  rt_versions :: "(string \<times> string) list \<Rightarrow> (string \<times> string) list"
  rt_pem :: "string \<Rightarrow> bool"

section \<open>Metrics\<close>

abbreviation unknownPhase :: string where "unknownPhase \<equiv> ''Unknown''"

definition knownClusterPhases :: "string list" where
  "knownClusterPhases = [ClusterPhaseCreating, ClusterPhaseHealthy, ClusterPhaseDegraded, ClusterPhaseFailingOver,
     ClusterPhaseScaling, ClusterPhaseUpdating, ClusterPhaseWaitingForUser, ClusterPhaseDeleting,
     ClusterPhaseHibernating, unknownPhase]"

definition clusterMetricIdentity :: "RedisCluster option \<Rightarrow> string \<times> string \<times> bool" where
  "clusterMetricIdentity clusterp =
     (case clusterp of
        None \<Rightarrow> ([], [], False)
      | Some cluster \<Rightarrow>
          if c_Namespace cluster = [] \<or> c_Name cluster = [] then ([], [], False)
          else (c_Namespace cluster, c_Name cluster, True))"

text \<open>One assignment of a gauge: its name, its labels and the value.\<close>

type_synonym sample = "string \<times> string list \<times> int"

definition clusterInstancesSamples :: "RedisCluster \<Rightarrow> int \<Rightarrow> sample list" where
  "clusterInstancesSamples cluster actual =
     (let (namespace, name, ok) = clusterMetricIdentity (Some cluster) in
      if \<not> ok then []
      else [(''redis_cluster_instances_total'', [namespace, name, ''desired''], DesiredDataInstances (c_Spec cluster)),
            (''redis_cluster_instances_total'', [namespace, name, ''actual''], actual)])"

definition clusterPhaseSamples :: "RedisCluster \<Rightarrow> sample list" where
  "clusterPhaseSamples cluster =
     (let (namespace, name, ok) = clusterMetricIdentity (Some cluster);
          phase = (if st_Phase (c_Status cluster) = [] then unknownPhase else st_Phase (c_Status cluster)) in
      if \<not> ok then []
      else map (\<lambda>p. (''redis_cluster_phase'', [namespace, name, p], 0)) knownClusterPhases @
        [(''redis_cluster_phase'', [namespace, name, phase], 1)])"

text \<open>The registry of the gauges, and what a list of assignments makes of it.\<close>

type_synonym registry = "(string \<times> string list, int) gomap"

definition assign_gauges :: "sample list \<Rightarrow> registry \<Rightarrow> registry" where
  "assign_gauges samples reg = fold (\<lambda>(name, labels, v). mput (name, labels) v) samples reg"

definition record_samples :: "sample list \<Rightarrow> ('s, unit) io" where
  "record_samples samples = for_each (\<lambda>(name, labels, v). metric name) samples"

definition setClusterInstancesMetrics :: "RedisCluster \<Rightarrow> int \<Rightarrow> ('s, unit) io" where
  "setClusterInstancesMetrics cluster actual = record_samples (clusterInstancesSamples cluster actual)"

definition setClusterPhaseMetric :: "RedisCluster \<Rightarrow> ('s, unit) io" where
  "setClusterPhaseMetric cluster = record_samples (clusterPhaseSamples cluster)"

definition observeReconcileDurationMetric :: "RedisCluster \<Rightarrow> ('s, unit) io" where
  "observeReconcileDurationMetric cluster =
     (let (namespace, name, ok) = clusterMetricIdentity (Some cluster) in
      if \<not> ok then ret () else metric ''redis_reconcile_duration_seconds'')"

section \<open>The steps\<close>

definition reconcileGlobalResources :: "env \<Rightarrow> (RedisCluster, unit) io" where
  "reconcileGlobalResources env =
     bnd (wrap_err ''service account'' (reconcileServiceAccount env)) (\<lambda>_.
     bnd (wrap_err ''RBAC'' (reconcileRBAC env)) (\<lambda>_.
     bnd (wrap_err ''ConfigMap'' (reconcileConfigMap env)) (\<lambda>_.
     wrap_err ''PDB'' (reconcilePDB env))))"

text \<open>Secrets, Services, the connection Secret, the status poll and the status update: the polled statuses.\<close>

definition reconcile_observe :: "env \<Rightarrow> runtime \<Rightarrow> (RedisCluster, (string, InstanceStatus) gomap) io" where
  "reconcile_observe env rt =
     bnd (wrap_err ''reconciling secrets'' (reconcileSecrets env (rt_refs rt) (rt_versions rt))) (\<lambda>_.
     bnd (wrap_err ''reconciling services'' (reconcileServices env)) (\<lambda>_.
     bnd (wrap_err ''reconciling connection secret'' (reconcileConnectionSecret env)) (\<lambda>_.
     bnd obj (\<lambda>cluster.
     bnd (attempt (pollInstanceStatuses env cluster)) (\<lambda>r.
     let statuses = (case r of Inl _ \<Rightarrow> [] | Inr statuses \<Rightarrow> statuses) in
     bnd (wrap_err ''updating status'' (updateStatus env (rt_shards rt) statuses)) (\<lambda>_.
     bnd obj (\<lambda>cluster.
     bnd (setClusterInstancesMetrics cluster (int (length statuses))) (\<lambda>_.
     bnd (setClusterPhaseMetric cluster) (\<lambda>_.
     ret statuses)))))))))"

text \<open>The topology of a Redis Cluster; false when the reconciliation ends here.\<close>

definition reconcile_topology ::
  "env \<Rightarrow> runtime \<Rightarrow> bool \<Rightarrow> (string, InstanceStatus) gomap \<Rightarrow> (RedisCluster, bool) io" where
  "reconcile_topology env rt maintenance statuses = bnd obj (\<lambda>cluster.
     if \<not> maintenance \<and> s_Mode (c_Spec cluster) = ClusterModeCluster then
       bnd (wrap_err ''reconciling cluster bootstrap'' (reconcileClusterBootstrap env (rt_shards rt) statuses)) (\<lambda>ready.
       if \<not> ready then ret False
       else wrap_err ''reconciling cluster reshard'' (reconcileClusterReshard env (rt_shards rt) statuses))
     else ret True)"

text \<open>The end of replica mode and the automatic failover; false when the reconciliation ends here.\<close>

definition reconcile_primary :: "env \<Rightarrow> bool \<Rightarrow> (string, InstanceStatus) gomap \<Rightarrow> (RedisCluster, bool) io" where
  "reconcile_primary env maintenance statuses =
     bnd (wrap_err ''reconciling replica mode promotion'' (reconcileReplicaModePromotion env statuses)) (\<lambda>promoted.
     if promoted then ret False
     else bnd obj (\<lambda>cluster.
       if \<not> maintenance \<and> shouldTriggerFailover (Some cluster) statuses
       then bnd (wrap_err ''automatic failover'' (failover env)) (\<lambda>_. ret False)
       else ret (\<not> checkReachability cluster statuses)))"

definition reconcile_rollout :: "env \<Rightarrow> ClusterReconciler \<Rightarrow> string set \<Rightarrow> (RedisCluster, bool) io" where
  "reconcile_rollout env rc pendingResizePVCs =
     bnd (if pendingResizePVCs \<noteq> {}
          then wrap_err ''rolling restart for PVC resize'' (restartPodsForPendingResize env pendingResizePVCs)
          else ret False) (\<lambda>stop.
     if stop then ret False
     else bnd obj (\<lambda>cluster.
       bnd (wrap_err ''rolling update'' (rollingUpdate env (computeSpecHash (OperatorImage rc) cluster))) (\<lambda>_. ret True)))"

definition reconcile_sentinels :: "env \<Rightarrow> ClusterReconciler \<Rightarrow> runtime \<Rightarrow> bool \<Rightarrow> (RedisCluster, unit) io" where
  "reconcile_sentinels env rc rt maintenance = bnd obj (\<lambda>cluster.
     if \<not> maintenance \<and> s_Mode (c_Spec cluster) = ClusterModeSentinel then
       bnd (wrap_err ''reconciling sentinel pods'' (reconcileSentinelPods env (OperatorImage rc))) (\<lambda>_.
       wrap_err ''reconciling sentinel master'' (reconcileSentinelMaster env (rt_pem rt)))
     else ret ())"

text \<open>Volumes, pods, rollout and Sentinels.\<close>

definition reconcile_workload ::
  "env \<Rightarrow> ClusterReconciler \<Rightarrow> runtime \<Rightarrow> bool \<Rightarrow> (string, InstanceStatus) gomap \<Rightarrow> (RedisCluster, unit) io" where
  "reconcile_workload env rc rt maintenance statuses = bnd obj (\<lambda>cluster.
     let ephemeralStorage = IsEphemeral (s_Storage (c_Spec cluster));
         maintenanceReplace = (maintenance \<and> \<not> maintenanceReusePVC cluster) in
     bnd (if maintenanceReplace \<and> \<not> ephemeralStorage
          then wrap_err ''recycling PVCs during maintenance replacement'' (recyclePVCsForMissingPods env)
          else ret ()) (\<lambda>_.
     bnd (if \<not> ephemeralStorage then wrap_err ''reconciling PVCs'' (reconcilePVCs env) else ret {}) (\<lambda>pendingResizePVCs.
     bnd (if \<not> maintenance \<or> maintenanceReplace
          then bnd (wrap_err ''reconciling pods'' (reconcilePods env (OperatorImage rc) (rt_shards rt) statuses)) (\<lambda>_.
            if \<not> maintenance then reconcile_rollout env rc pendingResizePVCs else ret True)
          else ret True) (\<lambda>go.
     if \<not> go then ret () else reconcile_sentinels env rc rt maintenance))))"

definition reconcile :: "env \<Rightarrow> ClusterReconciler \<Rightarrow> runtime \<Rightarrow> (RedisCluster, int) io" where
  "reconcile env rc rt =
     bnd (wrap_err ''reconciling global resources'' (reconcileGlobalResources env)) (\<lambda>_.
     bnd (wrap_err ''reconciling hibernation'' (reconcileHibernation env)) (\<lambda>hibernating.
     if hibernating then ret requeueInterval
     else
       bnd (wrap_err ''reconciling maintenance'' (reconcileMaintenance env)) (\<lambda>maintenance.
       bnd (reconcile_observe env rt) (\<lambda>statuses.
       bnd (reconcile_topology env rt maintenance statuses) (\<lambda>formed.
       if \<not> formed then ret requeueInterval
       else
         bnd (reconcile_primary env maintenance statuses) (\<lambda>go.
         if \<not> go then ret requeueInterval
         else bnd (reconcile_workload env rc rt maintenance statuses) (\<lambda>_. ret requeueInterval)))))))"

text \<open>
  The entry point. A cluster that is gone is no error, and is not looked at again; the duration of
  every other reconciliation is recorded, whether it succeeds or not. A panic is not caught here.
\<close>

definition Reconcile :: "env \<Rightarrow> ClusterReconciler \<Rightarrow> runtime \<Rightarrow> string \<Rightarrow> string \<Rightarrow> (RedisCluster, int) io" where
  "Reconcile env rc rt namespace name =
     bnd (attempt (get_cluster env namespace name)) (\<lambda>r.
     case r of
       Inl e \<Rightarrow> if IsNotFound e then ret 0 else throw e
     | Inr cluster \<Rightarrow>
         bnd (observe cluster) (\<lambda>_.
         bnd (if st_Phase (c_Status cluster) = []
              then eventf Normal ''Creating'' ''Cluster reconciliation started'' else ret ()) (\<lambda>_.
         bnd (attempt (reconcile env rc rt)) (\<lambda>r.
         case r of
           Inl e \<Rightarrow>
             bnd (eventf Warning ''ReconciliationFailed'' (''Reconciliation failed: '' @ error_text e)) (\<lambda>_.
             bnd obj (\<lambda>cluster. bnd (observeReconcileDurationMetric cluster) (\<lambda>_. throw e)))
         | Inr result \<Rightarrow> bnd obj (\<lambda>cluster. bnd (observeReconcileDurationMetric cluster) (\<lambda>_. ret result))))))"

section \<open>Facts\<close>

text \<open>The global resources do not touch the cluster in memory.\<close>

lemma keeps_reconcileGlobalResources: "keeps (reconcileGlobalResources env)"
  unfolding reconcileGlobalResources_def reconcileServiceAccount_def reconcileRBAC_def reconcile_role_def
    reconcile_role_binding_def adopt_meta_def reconcileConfigMap_def reconcilePDB_def deletePDB_def Let_def
  by (intro keeps_intros)

lemma reconcileMaintenance_result:
  "reconcileMaintenance env w = (Inr a, w') \<Longrightarrow> a = isMaintenanceInProgress (w_obj w)"
  by (auto simp: reconcileMaintenance_def bnd_def obj_def ret_def Let_def split: prod.splits sum.splits if_splits)

lemma reconcileHibernation_awake:
  "\<not> isHibernationEnabled (w_obj w) \<Longrightarrow> \<not> wasHibernated (w_obj w) \<Longrightarrow> reconcileHibernation env w = (Inr False, w)"
  by (simp add: reconcileHibernation_def bnd_def obj_def ret_def)

lemma reconcileHibernation_result:
  "isHibernationEnabled (w_obj w) \<Longrightarrow> reconcileHibernation env w = (Inr a, w') \<Longrightarrow> a"
  by (auto simp: reconcileHibernation_def hibernate_def bnd_def obj_def ret_def split: prod.splits sum.splits if_splits)

text \<open>A call that asks nothing of an instance but its status.\<close>

definition calm :: "call \<Rightarrow> bool" where
  "calm c = (case c of Http m ip path body \<Rightarrow> m = ''GET'' | RedisDo addr args \<Rightarrow> False | _ \<Rightarrow> True)"

lemma calm_simps [simp]:
  "calm (Get k ns n)" "calm (ListOf k ns sel)" "calm (Create x)" "calm (Patch lock x y)" "calm (StatusPatch x y)"
  "calm (Update x)" "calm (Delete k ns n)" "calm (Event a b d)" "calm (Metric n)" "calm Clock" "calm (Observed x)"
  "calm (Http ''GET'' ip path body)"
  by (simp_all add: calm_def)

lemma calm_service_call: "service_call c \<Longrightarrow> calm c"
  by (cases c) auto

text \<open>A call that may happen while a cluster sleeps.\<close>

definition asleep :: "call \<Rightarrow> bool" where
  "asleep c = (case c of
     Http m ip path body \<Rightarrow> False
   | RedisDo addr args \<Rightarrow> False
   | Create x \<Rightarrow> kind_of x \<in> {KServiceAccount, KRole, KRoleBinding, KConfigMap, KPDB}
   | Delete k ns name \<Rightarrow> k \<in> {KPod, KRoleBinding, KPDB}
   | _ \<Rightarrow> True)"

lemma asleep_simps [simp]:
  "asleep (Get k ns n)" "asleep (ListOf k ns sel)" "asleep (Patch lock x y)" "asleep (StatusPatch x y)"
  "asleep (Update x)" "asleep (Event a b d)" "asleep Clock" "asleep (Observed x)"
  "asleep (Create (OServiceAccount a1))" "asleep (Create (ORole a2))" "asleep (Create (ORoleBinding a3))"
  "asleep (Create (OConfigMap a4))" "asleep (Create (OPDB a5))"
  "asleep (Delete KPod ns n)" "asleep (Delete KRoleBinding ns n)" "asleep (Delete KPDB ns n)"
  by (simp_all add: asleep_def)

lemma issues_global_asleep: "issues asleep (reconcileGlobalResources env)"
  unfolding reconcileGlobalResources_def reconcileServiceAccount_def reconcileRBAC_def reconcile_role_def
    reconcile_role_binding_def adopt_meta_def reconcileConfigMap_def reconcilePDB_def deletePDB_def Let_def
  by (intro issues_intros; simp)

lemma issues_clearLeader_asleep: "issues asleep (clearLeaderServiceSelector env)"
  unfolding clearLeaderServiceSelector_def patch_service_def by (intro issues_intros; simp)

lemma issues_hibernate_asleep: "issues asleep (hibernate env cluster)"
  unfolding hibernate_def delete_pod_def listClusterPods_def
  by (intro issues_intros issues_clearLeader_asleep; simp)

text \<open>The steps that run during maintenance are calm.\<close>

lemma calm_mono: "issues asleep m \<Longrightarrow> issues calm m"
  by (erule issues_mono) (simp add: asleep_def calm_def split: call.splits)

lemma issues_resume_calm: "issues calm (reconcileHibernation env)"
  unfolding reconcileHibernation_def
  by (intro issues_intros calm_mono [OF issues_hibernate_asleep]; simp)

lemma issues_maintenance_calm: "issues calm (reconcileMaintenance env)"
  unfolding reconcileMaintenance_def deletePDB_def Let_def by (intro issues_intros; simp)

lemma issues_secret_versions_calm: "issues calm (secret_versions env ns refs vs)"
  by (induction refs arbitrary: vs) (auto intro!: issues_intros)

lemma issues_secrets_calm: "issues calm (reconcileSecrets env r1 r2)"
  unfolding reconcileSecrets_def ensureAuthSecret_def rotation_event_def Let_def
  by (intro issues_intros issues_secret_versions_calm; simp)

lemma issues_connection_calm: "issues calm (reconcileConnectionSecret env)"
  unfolding reconcileConnectionSecret_def ensureConnectionSecret_def resolveAuthPassword_def pruneConnectionSecrets_def
    prune_one_def Let_def
  by (intro issues_intros; simp)

lemma issues_case_reply:
  "(\<And>s. issues P (f s)) \<Longrightarrow> (\<And>b. issues P (h b)) \<Longrightarrow> (\<And>x. issues P (g x)) \<Longrightarrow>
   issues P (case r of StatusReply s \<Rightarrow> f s | BackupReply b \<Rightarrow> h b | TextReply x \<Rightarrow> g x)"
  by (cases r) simp_all

lemma issues_poll_calm: "issues calm (poll_pods env pods statuses)"
  by (induction pods arbitrary: statuses)
     (auto simp: pollPodStatus_def Let_def intro!: issues_case_reply issues_intros)

lemma issues_status_calm: "issues calm (updateStatus env rng statuses)"
  unfolding updateStatus_def update_shards_def countReadySentinelPods_def patch_status_since_def listDataPods_def
    listClusterPods_def listSentinelPods_def Let_def
  by (intro issues_intros; simp)

lemma issues_observe_calm: "issues calm (reconcile_observe env rt)"
  unfolding reconcile_observe_def pollInstanceStatuses_def listDataPods_def listClusterPods_def
    setClusterInstancesMetrics_def setClusterPhaseMetric_def record_samples_def Let_def
  by (intro issues_intros issues_secrets_calm issues_connection_calm issues_status_calm issues_poll_calm
      issues_mono [OF issues_reconcileServices calm_service_call]; simp)

lemma issues_promotion_calm: "issues calm (reconcileReplicaModePromotion env statuses)"
  unfolding reconcileReplicaModePromotion_def record_promotion_def by (intro issues_intros; simp)

lemma issues_volumes_calm: "issues calm (reconcilePVCs env)"
proof -
  have scan: "issues calm (scan_pvcs env cluster is acc)" for cluster "is" acc
  proof (induction "is" arbitrary: acc)
    case (Cons i "is")
    have "issues calm (scan_pvc env cluster i acc)" for acc
      unfolding scan_pvc_def createPVC_def expand_pvc_def patch_pvc_def canExpandPVC_def Let_def
      by (intro issues_intros; simp)
    with Cons show ?case by (auto intro!: issues_bnd)
  qed (simp add: issues_ret)
  show ?thesis
    unfolding reconcilePVCs_def listClusterPVCs_def listClusterPods_def Let_def
    by (intro issues_intros scan; simp)
qed

lemma issues_recycle_calm: "issues calm (recyclePVCsForMissingPods env)"
  unfolding recyclePVCsForMissingPods_def recycle_pvc_def listDataPods_def listClusterPods_def Let_def
  by (intro issues_intros; simp)

lemma issues_pods_calm: "issues calm (reconcilePods env img rng statuses)"
  unfolding reconcilePods_def ensure_pod_def createPodWithLabels_def adopt_pod_def init_containers_def
    getBootstrapBackup_def listDataPods_def listClusterPods_def Let_def
  by (intro issues_intros issues_scale_down; simp)

lemma issues_workload_calm: "issues calm (reconcile_workload env rc rt True statuses)"
  unfolding reconcile_workload_def reconcile_sentinels_def Let_def
  by (intro issues_intros issues_recycle_calm issues_volumes_calm issues_pods_calm; simp)

text \<open>Forming a cluster asks the instances and leaves the object in memory alone.\<close>

lemma keeps_post [keeps_intros]: "keeps (postClusterJSON env ip path body)"
  unfolding postClusterJSON_def Let_def by (intro keeps_intros)

lemma keeps_assign_slots: "keeps (assign_slots env pods layout xs acc)"
proof (induction xs arbitrary: acc)
  case (Cons x xs)
  have add: "keeps (add_slot_ranges env n ip rs acc)" for n ip rs acc
    by (induction rs arbitrary: acc) (auto intro!: keeps_intros)
  show ?case unfolding assign_slots.simps Let_def by (intro keeps_intros Cons add)
qed (simp add: keeps_basic)

lemma keeps_attach_replicas: "keeps (attach_replicas env pods layout statuses names performed)"
  by (induction names arbitrary: performed) (auto simp: Let_def intro!: keeps_intros)

lemma keeps_form_cluster: "keeps (form_cluster env rng cluster pods statuses)"
  unfolding form_cluster_def meet_nodes_def Let_def
  by (intro keeps_intros keeps_assign_slots keeps_attach_replicas)

lemma form_cluster_done:
  "form_cluster env rng cluster pods statuses w = (Inr True, w') \<Longrightarrow>
   st_ClusterState (c_Status cluster) = ''ok'' \<and> st_SlotsAssigned (c_Status cluster) = 16384"
  by (auto simp: form_cluster_def bnd_def ret_def throw_def Let_def
      split: prod.splits sum.splits option.splits if_splits)

lemma listDataPods_bnd:
  assumes "\<forall>l. e_list env l KPod (c_Namespace c) [(LabelCluster, c_Name c)] = Inr items"
  shows "bnd (wrap_err msg (listDataPods env c)) f w =
    f (data_pods items) (logged (ListOf KPod (c_Namespace c) [(LabelCluster, c_Name c)]) True w)"
  using assms by (simp add: bnd_def wrap_err_def listDataPods_run)

text \<open>The bootstrap of a cluster without a pending handover.\<close>

lemma bootstrap_run:
  assumes "\<forall>l. e_list env l KPod (c_Namespace (w_obj w)) [(LabelCluster, c_Name (w_obj w))] = Inr items"
    and "mget [] (c_Annotations (w_obj w)) ClusterHandoverAnnotation = []"
    and "0 < DesiredDataInstances (c_Spec (w_obj w))"
    and "DesiredDataInstances (c_Spec (w_obj w)) \<le> int (length (data_pods items))"
  shows "reconcileClusterBootstrap env rng statuses w =
    (if list_all (\<lambda>name. ip_of (data_pods items) name \<noteq> [] \<and> node_ready statuses name) (expected_names (w_obj w))
     then form_cluster env rng (w_obj w) (data_pods items) statuses else ret True)
    (logged (ListOf KPod (c_Namespace (w_obj w)) [(LabelCluster, c_Name (w_obj w))]) True w)"
  using assms(2-4) by (simp add: reconcileClusterBootstrap_def bnd_obj listDataPods_bnd [OF assms(1)] Let_def)

lemma wrap_err_Inr: "wrap_err msg m w = (Inr a, w') \<longleftrightarrow> m w = (Inr a, w')"
  by (auto simp: wrap_err_def split: prod.splits sum.splits)

lemma assign_slots_covered:
  "\<forall>x \<in> set xs. primaryName layout (fst x) \<noteq> [] \<and> calculateUncoveredSlotRanges (snd x) cov = [] \<Longrightarrow>
   assign_slots env pods layout xs (cov, b) = ret (Some b)"
  by (induction xs) (simp_all add: bnd_ret Let_def)

text \<open>A pod that needs no request: it is no replica to attach, or follows its primary.\<close>

definition settled :: "shardLayout \<Rightarrow> (string, InstanceStatus) gomap \<Rightarrow> string \<Rightarrow> bool" where
  "settled layout statuses name \<longleftrightarrow>
     (let status = mget zero_InstanceStatus statuses name;
          node = is_NodeID (mget zero_InstanceStatus statuses (primaryName layout (replica_shard layout name))) in
      skips_replica layout statuses name \<or> node \<noteq> [] \<and> is_Role status = ''slave'' \<and> is_PrimaryNodeID status = node)"

lemma attach_replicas_settled:
  "\<forall>n \<in> set names. settled layout statuses n \<Longrightarrow> attach_replicas env pods layout statuses names b = ret (Some b)"
  by (induction names) (auto simp: settled_def Let_def)

lemma reshard_run:
  assumes "\<forall>l. e_list env l KPod (c_Namespace (w_obj w)) [(LabelCluster, c_Name (w_obj w))] = Inr items"
    and "reshard_due (w_obj w) statuses"
    and "planShardLayout rng (Some (w_obj w)) (data_pods items) statuses = Some layout"
    and "[] \<notin> set (planned_primaries (w_obj w) layout)"
    and "list_all (\<lambda>p. node_ready statuses p \<and> ip_of (data_pods items) p \<noteq> []) (planned_primaries (w_obj w) layout)"
    and "first_segment (slotOwnerArray statuses) (planned_targets (w_obj w) layout) = None"
  shows "\<exists>w'. reconcileClusterReshard env rng statuses w = (Inr True, w')"
  using assms(2-6) by (simp add: reconcileClusterReshard_def bnd_obj listDataPods_bnd [OF assms(1)] ret_def)

lemma form_cluster_run:
  assumes "\<forall>l ip path body. e_http env l ''POST'' ip path body = Inr (200, TextReply [])"
    and "ip_of pods (hd (expected_names cluster)) \<noteq> []"
    and "planShardLayout rng (Some cluster) pods statuses = Some layout"
    and "[] \<notin> set (planned_primaries cluster layout)" and "{0..16383} \<subseteq> served_slots statuses"
    and "list_all (settled layout statuses) (expected_names cluster)"
    and "st_ClusterState (c_Status cluster) = ''ok''" "st_SlotsAssigned (c_Status cluster) = 16384"
  shows "\<exists>w'. form_cluster env rng cluster pods statuses w = (Inr True, w')"
proof -
  let ?xs = "zip [0..desiredShardCount cluster - 1] (calculateClusterSlotRanges (desiredShardCount cluster))"
  have "primaryName layout i \<noteq> []" if "i \<in> set [0..desiredShardCount cluster - 1]" for i
    using that assms(4) by (force simp: planned_primaries_def)
  then have "\<forall>x \<in> set ?xs. primaryName layout (fst x) \<noteq> [] \<and>
      calculateUncoveredSlotRanges (snd x) (calculateSlotCoverage statuses) = []"
    using uncovered_none [OF assms(5)] by (auto dest: set_zip_leftD)
  note assign = assign_slots_covered [OF this]
  have attach: "attach_replicas env pods layout statuses (expected_names cluster) b = ret (Some b)" for b
    using assms(6) by (intro attach_replicas_settled) (simp add: list_all_iff)
  have "wp (meet_nodes env pods (expected_names cluster)) (\<lambda>_ _. True) (\<lambda>_ _. False) w"
    unfolding meet_nodes_def Let_def
    by (rule wp_for_each) (use assms(1,2) in \<open>simp_all add: postClusterJSON_def wp_simps Let_def\<close>)
  then have "wp (form_cluster env rng cluster pods statuses) (\<lambda>r _. r) (\<lambda>_ _. False) w"
    unfolding form_cluster_def Let_def wp_bnd [of "meet_nodes _ _ _"]
    by (rule wp_mono) (simp_all add: assms(3,7,8) assign attach bnd_ret wp_ret)
  then show ?thesis by (auto dest!: wp_run)
qed

text \<open>What holds of every result of the last step holds of the whole sequence.\<close>

lemma wp_then_any: "(\<And>a w. wp (f a) Q (\<lambda>_ _. True) w) \<Longrightarrow> wp (bnd m f) Q (\<lambda>_ _. True) w"
  by (simp add: wp_bnd) (simp add: wp_def split: prod.split sum.split)

lemma wp_then:
  "wp m P (\<lambda>_ _. True) w \<Longrightarrow> (\<And>a w. P a w \<Longrightarrow> wp (f a) Q (\<lambda>_ _. True) w) \<Longrightarrow> wp (bnd m f) Q (\<lambda>_ _. True) w"
  unfolding wp_bnd by (rule wp_mono)

lemma wp_reconcile_requeue: "wp (reconcile env rc rt) (\<lambda>r _. r = requeueInterval) (\<lambda>_ _. True) w"
  unfolding reconcile_def by (auto simp: wp_ret intro!: wp_then_any)

section \<open>Properties\<close>


text \<open>
  C12. A maintenance window suspends every change of roles: while it is open, a reconciliation sends
  no request to an instance manager other than status polls and no command to a Sentinel, so that
  there is no failover, no promotion, no switchover and no resharding, whatever the API server and
  the instances answer.
\<close>

theorem maintenance_changes_no_roles:
  assumes "isMaintenanceInProgress (w_obj w)" and "\<not> wasHibernated (w_obj w)"
  shows "footprint calm (reconcile env rc rt) w"
  unfolding reconcile_def
proof (rule footprint_bnd, goal_cases)
  case 1
  show ?case by (intro footprint_issues issues_wrap_err calm_mono [OF issues_global_asleep])
next
  case (2 u w1)
  then have w1: "w_obj w1 = w_obj w"
    by (rule keepsD [OF keeps_wrap_err [OF keeps_reconcileGlobalResources]])
  have same: "w_obj w2 = w_obj w" if "wrap_err msg (reconcileHibernation env) w1 = (Inr False, w2)" for msg w2
  proof (cases "isHibernationEnabled (w_obj w1)")
    case True
    with that show ?thesis
      using reconcileHibernation_result [OF True] by (auto simp: wrap_err_def split: prod.splits sum.splits)
  next
    case False
    with that show ?thesis
      using reconcileHibernation_awake [of w1 env] assms(2) w1 by (simp add: wrap_err_def)
  qed
  have on: "maintenance" if "wrap_err msg (reconcileMaintenance env) w2 = (Inr maintenance, w3)" "w_obj w2 = w_obj w"
    for msg maintenance w2 w3
    using that assms(1) reconcileMaintenance_result [of env w2 maintenance w3]
    by (auto simp: wrap_err_def split: prod.splits sum.splits)
  have rest: "issues calm (bnd (reconcile_observe env rt) (\<lambda>statuses.
      bnd (reconcile_topology env rt True statuses) (\<lambda>formed.
      if \<not> formed then ret requeueInterval
      else bnd (reconcile_primary env True statuses) (\<lambda>go.
        if \<not> go then ret requeueInterval
        else bnd (reconcile_workload env rc rt True statuses) (\<lambda>_. ret requeueInterval)))))"
    unfolding reconcile_topology_def reconcile_primary_def
    by (intro issues_intros issues_observe_calm issues_promotion_calm issues_workload_calm; simp)
  show ?case
  proof (rule footprint_bnd, goal_cases)
    case 1
    show ?case by (intro footprint_issues issues_wrap_err issues_resume_calm)
  next
    case (2 hibernating w2)
    show ?case
    proof (rule footprint_if [OF footprint_ret], rule footprint_bnd, goal_cases)
      case 1
      show ?case by (intro footprint_issues issues_wrap_err issues_maintenance_calm)
    next
      case (2 maintenance w3)
      have "w_obj w2 = w_obj w"
        using \<open>\<not> hibernating\<close> \<open>wrap_err _ _ w1 = (Inr hibernating, w2)\<close> same by (cases hibernating) auto
      with 2 on have "maintenance = True" by blast
      then show ?case using footprint_issues [OF rest] by (simp only:)
    qed
  qed
qed

definition sample_runtime :: runtime where
  "sample_runtime = \<lparr>rt_shards = (\<lambda>m. m), rt_refs = (\<lambda>m. m), rt_versions = (\<lambda>m. m), rt_pem = (\<lambda>_. True)\<rparr>"


theorem maintenance_changes_no_roles_witness:
  "footprint calm (reconcile (sample_env sample_pods) (NewClusterReconciler [] 0) sample_runtime) (sample_world maintained_cluster)"
proof -
  have "isMaintenanceInProgress (w_obj (sample_world maintained_cluster))"
    "\<not> wasHibernated (w_obj (sample_world maintained_cluster))" by code_simp+
  then show ?thesis by (rule maintenance_changes_no_roles)
qed


text \<open>The scale-in of the earlier examples with all pods reachable and every replica with its primary.\<close>

definition settled_statuses :: "(string, InstanceStatus) gomap" where
  "settled_statuses =
     [(''r-0'', scaled_node ''master'' ''n0'' [] [\<lparr>Start = 0, End = 5461\<rparr>]),
      (''r-1'', scaled_node ''master'' ''n1'' [] [\<lparr>Start = 5462, End = 10922\<rparr>]),
      (''r-2'', scaled_node ''master'' ''n2'' [] [\<lparr>Start = 10923, End = 16383\<rparr>]),
      (''r-3'', scaled_node ''slave'' ''n3'' ''n0'' []), (''r-4'', scaled_node ''slave'' ''n4'' ''n1'' []),
      (''r-5'', scaled_node ''slave'' ''n5'' ''n2'' []), (''r-6'', scaled_node ''slave'' ''n6'' ''n0'' [])]"

definition settled_pods :: "Pod list" where
  "settled_pods = map (\<lambda>name. sample_pod name ''10.0.0.1'' [] True)
     [''r-0'', ''r-1'', ''r-2'', ''r-3'', ''r-4'', ''r-5'', ''r-6'']"

lemma settled_run:
  "\<exists>w'. reconcile_topology (sample_env (map OPod settled_pods)) sample_runtime False settled_statuses
     (sample_world drained_cluster) = (Inr True, w')"
proof -
  let ?env = "sample_env (map OPod settled_pods)" and ?w = "sample_world drained_cluster"
  have pods: "data_pods (map OPod settled_pods) = settled_pods"
    by (simp add: data_pods_def settled_pods_def List.map_filter_simps isDataPod_def sample_pod_def new_meta_def)
  have list: "\<forall>l. e_list ?env l KPod (c_Namespace drained_cluster) [(LabelCluster, c_Name drained_cluster)] = Inr (map OPod settled_pods)"
    by (simp add: sample_env_def comp_def)
  have "map_option (\<lambda>l. (planned_primaries drained_cluster l, list_all (settled l settled_statuses) (expected_names drained_cluster)))
      (planShardLayout (\<lambda>m. m) (Some drained_cluster) settled_pods settled_statuses) = Some ([''r-0'', ''r-1'', ''r-2''], True)"
    by code_simp
  then obtain layout where plan: "planShardLayout (\<lambda>m. m) (Some drained_cluster) settled_pods settled_statuses = Some layout"
    and primaries: "planned_primaries drained_cluster layout = [''r-0'', ''r-1'', ''r-2'']"
    and settled: "list_all (settled layout settled_statuses) (expected_names drained_cluster)" by auto
  have owners: "slotOwnerArray settled_statuses x = slotOwnerArray drained_statuses x" for x
    by (auto simp: slotOwnerArray_def settled_statuses_def drained_statuses_def uneven_statuses_def scaled_node_def
        sample_instance_def zero_InstanceStatus_def own_range_eq)
  have ranges: "calculateClusterSlotRanges 3 =
      [\<lparr>Start = 0, End = 5461\<rparr>, \<lparr>Start = 5462, End = 10922\<rparr>, \<lparr>Start = 10923, End = 16383\<rparr>]" by code_simp
  have none: "first_segment (slotOwnerArray settled_statuses) (planned_targets drained_cluster layout) = None"
    by (simp add: planned_targets_def primaries ranges next_segment_owned owners drained_owners)
  have served: "{0..16383} \<subseteq> served_slots settled_statuses"
    by (auto simp: served_slots_def slots_of_list_def slots_of_def settled_statuses_def scaled_node_def)
  have ready: "list_all (\<lambda>p. node_ready settled_statuses p \<and> ip_of settled_pods p \<noteq> []) [''r-0'', ''r-1'', ''r-2'']"
    "list_all (\<lambda>name. ip_of settled_pods name \<noteq> [] \<and> node_ready settled_statuses name) (expected_names drained_cluster)"
    "reshard_due drained_cluster settled_statuses" "ip_of settled_pods (hd (expected_names drained_cluster)) \<noteq> []"
    "0 < DesiredDataInstances (c_Spec drained_cluster)" "DesiredDataInstances (c_Spec drained_cluster) \<le> int (length settled_pods)"
    "mget [] (c_Annotations drained_cluster) ClusterHandoverAnnotation = []" "s_Mode (c_Spec drained_cluster) = ClusterModeCluster"
    "st_ClusterState (c_Status drained_cluster) = ''ok''" "st_SlotsAssigned (c_Status drained_cluster) = 16384"
    by code_simp+
  let ?w1 = "logged (ListOf KPod (c_Namespace drained_cluster) [(LabelCluster, c_Name drained_cluster)]) True ?w"
  obtain w2 where form: "form_cluster ?env (\<lambda>m. m) drained_cluster settled_pods settled_statuses ?w1 = (Inr True, w2)"
    using form_cluster_run [OF _ ready(4) plan _ served settled ready(9,10), of ?env ?w1] primaries
    by (auto simp: sample_env_def)
  have same: "w_obj w2 = drained_cluster"
    using keepsD [OF keeps_form_cluster form] by (simp add: logged_def sample_world_def)
  obtain w3 where "reconcileClusterReshard ?env (\<lambda>m. m) settled_statuses w2 = (Inr True, w3)"
    using reshard_run [of ?env w2 "map OPod settled_pods" settled_statuses "\<lambda>m. m" layout] list ready(1,3) plan primaries none
    by (auto simp: same pods)
  moreover have "reconcileClusterBootstrap ?env (\<lambda>m. m) settled_statuses ?w = (Inr True, w2)"
    using bootstrap_run [of ?env ?w "map OPod settled_pods" "\<lambda>m. m" settled_statuses] list ready(2,5,6,7) form
    by (simp add: sample_world_def pods)
  ultimately show ?thesis
    using ready(8) by (simp add: reconcile_topology_def bnd_obj sample_runtime_def)
      (simp add: bnd_def wrap_err_def sample_world_def)
qed


text \<open>
  C13. Where that protection ends. In a cluster that is one instance too large, when an expected
  node has no address or no reachable server while the recorded slots are incomplete (the node's
  own slots are not reported), bootstrap and resharding both let the reconciliation go on without a
  single request to a node, and the scale-down deletes the pod of the highest index, whatever slots
  it serves.
\<close>

theorem scale_in_gate_open:
  assumes "\<forall>l. e_list env l KPod (c_Namespace (w_obj w)) [(LabelCluster, c_Name (w_obj w))] = Inr items"
    and "mget [] (c_Annotations (w_obj w)) ClusterHandoverAnnotation = []"
    and "0 < DesiredDataInstances (c_Spec (w_obj w))"
    and "int (length (data_pods items)) = DesiredDataInstances (c_Spec (w_obj w)) + 1"
    and "\<not> list_all (\<lambda>name. ip_of (data_pods items) name \<noteq> [] \<and> node_ready statuses name) (expected_names (w_obj w))"
    and "st_SlotsAssigned (c_Status (w_obj w)) < 16384"
    and "\<forall>q \<in> set (data_pods items). podIndex (c_Name (w_obj w)) (p_Name q) \<noteq> None"
    and "p \<in> set (data_pods items)" "p_Name p \<noteq> st_CurrentPrimary (c_Status (w_obj w))"
    and "\<forall>q \<in> set (data_pods items). q \<noteq> p \<longrightarrow> index_of (w_obj w) (p_Name q) < index_of (w_obj w) (p_Name p)"
  shows "reconcile_topology env rt False statuses w =
      (Inr True, if s_Mode (c_Spec (w_obj w)) = ClusterModeCluster
        then logged (ListOf KPod (c_Namespace (w_obj w)) [(LabelCluster, c_Name (w_obj w))]) True w else w) \<and>
    Delete KPod (om_Namespace (p_Meta p)) (p_Name p) \<in>
      fst ` set (w_log (snd (scale_down env (w_obj w) (data_pods items) (DesiredDataInstances (c_Spec (w_obj w))) w)))"
proof
  let ?w = "logged (ListOf KPod (c_Namespace (w_obj w)) [(LabelCluster, c_Name (w_obj w))]) True w"
  have "reconcileClusterBootstrap env (rt_shards rt) statuses w = (Inr True, ?w)"
    using bootstrap_run [OF assms(1-3), of "rt_shards rt" statuses] assms(4,5) by (simp add: ret_def)
  moreover have "reconcileClusterReshard env (rt_shards rt) statuses ?w = (Inr True, ?w)"
    using assms(6) by (simp add: reconcileClusterReshard_def bnd_obj reshard_due_def ret_def logged_def)
  ultimately show "reconcile_topology env rt False statuses w =
      (Inr True, if s_Mode (c_Spec (w_obj w)) = ClusterModeCluster then ?w else w)"
    by (simp add: reconcile_topology_def bnd_obj) (simp add: bnd_def wrap_err_def ret_def)
next
  have "take (Suc 0) (sort_key (\<lambda>p. - index_of (w_obj w) (p_Name p)) (data_pods items)) = [p]"
    using assms(8,10) by (intro take_1_sort_key) auto
  moreover have "\<not> list_ex (\<lambda>q. podIndex (c_Name (w_obj w)) (p_Name q) = None) (data_pods items)"
    using assms(7) by (auto simp: list_ex_iff)
  ultimately show "Delete KPod (om_Namespace (p_Meta p)) (p_Name p) \<in>
      fst ` set (w_log (snd (scale_down env (w_obj w) (data_pods items) (DesiredDataInstances (c_Spec (w_obj w))) w)))"
    using assms(3,4,9)
    by (simp add: scale_down_def sortByIndexDesc_def Let_def bnd_def eventf_def delete_pod_def delete_def attempt_def
        perform_def ret_def throw_def logged_def image_iff split: option.split sum.split)
qed

text \<open>The first pod is being rescheduled while the surplus pod still serves the last two thousand slots.\<close>

definition gap_cluster :: RedisCluster where
  "gap_cluster = on_status (\<lambda>st. st\<lparr>st_ClusterState := ''fail'', st_SlotsAssigned := 10922\<rparr>) scaled_cluster"

definition gap_pods :: "Pod list" where
  "gap_pods = sample_pod ''r-0'' [] [] False # map (\<lambda>name. sample_pod name ''10.0.0.1'' [] True)
     [''r-1'', ''r-2'', ''r-3'', ''r-4'', ''r-5'', ''r-6'']"

definition gap_statuses :: "(string, InstanceStatus) gomap" where
  "gap_statuses =
     [(''r-1'', scaled_node ''master'' ''n1'' [] [\<lparr>Start = 5462, End = 10922\<rparr>]),
      (''r-2'', scaled_node ''master'' ''n2'' [] [\<lparr>Start = 10923, End = 14383\<rparr>]),
      (''r-3'', scaled_node ''slave'' ''n3'' ''n0'' []), (''r-4'', scaled_node ''slave'' ''n4'' ''n1'' []),
      (''r-5'', scaled_node ''slave'' ''n5'' ''n2'' []), (''r-6'', scaled_node ''master'' ''n6'' [] [\<lparr>Start = 14384, End = 16383\<rparr>])]"

theorem scale_in_gate_open_witness:
  "fst (reconcile_topology (sample_env (map OPod gap_pods)) sample_runtime False gap_statuses (sample_world gap_cluster)) = Inr True \<and>
   serves gap_statuses ''r-6'' 16000 \<and>
   Delete KPod ''ns'' ''r-6'' \<in> fst ` set (w_log (snd (scale_down (sample_env (map OPod gap_pods)) gap_cluster gap_pods
     (DesiredDataInstances (c_Spec gap_cluster)) (sample_world gap_cluster))))"
proof -
  let ?env = "sample_env (map OPod gap_pods)" and ?p = "sample_pod ''r-6'' ''10.0.0.1'' [] True"
  have pods: "data_pods (map OPod gap_pods) = gap_pods"
    by (simp add: data_pods_def gap_pods_def List.map_filter_simps isDataPod_def sample_pod_def new_meta_def)
  have "\<not> list_all (\<lambda>name. ip_of gap_pods name \<noteq> [] \<and> node_ready gap_statuses name) (expected_names gap_cluster)"
    "\<forall>q \<in> set gap_pods. podIndex (c_Name gap_cluster) (p_Name q) \<noteq> None"
    "?p \<in> set gap_pods" "p_Name ?p \<noteq> st_CurrentPrimary (c_Status gap_cluster)"
    "\<forall>q \<in> set gap_pods. q \<noteq> ?p \<longrightarrow> index_of gap_cluster (p_Name q) < index_of gap_cluster (p_Name ?p)"
    "0 < DesiredDataInstances (c_Spec gap_cluster)" "st_SlotsAssigned (c_Status gap_cluster) < 16384"
    "int (length gap_pods) = DesiredDataInstances (c_Spec gap_cluster) + 1"
    "mget [] (c_Annotations gap_cluster) ClusterHandoverAnnotation = []"
    "om_Namespace (p_Meta ?p) = ''ns''" "p_Name ?p = ''r-6''"
    by code_simp+
  moreover have "serves gap_statuses ''r-6'' 16000"
    by (simp add: serves_def gap_statuses_def scaled_node_def slots_of_list_def slots_of_def)
  ultimately show ?thesis
    using scale_in_gate_open [of ?env "sample_world gap_cluster" "map OPod gap_pods" gap_statuses ?p sample_runtime]
    by (simp add: sample_world_def pods sample_env_def comp_def)
qed

text \<open>
  What the phase gauge of a cluster shows after an update: one for the recorded phase, zero for
  every other phase the operator knows, and the old value for a phase that is in neither. The
  replicating phase is not among the known ones, so its gauge stays at one after the cluster has
  left it.
\<close>

theorem phase_gauge_values:
  assumes "c_Namespace cluster \<noteq> []" and "c_Name cluster \<noteq> []" and "st_Phase (c_Status cluster) \<noteq> []"
  shows "mget 0 (assign_gauges (clusterPhaseSamples cluster) reg)
      (''redis_cluster_phase'', [c_Namespace cluster, c_Name cluster, p]) =
    (if p = st_Phase (c_Status cluster) then 1
     else if p \<in> set knownClusterPhases then 0
     else mget 0 reg (''redis_cluster_phase'', [c_Namespace cluster, c_Name cluster, p]))"
proof -
  let ?key = "\<lambda>p. (''redis_cluster_phase'', [c_Namespace cluster, c_Name cluster, p])"
  have "mget 0 (fold (\<lambda>q. mput (?key q) 0) qs reg) (?key p) = (if p \<in> set qs then 0 else mget 0 reg (?key p))" for qs
    by (induction qs arbitrary: reg) (auto simp: mget_mput)
  moreover have "assign_gauges (clusterPhaseSamples cluster) reg =
      mput (?key (st_Phase (c_Status cluster))) 1 (fold (\<lambda>q. mput (?key q) 0) knownClusterPhases reg)"
    using assms by (simp add: assign_gauges_def clusterPhaseSamples_def clusterMetricIdentity_def fold_map comp_def)
  ultimately show ?thesis by (simp add: mget_mput)
qed

theorem phase_gauge_values_witness:
  "(let left = c_Status_update (\<lambda>st. st\<lparr>st_Phase := ClusterPhaseHealthy\<rparr>) sample_cluster;
        key = (\<lambda>p. (''redis_cluster_phase'', [c_Namespace sample_cluster, c_Name sample_cluster, p]));
        reg = assign_gauges (clusterPhaseSamples left) [(key ClusterPhaseReplicating, 1)] in
    mget 0 reg (key ClusterPhaseHealthy) = 1 \<and> mget 0 reg (key ClusterPhaseReplicating) = 1)"
  using phase_gauge_values [of "c_Status_update (\<lambda>st. st\<lparr>st_Phase := ClusterPhaseHealthy\<rparr>) sample_cluster"
    "[((''redis_cluster_phase'', [c_Namespace sample_cluster, c_Name sample_cluster, ClusterPhaseReplicating]), 1)]"]
  by (simp add: Let_def knownClusterPhases_def sample_cluster_def mget_def)

text \<open>
  A reconciliation that ends without an error is always scheduled again after the requeue
  interval, on every path through it; only for a cluster that the API server does not know any more
  there is no next time.
\<close>

theorem reconcile_requeues:
  "wp (Reconcile env rc rt namespace name)
     (\<lambda>next_run _. next_run = requeueInterval \<or>
        next_run = 0 \<and> (\<exists>l. e_get env l KCluster namespace name = Inl NotFound))
     (\<lambda>_ _. True) w"
proof -
  have get: "wp (attempt (get_cluster env namespace name))
      (\<lambda>r _. case r of Inl e \<Rightarrow> IsNotFound e \<longrightarrow> (\<exists>l. e_get env l KCluster namespace name = Inl NotFound) | Inr _ \<Rightarrow> True)
      (\<lambda>_ _. True) w"
    by (auto simp: get_cluster_def get_object_def wp_simps wrong_kind_def split: sum.split object.split)
  have again: "wp (attempt (reconcile env rc rt)) (\<lambda>r _. \<forall>d. r = Inr d \<longrightarrow> d = requeueInterval) (\<lambda>_ _. True) w" for w
    unfolding wp_attempt by (rule wp_mono [OF wp_reconcile_requeue]) simp_all
  note steps = wp_then_any [of _ _ "observe _"] wp_then_any [of _ _ "if _ then _ else _"] wp_then [OF again]
    wp_then_any [of _ _ obj] wp_then_any [of _ _ "observeReconcileDurationMetric _"] wp_then_any [of _ _ "eventf _ _ _"]
  show ?thesis
    unfolding Reconcile_def
  proof (rule wp_then [OF get], goal_cases)
    case (1 r w)
    then show ?case by (cases r) (auto simp: wp_ret wp_throw intro!: steps split: sum.split)
  qed
qed

end
