(* ===== verification/Replication.thy ===== *)
theory Replication
  imports Fencing Slots
begin

text \<open>
  The instance manager's view of its Redis server, \<^verbatim>\<open>internal/instance-manager/replication\<close>: the
  commands it sends (role changes, cluster topology, slot migration) and the parsers of the replies to
  \<^verbatim>\<open>INFO replication\<close>, \<^verbatim>\<open>CLUSTER INFO\<close> and \<^verbatim>\<open>CLUSTER NODES\<close>. A client is the address of the server it
  talks to. Redis is not part of the repository: its replies come from the environment, and the format
  in which it prints a node is written out as \<open>print_node\<close> to state that the parser reads it back.
\<close>

section \<open>Splitting text\<close>

text \<open>\<^verbatim>\<open>strings.Split\<close> at a byte that satisfies a predicate; \<^verbatim>\<open>strings.Fields\<close> for white space.\<close>

fun split_on :: "(char \<Rightarrow> bool) \<Rightarrow> string \<Rightarrow> string list" where
  "split_on p [] = [[]]"
| "split_on p (c # s) =
     (if p c then [] # split_on p s
      else case split_on p s of [] \<Rightarrow> [[c]] | w # ws \<Rightarrow> (c # w) # ws)"

definition split_at :: "char \<Rightarrow> string \<Rightarrow> string list" where
  "split_at c = split_on (\<lambda>x. x = c)"

definition Fields :: "string \<Rightarrow> string list" where
  "Fields s = filter (\<lambda>w. w \<noteq> []) (split_on is_space s)"

text \<open>\<^verbatim>\<open>strings.Split(raw, "\r\n")\<close>.\<close>

fun split_crlf :: "string \<Rightarrow> string list" where
  "split_crlf [] = [[]]"
| "split_crlf [c] = [[c]]"
| "split_crlf (c # d # s) =
     (if c = CHR 0x0D \<and> d = CHR 0x0A then [] # split_crlf s
      else case split_crlf (d # s) of [] \<Rightarrow> [[c]] | w # ws \<Rightarrow> (c # w) # ws)"

text \<open>\<^verbatim>\<open>net.SplitHostPort\<close>.\<close>

definition splitHostPort :: "string \<Rightarrow> (string \<times> string) option" where
  "splitHostPort s =
     (if CHR '':'' \<notin> set s then None
      else
        let port = rev (takeWhile (\<lambda>c. c \<noteq> CHR '':'') (rev s)); before = take (length s - length port - 1) s in
        if hd s = CHR ''['' then
          let host = takeWhile (\<lambda>c. c \<noteq> CHR '']'') (tl s) in
          if before = CHR ''['' # host @ '']'' \<and> CHR ''['' \<notin> set host \<and> CHR ''['' \<notin> set port \<and> CHR '']'' \<notin> set port
          then Some (host, port) else None
        else if CHR '':'' \<in> set before \<or> CHR ''['' \<in> set s \<or> CHR '']'' \<in> set s then None
        else Some (before, port))"

section \<open>Commands\<close>

definition redis_err :: "env \<Rightarrow> string \<Rightarrow> string list \<Rightarrow> ('s, unit) io" where
  "redis_err env client args =
     bnd (redis_do env client args) (\<lambda>r. if r = RNil then throw (Err ''redis: nil'') else ret ())"

definition redis_text :: "env \<Rightarrow> string \<Rightarrow> string list \<Rightarrow> ('s, string) io" where
  "redis_text env client args =
     bnd (redis_do env client args) (\<lambda>r.
     case r of RStr s \<Rightarrow> ret s | RNil \<Rightarrow> throw (Err ''redis: nil'') | _ \<Rightarrow> throw (Err ''redis: unexpected reply''))"

definition SetReplicaOf :: "env \<Rightarrow> string \<Rightarrow> string \<Rightarrow> int \<Rightarrow> ('s, unit) io" where
  "SetReplicaOf env client primaryIP port = redis_err env client [''slaveof'', primaryIP, itoa port]"

definition Promote :: "env \<Rightarrow> string \<Rightarrow> ('s, unit) io" where
  "Promote env client = redis_err env client [''slaveof'', ''NO'', ''ONE'']"

definition ClusterFailover :: "env \<Rightarrow> string \<Rightarrow> string \<Rightarrow> ('s, unit) io" where
  "ClusterFailover env client mode = redis_err env client ([''CLUSTER'', ''FAILOVER''] @ (if mode \<noteq> [] then [mode] else []))"

definition ClusterReplicate :: "env \<Rightarrow> string \<Rightarrow> string \<Rightarrow> ('s, unit) io" where
  "ClusterReplicate env client nodeID = redis_err env client [''CLUSTER'', ''REPLICATE'', nodeID]"

definition ClusterMeet :: "env \<Rightarrow> string \<Rightarrow> string \<Rightarrow> int \<Rightarrow> ('s, unit) io" where
  "ClusterMeet env client ip port = redis_err env client [''CLUSTER'', ''MEET'', ip, itoa port]"

definition ClusterAddSlotsRange :: "env \<Rightarrow> string \<Rightarrow> int \<Rightarrow> int \<Rightarrow> ('s, unit) io" where
  "ClusterAddSlotsRange env client a b = redis_err env client [''CLUSTER'', ''ADDSLOTSRANGE'', itoa a, itoa b]"

definition ClusterDelSlotsRange :: "env \<Rightarrow> string \<Rightarrow> int \<Rightarrow> int \<Rightarrow> ('s, unit) io" where
  "ClusterDelSlotsRange env client a b = redis_err env client [''CLUSTER'', ''DELSLOTSRANGE'', itoa a, itoa b]"

definition ClusterSetSlotMigrating :: "env \<Rightarrow> string \<Rightarrow> int \<Rightarrow> string \<Rightarrow> ('s, unit) io" where
  "ClusterSetSlotMigrating env client slot targetNodeID =
     redis_err env client [''CLUSTER'', ''SETSLOT'', itoa slot, ''MIGRATING'', targetNodeID]"

definition ClusterSetSlotImporting :: "env \<Rightarrow> string \<Rightarrow> int \<Rightarrow> string \<Rightarrow> ('s, unit) io" where
  "ClusterSetSlotImporting env client slot sourceNodeID =
     redis_err env client [''CLUSTER'', ''SETSLOT'', itoa slot, ''IMPORTING'', sourceNodeID]"

definition ClusterSetSlotNode :: "env \<Rightarrow> string \<Rightarrow> int \<Rightarrow> string \<Rightarrow> ('s, unit) io" where
  "ClusterSetSlotNode env client slot nodeID = redis_err env client [''CLUSTER'', ''SETSLOT'', itoa slot, ''NODE'', nodeID]"

definition keys_command :: "int \<Rightarrow> int \<Rightarrow> string list" where
  "keys_command slot n = [''CLUSTER'', ''GETKEYSINSLOT'', itoa slot, itoa n]"

fun reply_strings :: "redis_reply list \<Rightarrow> string list option" where
  "reply_strings [] = Some []"
| "reply_strings (RStr s # rs) = map_option (\<lambda>ss. s # ss) (reply_strings rs)"
| "reply_strings (_ # rs) = None"

definition ClusterGetKeysInSlot :: "env \<Rightarrow> string \<Rightarrow> int \<Rightarrow> int \<Rightarrow> ('s, string list) io" where
  "ClusterGetKeysInSlot env client slot n =
     bnd (wrap_err (''CLUSTER GETKEYSINSLOT '' @ itoa slot @ '' '' @ itoa n) (redis_do env client (keys_command slot n))) (\<lambda>r.
     case r of
       RArr vs \<Rightarrow>
         (case reply_strings vs of
            Some keys \<Rightarrow> ret keys
          | None \<Rightarrow> throw (Err ''CLUSTER GETKEYSINSLOT returned non-string key type''))
     | RNil \<Rightarrow> throw (Wrap (''CLUSTER GETKEYSINSLOT '' @ itoa slot @ '' '' @ itoa n) (Err ''redis: nil''))
     | _ \<Rightarrow> throw (Err ''CLUSTER GETKEYSINSLOT returned unexpected type''))"

definition migrate_command :: "string \<Rightarrow> int \<Rightarrow> int \<Rightarrow> string list \<Rightarrow> string list" where
  "migrate_command targetIP targetPort timeoutMillis keys =
     [''MIGRATE'', targetIP, itoa targetPort, [], ''0'', itoa timeoutMillis, ''KEYS''] @ keys"

definition MigrateKeys :: "env \<Rightarrow> string \<Rightarrow> string \<Rightarrow> int \<Rightarrow> int \<Rightarrow> string list \<Rightarrow> ('s, unit) io" where
  "MigrateKeys env client targetIP targetPort timeoutMillis keys =
     (if keys = [] then ret ()
      else wrap_err (''MIGRATE '' @ targetIP @ '':'' @ itoa targetPort @ '' keys='' @ itoa (int (length keys)))
        (redis_err env client (migrate_command targetIP targetPort timeoutMillis keys)))"

section \<open>Replication information\<close>

record Info =
  in_Role :: string
  in_ConnectedReplicas :: int
  in_MasterReplOffset :: int
  in_SlaveReplOffset :: int
  in_MasterLinkStatus :: string
  in_MasterHost :: string
  in_MasterPort :: int
  in_MasterLastIOSecondsAgo :: int

definition zero_Info :: Info where
  "zero_Info = \<lparr>in_Role = [], in_ConnectedReplicas = 0, in_MasterReplOffset = 0, in_SlaveReplOffset = 0,
     in_MasterLinkStatus = [], in_MasterHost = [], in_MasterPort = 0, in_MasterLastIOSecondsAgo = 0\<rparr>"

text \<open>A line of an INFO reply, as key and value; comments, empty lines and other lines have none.\<close>

definition info_line :: "string \<Rightarrow> (string \<times> string) option" where
  "info_line line = (if line = [] \<or> hd line = CHR ''#'' then None else cut (CHR '':'') line)"

definition info_field :: "string \<Rightarrow> Info \<Rightarrow> Info" where
  "info_field line info =
     (case info_line line of
        None \<Rightarrow> info
      | Some (key, val) \<Rightarrow>
          if key = ''role'' then info\<lparr>in_Role := val\<rparr>
          else if key = ''connected_slaves'' then info\<lparr>in_ConnectedReplicas := fst (atoi val)\<rparr>
          else if key = ''master_repl_offset'' then info\<lparr>in_MasterReplOffset := fst (atoi val)\<rparr>
          else if key = ''slave_repl_offset'' then info\<lparr>in_SlaveReplOffset := fst (atoi val)\<rparr>
          else if key = ''master_link_status'' then info\<lparr>in_MasterLinkStatus := val\<rparr>
          else if key = ''master_host'' then info\<lparr>in_MasterHost := val\<rparr>
          else if key = ''master_port'' then info\<lparr>in_MasterPort := fst (atoi val)\<rparr>
          else if key = ''master_last_io_seconds_ago'' then info\<lparr>in_MasterLastIOSecondsAgo := fst (atoi val)\<rparr>
          else info)"

definition parseInfo :: "string \<Rightarrow> Info" where
  "parseInfo raw = fold info_field (split_crlf raw) zero_Info"

definition GetInfo :: "env \<Rightarrow> string \<Rightarrow> ('s, Info) io" where
  "GetInfo env client =
     bnd (wrap_err ''INFO replication'' (redis_text env client [''info'', ''replication''])) (\<lambda>raw. ret (parseInfo raw))"

definition ReplicationOffset :: "env \<Rightarrow> string \<Rightarrow> ('s, int) io" where
  "ReplicationOffset env client =
     bnd (GetInfo env client) (\<lambda>info. ret (if in_Role info = ''master'' then in_MasterReplOffset info else in_SlaveReplOffset info))"

definition IsConnectedToPrimary :: "env \<Rightarrow> string \<Rightarrow> ('s, bool) io" where
  "IsConnectedToPrimary env client = bnd (GetInfo env client) (\<lambda>info. ret (in_MasterLinkStatus info = ''up''))"

section \<open>Cluster information\<close>

record ClusterInfo =
  ci_State :: string
  ci_SlotsAssigned :: int
  ci_KnownNodes :: int
  ci_CurrentEpoch :: int

definition cluster_info_field :: "string \<Rightarrow> ClusterInfo \<Rightarrow> ClusterInfo" where
  "cluster_info_field line info =
     (case info_line line of
        None \<Rightarrow> info
      | Some (key, val) \<Rightarrow>
          if key = ''cluster_state'' then info\<lparr>ci_State := val\<rparr>
          else if key = ''cluster_slots_assigned'' then info\<lparr>ci_SlotsAssigned := fst (parseInt 32 val)\<rparr>
          else if key = ''cluster_known_nodes'' then info\<lparr>ci_KnownNodes := fst (parseInt 32 val)\<rparr>
          else if key = ''cluster_current_epoch'' then info\<lparr>ci_CurrentEpoch := fst (atoi val)\<rparr>
          else info)"

definition parseClusterInfo :: "string \<Rightarrow> ClusterInfo" where
  "parseClusterInfo raw = fold cluster_info_field (split_crlf raw)
     \<lparr>ci_State = [], ci_SlotsAssigned = 0, ci_KnownNodes = 0, ci_CurrentEpoch = 0\<rparr>"

definition GetClusterInfo :: "env \<Rightarrow> string \<Rightarrow> ('s, ClusterInfo) io" where
  "GetClusterInfo env client =
     bnd (wrap_err ''CLUSTER INFO'' (redis_text env client [''cluster'', ''info''])) (\<lambda>raw. ret (parseClusterInfo raw))"

record ClusterNode =
  cn_ID :: string
  cn_IP :: string
  cn_Port :: int
  cn_Flags :: "string list"
  cn_MasterID :: string
  cn_ConfigEpoch :: int
  cn_LinkState :: string
  cn_SlotRanges :: "SlotRange list"

definition parseClusterNodeAddress :: "string \<Rightarrow> string \<times> int" where
  "parseClusterNodeAddress addr =
     (case splitHostPort (hd (split_at (CHR ''@'') addr)) of
        None \<Rightarrow> ([], 0)
      | Some (host, portStr) \<Rightarrow> (host, fst (atoi portStr)))"

definition parseSlotRange :: "string \<Rightarrow> SlotRange option" where
  "parseSlotRange token =
     (if token \<noteq> [] \<and> hd token = CHR ''['' then None
      else
        case cut (CHR ''-'') token of
          None \<Rightarrow> (let (slot, ok) = parseInt 32 token in if ok then Some \<lparr>Start = slot, End = slot\<rparr> else None)
        | Some (a, b) \<Rightarrow>
            (let (x, xok) = parseInt 32 a; (y, yok) = parseInt 32 b in
             if xok \<and> yok then Some \<lparr>Start = x, End = y\<rparr> else None))"

definition parseSlotRanges :: "string list \<Rightarrow> SlotRange list" where
  "parseSlotRanges tokens = List.map_filter parseSlotRange tokens"

definition parseClusterNode :: "string \<Rightarrow> ClusterNode option" where
  "parseClusterNode line =
     (let fs = Fields (trimSpace line) in
      if length fs < 8 then None
      else
        let (ip, port) = parseClusterNodeAddress (fs ! 1) in
        Some \<lparr>cn_ID = fs ! 0, cn_IP = ip, cn_Port = port, cn_Flags = split_at (CHR '','') (fs ! 2), cn_MasterID = fs ! 3,
          cn_ConfigEpoch = fst (atoi (fs ! 6)), cn_LinkState = fs ! 7, cn_SlotRanges = parseSlotRanges (drop 8 fs)\<rparr>)"

definition parseClusterNodes :: "string \<Rightarrow> ClusterNode list" where
  "parseClusterNodes raw = List.map_filter parseClusterNode (split_at (CHR 0x0A) raw)"

definition GetClusterNodes :: "env \<Rightarrow> string \<Rightarrow> ('s, ClusterNode list) io" where
  "GetClusterNodes env client =
     bnd (wrap_err ''CLUSTER NODES'' (redis_text env client [''cluster'', ''nodes''])) (\<lambda>raw. ret (parseClusterNodes raw))"

section \<open>Facts about splitting\<close>

fun unsplit :: "char \<Rightarrow> string list \<Rightarrow> string" where
  "unsplit c [] = []"
| "unsplit c [w] = w"
| "unsplit c (w # ws) = w @ c # unsplit c ws"

lemma split_on_sep: "list_all (\<lambda>x. \<not> p x) w \<Longrightarrow> p c \<Longrightarrow> split_on p (w @ c # s) = w # split_on p s"
  by (induction w) auto

lemma split_on_word: "list_all (\<lambda>x. \<not> p x) w \<Longrightarrow> split_on p w = [w]"
  by (induction w) auto

lemma split_on_unsplit:
  "p c \<Longrightarrow> ws \<noteq> [] \<Longrightarrow> list_all (list_all (\<lambda>x. \<not> p x)) ws \<Longrightarrow> split_on p (unsplit c ws) = ws"
  by (induction c ws rule: unsplit.induct) (simp_all add: split_on_word split_on_sep)

definition word :: "string \<Rightarrow> bool" where
  "word w \<longleftrightarrow> w \<noteq> [] \<and> list_all (\<lambda>c. \<not> is_space c) w"

lemma unsplit_ends:
  "ws \<noteq> [] \<Longrightarrow> list_all word ws \<Longrightarrow>
   unsplit c ws \<noteq> [] \<and> \<not> is_space (hd (unsplit c ws)) \<and> \<not> is_space (last (unsplit c ws))"
proof (induction c ws rule: unsplit.induct)
  case (2 c w)
  then show ?case by (auto simp: word_def list_all_iff)
next
  case (3 c w v vs)
  then show ?case by (auto simp: word_def list_all_iff)
qed simp

lemma trimSpace_id: "s \<noteq> [] \<Longrightarrow> \<not> is_space (hd s) \<Longrightarrow> \<not> is_space (last s) \<Longrightarrow> trimSpace s = s"
  using dropWhile_eq_self_iff [of is_space s] dropWhile_eq_self_iff [of is_space "rev s"]
  by (simp add: trimSpace_def hd_rev)

lemma Fields_unsplit:
  assumes "ws \<noteq> []" "list_all word ws"
  shows "Fields (trimSpace (unsplit (CHR '' '') ws)) = ws"
proof -
  have "trimSpace (unsplit (CHR '' '') ws) = unsplit (CHR '' '') ws"
    using unsplit_ends [OF assms] by (intro trimSpace_id) auto
  moreover have "split_on is_space (unsplit (CHR '' '') ws) = ws"
    using assms by (intro split_on_unsplit) (auto simp: is_space_def word_def list_all_iff)
  moreover have "filter (\<lambda>w. w \<noteq> []) ws = ws" using assms by (auto simp: word_def list_all_iff filter_id_conv)
  ultimately show ?thesis by (simp add: Fields_def)
qed

section \<open>How Redis prints a node\<close>

definition print_range :: "SlotRange \<Rightarrow> string" where
  "print_range r = (if Start r = End r then itoa (Start r) else itoa (Start r) @ CHR ''-'' # itoa (End r))"

text \<open>
  A line of \<^verbatim>\<open>CLUSTER NODES\<close>: identifier, address with the bus port, flags, primary, the times of the
  last ping and pong, epoch, link state and the slots. The bus port and the two times are not read.
\<close>

definition node_words :: "string \<times> string \<times> string \<Rightarrow> ClusterNode \<Rightarrow> string list" where
  "node_words unread n =
     (case unread of (bus, ping, pong) \<Rightarrow>
        [cn_ID n, cn_IP n @ CHR '':'' # itoa (cn_Port n) @ CHR ''@'' # bus, unsplit (CHR '','') (cn_Flags n),
          cn_MasterID n, ping, pong, itoa (cn_ConfigEpoch n), cn_LinkState n] @ map print_range (cn_SlotRanges n))"

definition print_node :: "string \<times> string \<times> string \<Rightarrow> ClusterNode \<Rightarrow> string" where
  "print_node unread n = unsplit (CHR '' '') (node_words unread n)"

definition print_nodes :: "string \<times> string \<times> string \<Rightarrow> ClusterNode list \<Rightarrow> string" where
  "print_nodes unread ns = concat (map (\<lambda>n. print_node unread n @ [CHR 0x0A]) ns)"

definition wf_node :: "ClusterNode \<Rightarrow> bool" where
  "wf_node n \<longleftrightarrow> word (cn_ID n) \<and> word (cn_IP n) \<and> set (cn_IP n) \<inter> {CHR '':'', CHR ''@'', CHR ''['', CHR '']''} = {} \<and>
     0 \<le> cn_Port n \<and> in_int64 (cn_Port n) \<and>
     cn_Flags n \<noteq> [] \<and> list_all (\<lambda>f. word f \<and> CHR '','' \<notin> set f) (cn_Flags n) \<and> word (cn_MasterID n) \<and>
     in_int64 (cn_ConfigEpoch n) \<and> word (cn_LinkState n) \<and>
     list_all (\<lambda>r. 0 \<le> Start r \<and> Start r \<le> End r \<and> in_int32 (End r)) (cn_SlotRanges n)"

lemma itoa_chars: "list_all (\<lambda>c. is_digit c \<or> c = CHR ''-'') (itoa i)"
  using nat_digits_all_digits by (auto simp: itoa_def list_all_iff)

lemma itoa_word: "word (itoa i)"
proof -
  have "\<not> is_space c" if "is_digit c \<or> c = CHR ''-''" for c using that by (auto simp: is_space_def is_digit_def)
  with itoa_chars [of i] show ?thesis by (auto simp: word_def list_all_iff)
qed

lemma itoa_digits: "0 \<le> i \<Longrightarrow> list_all is_digit (itoa i)"
  by (simp add: itoa_def)

lemma parseInt32_itoa: "0 \<le> i \<Longrightarrow> in_int32 i \<Longrightarrow> parseInt 32 (itoa i) = (i, True)"
  by (auto simp: parseInt_def itoa_def in_int32_def Let_def)

lemma cut_append: "sep \<notin> set a \<Longrightarrow> cut sep (a @ sep # b) = Some (a, b)"
  by (simp add: cut_eq_Some)

lemma cut_None: "sep \<notin> set s \<Longrightarrow> cut sep s = None"
  by (simp add: cut_def)

lemma parse_print_range:
  assumes "0 \<le> Start r" "Start r \<le> End r" "in_int32 (End r)"
  shows "parseSlotRange (print_range r) = Some r"
proof -
  have d: "CHR ''-'' \<notin> set (itoa i)" "hd (itoa i) \<noteq> CHR ''[''" if "0 \<le> i" for i
    using itoa_digits [OF that] itoa_nonempty [of i] by (cases "itoa i"; auto simp: list_all_iff is_digit_def)+
  have "in_int32 (Start r)" using assms by (simp add: in_int32_def)
  with assms d [of "Start r"] show ?thesis
    by (cases r) (auto simp: parseSlotRange_def print_range_def cut_append parseInt32_itoa cut_None hd_append)
qed

lemma print_range_word: "word (print_range r)"
  using itoa_word [of "Start r"] itoa_word [of "End r"] by (auto simp: print_range_def word_def is_space_def)

lemma parse_print_ranges:
  "list_all (\<lambda>r. 0 \<le> Start r \<and> Start r \<le> End r \<and> in_int32 (End r)) rs \<Longrightarrow> parseSlotRanges (map print_range rs) = rs"
  by (induction rs) (simp_all add: parseSlotRanges_def List.map_filter_simps parse_print_range)

lemma splitHostPort_plain:
  assumes "h \<noteq> []" "set h \<inter> {CHR '':'', CHR ''['', CHR '']''} = {}" "set p \<inter> {CHR '':'', CHR ''['', CHR '']''} = {}"
  shows "splitHostPort (h @ CHR '':'' # p) = Some (h, p)"
proof -
  have "takeWhile (\<lambda>c. c \<noteq> CHR '':'') (rev p @ CHR '':'' # rev h) = rev p"
    using assms(3) by (subst takeWhile_append2) auto
  then show ?thesis
    using assms by (auto simp: splitHostPort_def Let_def hd_append dest!: hd_in_set)
qed

lemma parse_print_address:
  assumes "wf_node n"
  shows "parseClusterNodeAddress (cn_IP n @ CHR '':'' # itoa (cn_Port n) @ CHR ''@'' # bus) = (cn_IP n, cn_Port n)"
proof -
  have digits: "c \<notin> {CHR '':'', CHR ''['', CHR '']'', CHR ''@''}" if "c \<in> set (itoa (cn_Port n))" for c
    using that itoa_digits [of "cn_Port n"] assms by (auto simp: wf_node_def list_all_iff is_digit_def)
  have "split_at (CHR ''@'') ((cn_IP n @ CHR '':'' # itoa (cn_Port n)) @ CHR ''@'' # bus) =
      (cn_IP n @ CHR '':'' # itoa (cn_Port n)) # split_at (CHR ''@'') bus"
    unfolding split_at_def by (rule split_on_sep) (use assms digits in \<open>auto simp: wf_node_def list_all_iff\<close>)
  moreover have "splitHostPort (cn_IP n @ CHR '':'' # itoa (cn_Port n)) = Some (cn_IP n, itoa (cn_Port n))"
    by (rule splitHostPort_plain) (use assms digits in \<open>auto simp: wf_node_def word_def\<close>)
  ultimately show ?thesis
    using assms by (simp add: parseClusterNodeAddress_def atoi_itoa wf_node_def)
qed

definition wf_unread :: "string \<times> string \<times> string \<Rightarrow> bool" where
  "wf_unread unread \<longleftrightarrow> (case unread of (bus, ping, pong) \<Rightarrow> word bus \<and> word ping \<and> word pong)"

lemma unsplit_word: "c \<noteq> CHR '' '' \<Longrightarrow> \<not> is_space c \<Longrightarrow> ws \<noteq> [] \<Longrightarrow> list_all word ws \<Longrightarrow> word (unsplit c ws)"
  by (induction c ws rule: unsplit.induct) (auto simp: word_def)

lemma node_words_word:
  assumes "wf_node n" "wf_unread unread"
  shows "list_all word (node_words unread n)"
proof -
  have "word (unsplit (CHR '','') (cn_Flags n))"
    using assms(1) by (intro unsplit_word) (auto simp: wf_node_def is_space_def list_all_iff)
  moreover have "word (cn_IP n @ CHR '':'' # itoa (cn_Port n) @ CHR ''@'' # bus)" if "word bus" for bus
    using that assms(1) itoa_word [of "cn_Port n"] by (auto simp: wf_node_def word_def is_space_def)
  ultimately show ?thesis
    using assms itoa_word print_range_word by (auto simp: node_words_def wf_node_def wf_unread_def list_all_iff split: prod.splits)
qed

lemma parse_print_node:
  assumes "wf_node n" "wf_unread unread"
  shows "parseClusterNode (print_node unread n) = Some n"
proof -
  obtain bus ping pong where u: "unread = (bus, ping, pong)" by (cases unread)
  have "Fields (trimSpace (print_node unread n)) = node_words unread n"
    unfolding print_node_def
    by (rule Fields_unsplit [OF _ node_words_word [OF assms]]) (simp add: node_words_def u)
  moreover have "split_at (CHR '','') (unsplit (CHR '','') (cn_Flags n)) = cn_Flags n"
    unfolding split_at_def by (rule split_on_unsplit) (use assms(1) in \<open>auto simp: wf_node_def list_all_iff\<close>)
  moreover note parse_print_address [OF assms(1), of bus]
  ultimately show ?thesis
    using assms(1) by (cases n) (simp add: parseClusterNode_def node_words_def u Let_def parse_print_ranges atoi_itoa wf_node_def)
qed

lemma unsplit_chars: "c \<in> set (unsplit sep ws) \<Longrightarrow> c = sep \<or> (\<exists>w \<in> set ws. c \<in> set w)"
  by (induction sep ws rule: unsplit.induct) auto

lemma print_node_one_line:
  assumes "wf_node n" "wf_unread unread"
  shows "CHR 0x0A \<notin> set (print_node unread n)"
proof
  assume "CHR 0x0A \<in> set (print_node unread n)"
  then obtain w where "w \<in> set (node_words unread n)" "CHR 0x0A \<in> set w"
    by (auto simp: print_node_def dest!: unsplit_chars)
  moreover from this node_words_word [OF assms] have "\<not> is_space (CHR 0x0A)" by (auto simp: list_all_iff word_def)
  ultimately show False by (simp add: is_space_def)
qed

lemma parse_print_nodes:
  "wf_unread unread \<Longrightarrow> list_all wf_node ns \<Longrightarrow> parseClusterNodes (print_nodes unread ns) = ns"
proof (induction ns)
  case Nil
  then show ?case by code_simp
next
  case (Cons n ns)
  then have one: "list_all (\<lambda>x. \<not> x = CHR 0x0A) (print_node unread n)"
    using print_node_one_line [of n unread] by (auto simp: list_all_iff)
  have "split_at (CHR 0x0A) (print_node unread n @ CHR 0x0A # print_nodes unread ns) =
      print_node unread n # split_at (CHR 0x0A) (print_nodes unread ns)"
    unfolding split_at_def by (rule split_on_sep [OF one]) simp
  with Cons show ?case
    by (simp add: parseClusterNodes_def print_nodes_def List.map_filter_simps parse_print_node)
qed

text \<open>The reply to \<^verbatim>\<open>CLUSTER NODES\<close> is an encoding of the nodes that the parser decodes.\<close>

interpretation node_text: codec "print_nodes (''16379'', ''0'', ''0'')" "\<lambda>s. Some (parseClusterNodes s)" "list_all wf_node"
  by unfold_locales (simp add: parse_print_nodes wf_unread_def word_def is_space_def)

section \<open>Properties\<close>


definition sample_node :: ClusterNode where
  "sample_node = \<lparr>cn_ID = ''n0'', cn_IP = ''10.0.0.1'', cn_Port = 6379, cn_Flags = [''myself'', ''master''], cn_MasterID = ''-'',
     cn_ConfigEpoch = 3, cn_LinkState = ''connected'', cn_SlotRanges = [\<lparr>Start = 0, End = 5461\<rparr>, \<lparr>Start = 7000, End = 7000\<rparr>]\<rparr>"


end
