(* ===== verification/Paths.thy ===== *)
theory Paths
  imports Replication
begin

text \<open>
  The operations of Go's \<^verbatim>\<open>path\<close> and \<^verbatim>\<open>path/filepath\<close> on slash-separated paths that the instance
  manager and the restore program use, and the facts about them the proofs need: a cleaned path is the
  list of its elements, in which \<^verbatim>\<open>..\<close> stands only at the front and never after a leading slash, and
  joining a directory with a relative path free of \<^verbatim>\<open>..\<close> appends the elements.
\<close>

section \<open>Operations\<close>

definition rooted :: "string \<Rightarrow> bool" where
  "rooted s \<longleftrightarrow> take 1 s = ''/''"

text \<open>One element of the path against the cleaned elements so far, last one first.\<close>

definition clean_step :: "bool \<Rightarrow> string \<Rightarrow> string list \<Rightarrow> string list" where
  "clean_step r e acc =
     (if e = [] \<or> e = ''.'' then acc
      else if e = ''..'' then
        (case acc of [] \<Rightarrow> if r then [] else [e] | a # rest \<Rightarrow> if a = ''..'' then e # acc else rest)
      else e # acc)"

definition path_elems :: "string \<Rightarrow> string list" where
  "path_elems s = rev (fold (clean_step (rooted s)) (split_at (CHR ''/'') s) [])"

definition path_of :: "bool \<Rightarrow> string list \<Rightarrow> string" where
  "path_of r es = (if r then CHR ''/'' # unsplit (CHR ''/'') es else if es = [] then ''.'' else unsplit (CHR ''/'') es)"

definition Clean :: "string \<Rightarrow> string" where
  "Clean s = path_of (rooted s) (path_elems s)"

definition path_join :: "string list \<Rightarrow> string" where
  "path_join parts = (case filter (\<lambda>p. p \<noteq> []) parts of [] \<Rightarrow> [] | ps \<Rightarrow> Clean (unsplit (CHR ''/'') ps))"

text \<open>The directory of a path: what stands up to its last slash, cleaned.\<close>

definition path_Dir :: "string \<Rightarrow> string" where
  "path_Dir s = Clean (rev (dropWhile (\<lambda>c. c \<noteq> CHR ''/'') (rev s)))"

section \<open>Cleaned paths\<close>

text \<open>An element as it stands in a cleaned path, \<^verbatim>\<open>..\<close> apart.\<close>

definition plain_elem :: "string \<Rightarrow> bool" where
  "plain_elem e \<longleftrightarrow> e \<noteq> [] \<and> e \<noteq> ''.'' \<and> e \<noteq> ''..'' \<and> CHR ''/'' \<notin> set e"

definition climbs :: "nat \<Rightarrow> string list" where
  "climbs k = replicate k ''..''"

definition cleaned :: "bool \<Rightarrow> string list \<Rightarrow> bool" where
  "cleaned r es \<longleftrightarrow> (\<exists>k xs. es = climbs k @ xs \<and> list_all plain_elem xs \<and> (r \<longrightarrow> k = 0))"

lemma split_on_chars: "w \<in> set (split_on p s) \<Longrightarrow> x \<in> set w \<Longrightarrow> \<not> p x"
proof (induction s arbitrary: w)
  case (Cons a s)
  then show ?case by (cases "split_on p s") (auto split: if_splits, blast)
qed simp

lemma fold_elems: "list_all plain_elem xs \<Longrightarrow> fold (clean_step r) xs acc = rev xs @ acc"
  by (induction xs arbitrary: acc) (auto simp: clean_step_def plain_elem_def)

lemma fold_climbs: "fold (clean_step False) (climbs k) (climbs n) = climbs (k + n)"
proof (induction k arbitrary: n)
  case (Suc k)
  have "clean_step False ''..'' (climbs n) = climbs (Suc n)" by (cases n) (simp_all add: clean_step_def climbs_def)
  with Suc [of "Suc n"] show ?case by (simp add: climbs_def)
qed (simp add: climbs_def)

lemma clean_step_keeps:
  assumes "cleaned r (rev acc)" "CHR ''/'' \<notin> set e"
  shows "cleaned r (rev (clean_step r e acc))"
proof -
  obtain k xs where a: "rev acc = climbs k @ xs" "list_all plain_elem xs" "r \<longrightarrow> k = 0" using assms(1) by (auto simp: cleaned_def)
  have acc: "acc = rev xs @ climbs k" using arg_cong [OF a(1), of rev] by (simp add: climbs_def)
  show ?thesis
  proof (cases "e = ''..''")
    case True
    show ?thesis
    proof (cases xs rule: rev_cases)
      case Nil
      show ?thesis
      proof (cases r)
        case True
        with a Nil acc \<open>e = ''..''\<close> have "clean_step r e acc = []" by (simp add: clean_step_def climbs_def)
        then show ?thesis by (auto simp: cleaned_def climbs_def)
      next
        case False
        with Nil acc \<open>e = ''..''\<close> fold_climbs [of 1 k] have "clean_step r e acc = climbs (Suc k)" by (simp add: climbs_def)
        then show ?thesis using False unfolding cleaned_def by (intro exI [of _ "Suc k"] exI [of _ "[]"]) (simp add: climbs_def replicate_append_same)
      qed
    next
      case (snoc ys y)
      with acc a(2) True have "clean_step r e acc = rev ys @ climbs k" by (simp add: clean_step_def plain_elem_def)
      then show ?thesis using a(2,3) snoc unfolding cleaned_def by (intro exI [of _ k] exI [of _ ys]) (simp add: climbs_def)
    qed
  next
    case False
    show ?thesis
    proof (cases "e = [] \<or> e = ''.''")
      case True
      then show ?thesis using assms(1) by (auto simp: clean_step_def)
    next
      case other: False
      then have "rev (clean_step r e acc) = climbs k @ xs @ [e]" using False a(1) by (simp add: clean_step_def)
      moreover have "list_all plain_elem (xs @ [e])" using a(2) other False assms(2) by (simp add: plain_elem_def)
      ultimately show ?thesis using a(3) unfolding cleaned_def by (intro exI [of _ k] exI [of _ "xs @ [e]"]) simp
    qed
  qed
qed

lemma fold_keeps_cleaned:
  "cleaned r (rev acc) \<Longrightarrow> list_all (\<lambda>e. CHR ''/'' \<notin> set e) es \<Longrightarrow> cleaned r (rev (fold (clean_step r) es acc))"
  by (induction es arbitrary: acc) (simp_all add: clean_step_keeps)

lemma path_elems_cleaned: "cleaned (rooted s) (path_elems s)"
  unfolding path_elems_def
proof (rule fold_keeps_cleaned)
  show "cleaned (rooted s) (rev [])" unfolding cleaned_def by (intro exI [of _ 0] exI [of _ "[]"]) (simp add: climbs_def)
  show "list_all (\<lambda>e. CHR ''/'' \<notin> set e) (split_at (CHR ''/'') s)"
    by (auto simp: list_all_iff split_at_def dest: split_on_chars)
qed

lemma fold_cleaned:
  assumes "cleaned r es"
  shows "fold (clean_step r) es [] = rev es"
proof -
  obtain k xs where a: "es = climbs k @ xs" "list_all plain_elem xs" "r \<longrightarrow> k = 0" using assms by (auto simp: cleaned_def)
  have "fold (clean_step r) (climbs k) [] = climbs k"
    using a(3) fold_climbs [of k 0] by (cases r) (simp_all add: climbs_def)
  then show ?thesis using a by (simp add: fold_elems climbs_def)
qed

lemma cleaned_chars:
  assumes "cleaned r es" "e \<in> set es"
  shows "e \<noteq> [] \<and> e \<noteq> ''.'' \<and> CHR ''/'' \<notin> set e"
proof -
  obtain k xs where "es = climbs k @ xs" "list_all plain_elem xs" using assms(1) by (auto simp: cleaned_def)
  with assms(2) have "e = ''..'' \<or> plain_elem e" by (auto simp: climbs_def list_all_iff)
  then show ?thesis by (elim disjE) (simp_all add: plain_elem_def)
qed

lemma split_path_of:
  assumes "cleaned r es" "es \<noteq> []"
  shows "split_at (CHR ''/'') (unsplit (CHR ''/'') es) = es"
proof -
  have "list_all (list_all (\<lambda>x. \<not> x = CHR ''/'')) es" using cleaned_chars [OF assms(1)] by (simp add: list_all_iff) metis
  then show ?thesis unfolding split_at_def by (intro split_on_unsplit [OF refl assms(2)])
qed

lemma unsplit_hd:
  assumes "cleaned r es" "es \<noteq> []"
  shows "\<not> rooted (unsplit (CHR ''/'') es) \<and> unsplit (CHR ''/'') es \<noteq> []"
proof -
  obtain e rest where es: "es = e # rest" using assms(2) by (cases es) auto
  then have "e \<noteq> []" "CHR ''/'' \<notin> set e" using cleaned_chars [OF assms(1)] by auto
  then obtain c s where "e = c # s" "c \<noteq> CHR ''/''" by (cases e) auto
  then show ?thesis using es by (cases rest) (auto simp: rooted_def)
qed

lemma path_of_roundtrip [simp]:
  assumes "cleaned r es"
  shows "rooted (path_of r es) = r" "path_elems (path_of r es) = es"
proof -
  show r: "rooted (path_of r es) = r"
    using unsplit_hd [OF assms] by (auto simp: path_of_def rooted_def)
  have "fold (clean_step r) (split_at (CHR ''/'') (path_of r es)) [] = rev es"
  proof (cases "es = []")
    case True
    then show ?thesis by (cases r) (simp_all add: path_of_def split_at_def clean_step_def)
  next
    case False
    with split_path_of [OF assms] fold_cleaned [OF assms] show ?thesis
      by (cases r) (simp_all add: path_of_def split_at_def clean_step_def)
  qed
  then show "path_elems (path_of r es) = es" by (simp add: path_elems_def r)
qed

lemma Clean_spec [simp]: "rooted (Clean s) = rooted s" "path_elems (Clean s) = path_elems s"
  by (simp_all add: Clean_def path_elems_cleaned)

lemma Clean_idem [simp]: "Clean (Clean s) = Clean s"
  by (simp add: Clean_def [of "Clean s"]) (simp add: Clean_def)

text \<open>A cleaned path is determined by its elements and its leading slash.\<close>

lemma Clean_eqI: "rooted s = rooted t \<Longrightarrow> path_elems s = path_elems t \<Longrightarrow> Clean s = Clean t"
  by (simp add: Clean_def)

lemma split_on_nonempty: "split_on p s \<noteq> []"
  by (cases s) (auto split: list.splits)

lemma split_on_append:
  "p c \<Longrightarrow> split_on p (s @ c # t) = split_on p s @ split_on p t"
proof (induction s)
  case (Cons a s)
  then show ?case using split_on_nonempty [of p s] by (cases "split_on p s") auto
qed simp

lemma elems_cleaned: "list_all plain_elem es \<Longrightarrow> cleaned r es"
  unfolding cleaned_def by (intro exI [of _ 0] exI [of _ es]) (simp add: climbs_def)

lemma cleaned_append: "cleaned r es \<Longrightarrow> list_all plain_elem xs \<Longrightarrow> cleaned r (es @ xs)"
  unfolding cleaned_def by (elim exE conjE) (rule exI, rule exI, auto)

text \<open>Joining a directory with a relative path that does not climb appends the elements.\<close>

lemma path_join_below:
  assumes "a \<noteq> []" "list_all plain_elem es" "es \<noteq> []"
  shows "path_join [a, path_of False es] = path_of (rooted a) (path_elems a @ es)"
proof -
  let ?b = "unsplit (CHR ''/'') es"
  have b: "path_of False es = ?b" "?b \<noteq> []" using assms(3) unsplit_hd [OF elems_cleaned [OF assms(2)] assms(3)] by (auto simp: path_of_def)
  have r: "rooted (a @ CHR ''/'' # ?b) = rooted a" using assms(1) by (cases a) (auto simp: rooted_def)
  have "split_at (CHR ''/'') (a @ CHR ''/'' # ?b) = split_at (CHR ''/'') a @ es"
    using split_path_of [OF elems_cleaned [OF assms(2)] assms(3)] by (simp add: split_at_def split_on_append)
  then have "path_elems (a @ CHR ''/'' # ?b) = path_elems a @ es"
    by (simp add: path_elems_def r fold_elems [OF assms(2)])
  then show ?thesis using assms(1) b by (simp add: path_join_def Clean_def r)
qed

lemma path_join_spec:
  assumes "a \<noteq> []" "list_all plain_elem es" "es \<noteq> []"
  shows "path_elems (path_join [a, path_of False es]) = path_elems a @ es" "rooted (path_join [a, path_of False es]) = rooted a"
  using path_join_below [OF assms] cleaned_append [OF path_elems_cleaned assms(2)] by simp_all

lemma path_of_single: "plain_elem e \<Longrightarrow> path_of False [e] = e"
  by (simp add: path_of_def)

text \<open>The directory of a cleaned path with at least one element that is no \<^verbatim>\<open>..\<close> drops that element.\<close>

lemma unsplit_snoc: "es \<noteq> [] \<Longrightarrow> unsplit c (es @ [e]) = unsplit c es @ c # e"
  by (induction c es rule: unsplit.induct) auto

lemma dir_chars:
  assumes "CHR ''/'' \<notin> set e"
  shows "rev (dropWhile (\<lambda>c. c \<noteq> CHR ''/'') (rev (s @ CHR ''/'' # e))) = s @ ''/''"
    and "rev (dropWhile (\<lambda>c. c \<noteq> CHR ''/'') (rev e)) = []"
proof -
  have *: "dropWhile (\<lambda>c. c \<noteq> CHR ''/'') (rev e @ t) = dropWhile (\<lambda>c. c \<noteq> CHR ''/'') t" for t
    using assms by (intro dropWhile_append2) auto
  show "rev (dropWhile (\<lambda>c. c \<noteq> CHR ''/'') (rev (s @ CHR ''/'' # e))) = s @ ''/''" using * [of "CHR ''/'' # rev s"] by simp
  show "rev (dropWhile (\<lambda>c. c \<noteq> CHR ''/'') (rev e)) = []" using * [of "[]"] by simp
qed

lemma path_Dir_below:
  assumes "cleaned r es" "plain_elem e"
  shows "path_Dir (path_of r (es @ [e])) = path_of r es"
proof -
  have e: "CHR ''/'' \<notin> set e" using assms(2) by (simp add: plain_elem_def)
  have clean: "Clean (path_of r es) = path_of r es" using assms(1) by (simp add: Clean_def)
  have trail: "Clean (s @ ''/'') = Clean s" if "s \<noteq> []" for s
  proof (rule Clean_eqI)
    show r: "rooted (s @ ''/'') = rooted s" using that by (cases s) (auto simp: rooted_def)
    show "path_elems (s @ ''/'') = path_elems s"
      using split_on_append [of "\<lambda>x. x = CHR ''/''" "CHR ''/''" s "[]"] by (simp add: path_elems_def r split_at_def clean_step_def)
  qed
  show ?thesis
  proof (cases "es = []")
    case True
    have "path_Dir (CHR ''/'' # e) = Clean ''/''" using dir_chars(1) [OF e, of "[]"] unfolding path_Dir_def by simp
    moreover have "path_Dir e = Clean []" unfolding path_Dir_def dir_chars(2) [OF e] by (rule refl)
    ultimately show ?thesis using True
      by (cases r) (simp_all add: path_of_def Clean_def path_elems_def rooted_def split_at_def clean_step_def)
  next
    case False
    define s where "s = (if r then CHR ''/'' # unsplit (CHR ''/'') es else unsplit (CHR ''/'') es)"
    have s: "path_of r (es @ [e]) = s @ CHR ''/'' # e" "path_of r es = s" "s \<noteq> []"
      using False unsplit_hd [OF assms(1) False] by (auto simp: s_def path_of_def unsplit_snoc)
    show ?thesis using dir_chars(1) [OF e, of s] trail [OF s(3)] clean by (simp add: path_Dir_def s)
  qed
qed

text \<open>A cleaned relative path that is no \<^verbatim>\<open>.\<close> and does not begin with \<^verbatim>\<open>..\<close> does not climb.\<close>

lemma cleaned_below:
  assumes "\<not> rooted (Clean s)" "Clean s \<noteq> ''.''" "Clean s \<noteq> ''..''" "take 3 (Clean s) \<noteq> ''../''"
  shows "list_all plain_elem (path_elems s) \<and> path_elems s \<noteq> [] \<and> Clean s = path_of False (path_elems s)"
proof -
  have r: "\<not> rooted s" using assms(1) by simp
  have c: "Clean s = path_of False (path_elems s)" using r by (simp add: Clean_def)
  obtain k xs where a: "path_elems s = climbs k @ xs" "list_all plain_elem xs" using path_elems_cleaned [of s] by (auto simp: cleaned_def)
  have "k = 0"
  proof (rule ccontr)
    assume "k \<noteq> 0"
    then obtain j where k: "k = Suc j" by (cases k) auto
    then have e: "path_elems s = ''..'' # (climbs j @ xs)" using a(1) by (simp add: climbs_def)
    show False using assms(3,4) c unfolding e by (cases "climbs j @ xs") (auto simp: path_of_def)
  qed
  then have "list_all plain_elem (path_elems s)" using a by (simp add: climbs_def)
  moreover have "path_elems s \<noteq> []" using assms(2) c by (auto simp: path_of_def)
  ultimately show ?thesis using c by simp
qed

end
