(* ===== verification/Instance_Server.thy ===== *)
theory Instance_Server
  imports Replication Cluster_Status Frames
begin

text \<open>
  The HTTP server of the instance manager, \<^verbatim>\<open>internal/instance-manager/webserver/server.go\<close>: the
  probes, with the check that isolates a primary cut off from the API server and from every peer, the
  status document, promotion and demotion, and the cluster endpoints up to the migration of slots. The
  object in memory is the server's own state. A handler is a function of the request that ends with a
  response; the decoding of a request body is given as the decoded value, or nothing when it fails.

  The loop that drains a slot may run for ever, since it ends when Redis reports no more keys: it is a
  partial function, and returning is a theorem. The peers are asked concurrently in the source; here
  their answers are collected, and one positive answer decides, as there.
\<close>

section \<open>The server\<close>

text \<open>The supervised process: not set, running, or exited.\<close>

datatype process = NoProcess | Alive | Exited

record Server =
  srv_redisClient :: "string option"
  srv_processName :: string
  srv_redisCmd :: process
  srv_exposeDataEndpoints :: bool
  srv_k8sClient :: bool
  srv_primaryIsolationEnabled :: bool
  srv_clusterName :: string
  srv_namespace :: string
  srv_podName :: string
  srv_apiServerTimeout :: int
  srv_peerTimeout :: int
  srv_cachedPeerTargets :: "string list"
  srv_clusterMode :: bool

definition defaultIsolationTimeout :: int where "defaultIsolationTimeout = 5 * 1000000000"

record PrimaryIsolationConfig =
  pic_Enabled :: bool
  pic_ClusterName :: string
  pic_Namespace :: string
  pic_PodName :: string
  pic_APIServerTimeout :: int
  pic_PeerTimeout :: int

definition NewServer :: "string \<Rightarrow> Server" where
  "NewServer redisClient = \<lparr>srv_redisClient = Some redisClient, srv_processName = ''redis-server'', srv_redisCmd = NoProcess,
     srv_exposeDataEndpoints = True, srv_k8sClient = False, srv_primaryIsolationEnabled = False, srv_clusterName = [],
     srv_namespace = [], srv_podName = [], srv_apiServerTimeout = 0, srv_peerTimeout = 0, srv_cachedPeerTargets = [],
     srv_clusterMode = False\<rparr>"

definition SetRedisCmd :: "process \<Rightarrow> Server \<Rightarrow> Server" where
  "SetRedisCmd cmd s = s\<lparr>srv_redisCmd := cmd\<rparr>"

definition NewSentinelServer :: "string \<Rightarrow> process \<Rightarrow> Server" where
  "NewSentinelServer redisClient sentinelCmd =
     SetRedisCmd sentinelCmd ((NewServer redisClient)\<lparr>srv_processName := ''redis-sentinel'', srv_exposeDataEndpoints := False\<rparr>)"

definition SetPrimaryIsolationConfig :: "bool \<Rightarrow> PrimaryIsolationConfig \<Rightarrow> Server \<Rightarrow> Server" where
  "SetPrimaryIsolationConfig k8sClient cfg s =
     s\<lparr>srv_k8sClient := k8sClient, srv_primaryIsolationEnabled := pic_Enabled cfg, srv_clusterName := pic_ClusterName cfg,
       srv_namespace := pic_Namespace cfg, srv_podName := pic_PodName cfg,
       srv_apiServerTimeout := (if pic_APIServerTimeout cfg \<le> 0 then defaultIsolationTimeout else pic_APIServerTimeout cfg),
       srv_peerTimeout := (if pic_PeerTimeout cfg \<le> 0 then defaultIsolationTimeout else pic_PeerTimeout cfg)\<rparr>"

definition SetMetricsIdentity :: "string \<Rightarrow> string \<Rightarrow> string \<Rightarrow> Server \<Rightarrow> Server" where
  "SetMetricsIdentity clusterName namespace podName s =
     s\<lparr>srv_clusterName := clusterName, srv_namespace := namespace, srv_podName := podName\<rparr>"

definition SetClusterMode :: "bool \<Rightarrow> Server \<Rightarrow> Server" where
  "SetClusterMode enabled s = s\<lparr>srv_clusterMode := enabled\<rparr>"

text \<open>A call on the client of the server; a missing client is a nil pointer.\<close>

definition with_client :: "(string \<Rightarrow> (Server, 'a) io) \<Rightarrow> (Server, 'a) io" where
  "with_client f = bnd obj (\<lambda>s. case srv_redisClient s of None \<Rightarrow> throw (Panic ''nil pointer dereference'') | Some c \<Rightarrow> f c)"

section \<open>Responses\<close>

record StatusResponse =
  sr_Role :: string
  sr_ReplicationOffset :: int
  sr_ConnectedReplicas :: int
  sr_MasterLinkStatus :: string
  sr_Connected :: bool
  sr_NodeID :: string
  sr_PrimaryNodeID :: string
  sr_ClusterState :: string
  sr_SlotsServed :: "SlotRange list"
  sr_Epoch :: int
  sr_ClusterKnownNodes :: int
  sr_SlotsAssigned :: int

datatype response = Plain int string | StatusDocument StatusResponse

fun code :: "response \<Rightarrow> int" where
  "code (Plain status text) = status"
| "code (StatusDocument doc) = 200"

definition http_error :: "int \<Rightarrow> string \<Rightarrow> response" where
  "http_error status msg = Plain status (msg @ [CHR 0x0A])"

abbreviation http_ok :: "string \<Rightarrow> response" where "http_ok text \<equiv> Plain 200 text"

text \<open>The response to a call that may fail.\<close>

definition respond :: "(Server, unit) io \<Rightarrow> string \<Rightarrow> string \<Rightarrow> (Server, response) io" where
  "respond m failed done_text =
     bnd (attempt m) (\<lambda>r. ret (case r of Inl e \<Rightarrow> http_error 500 (failed @ '': '' @ error_text e) | Inr _ \<Rightarrow> http_ok done_text))"

definition post_only :: "string \<Rightarrow> (Server, response) io \<Rightarrow> (Server, response) io" where
  "post_only meth m = (if meth \<noteq> ''POST'' then ret (http_error 405 ''method not allowed'') else m)"

definition cluster_only :: "(Server, response) io \<Rightarrow> (Server, response) io" where
  "cluster_only m = bnd obj (\<lambda>s. if \<not> srv_clusterMode s then ret (http_error 400 ''cluster mode is disabled'') else m)"

definition with_body :: "'r option \<Rightarrow> ('r \<Rightarrow> (Server, response) io) \<Rightarrow> (Server, response) io" where
  "with_body body f = (case body of None \<Rightarrow> ret (http_error 400 ''invalid request body'') | Some r \<Rightarrow> f r)"

section \<open>Fencing and readiness\<close>

definition podIsFenced :: "RedisCluster \<Rightarrow> string \<Rightarrow> bool" where
  "podIsFenced cluster podName \<longleftrightarrow>
     (if podName = [] then False
      else
        let raw = mget [] (c_Annotations cluster) FencingAnnotationKey in
        if raw = [] then False
        else case unmarshal_names raw of None \<Rightarrow> False | Some fencedPods \<Rightarrow> podName \<in> set fencedPods)"

definition isCurrentPodFenced :: "env \<Rightarrow> (Server, bool) io" where
  "isCurrentPodFenced env = bnd obj (\<lambda>s.
     if \<not> srv_k8sClient s \<or> srv_clusterName s = [] \<or> srv_namespace s = [] \<or> srv_podName s = [] then ret False
     else bnd (get_cluster env (srv_namespace s) (srv_clusterName s)) (\<lambda>cluster. ret (podIsFenced cluster (srv_podName s))))"

definition handleReadyz :: "env \<Rightarrow> (Server, response) io" where
  "handleReadyz env =
     bnd (attempt (isCurrentPodFenced env)) (\<lambda>r.
     case r of
       Inl e \<Rightarrow> ret (http_error 503 ''cannot verify fencing state'')
     | Inr fenced \<Rightarrow>
         if fenced then ret (http_error 503 ''pod is fenced'')
         else with_client (\<lambda>client.
           bnd (attempt (redis_err env client [''ping''])) (\<lambda>r.
           ret (case r of Inl e \<Rightarrow> Plain 503 (''redis not ready: '' @ error_text e) | Inr _ \<Rightarrow> http_ok ''ok''))))"

section \<open>Liveness and primary isolation\<close>

definition shouldRunPrimaryIsolationCheck :: "env \<Rightarrow> (Server, bool) io" where
  "shouldRunPrimaryIsolationCheck env = bnd obj (\<lambda>s.
     if \<not> srv_primaryIsolationEnabled s \<or> \<not> srv_exposeDataEndpoints s \<or> \<not> srv_k8sClient s then ret False
     else
       case srv_redisClient s of
         None \<Rightarrow> ret False
       | Some client \<Rightarrow>
           bnd (attempt (GetInfo env client)) (\<lambda>r. ret (case r of Inl _ \<Rightarrow> False | Inr info \<Rightarrow> in_Role info = ''master'')))"

definition dedupeStrings :: "string list \<Rightarrow> string list" where
  "dedupeStrings values = fold (\<lambda>v out. if out = [] \<or> last out \<noteq> v then out @ [v] else out) values []"

definition listPeerTargetsFromAPI :: "env \<Rightarrow> string \<Rightarrow> string \<Rightarrow> string \<Rightarrow> ('s, string list) io" where
  "listPeerTargetsFromAPI env clusterName namespace podName =
     bnd (list_pods env namespace [(LabelCluster, clusterName), (LabelWorkload, LabelWorkloadData)]) (\<lambda>pods.
     ret (dedupeStrings (sort (map p_IP (filter (\<lambda>p. p_Name p \<noteq> podName \<and> p_IP p \<noteq> []) pods)))))"

definition checkAPIServerReachable :: "env \<Rightarrow> (Server, unit) io" where
  "checkAPIServerReachable env = bnd obj (\<lambda>s.
     if \<not> srv_k8sClient s then throw (Err ''kubernetes client not configured'')
     else if srv_clusterName s = [] \<or> srv_namespace s = [] then throw (Err ''primary isolation cluster identity not configured'')
     else
       bnd (get_cluster env (srv_namespace s) (srv_clusterName s)) (\<lambda>_.
       bnd (attempt (listPeerTargetsFromAPI env (srv_clusterName s) (srv_namespace s) (srv_podName s))) (\<lambda>r.
       case r of
         Inr peerTargets \<Rightarrow> set_obj (\<lambda>s. s\<lparr>srv_cachedPeerTargets := peerTargets\<rparr>)
       | Inl _ \<Rightarrow> ret ())))"

text \<open>The error \<^verbatim>\<open>errNoPeerTargets\<close> is told apart from every other one.\<close>

datatype peer_check = PeerReached | NoPeerTargets | PeersFailed

definition probe :: "env \<Rightarrow> string \<Rightarrow> ('s, bool) io" where
  "probe env target =
     bnd (http env ''GET'' target status_path NoBody) (\<lambda>r. ret (case r of Inl _ \<Rightarrow> False | Inr (status, _) \<Rightarrow> status = 200))"

primrec probe_all :: "env \<Rightarrow> string list \<Rightarrow> ('s, bool) io" where
  "probe_all env [] = ret False"
| "probe_all env (t # ts) = bnd (probe env t) (\<lambda>b. bnd (probe_all env ts) (\<lambda>bs. ret (b \<or> bs)))"

definition checkAnyPeerReachable :: "env \<Rightarrow> (Server, peer_check) io" where
  "checkAnyPeerReachable env = bnd obj (\<lambda>s.
     let targets = srv_cachedPeerTargets s in
     if targets = [] then ret NoPeerTargets
     else bnd (probe_all env targets) (\<lambda>b. ret (if b then PeerReached else PeersFailed)))"

definition handleHealthz :: "env \<Rightarrow> (Server, response) io" where
  "handleHealthz env = bnd obj (\<lambda>s.
     let processName = (if srv_processName s = [] then ''redis-server'' else srv_processName s) in
     if srv_redisCmd s = Alive then
       bnd (shouldRunPrimaryIsolationCheck env) (\<lambda>run.
       if \<not> run then ret (http_ok ''ok'')
       else
         bnd (attempt (checkAPIServerReachable env)) (\<lambda>apiErr.
         case apiErr of
           Inr _ \<Rightarrow> ret (http_ok ''ok'')
         | Inl _ \<Rightarrow>
             bnd (checkAnyPeerReachable env) (\<lambda>peer.
             ret (if peer = PeersFailed then Plain 503 ''primary isolated: cannot reach API server or any peer'' else http_ok ''ok''))))
     else ret (Plain 503 (processName @ '' not running'')))"

section \<open>Status\<close>

definition hasNodeFlag :: "string list \<Rightarrow> string \<Rightarrow> bool" where
  "hasNodeFlag flags expected \<longleftrightarrow> expected \<in> set flags"

definition findSelfClusterNode :: "ClusterNode list \<Rightarrow> string \<times> string \<times> SlotRange list" where
  "findSelfClusterNode nodes =
     (case find (\<lambda>n. hasNodeFlag (cn_Flags n) ''myself'') nodes of
        None \<Rightarrow> ([], [], [])
      | Some n \<Rightarrow> (cn_ID n, if cn_MasterID n = ''-'' then [] else cn_MasterID n, cn_SlotRanges n))"

definition base_status :: "Info \<Rightarrow> StatusResponse" where
  "base_status info = \<lparr>sr_Role = in_Role info,
     sr_ReplicationOffset = (if in_Role info = ''slave'' then in_SlaveReplOffset info else in_MasterReplOffset info),
     sr_ConnectedReplicas = in_ConnectedReplicas info, sr_MasterLinkStatus = in_MasterLinkStatus info, sr_Connected = True,
     sr_NodeID = [], sr_PrimaryNodeID = [], sr_ClusterState = [], sr_SlotsServed = [], sr_Epoch = 0, sr_ClusterKnownNodes = 0,
     sr_SlotsAssigned = 0\<rparr>"

definition cluster_status :: "ClusterInfo \<Rightarrow> ClusterNode list \<Rightarrow> StatusResponse \<Rightarrow> StatusResponse" where
  "cluster_status ci nodes resp =
     (case findSelfClusterNode nodes of
        (nodeID, primaryID, slots) \<Rightarrow>
          resp\<lparr>sr_ClusterState := ci_State ci, sr_ClusterKnownNodes := ci_KnownNodes ci, sr_SlotsAssigned := ci_SlotsAssigned ci,
            sr_Epoch := ci_CurrentEpoch ci, sr_NodeID := nodeID, sr_PrimaryNodeID := primaryID, sr_SlotsServed := slots\<rparr>)"

definition handleStatus :: "env \<Rightarrow> string \<Rightarrow> (Server, response) io" where
  "handleStatus env meth =
     (if meth \<noteq> ''GET'' then ret (http_error 405 ''method not allowed'')
      else with_client (\<lambda>client.
        bnd (attempt (GetInfo env client)) (\<lambda>r.
        case r of
          Inl e \<Rightarrow> ret (http_error 500 (''failed to get replication info: '' @ error_text e))
        | Inr info \<Rightarrow>
            bnd obj (\<lambda>s.
            if \<not> srv_clusterMode s then ret (StatusDocument (base_status info))
            else
              bnd (attempt (GetClusterInfo env client)) (\<lambda>r.
              case r of
                Inl e \<Rightarrow> ret (http_error 500 (''failed to get cluster info: '' @ error_text e))
              | Inr ci \<Rightarrow>
                  bnd (attempt (GetClusterNodes env client)) (\<lambda>r.
                  case r of
                    Inl e \<Rightarrow> ret (http_error 500 (''failed to get cluster nodes: '' @ error_text e))
                  | Inr nodes \<Rightarrow> ret (StatusDocument (cluster_status ci nodes (base_status info)))))))))"

text \<open>The document as the operator decodes it.\<close>

definition decode_status :: "StatusResponse \<Rightarrow> podStatusResponse" where
  "decode_status d = \<lparr>r_Role = sr_Role d, r_ReplicationOffset = sr_ReplicationOffset d, r_ConnectedReplicas = sr_ConnectedReplicas d,
     r_MasterLinkStatus = sr_MasterLinkStatus d, r_Connected = sr_Connected d, r_NodeID = sr_NodeID d,
     r_PrimaryNodeID = sr_PrimaryNodeID d, r_ClusterState = sr_ClusterState d, r_SlotsServed = sr_SlotsServed d, r_Epoch = sr_Epoch d,
     r_SlotsAssigned = sr_SlotsAssigned d\<rparr>"

section \<open>Roles\<close>

definition upper_char :: "char \<Rightarrow> char" where
  "upper_char c = (let n = of_char c :: nat in if 97 \<le> n \<and> n \<le> 122 then char_of (n - 32) else c)"

definition toUpper :: "string \<Rightarrow> string" where
  "toUpper s = map upper_char s"

definition handlePromote :: "env \<Rightarrow> (Server, unit) io \<Rightarrow> string \<Rightarrow> string \<Rightarrow> (Server, response) io" where
  "handlePromote env promoteFunc meth mode = post_only meth (bnd obj (\<lambda>s.
     respond (if srv_clusterMode s then with_client (\<lambda>client. ClusterFailover env client (toUpper (trimSpace mode))) else promoteFunc)
       ''promote failed'' ''promoted''))"

record demote_query =
  dq_primaryNodeID :: string
  dq_primaryIP :: string
  dq_port :: string

definition handleDemote ::
  "env \<Rightarrow> (string \<Rightarrow> int \<Rightarrow> (Server, unit) io) \<Rightarrow> string \<Rightarrow> demote_query \<Rightarrow> (Server, response) io" where
  "handleDemote env demoteFunc meth q = post_only meth (bnd obj (\<lambda>s.
     if srv_clusterMode s then
       let primaryNodeID = trimSpace (dq_primaryNodeID q) in
       if primaryNodeID = [] then ret (http_error 400 ''missing primaryNodeID query parameter'')
       else respond (with_client (\<lambda>client. ClusterReplicate env client primaryNodeID)) ''demote failed'' ''demoted''
     else if dq_primaryIP q = [] then ret (http_error 400 ''missing primaryIP query parameter'')
     else if dq_port q \<noteq> [] \<and> \<not> snd (atoi (dq_port q)) then ret (http_error 400 ''invalid port'')
     else respond (demoteFunc (dq_primaryIP q) (if dq_port q = [] then 6379 else fst (atoi (dq_port q)))) ''demote failed'' ''demoted''))"

section \<open>Cluster endpoints\<close>

record clusterMeetRequest =
  cm_IP :: string
  cm_Port :: int

definition handleClusterMeet :: "env \<Rightarrow> string \<Rightarrow> clusterMeetRequest option \<Rightarrow> (Server, response) io" where
  "handleClusterMeet env meth body = post_only meth (cluster_only (with_body body (\<lambda>req.
     if trimSpace (cm_IP req) = [] then ret (http_error 400 ''ip is required'')
     else respond (with_client (\<lambda>client. ClusterMeet env client (cm_IP req) (if cm_Port req = 0 then 6379 else cm_Port req)))
       ''cluster meet failed'' ''ok'')))"

definition handleClusterAddSlots :: "env \<Rightarrow> string \<Rightarrow> SlotRange option \<Rightarrow> (Server, response) io" where
  "handleClusterAddSlots env meth body = post_only meth (cluster_only (with_body body (\<lambda>req.
     if End req < Start req then ret (http_error 400 ''end must be greater than or equal to start'')
     else respond (with_client (\<lambda>client. ClusterAddSlotsRange env client (Start req) (End req))) ''cluster addslots failed'' ''ok'')))"

definition knowsClusterNode :: "env \<Rightarrow> string \<Rightarrow> string \<Rightarrow> ('s, bool) io" where
  "knowsClusterNode env client nodeID = bnd (GetClusterNodes env client) (\<lambda>nodes. ret (nodeID \<in> cn_ID ` set nodes))"

definition handleClusterReplicate :: "env \<Rightarrow> string \<Rightarrow> string option \<Rightarrow> (Server, response) io" where
  "handleClusterReplicate env meth body = post_only meth (cluster_only (with_body body (\<lambda>raw.
     let nodeID = trimSpace raw in
     if nodeID = [] then ret (http_error 400 ''nodeID is required'')
     else with_client (\<lambda>client.
       bnd (attempt (knowsClusterNode env client nodeID)) (\<lambda>r.
       case r of
         Inl e \<Rightarrow> ret (http_error 500 (''cluster nodes lookup failed: '' @ error_text e))
       | Inr known \<Rightarrow>
           if \<not> known then ret (http_error 409 (''node '' @ nodeID @ '' is not known to this instance yet''))
           else respond (ClusterReplicate env client nodeID) ''cluster replicate failed'' ''ok'')))))"

section \<open>Migration of slots\<close>

text \<open>
  The request is the document the operator sends, with white space trimmed and the defaults filled in.
\<close>

type_synonym clusterMigrateRangeRequest = clusterMigrateRangePayload

definition normalize_migration :: "clusterMigrateRangeRequest \<Rightarrow> clusterMigrateRangeRequest" where
  "normalize_migration req = req\<lparr>
     mr_TargetIP := trimSpace (mr_TargetIP req), mr_TargetNodeID := trimSpace (mr_TargetNodeID req),
     mr_SourceNodeID := trimSpace (mr_SourceNodeID req),
     mr_TargetPort := (if mr_TargetPort req \<le> 0 then 6379 else mr_TargetPort req),
     mr_BatchSize := (if mr_BatchSize req \<le> 0 then 64 else mr_BatchSize req),
     mr_TimeoutMS := (if mr_TimeoutMS req \<le> 0 then 5000 else mr_TimeoutMS req)\<rparr>"

definition peer_address :: "clusterMigrateRangeRequest \<Rightarrow> string" where
  "peer_address req = mr_TargetIP req @ '':'' @ itoa (mr_TargetPort req)"

partial_function (option) drain_slot ::
  "env \<Rightarrow> string \<Rightarrow> clusterMigrateRangeRequest \<Rightarrow> int \<Rightarrow> 's world \<Rightarrow> ((goerr + unit) \<times> 's world) option" where
  "drain_slot env client req slot w =
     (case ClusterGetKeysInSlot env client slot (mr_BatchSize req) w of
        (Inl e, w1) \<Rightarrow> Some (Inl (Wrap (''get keys in slot '' @ itoa slot) e), w1)
      | (Inr keys, w1) \<Rightarrow>
          if keys = [] then Some (Inr (), w1)
          else
            (case MigrateKeys env client (mr_TargetIP req) (mr_TargetPort req) (mr_TimeoutMS req) keys w1 of
               (Inl e, w2) \<Rightarrow> Some (Inl (Wrap (''migrate keys for slot '' @ itoa slot) e), w2)
             | (Inr _, w2) \<Rightarrow> drain_slot env client req slot w2))"

definition open_slot :: "env \<Rightarrow> string \<Rightarrow> clusterMigrateRangeRequest \<Rightarrow> int \<Rightarrow> ('s, unit) io" where
  "open_slot env client req slot =
     bnd (wrap_err (''target importing slot '' @ itoa slot) (ClusterSetSlotImporting env (peer_address req) slot (mr_SourceNodeID req))) (\<lambda>_.
     wrap_err (''source migrating slot '' @ itoa slot) (ClusterSetSlotMigrating env client slot (mr_TargetNodeID req)))"

definition assign_slot :: "env \<Rightarrow> string \<Rightarrow> clusterMigrateRangeRequest \<Rightarrow> int \<Rightarrow> ('s, unit) io" where
  "assign_slot env client req slot =
     bnd (wrap_err (''source assign slot '' @ itoa slot) (ClusterSetSlotNode env client slot (mr_TargetNodeID req))) (\<lambda>_.
     wrap_err (''target assign slot '' @ itoa slot) (ClusterSetSlotNode env (peer_address req) slot (mr_TargetNodeID req)))"

definition move_slot ::
  "env \<Rightarrow> string \<Rightarrow> clusterMigrateRangeRequest \<Rightarrow> int \<Rightarrow> 's world \<Rightarrow> ((goerr + unit) \<times> 's world) option" where
  "move_slot env client req slot w =
     (case open_slot env client req slot w of
        (Inl e, w1) \<Rightarrow> Some (Inl e, w1)
      | (Inr _, w1) \<Rightarrow>
          (case drain_slot env client req slot w1 of
             None \<Rightarrow> None
           | Some (Inl e, w2) \<Rightarrow> Some (Inl e, w2)
           | Some (Inr _, w2) \<Rightarrow> Some (assign_slot env client req slot w2)))"

text \<open>The loop variable is a 32-bit integer.\<close>

partial_function (option) move_slots ::
  "env \<Rightarrow> string \<Rightarrow> clusterMigrateRangeRequest \<Rightarrow> int \<Rightarrow> 's world \<Rightarrow> ((goerr + unit) \<times> 's world) option" where
  "move_slots env client req slot w =
     (if slot > mr_End req then Some (Inr (), w)
      else
        case move_slot env client req slot w of
          None \<Rightarrow> None
        | Some (Inl e, w1) \<Rightarrow> Some (Inl e, w1)
        | Some (Inr _, w1) \<Rightarrow> move_slots env client req (int32 (slot + 1)) w1)"

definition migration_fault :: "clusterMigrateRangeRequest \<Rightarrow> string option" where
  "migration_fault req =
     (if mr_TargetIP req = [] then Some ''targetIP is required''
      else if mr_TargetNodeID req = [] then Some ''targetNodeID is required''
      else if mr_SourceNodeID req = [] then Some ''sourceNodeID is required''
      else if mr_End req < mr_Start req then Some ''end must be greater than or equal to start''
      else None)"

definition handleClusterMigrateRange ::
  "env \<Rightarrow> string \<Rightarrow> clusterMigrateRangeRequest option \<Rightarrow> Server world \<Rightarrow> ((goerr + response) \<times> Server world) option" where
  "handleClusterMigrateRange env meth body w =
     (if meth \<noteq> ''POST'' then Some (Inr (http_error 405 ''method not allowed''), w)
      else if \<not> srv_clusterMode (w_obj w) then Some (Inr (http_error 400 ''cluster mode is disabled''), w)
      else
        case body of
          None \<Rightarrow> Some (Inr (http_error 400 ''invalid request body''), w)
        | Some raw \<Rightarrow>
            let req = normalize_migration raw in
            (case migration_fault req of
               Some msg \<Rightarrow> Some (Inr (http_error 400 msg), w)
             | None \<Rightarrow>
                 (case srv_redisClient (w_obj w) of
                    None \<Rightarrow> Some (Inl (Panic ''nil pointer dereference''), w)
                  | Some client \<Rightarrow>
                      (case move_slots env client req (mr_Start req) w of
                         None \<Rightarrow> None
                       | Some (Inl e, w1) \<Rightarrow> Some (Inr (http_error 500 (error_text e)), w1)
                       | Some (Inr _, w1) \<Rightarrow> Some (Inr (http_ok ''ok''), w1)))))"

section \<open>The keys of a slot that moves\<close>

text \<open>
  What the loop relies on of Redis. Once a slot is migrating away, the source takes no new key of it, so
  its keys, as a function of the calls made so far, are a finite set that only a successful MIGRATE
  changes, by the keys it names; GETKEYSINSLOT reports keys of the slot, and reports some when there are
  any.
\<close>

definition migrating_command :: "int \<Rightarrow> string \<Rightarrow> string list" where
  "migrating_command slot target = [''CLUSTER'', ''SETSLOT'', itoa slot, ''MIGRATING'', target]"

definition frozen :: "string \<Rightarrow> log \<Rightarrow> int \<Rightarrow> bool" where
  "frozen client l slot \<longleftrightarrow> (\<exists>target. (RedisDo client (migrating_command slot target), True) \<in> set l)"

definition slot_store :: "env \<Rightarrow> string \<Rightarrow> (log \<Rightarrow> int \<Rightarrow> string set) \<Rightarrow> bool" where
  "slot_store env client stored \<longleftrightarrow>
     (\<forall>l slot. finite (stored l slot)) \<and>
     (\<forall>l slot a args b. frozen client l slot \<longrightarrow> stored (l @ [(RedisDo a (''CLUSTER'' # args), b)]) slot = stored l slot) \<and>
     (\<forall>l slot n keys. frozen client l slot \<longrightarrow> 0 < n \<longrightarrow>
        e_redis env l client (keys_command slot n) = Inr (RArr (map RStr keys)) \<longrightarrow>
        set keys \<subseteq> stored l slot \<and> (keys = [] \<longrightarrow> stored l slot = {})) \<and>
     (\<forall>l slot ip port t keys. frozen client l slot \<longrightarrow>
        stored (l @ [(RedisDo client (migrate_command ip port t keys), True)]) slot = stored l slot - set keys)"

text \<open>A call that gives the slot to a node, and a run that makes it only when the source has no key left.\<close>

definition gives_away :: "int \<Rightarrow> call \<Rightarrow> bool" where
  "gives_away slot c \<longleftrightarrow> (\<exists>a target. c = RedisDo a [''CLUSTER'', ''SETSLOT'', itoa slot, ''NODE'', target])"

fun careful :: "(log \<Rightarrow> int \<Rightarrow> string set) \<Rightarrow> log \<Rightarrow> log \<Rightarrow> bool" where
  "careful stored l [] \<longleftrightarrow> True"
| "careful stored l ((c, b) # later) \<longleftrightarrow> (\<forall>slot. gives_away slot c \<longrightarrow> stored l slot = {}) \<and> careful stored (l @ [(c, b)]) later"

lemma careful_append: "careful stored l (a @ b) \<longleftrightarrow> careful stored l a \<and> careful stored (l @ a) b"
  by (induction stored l a rule: careful.induct) auto

text \<open>One run from a world to another, careful all along.\<close>

definition runs_carefully :: "(log \<Rightarrow> int \<Rightarrow> string set) \<Rightarrow> 's world \<Rightarrow> 's world \<Rightarrow> bool" where
  "runs_carefully stored w w' \<longleftrightarrow> w_obj w' = w_obj w \<and> (\<exists>l. w_log w' = w_log w @ l \<and> careful stored (w_log w) l)"

lemma runs_carefully_refl [simp]: "runs_carefully stored w w"
  by (auto simp: runs_carefully_def)

lemma runs_carefully_trans: "runs_carefully stored w w1 \<Longrightarrow> runs_carefully stored w1 w2 \<Longrightarrow> runs_carefully stored w w2"
  by (auto simp: runs_carefully_def careful_append)

lemma runs_carefully_logged: "(\<And>slot. gives_away slot c \<Longrightarrow> stored (w_log w) slot = {}) \<Longrightarrow> runs_carefully stored w (logged c b w)"
  by (auto simp: runs_carefully_def logged_def)

lemma frozen_later: "frozen client (w_log w) slot \<Longrightarrow> runs_carefully stored w w' \<Longrightarrow> frozen client (w_log w') slot"
  by (auto simp: runs_carefully_def frozen_def)

lemma reply_strings_Some: "reply_strings vs = Some keys \<longleftrightarrow> vs = map RStr keys"
  by (induction vs arbitrary: keys rule: reply_strings.induct) (auto simp: Cons_eq_map_conv)

lemma redis_err_world: "snd (redis_err env a args w) = logged (RedisDo a args) (case e_redis env (w_log w) a args of Inl _ \<Rightarrow> False | Inr _ \<Rightarrow> True) w"
  by (auto simp: redis_err_def redis_do_def bnd_def ret_def throw_def split: sum.split)

lemma redis_err_done: "redis_err env a args w = (Inr u, w') \<Longrightarrow> w' = logged (RedisDo a args) True w"
  by (auto simp: redis_err_def redis_do_def bnd_def ret_def throw_def split: sum.splits if_splits)

lemma wrap_err_snd [simp]: "snd (wrap_err msg m w) = snd (m w)"
  by (auto simp: wrap_err_def split: prod.split sum.split)

lemma keys_run:
  assumes "ClusterGetKeysInSlot env client slot n w = (r, w1)"
  shows "\<exists>b. w1 = logged (RedisDo client (keys_command slot n)) b w"
    and "r = Inr keys \<Longrightarrow> e_redis env (w_log w) client (keys_command slot n) = Inr (RArr (map RStr keys))"
  using assms
  by (auto simp: ClusterGetKeysInSlot_def bnd_def wrap_err_def redis_do_def ret_def throw_def reply_strings_Some
      split: sum.splits redis_reply.splits option.splits)

lemma migrate_world:
  "keys \<noteq> [] \<Longrightarrow> \<exists>b. snd (MigrateKeys env client ip port t keys w) = logged (RedisDo client (migrate_command ip port t keys)) b w"
  by (auto simp: MigrateKeys_def redis_err_world)

lemma migrate_done:
  "keys \<noteq> [] \<Longrightarrow> MigrateKeys env client ip port t keys w = (Inr u, w') \<Longrightarrow> w' = logged (RedisDo client (migrate_command ip port t keys)) True w"
  by (auto simp: MigrateKeys_def wrap_err_def dest: redis_err_done split: prod.splits sum.splits)

lemma keys_give_nothing [simp]: "\<not> gives_away slot (RedisDo a (keys_command s n))"
  by (simp add: gives_away_def keys_command_def)

lemma migrate_gives_nothing [simp]: "\<not> gives_away slot (RedisDo a (migrate_command ip port t keys))"
  by (simp add: gives_away_def migrate_command_def)

lemma log_logged [simp]: "w_log (logged c b w) = w_log w @ [(c, b)]"
  by (simp add: logged_def)

text \<open>Draining a slot returns, and when it succeeds the source holds none of its keys.\<close>

lemma drain_slot_returns:
  assumes store: "slot_store env client stored" and batch: "0 < mr_BatchSize req" and froz: "frozen client (w_log w) slot"
  shows "\<exists>r w'. drain_slot env client req slot w = Some (r, w') \<and> runs_carefully stored w w' \<and>
    (r = Inr () \<longrightarrow> stored (w_log w') slot = {})"
  using froz
proof (induction "card (stored (w_log w) slot)" arbitrary: w rule: less_induct)
  case less
  obtain r w1 where get: "ClusterGetKeysInSlot env client slot (mr_BatchSize req) w = (r, w1)" by fastforce
  obtain b where w1: "w1 = logged (RedisDo client (keys_command slot (mr_BatchSize req))) b w" using keys_run(1) [OF get] by blast
  have run1: "runs_carefully stored w w1" unfolding w1 by (rule runs_carefully_logged) simp
  have same: "stored (w_log w1) slot = stored (w_log w) slot"
    using store less.prems by (simp add: slot_store_def w1 keys_command_def)
  show ?case
  proof (cases r)
    case (Inl e)
    then show ?thesis using get run1 by (subst drain_slot.simps) simp
  next
    case (Inr keys)
    have reported: "set keys \<subseteq> stored (w_log w) slot" "keys = [] \<Longrightarrow> stored (w_log w) slot = {}"
      using store less.prems batch keys_run(2) [OF get Inr] by (auto simp: slot_store_def)
    show ?thesis
    proof (cases "keys = []")
      case True
      then show ?thesis using get Inr run1 same reported(2) by (subst drain_slot.simps) simp
    next
      case False
      obtain m w2 where mig: "MigrateKeys env client (mr_TargetIP req) (mr_TargetPort req) (mr_TimeoutMS req) keys w1 = (m, w2)" by fastforce
      have run2: "runs_carefully stored w w2"
        using migrate_world [OF False, of env client "mr_TargetIP req" "mr_TargetPort req" "mr_TimeoutMS req" w1] mig
        by (auto intro!: runs_carefully_trans [OF run1] runs_carefully_logged)
      show ?thesis
      proof (cases m)
        case (Inl e)
        then show ?thesis using get Inr False mig run2 by (subst drain_slot.simps) simp
      next
        case done_m: (Inr u)
        have "stored (w_log w2) slot = stored (w_log w) slot - set keys"
          using store frozen_later [OF less.prems run1] migrate_done [OF False mig [unfolded done_m]] same
          by (simp add: slot_store_def)
        moreover have "stored (w_log w) slot - set keys \<subset> stored (w_log w) slot"
          using reported(1) False by (cases keys) auto
        ultimately have "card (stored (w_log w2) slot) < card (stored (w_log w) slot)"
          using store by (simp add: slot_store_def psubset_card_mono)
        from less.hyps [OF this frozen_later [OF less.prems run2]] obtain r' w' where
          rest: "drain_slot env client req slot w2 = Some (r', w')" "runs_carefully stored w2 w'"
            "r' = Inr () \<longrightarrow> stored (w_log w') slot = {}" by blast
        then show ?thesis using get Inr False mig done_m runs_carefully_trans [OF run2 rest(2)] by (subst drain_slot.simps) simp
      qed
    qed
  qed
qed

lemma open_slot_run:
  assumes "open_slot env client req slot w = (r, w')"
  shows "runs_carefully stored w w'" "r = Inr u \<Longrightarrow> frozen client (w_log w') slot"
proof -
  have give: "\<not> gives_away s (RedisDo a [''CLUSTER'', ''SETSLOT'', t, ''IMPORTING'', n])" "\<not> gives_away s (RedisDo a [''CLUSTER'', ''SETSLOT'', t, ''MIGRATING'', n])"
    for s a t n by (simp_all add: gives_away_def)
  show "runs_carefully stored w w'"
    using assms give
    by (auto simp: open_slot_def bnd_def wrap_err_def ClusterSetSlotImporting_def ClusterSetSlotMigrating_def redis_err_def redis_do_def
        ret_def throw_def intro!: runs_carefully_logged runs_carefully_trans [OF runs_carefully_logged runs_carefully_logged]
        split: sum.splits if_splits)
  show "r = Inr u \<Longrightarrow> frozen client (w_log w') slot"
    using assms
    by (auto simp: open_slot_def bnd_def wrap_err_def ClusterSetSlotMigrating_def frozen_def migrating_command_def
        dest!: redis_err_done split: sum.splits prod.splits)
qed

lemma assign_slot_run:
  assumes store: "slot_store env client stored" and froz: "frozen client (w_log w) slot" and none: "stored (w_log w) slot = {}"
  shows "runs_carefully stored w (snd (assign_slot env client req slot w))"
proof -
  let ?node = "[''CLUSTER'', ''SETSLOT'', itoa slot, ''NODE'', mr_TargetNodeID req]"
  have first: "runs_carefully stored w (logged (RedisDo client ?node) b w)" for b
    by (rule runs_carefully_logged) (use none in \<open>auto simp: gives_away_def\<close>)
  have "stored (w_log w @ [(RedisDo client ?node, b)]) slot = {}" for b
    using store froz none by (simp add: slot_store_def)
  then have second: "runs_carefully stored (logged (RedisDo client ?node) b w) (logged (RedisDo a ?node) b' (logged (RedisDo client ?node) b w))" for a b b'
    by (intro runs_carefully_logged) (auto simp: gives_away_def)
  show ?thesis
    using first runs_carefully_trans [OF first second]
    by (auto simp: assign_slot_def bnd_def wrap_err_def ClusterSetSlotNode_def redis_err_def redis_do_def ret_def throw_def
        split: sum.splits if_splits prod.splits)
qed

text \<open>Both ends of the migration know the new owner of the slot.\<close>

definition given :: "string \<Rightarrow> clusterMigrateRangeRequest \<Rightarrow> log \<Rightarrow> int \<Rightarrow> bool" where
  "given client req l slot \<longleftrightarrow>
     (\<forall>a \<in> {client, peer_address req}.
        (RedisDo a [''CLUSTER'', ''SETSLOT'', itoa slot, ''NODE'', mr_TargetNodeID req], True) \<in> set l)"

lemma assign_slot_gives: "assign_slot env client req slot w = (Inr u, w') \<Longrightarrow> given client req (w_log w') slot"
  by (auto simp: assign_slot_def given_def bnd_def wrap_err_def ClusterSetSlotNode_def dest!: redis_err_done split: sum.splits prod.splits)

lemma given_later: "given client req (w_log w) slot \<Longrightarrow> runs_carefully stored w w' \<Longrightarrow> given client req (w_log w') slot"
  by (auto simp: given_def runs_carefully_def)

lemma move_slot_returns:
  assumes store: "slot_store env client stored" and batch: "0 < mr_BatchSize req"
  shows "\<exists>r w'. move_slot env client req slot w = Some (r, w') \<and> runs_carefully stored w w' \<and>
    (r = Inr () \<longrightarrow> given client req (w_log w') slot)"
proof -
  obtain r w1 where op: "open_slot env client req slot w = (r, w1)" by fastforce
  note run1 = open_slot_run(1) [OF op, of stored]
  show ?thesis
  proof (cases r)
    case (Inl e)
    then show ?thesis using op run1 by (simp add: move_slot_def)
  next
    case (Inr u)
    note froz = open_slot_run(2) [OF op Inr]
    obtain d w2 where dr: "drain_slot env client req slot w1 = Some (d, w2)" and run2: "runs_carefully stored w1 w2"
      and none: "d = Inr () \<longrightarrow> stored (w_log w2) slot = {}" using drain_slot_returns [OF store batch froz] by blast
    have run12: "runs_carefully stored w w2" by (rule runs_carefully_trans [OF run1 run2])
    show ?thesis
    proof (cases d)
      case (Inl e)
      then show ?thesis using op Inr dr run12 by (simp add: move_slot_def)
    next
      case d: (Inr v)
      then have "runs_carefully stored w2 (snd (assign_slot env client req slot w2))"
        using assign_slot_run [OF store frozen_later [OF froz run2]] none by simp
      from runs_carefully_trans [OF run12 this] show ?thesis
        using op Inr dr d assign_slot_gives by (cases "assign_slot env client req slot w2") (auto simp: move_slot_def)
    qed
  qed
qed

lemma move_slots_returns:
  assumes store: "slot_store env client stored" and batch: "0 < mr_BatchSize req" and "- 2147483648 \<le> slot" and "mr_End req < 2147483647"
  shows "\<exists>r w'. move_slots env client req slot w = Some (r, w') \<and> runs_carefully stored w w' \<and>
    (r = Inr () \<longrightarrow> (\<forall>s. slot \<le> s \<and> s \<le> mr_End req \<longrightarrow> given client req (w_log w') s))"
  using assms(3)
proof (induction "nat (mr_End req + 1 - slot)" arbitrary: slot w rule: less_induct)
  case less
  show ?case
  proof (cases "slot > mr_End req")
    case True
    then show ?thesis by (subst move_slots.simps) auto
  next
    case False
    then have step: "int32 (slot + 1) = slot + 1" using less.prems assms(4) by (intro int32_id) (simp add: in_int32_def)
    obtain r w1 where one: "move_slot env client req slot w = Some (r, w1)" and run1: "runs_carefully stored w w1"
      and here: "r = Inr () \<longrightarrow> given client req (w_log w1) slot"
      using move_slot_returns [OF store batch] by blast
    show ?thesis
    proof (cases r)
      case (Inl e)
      then show ?thesis using False one run1 by (subst move_slots.simps) simp
    next
      case (Inr u)
      obtain r' w' where rest: "move_slots env client req (slot + 1) w1 = Some (r', w')" "runs_carefully stored w1 w'"
          "r' = Inr () \<longrightarrow> (\<forall>s. slot + 1 \<le> s \<and> s \<le> mr_End req \<longrightarrow> given client req (w_log w') s)"
        using less.hyps [of "slot + 1" w1] False less.prems by auto
      have "given client req (w_log w') s" if "r' = Inr ()" "slot \<le> s" "s \<le> mr_End req" for s
        using that rest(3) given_later [OF _ rest(2)] here Inr by (cases "s = slot") auto
      then show ?thesis
        using False one Inr step rest(1) runs_carefully_trans [OF run1 rest(2)] by (subst move_slots.simps) simp
    qed
  qed
qed

text \<open>The handler as a whole, for a request whose last slot is not the largest 32-bit integer.\<close>

definition in_range :: "clusterMigrateRangeRequest option \<Rightarrow> bool" where
  "in_range body \<longleftrightarrow> (case body of None \<Rightarrow> True | Some raw \<Rightarrow> in_int32 (mr_Start raw) \<and> mr_End raw < 2147483647)"

lemma handle_migration_returns:
  assumes "slot_store env client stored" "srv_redisClient (w_obj w) = Some client"
    and "in_range body"
  shows "\<exists>out w'. handleClusterMigrateRange env meth body w = Some (Inr out, w') \<and> runs_carefully stored w w' \<and>
    (code out = 200 \<longrightarrow> (\<exists>raw. body = Some raw \<and>
       (\<forall>s. mr_Start raw \<le> s \<and> s \<le> mr_End raw \<longrightarrow> given client (normalize_migration raw) (w_log w') s)))"
proof (cases "meth = ''POST'' \<and> srv_clusterMode (w_obj w) \<and> (\<exists>raw. body = Some raw \<and> migration_fault (normalize_migration raw) = None)")
  case False
  then have "\<exists>out. handleClusterMigrateRange env meth body w = Some (Inr out, w) \<and> code out \<noteq> 200"
    by (cases body; cases "migration_fault (normalize_migration (the body))") (simp_all add: handleClusterMigrateRange_def http_error_def Let_def)
  then show ?thesis by auto
next
  case True
  then obtain raw where b: "body = Some raw" "migration_fault (normalize_migration raw) = None" by blast
  let ?req = "normalize_migration raw"
  have same: "mr_Start ?req = mr_Start raw" "mr_End ?req = mr_End raw" "0 < mr_BatchSize ?req" by (simp_all add: normalize_migration_def)
  obtain r w' where run: "move_slots env client ?req (mr_Start raw) w = Some (r, w')" "runs_carefully stored w w'"
      "r = Inr () \<longrightarrow> (\<forall>s. mr_Start raw \<le> s \<and> s \<le> mr_End raw \<longrightarrow> given client ?req (w_log w') s)"
    using move_slots_returns [OF assms(1) same(3), of "mr_Start raw" w] assms(3) b(1) same by (auto simp: in_range_def in_int32_def)
  show ?thesis
    using True b run assms(2) same by (cases r) (simp_all add: handleClusterMigrateRange_def http_error_def Let_def)
qed

lemma podIsFenced_iff: "podName \<noteq> [] \<Longrightarrow> podIsFenced cluster podName \<longleftrightarrow> podName \<in> set (getFencedPods cluster)"
  by (cases "map_of (c_Annotations cluster) FencingAnnotationKey") (simp_all add: podIsFenced_def getFencedPods_def mget_def split: option.split)

text \<open>Asking every peer: the answer, and the calls that were made.\<close>

lemma probe_all_run:
  "\<exists>b w'. probe_all env ts w = (Inr b, w') \<and> (\<exists>l. w_log w' = w_log w @ l \<and>
     (\<not> b \<longrightarrow> (\<forall>t \<in> set ts. (Http ''GET'' t status_path NoBody, False) \<in> set l)))"
proof (induction ts arbitrary: w)
  case Nil
  then show ?case by (simp add: ret_def) blast
next
  case (Cons t ts)
  obtain b where one: "probe env t w = (Inr b, logged (Http ''GET'' t status_path NoBody) b w)"
    by (auto simp: probe_def http_def bnd_def ret_def Let_def split: sum.split)
  obtain b' w' l where rest: "probe_all env ts (logged (Http ''GET'' t status_path NoBody) b w) = (Inr b', w')"
      "w_log w' = w_log (logged (Http ''GET'' t status_path NoBody) b w) @ l"
      "\<not> b' \<longrightarrow> (\<forall>t \<in> set ts. (Http ''GET'' t status_path NoBody, False) \<in> set l)" using Cons.IH by blast
  have "probe_all env (t # ts) w = (Inr (b \<or> b'), w')" using one rest(1) by (simp add: bnd_def ret_def)
  with rest(2,3) show ?case by auto
qed

text \<open>The role Redis reports, when it reports one.\<close>

definition reports_master :: "env \<Rightarrow> log \<Rightarrow> string \<Rightarrow> bool" where
  "reports_master env l client \<longleftrightarrow>
     (case e_redis env l client [''info'', ''replication''] of Inr (RStr raw) \<Rightarrow> in_Role (parseInfo raw) = ''master'' | _ \<Rightarrow> False)"

definition info_call :: "string \<Rightarrow> call \<times> bool" where
  "info_call client = (RedisDo client [''info'', ''replication''], True)"

lemma GetInfo_run:
  "attempt (GetInfo env client) w = (Inr r, w') \<Longrightarrow>
     (\<exists>l. w' = w\<lparr>w_log := w_log w @ l\<rparr> \<and> (r = Inr info \<and> in_Role info = ''master'' \<longrightarrow> l = [info_call client] \<and> reports_master env (w_log w) client))"
  by (auto simp: GetInfo_def redis_text_def redis_do_def reports_master_def info_call_def bnd_def ret_def throw_def attempt_def wrap_err_def
      logged_def split: sum.splits redis_reply.splits if_splits)

lemma GetInfo_no_panic: "\<exists>r w'. attempt (GetInfo env client) w = (Inr r, w')"
  by (auto simp: GetInfo_def redis_text_def redis_do_def bnd_def ret_def throw_def attempt_def wrap_err_def
      split: sum.split redis_reply.split)

lemma isolation_check_run:
  "\<exists>b l. shouldRunPrimaryIsolationCheck env w = (Inr b, w\<lparr>w_log := w_log w @ l\<rparr>) \<and>
     (b \<longrightarrow> srv_primaryIsolationEnabled (w_obj w) \<and> srv_exposeDataEndpoints (w_obj w) \<and> srv_k8sClient (w_obj w) \<and>
        (\<exists>client. srv_redisClient (w_obj w) = Some client \<and> reports_master env (w_log w) client \<and> l = [info_call client]))"
proof (cases "srv_primaryIsolationEnabled (w_obj w) \<and> srv_exposeDataEndpoints (w_obj w) \<and> srv_k8sClient (w_obj w) \<and> srv_redisClient (w_obj w) \<noteq> None")
  case False
  then have "shouldRunPrimaryIsolationCheck env w = (Inr False, w\<lparr>w_log := w_log w @ []\<rparr>)"
    by (auto simp: shouldRunPrimaryIsolationCheck_def bnd_def obj_def ret_def)
  then show ?thesis by blast
next
  case True
  then obtain client where c: "srv_redisClient (w_obj w) = Some client" by blast
  obtain r w1 where run: "attempt (GetInfo env client) w = (Inr r, w1)" using GetInfo_no_panic by blast
  obtain l where l: "w1 = w\<lparr>w_log := w_log w @ l\<rparr>"
      "\<forall>info. r = Inr info \<and> in_Role info = ''master'' \<longrightarrow> l = [info_call client] \<and> reports_master env (w_log w) client"
    using GetInfo_run [OF run] by (cases r) auto
  have "shouldRunPrimaryIsolationCheck env w = (Inr (case r of Inl _ \<Rightarrow> False | Inr info \<Rightarrow> in_Role info = ''master''), w\<lparr>w_log := w_log w @ l\<rparr>)"
    using True c run l(1) by (simp add: shouldRunPrimaryIsolationCheck_def bnd_def obj_def ret_def)
  then show ?thesis using True c l(2) by (cases r) auto
qed

lemma api_check_run:
  "\<exists>r w'. attempt (checkAPIServerReachable env) w = (Inr r, w') \<and> (\<exists>l. w_log w' = w_log w @ l) \<and>
     (\<forall>e. r = Inl e \<longrightarrow> w_obj w' = w_obj w \<and>
        (srv_k8sClient (w_obj w) \<longrightarrow> srv_namespace (w_obj w) = [] \<or> srv_clusterName (w_obj w) = [] \<or>
          (\<forall>c. e_get env (w_log w) KCluster (srv_namespace (w_obj w)) (srv_clusterName (w_obj w)) \<noteq> Inr (OCluster c))))"
  unfolding checkAPIServerReachable_def listPeerTargetsFromAPI_def list_pods_def list_objects_def get_cluster_def get_object_def
    perform_def attempt_def bnd_def obj_def set_obj_def ret_def throw_def wrong_kind_def
  by (simp add: logged_def split: sum.split object.split)

section \<open>Sample instances\<close>

definition sample_server :: Server where
  "sample_server = (NewServer ''127.0.0.1:6379'')\<lparr>srv_redisCmd := Alive, srv_k8sClient := True, srv_primaryIsolationEnabled := True,
     srv_clusterName := ''r'', srv_namespace := ''ns'', srv_podName := ''r-0'', srv_clusterMode := True,
     srv_cachedPeerTargets := [''10.0.0.2'', ''10.0.0.3'']\<rparr>"

definition sample_migration :: clusterMigrateRangeRequest where
  "sample_migration = \<lparr>mr_TargetIP = ''10.0.0.2'', mr_TargetPort = 0, mr_TargetNodeID = ''t'', mr_SourceNodeID = ''s'', mr_Start = 4,
     mr_End = 6, mr_BatchSize = 0, mr_TimeoutMS = 0\<rparr>"

text \<open>A Redis with two keys in slot 5, which it loses as they are migrated.\<close>

fun migrated :: "call \<times> bool \<Rightarrow> string list" where
  "migrated (RedisDo a (cmd # ip # port # key # db # t # opt # keys), True) = (if cmd = ''MIGRATE'' then keys else [])"
| "migrated _ = []"

definition store_left :: "log \<Rightarrow> string list" where
  "store_left l = filter (\<lambda>k. k \<notin> set (concat (map migrated l))) [''a'', ''b'']"

definition store_keys :: "log \<Rightarrow> int \<Rightarrow> string set" where
  "store_keys l slot = (if slot = 5 then {''a'', ''b''} - set (concat (map migrated l)) else {})"

definition store_env :: env where
  "store_env = (sample_env [])\<lparr>e_redis := (\<lambda>l a args.
     if take 2 args = [''CLUSTER'', ''GETKEYSINSLOT''] then Inr (RArr (map RStr (if args ! 2 = itoa 5 then store_left l else [])))
     else Inr (RStr ''OK''))\<rparr>"

lemma map_RStr_inj: "map RStr xs = map RStr ys \<longleftrightarrow> xs = ys"
  by (rule inj_map_eq_map) (simp add: inj_def)

lemma store_env_store: "slot_store store_env client store_keys"
proof -
  have quiet: "migrated (RedisDo a (''CLUSTER'' # args), b) = []" for a args b
    by (cases "(RedisDo a (''CLUSTER'' # args), b)" rule: migrated.cases) auto
  have left: "set (store_left l) = {''a'', ''b''} - set (concat (map migrated l))" for l
    by (auto simp: store_left_def)
  have none: "\<exists>x \<in> set l. k \<in> set (migrated x)" if "[] = store_left l" "k \<in> {''a'', ''b''}" for l k
    using that by (auto simp: store_left_def split: if_splits)
  have keys: "e_redis store_env l client (keys_command slot n) = Inr (RArr (map RStr keys)) \<longleftrightarrow> keys = (if slot = 5 then store_left l else [])"
    for l slot n keys by (auto simp: store_env_def keys_command_def map_RStr_inj)
  show ?thesis
    unfolding slot_store_def keys
    by (intro conjI allI impI) (auto simp: store_keys_def quiet left migrate_command_def intro: none)
qed

text \<open>A primary with no API server and no peer, a pod that is not fenced, and a Redis Cluster node.\<close>

definition cut_off_env :: env where
  "cut_off_env = (sample_env [])\<lparr>e_redis := (\<lambda>l a args. Inr (RStr ''role:master'')), e_get := (\<lambda>l k ns name. Inl (OtherApi ''timeout'')),
     e_http := (\<lambda>l meth ip path body. Inl ''timeout'')\<rparr>"

lemma master_role: "in_Role (parseInfo ''role:master'') = ''master''"
  by code_simp

definition ready_env :: env where
  "ready_env = (sample_env [])\<lparr>e_redis := (\<lambda>l a args. Inr (RStr ''PONG'')), e_get := (\<lambda>l k ns name. Inr (OCluster sample_cluster))\<rparr>"

lemma sample_node_wf: "wf_node sample_node"
  by (simp add: wf_node_def word_def is_space_def sample_node_def in_int64_def in_int32_def)

definition nodes_env :: env where
  "nodes_env = (sample_env [])\<lparr>e_redis := (\<lambda>l a args. Inr (RStr (print_nodes (''16379'', ''0'', ''0'') [sample_node])))\<rparr>"

section \<open>Properties\<close>



text \<open>
  C3. No key is left behind by a migration: every command that gives a slot to a node, to either end,
  is sent when the source holds no key of that slot any more, on failing runs too. When the request is
  answered with success, both ends were told of the new owner for every slot of the range.
\<close>

theorem slot_given_away_empty:
  assumes "slot_store env client stored" "srv_redisClient (w_obj w) = Some client"
    and "in_range body"
    and "handleClusterMigrateRange env meth body w = Some (Inr out, w')"
  shows "(\<exists>l. w_log w' = w_log w @ l \<and> careful stored (w_log w) l) \<and>
    (code out = 200 \<longrightarrow> (\<exists>raw. body = Some raw \<and>
       (\<forall>s. mr_Start raw \<le> s \<and> s \<le> mr_End raw \<longrightarrow> given client (normalize_migration raw) (w_log w') s)))"
  using handle_migration_returns [OF assms(1-3), of meth] assms(4) unfolding runs_carefully_def by (elim exE conjE) simp

theorem slot_given_away_empty_witness:
  "\<exists>out w' l. handleClusterMigrateRange store_env ''POST'' (Some sample_migration) (sample_world sample_server) = Some (Inr out, w') \<and>
     w_log w' = l \<and> careful store_keys [] l \<and> store_keys [] 5 = {''a'', ''b''}"
proof -
  have h: "srv_redisClient (w_obj (sample_world sample_server)) = Some ''127.0.0.1:6379''" "in_range (Some sample_migration)"
    by (simp_all add: sample_simps sample_server_def NewServer_def sample_migration_def in_range_def in_int32_def)
  obtain out w' where run: "handleClusterMigrateRange store_env ''POST'' (Some sample_migration) (sample_world sample_server) = Some (Inr out, w')"
    using handle_migration_returns [OF store_env_store h, of "''POST''"] by blast
  with slot_given_away_empty [OF store_env_store h run] show ?thesis by (auto simp: sample_world_def store_keys_def)
qed

text \<open>
  C36. The liveness probe restarts a running instance only when it is an isolated primary: protection is
  enabled, Redis itself says it is a primary, the cluster object could not be read with the identity the
  server has, and there were cached peers, all of which were asked and none of which answered.
\<close>

theorem healthz_fails_only_isolated:
  assumes "handleHealthz env w = (Inr out, w')" "srv_redisCmd (w_obj w) = Alive" "code out \<noteq> 200"
  shows "srv_primaryIsolationEnabled (w_obj w) \<and> srv_exposeDataEndpoints (w_obj w) \<and> srv_cachedPeerTargets (w_obj w) \<noteq> [] \<and>
    (\<exists>client. srv_redisClient (w_obj w) = Some client \<and> reports_master env (w_log w) client \<and>
       (srv_namespace (w_obj w) = [] \<or> srv_clusterName (w_obj w) = [] \<or>
          (\<forall>c. e_get env (w_log w @ [info_call client]) KCluster (srv_namespace (w_obj w)) (srv_clusterName (w_obj w)) \<noteq> Inr (OCluster c)))) \<and>
    (\<exists>l. w_log w' = w_log w @ l \<and>
       (\<forall>t \<in> set (srv_cachedPeerTargets (w_obj w)). (Http ''GET'' t status_path NoBody, False) \<in> set l))"
proof -
  obtain b l where chk: "shouldRunPrimaryIsolationCheck env w = (Inr b, w\<lparr>w_log := w_log w @ l\<rparr>)"
    and why: "b \<longrightarrow> srv_primaryIsolationEnabled (w_obj w) \<and> srv_exposeDataEndpoints (w_obj w) \<and> srv_k8sClient (w_obj w) \<and>
        (\<exists>client. srv_redisClient (w_obj w) = Some client \<and> reports_master env (w_log w) client \<and> l = [info_call client])"
    using isolation_check_run [of env w] by blast
  let ?w1 = "w\<lparr>w_log := w_log w @ l\<rparr>"
  obtain r w2 l2 where api: "attempt (checkAPIServerReachable env) ?w1 = (Inr r, w2)" and l2: "w_log w2 = w_log ?w1 @ l2"
    and same: "\<forall>e. r = Inl e \<longrightarrow> w_obj w2 = w_obj ?w1 \<and>
        (srv_k8sClient (w_obj ?w1) \<longrightarrow> srv_namespace (w_obj ?w1) = [] \<or> srv_clusterName (w_obj ?w1) = [] \<or>
          (\<forall>c. e_get env (w_log ?w1) KCluster (srv_namespace (w_obj ?w1)) (srv_clusterName (w_obj ?w1)) \<noteq> Inr (OCluster c)))" using api_check_run [of env ?w1] by blast
  have b: "b" using assms chk by (cases b) (auto simp: handleHealthz_def bnd_def obj_def ret_def Let_def)
  obtain e where r: "r = Inl e" using assms chk api b by (cases r) (auto simp: handleHealthz_def bnd_def obj_def ret_def Let_def)
  obtain p w3 l3 where pr: "probe_all env (srv_cachedPeerTargets (w_obj w)) w2 = (Inr p, w3)" "w_log w3 = w_log w2 @ l3"
      "\<not> p \<longrightarrow> (\<forall>t \<in> set (srv_cachedPeerTargets (w_obj w)). (Http ''GET'' t status_path NoBody, False) \<in> set l3)"
    using probe_all_run [of env "srv_cachedPeerTargets (w_obj w)" w2] by blast
  have "srv_cachedPeerTargets (w_obj w) \<noteq> [] \<and> \<not> p \<and> w' = w3"
    using assms chk api b r same pr(1)
    by (auto simp: handleHealthz_def checkAnyPeerReachable_def bnd_def obj_def ret_def Let_def split: if_splits)
  with why b l2 pr(2,3) r same show ?thesis by auto
qed

theorem healthz_fails_only_isolated_witness:
  "code (case handleHealthz cut_off_env (sample_world sample_server) of (Inr out, _) \<Rightarrow> out) = 503 \<and>
   (Http ''GET'' ''10.0.0.2'' status_path NoBody, False) \<in> set (w_log (snd (handleHealthz cut_off_env (sample_world sample_server)))) \<and>
   (Http ''GET'' ''10.0.0.3'' status_path NoBody, False) \<in> set (w_log (snd (handleHealthz cut_off_env (sample_world sample_server))))"
proof -
  have run: "handleHealthz cut_off_env (sample_world sample_server) =
      (Inr (Plain 503 ''primary isolated: cannot reach API server or any peer''), snd (handleHealthz cut_off_env (sample_world sample_server)))"
    by (simp add: handleHealthz_def shouldRunPrimaryIsolationCheck_def GetInfo_def redis_text_def redis_do_def checkAPIServerReachable_def
        checkAnyPeerReachable_def get_cluster_def get_object_def perform_def attempt_def bnd_def obj_def ret_def throw_def wrap_err_def
        probe_def http_def master_role cut_off_env_def sample_simps sample_server_def NewServer_def)
  have "srv_redisCmd (w_obj (sample_world sample_server)) = Alive" by (simp add: sample_world_def sample_server_def NewServer_def)
  from healthz_fails_only_isolated [OF run this] show ?thesis by (subst run) (auto simp: sample_world_def sample_server_def NewServer_def)
qed

text \<open>
  C37. A fenced instance takes no traffic: when the readiness probe of an instance that knows its identity
  succeeds, the cluster object it has just read does not list it among the fenced pods, as the operator
  reads that list, and Redis answered a ping. A cluster object that cannot be read makes it unready.
\<close>

theorem ready_pod_is_not_fenced:
  assumes "handleReadyz env w = (Inr out, w')" "code out = 200"
    and "srv_k8sClient (w_obj w)" "srv_clusterName (w_obj w) \<noteq> []" "srv_namespace (w_obj w) \<noteq> []" "srv_podName (w_obj w) \<noteq> []"
  shows "\<exists>cluster client. e_get env (w_log w) KCluster (srv_namespace (w_obj w)) (srv_clusterName (w_obj w)) = Inr (OCluster cluster) \<and>
    srv_podName (w_obj w) \<notin> set (getFencedPods cluster) \<and>
    srv_redisClient (w_obj w) = Some client \<and> (RedisDo client [''ping''], True) \<in> set (w_log w')"
  using assms podIsFenced_iff [OF assms(6)]
  by (auto simp: handleReadyz_def isCurrentPodFenced_def with_client_def get_cluster_def get_object_def perform_def attempt_def bnd_def
      obj_def ret_def throw_def logged_def wrong_kind_def http_error_def redis_err_def redis_do_def
      split: option.splits sum.splits object.splits if_splits)

theorem ready_pod_is_not_fenced_witness:
  "\<exists>cluster client. e_get ready_env [] KCluster ''ns'' ''r'' = Inr (OCluster cluster) \<and> ''r-0'' \<notin> set (getFencedPods cluster) \<and>
     (RedisDo client [''ping''], True) \<in> set (w_log (snd (handleReadyz ready_env (sample_world sample_server))))"
proof -
  have run: "handleReadyz ready_env (sample_world sample_server) = (Inr (http_ok ''ok''), snd (handleReadyz ready_env (sample_world sample_server)))"
    by (simp add: handleReadyz_def isCurrentPodFenced_def with_client_def redis_err_def redis_do_def get_cluster_def get_object_def perform_def
        attempt_def bnd_def obj_def ret_def throw_def podIsFenced_def mget_def ready_env_def sample_simps sample_server_def NewServer_def)
  from ready_pod_is_not_fenced [OF run] show ?thesis by (auto simp: sample_world_def sample_server_def NewServer_def)
qed




end
