(* ===== verification/Instance_Manager.thy ===== *)
theory Instance_Manager
  imports Paths Instance_Server Secrets
begin

text \<open>
  The agent inside a pod: the watch loop of \<^verbatim>\<open>internal/instance-manager/reconciler/reconciler.go\<close>, the start
  of a data pod in \<^verbatim>\<open>internal/instance-manager/run/run.go\<close> and of a Sentinel pod in
  \<^verbatim>\<open>internal/instance-manager/run/sentinel.go\<close>. The object in memory is the state of the reconciler; the
  cluster a cycle has fetched is passed along. The file system and the process environment are
  parameters: what a read answers, whether a write succeeds. Files written, servers started and signals
  sent are entries of the log, next to the calls to the API server and to Redis.

  Paths are joined without cleaning: the names of Secrets have no dots or slashes to clean.
\<close>

section \<open>Files\<close>

datatype file_read = FileMissing | FileError string | FileContent string

record files =
  fl_read :: "log \<Rightarrow> string \<Rightarrow> file_read"
  fl_write :: "log \<Rightarrow> string \<Rightarrow> string \<Rightarrow> string option"
  fl_mkdir :: "log \<Rightarrow> string \<Rightarrow> string option"
  fl_getenv :: "string \<Rightarrow> string"

definition read_file :: "files \<Rightarrow> string \<Rightarrow> ('s, file_read) io" where
  "read_file fs path = (\<lambda>w. (Inr (fl_read fs (w_log w) path), w))"

definition write_file :: "files \<Rightarrow> string \<Rightarrow> string \<Rightarrow> ('s, unit) io" where
  "write_file fs path content = (\<lambda>w. case fl_write fs (w_log w) path content of
     Some e \<Rightarrow> (Inl (Err e), logged (WriteFile path content) False w)
   | None \<Rightarrow> (Inr (), logged (WriteFile path content) True w))"

definition mkdir_all :: "files \<Rightarrow> string \<Rightarrow> ('s, unit) io" where
  "mkdir_all fs path = (\<lambda>w. case fl_mkdir fs (w_log w) path of Some e \<Rightarrow> (Inl (Err e), w) | None \<Rightarrow> (Inr (), w))"

text \<open>A file that has to be there; the error of a missing file is told apart by its kind in the source.\<close>

definition content_of :: "file_read \<Rightarrow> ('s, string) io" where
  "content_of f = (case f of FileContent s \<Rightarrow> ret s | FileError e \<Rightarrow> throw (Err e) | FileMissing \<Rightarrow> throw (Err ''no such file or directory''))"

definition resolveProjectedSecretsDir :: "files \<Rightarrow> string" where
  "resolveProjectedSecretsDir fs =
     (let dir = trimSpace (fl_getenv fs ''REDIS_OPERATOR_PROJECTED_SECRETS_DIR'') in if dir \<noteq> [] then dir else ''/projected'')"

definition resolveACLFilePath :: "files \<Rightarrow> string" where
  "resolveACLFilePath fs =
     (let p = trimSpace (fl_getenv fs ''REDIS_OPERATOR_ACL_FILE_PATH'') in if p \<noteq> [] then p else ''/data/users.acl'')"

section \<open>The reconciler\<close>

record InstanceReconciler =
  ir_redisClient :: string
  ir_clusterName :: string
  ir_podName :: string
  ir_namespace :: string
  ir_redisCmd :: process
  ir_tlsCertChecksums :: "(string, string) gomap"

definition NewInstanceReconciler :: "string \<Rightarrow> string \<Rightarrow> string \<Rightarrow> string \<Rightarrow> InstanceReconciler" where
  "NewInstanceReconciler redisClient clusterName podName namespace =
     \<lparr>ir_redisClient = redisClient, ir_clusterName = clusterName, ir_podName = podName, ir_namespace = namespace,
      ir_redisCmd = NoProcess, ir_tlsCertChecksums = []\<rparr>"

definition SetInstanceCmd :: "process \<Rightarrow> InstanceReconciler \<Rightarrow> InstanceReconciler" where
  "SetInstanceCmd cmd r = r\<lparr>ir_redisCmd := cmd\<rparr>"

subsection \<open>Fencing\<close>

definition isFenced :: "InstanceReconciler \<Rightarrow> RedisCluster \<Rightarrow> bool" where
  "isFenced r cluster \<longleftrightarrow>
     (case map_of (c_Annotations cluster) FencingAnnotationKey of
        None \<Rightarrow> False
      | Some fenced \<Rightarrow> (case unmarshal_names fenced of None \<Rightarrow> False | Some fencedPods \<Rightarrow> ir_podName r \<in> set fencedPods))"

definition requiresHardFence :: "InstanceReconciler \<Rightarrow> RedisCluster \<Rightarrow> bool" where
  "requiresHardFence r cluster \<longleftrightarrow> isFenced r cluster \<and> fst (ClusterHandoverPods cluster) \<noteq> ir_podName r"

definition stopRedis :: "(InstanceReconciler, unit) io" where
  "stopRedis = bnd obj (\<lambda>r. if ir_redisCmd r \<noteq> NoProcess then (\<lambda>w. (Inr (), logged Interrupt True w)) else ret ())"

subsection \<open>Role\<close>

definition getPodIP :: "env \<Rightarrow> string \<Rightarrow> string \<Rightarrow> ('s, string) io" where
  "getPodIP env podName namespace =
     bnd (wrap_err (''getting pod '' @ namespace @ ''/'' @ podName @ '' for IP resolution'') (get_pod env namespace podName)) (\<lambda>pod.
     if p_IP pod = [] then throw (Err (''pod '' @ namespace @ ''/'' @ podName @ '' has no IP assigned yet''))
     else ret (p_IP pod))"

definition replicaModeSourceEndpoint :: "RedisCluster \<Rightarrow> string + string \<times> int" where
  "replicaModeSourceEndpoint cluster =
     (case s_ReplicaMode (c_Spec cluster) of
        None \<Rightarrow> Inl ''replica mode source is not configured''
      | Some m \<Rightarrow>
          (case rm_Source m of
             None \<Rightarrow> Inl ''replica mode source is not configured''
           | Some source \<Rightarrow>
               let host = trimSpace (rs_Host source) in
               if host = [] then Inl ''replica mode source host is empty''
               else Inr (host, if rs_Port source \<le> 0 then 6379 else rs_Port source)))"

definition replica_promote :: "RedisCluster \<Rightarrow> bool" where
  "replica_promote cluster \<longleftrightarrow> (case s_ReplicaMode (c_Spec cluster) of None \<Rightarrow> False | Some m \<Rightarrow> rm_Promote m)"

definition external_role :: "env \<Rightarrow> RedisCluster \<Rightarrow> Info \<Rightarrow> (InstanceReconciler, unit) io" where
  "external_role env cluster info = bnd obj (\<lambda>r.
     case replicaModeSourceEndpoint cluster of
       Inl e \<Rightarrow> throw (Err e)
     | Inr (sourceHost, sourcePort) \<Rightarrow>
         if replica_promote cluster \<and> st_CurrentPrimary (c_Status cluster) = ir_podName r then
           if in_Role info = ''slave'' then
             bnd (eventf Normal ''ReplicaModePromoteRequested'' (''Promoting pod '' @ ir_podName r @ '' out of replica mode'')) (\<lambda>_.
             Promote env (ir_redisClient r))
           else ret ()
         else if in_Role info \<noteq> ''slave'' \<or> in_MasterHost info \<noteq> sourceHost \<or> in_MasterPort info \<noteq> sourcePort then
           bnd (eventf Normal ''ReplicaModeSourceUpdated''
             (''Pod '' @ ir_podName r @ '' configured to replicate from external source '' @ sourceHost @ '':'' @ itoa sourcePort)) (\<lambda>_.
           SetReplicaOf env (ir_redisClient r) sourceHost sourcePort)
         else ret ())"

definition follow_primary :: "env \<Rightarrow> RedisCluster \<Rightarrow> Info \<Rightarrow> (InstanceReconciler, unit) io" where
  "follow_primary env cluster info = bnd obj (\<lambda>r.
     let primary = st_CurrentPrimary (c_Status cluster) in
     if in_Role info = ''master'' then
       bnd (wrap_err ''resolving primary IP'' (getPodIP env primary (c_Namespace cluster))) (\<lambda>primaryIP.
       bnd (eventf Normal ''DemotedToReplica'' (''Pod '' @ ir_podName r @ '' demoted to replica of '' @ primary)) (\<lambda>_.
       SetReplicaOf env (ir_redisClient r) primaryIP 6379))
     else if in_Role info = ''slave'' then
       bnd (wrap_err ''resolving primary IP'' (getPodIP env primary (c_Namespace cluster))) (\<lambda>primaryIP.
       if in_MasterHost info \<noteq> primaryIP \<or> in_MasterPort info \<noteq> 6379 then
         bnd (eventf Normal ''ReplicaReconfigured''
           (''Pod '' @ ir_podName r @ '' reconfigured to replicate from primary '' @ primary)) (\<lambda>_.
         SetReplicaOf env (ir_redisClient r) primaryIP 6379)
       else ret ())
     else ret ())"

definition apply_role :: "env \<Rightarrow> RedisCluster \<Rightarrow> InstanceReconciler \<Rightarrow> Info \<Rightarrow> (InstanceReconciler, unit) io" where
  "apply_role env cluster r info =
     (if isReplicaModeEnabled cluster then external_role env cluster info
      else if st_CurrentPrimary (c_Status cluster) = ir_podName r then
        if in_Role info = ''slave'' then
          bnd (eventf Normal ''PromotedToPrimary'' (''Pod '' @ ir_podName r @ '' promoted to primary'')) (\<lambda>_.
          Promote env (ir_redisClient r))
        else ret ()
      else follow_primary env cluster info)"

definition reconcileRole :: "env \<Rightarrow> RedisCluster \<Rightarrow> (InstanceReconciler, unit) io" where
  "reconcileRole env cluster =
     (if s_Mode (c_Spec cluster) = ClusterModeCluster then ret ()
      else bnd obj (\<lambda>r. bnd (wrap_err ''getting replication info'' (GetInfo env (ir_redisClient r))) (apply_role env cluster r)))"

subsection \<open>Configuration\<close>

definition config_set :: "env \<Rightarrow> string \<Rightarrow> string \<Rightarrow> string \<Rightarrow> ('s, unit) io" where
  "config_set env client key val = redis_err env client [''config'', ''set'', key, val]"

definition requiresRestart :: "string \<Rightarrow> bool" where
  "requiresRestart key \<longleftrightarrow>
     takeWhile (\<lambda>c. c \<noteq> CHR '' '' \<and> c \<noteq> CHR 0x09) key \<in>
       {''bind'', ''port'', ''tls-port'', ''unixsocket'', ''databases'', ''loadmodule''}"

definition reconcileConfig :: "env \<Rightarrow> RedisCluster \<Rightarrow> (InstanceReconciler, unit) io" where
  "reconcileConfig env cluster = bnd obj (\<lambda>r.
     let client = ir_redisClient r; spec = c_Spec cluster in
     bnd (for_each (\<lambda>(key, val).
       if requiresRestart key then ret () else wrap_err (''CONFIG SET '' @ key) (config_set env client key val)) (s_Redis spec)) (\<lambda>_.
     bnd (case ResolveMaxMemoryBytes spec of
            (n, ok) \<Rightarrow> if ok then wrap_err ''CONFIG SET maxmemory'' (config_set env client ''maxmemory'' (itoa n)) else ret ()) (\<lambda>_.
     let policy = EffectiveMaxMemoryPolicy spec in
     if policy \<noteq> [] then wrap_err ''CONFIG SET maxmemory-policy'' (config_set env client ''maxmemory-policy'' policy) else ret ())))"

subsection \<open>Secrets\<close>

definition readSecretKey :: "files \<Rightarrow> string \<Rightarrow> string \<Rightarrow> ('s, string) io" where
  "readSecretKey fs secretName key =
     bnd (read_file fs (path_join [resolveProjectedSecretsDir fs, secretName, key])) (\<lambda>f.
     case f of
       FileMissing \<Rightarrow> ret []
     | FileError e \<Rightarrow> throw (Wrap (''reading projected secret '' @ secretName @ ''/'' @ key) (Err e))
     | FileContent s \<Rightarrow> ret (trimSpace s))"

definition instanceAuthSecretName :: "RedisCluster \<Rightarrow> string" where
  "instanceAuthSecretName cluster =
     (case s_AuthSecret (c_Spec cluster) of
        Some name \<Rightarrow>
          if trimSpace name \<noteq> [] then trimSpace name
          else if trimSpace (c_Name cluster) = [] then [] else c_Name cluster @ ''-auth''
      | None \<Rightarrow> if trimSpace (c_Name cluster) = [] then [] else c_Name cluster @ ''-auth'')"

definition usingGeneratedAuthSecretFallback :: "RedisCluster \<Rightarrow> string \<Rightarrow> bool" where
  "usingGeneratedAuthSecretFallback cluster authSecretName \<longleftrightarrow>
     (if trimSpace authSecretName = [] then False
      else if (case s_AuthSecret (c_Spec cluster) of Some name \<Rightarrow> trimSpace name \<noteq> [] | None \<Rightarrow> False) then False
      else authSecretName = c_Name cluster @ ''-auth'')"

definition fallbackUnavailable :: string where
  "fallbackUnavailable = ''fallback auth secret unavailable''"

fun is_fallback_unavailable :: "goerr \<Rightarrow> bool" where
  "is_fallback_unavailable (Wrap msg e) \<longleftrightarrow> msg = fallbackUnavailable \<or> is_fallback_unavailable e"
| "is_fallback_unavailable _ \<longleftrightarrow> False"

text \<open>The local password: set for clients and for replication, and returned.\<close>

definition apply_auth :: "env \<Rightarrow> files \<Rightarrow> RedisCluster \<Rightarrow> (InstanceReconciler, string) io" where
  "apply_auth env fs cluster = bnd obj (\<lambda>r.
     let authSecretName = instanceAuthSecretName cluster; client = ir_redisClient r in
     if authSecretName = [] then ret []
     else
       bnd (wrap_err ''reading auth secret'' (readSecretKey fs authSecretName ''password'')) (\<lambda>password.
       if password = [] \<and> usingGeneratedAuthSecretFallback cluster authSecretName then
         throw (Wrap fallbackUnavailable (Err (''projected secret '' @ authSecretName @ ''/password is empty or missing'')))
       else if password \<noteq> [] then
         bnd (wrap_err ''CONFIG SET requirepass'' (config_set env client ''requirepass'' password)) (\<lambda>_.
         bnd (wrap_err ''CONFIG SET masterauth'' (config_set env client ''masterauth'' password)) (\<lambda>_.
         ret password))
       else ret []))"

definition apply_acl :: "env \<Rightarrow> files \<Rightarrow> RedisCluster \<Rightarrow> (InstanceReconciler, unit) io" where
  "apply_acl env fs cluster = bnd obj (\<lambda>r.
     case s_ACLConfigSecret (c_Spec cluster) of
       None \<Rightarrow> ret ()
     | Some name \<Rightarrow>
         bnd (wrap_err ''reading ACL secret'' (readSecretKey fs name ''acl'')) (\<lambda>acl.
         if acl \<noteq> [] then
           bnd (wrap_err ''writing ACL file'' (write_file fs (resolveACLFilePath fs) acl)) (\<lambda>_.
           wrap_err ''ACL LOAD'' (redis_err env (ir_redisClient r) [''ACL'', ''LOAD'']))
         else ret ()))"

definition source_auth_name :: "RedisCluster \<Rightarrow> string" where
  "source_auth_name cluster =
     (if isReplicaModeEnabled cluster then
        (case s_ReplicaMode (c_Spec cluster) of
           None \<Rightarrow> []
         | Some m \<Rightarrow> (case rm_Source m of None \<Rightarrow> [] | Some source \<Rightarrow> trimSpace (rs_AuthSecretName source)))
      else [])"

definition apply_source_auth :: "env \<Rightarrow> files \<Rightarrow> RedisCluster \<Rightarrow> string \<Rightarrow> (InstanceReconciler, unit) io" where
  "apply_source_auth env fs cluster localAuthPassword = bnd obj (\<lambda>r.
     let authSecretName = source_auth_name cluster; client = ir_redisClient r in
     if authSecretName \<noteq> [] then
       bnd (wrap_err ''reading replica mode auth secret'' (readSecretKey fs authSecretName ''password'')) (\<lambda>password.
       if password = [] then throw (Err (''replica mode auth secret '' @ authSecretName @ ''/password is empty or missing''))
       else wrap_err ''CONFIG SET masterauth for replica mode'' (config_set env client ''masterauth'' password))
     else if localAuthPassword = [] then wrap_err ''CONFIG SET masterauth clear'' (config_set env client ''masterauth'' [])
     else ret ())"

definition reconcileInstanceSecrets :: "env \<Rightarrow> files \<Rightarrow> RedisCluster \<Rightarrow> (InstanceReconciler, unit) io" where
  "reconcileInstanceSecrets env fs cluster =
     bnd (apply_auth env fs cluster) (\<lambda>localAuthPassword.
     bnd (apply_acl env fs cluster) (\<lambda>_.
     apply_source_auth env fs cluster localAuthPassword))"

subsection \<open>Certificates\<close>

definition tlsFiles :: "(string \<times> string) list" where
  "tlsFiles = [(''tls-cert-file'', ''/tls/tls.crt''), (''tls-key-file'', ''/tls/tls.key''), (''tls-ca-cert-file'', ''/tls/ca.crt'')]"

primrec read_checksums :: "files \<Rightarrow> (string \<times> string) list \<Rightarrow> (string, string) gomap \<Rightarrow> ('s, (string, string) gomap) io" where
  "read_checksums fs [] checksums = ret checksums"
| "read_checksums fs (x # rest) checksums =
     (case x of (key, path) \<Rightarrow>
       bnd (read_file fs path) (\<lambda>f.
       bnd (wrap_err (''reading TLS certificate file '' @ path) (content_of f)) (\<lambda>content.
       read_checksums fs rest (mput key (EncodeToString (sha256 content)) checksums))))"

definition readTLSCertChecksums :: "files \<Rightarrow> ('s, (string, string) gomap) io" where
  "readTLSCertChecksums fs = read_checksums fs tlsFiles []"

definition checksumsEqual :: "(string, string) gomap \<Rightarrow> (string, string) gomap \<Rightarrow> bool" where
  "checksumsEqual left right \<longleftrightarrow> length left = length right \<and> list_all (\<lambda>(key, v). map_of right key = Some v) left"

definition reconcileTLSCerts :: "env \<Rightarrow> files \<Rightarrow> RedisCluster \<Rightarrow> (InstanceReconciler, unit) io" where
  "reconcileTLSCerts env fs cluster =
     (if \<not> isTLSEnabled cluster then set_obj (\<lambda>r. r\<lparr>ir_tlsCertChecksums := []\<rparr>)
      else
        bnd (readTLSCertChecksums fs) (\<lambda>currentChecksums.
        bnd obj (\<lambda>r.
        if ir_tlsCertChecksums r = [] then set_obj (\<lambda>r. r\<lparr>ir_tlsCertChecksums := currentChecksums\<rparr>)
        else if checksumsEqual (ir_tlsCertChecksums r) currentChecksums then ret ()
        else
          bnd (for_each (\<lambda>(key, path). wrap_err (''CONFIG SET '' @ key) (config_set env (ir_redisClient r) key path)) tlsFiles) (\<lambda>_.
          bnd (eventf Normal ''CertificatesRotated'' ''TLS certificates reloaded'') (\<lambda>_.
          set_obj (\<lambda>r. r\<lparr>ir_tlsCertChecksums := currentChecksums\<rparr>))))))"

subsection \<open>Status and the cycle\<close>

definition instance_report :: "Info \<Rightarrow> InstanceStatus \<Rightarrow> InstanceStatus" where
  "instance_report info status = status\<lparr>is_Role := in_Role info, is_Connected := True,
     is_ReplicationOffset := (if in_Role info = ''slave'' then in_SlaveReplOffset info else in_MasterReplOffset info),
     is_ConnectedReplicas := int32 (in_ConnectedReplicas info), is_MasterLinkStatus := in_MasterLinkStatus info\<rparr>"

definition with_report :: "string \<Rightarrow> Info \<Rightarrow> RedisCluster \<Rightarrow> RedisCluster" where
  "with_report podName info cluster = cluster\<lparr>c_Status := (c_Status cluster)\<lparr>st_InstancesStatus :=
     mput podName (instance_report info (mget zero_InstanceStatus (st_InstancesStatus (c_Status cluster)) podName))
       (st_InstancesStatus (c_Status cluster))\<rparr>\<rparr>"

definition reportStatus :: "env \<Rightarrow> RedisCluster \<Rightarrow> (InstanceReconciler, unit) io" where
  "reportStatus env cluster = bnd obj (\<lambda>r.
     bnd (wrap_err ''getting replication info for status'' (GetInfo env (ir_redisClient r))) (\<lambda>info.
     let base = OCluster cluster; x = OCluster (with_report (ir_podName r) info cluster) in
     bnd (perform (StatusPatch base x) (\<lambda>l. e_status_patch env l base x)) (\<lambda>_. ret ())))"

definition reconcileInstance :: "env \<Rightarrow> files \<Rightarrow> (InstanceReconciler, unit) io" where
  "reconcileInstance env fs = bnd obj (\<lambda>r.
     bnd (wrap_err ''fetching RedisCluster'' (get_cluster env (ir_namespace r) (ir_clusterName r))) (\<lambda>cluster.
     if requiresHardFence r cluster then
       bnd (eventf Warning ''InstanceFenced'' (''Pod '' @ ir_podName r @ '' is fenced, stopping redis-server'')) (\<lambda>_. stopRedis)
     else
       bnd (reconcileRole env cluster) (\<lambda>_.
       bnd (attempt (reconcileConfig env cluster)) (\<lambda>config.
       bnd (if isl config then ret ()
            else if s_Redis (c_Spec cluster) \<noteq> [] then eventf Normal ''ConfigReloaded'' ''Redis configuration reloaded''
            else ret ()) (\<lambda>_.
       bnd (attempt (reconcileInstanceSecrets env fs cluster)) (\<lambda>secrets.
       case secrets of
         Inl e \<Rightarrow>
           if is_fallback_unavailable e then throw e
           else bnd (attempt (reconcileTLSCerts env fs cluster)) (\<lambda>_. reportStatus env cluster)
       | Inr _ \<Rightarrow> bnd (attempt (reconcileTLSCerts env fs cluster)) (\<lambda>_. reportStatus env cluster)))))))"

section \<open>Starting a data pod\<close>

definition replicaModeSourcePort :: "ReplicaSourceSpec \<Rightarrow> int" where
  "replicaModeSourcePort source = (if rs_Port source \<le> 0 then 6379 else rs_Port source)"

definition readProjectedSecretPassword :: "files \<Rightarrow> string \<Rightarrow> ('s, string) io" where
  "readProjectedSecretPassword fs secretName =
     bnd (read_file fs (path_join [resolveProjectedSecretsDir fs, secretName, ''password''])) (\<lambda>f.
     bnd (content_of f) (\<lambda>content. ret (trimSpace content)))"

definition runAuthSecretName :: "RedisCluster \<Rightarrow> string" where
  "runAuthSecretName cluster =
     (case s_AuthSecret (c_Spec cluster) of
        Some name \<Rightarrow>
          if trimSpace name \<noteq> [] then trimSpace name
          else if trimSpace (c_Name cluster) = [] then [] else c_Name cluster @ ''-auth''
      | None \<Rightarrow> if trimSpace (c_Name cluster) = [] then [] else c_Name cluster @ ''-auth'')"

definition resolveLocalAuthPassword :: "files \<Rightarrow> RedisCluster \<Rightarrow> ('s, string) io" where
  "resolveLocalAuthPassword fs cluster =
     (let authSecretName = runAuthSecretName cluster in
      if authSecretName = [] then ret []
      else wrap_err (''reading projected auth secret '' @ authSecretName @ ''/password'') (readProjectedSecretPassword fs authSecretName))"

definition redisConfigValue :: "RedisCluster \<Rightarrow> string \<Rightarrow> string \<Rightarrow> string" where
  "redisConfigValue cluster key defaultValue =
     (case map_of (s_Redis (c_Spec cluster)) key of
        None \<Rightarrow> defaultValue
      | Some v \<Rightarrow> if trimSpace v \<noteq> [] then v else defaultValue)"

definition primaryIsolationEnabled :: "PrimaryIsolationSpec option \<Rightarrow> bool" where
  "primaryIsolationEnabled cfg = (case cfg of None \<Rightarrow> True | Some c \<Rightarrow> (case pis_Enabled c of None \<Rightarrow> True | Some b \<Rightarrow> b))"

definition primaryIsolationAPIServerTimeout :: "PrimaryIsolationSpec option \<Rightarrow> int" where
  "primaryIsolationAPIServerTimeout cfg =
     (case cfg of None \<Rightarrow> 5000000000
      | Some c \<Rightarrow> (case pis_APIServerTimeout c of None \<Rightarrow> 5000000000 | Some d \<Rightarrow> if d \<le> 0 then 5000000000 else d))"

definition primaryIsolationPeerTimeout :: "PrimaryIsolationSpec option \<Rightarrow> int" where
  "primaryIsolationPeerTimeout cfg =
     (case cfg of None \<Rightarrow> 5000000000
      | Some c \<Rightarrow> (case pis_PeerTimeout c of None \<Rightarrow> 5000000000 | Some d \<Rightarrow> if d \<le> 0 then 5000000000 else d))"

text \<open>The listening lines, which a Sentinel has too, at its own port.\<close>

definition listen_lines :: "RedisCluster \<Rightarrow> int \<Rightarrow> string list" where
  "listen_lines cluster port =
     (if isTLSEnabled cluster then
        [''tls-port '' @ itoa port, ''port 0'', ''tls-cert-file /tls/tls.crt'', ''tls-key-file /tls/tls.key'',
         ''tls-ca-cert-file /tls/ca.crt'', ''tls-auth-clients optional'', ''tls-replication yes'']
      else [''port '' @ itoa port])"

definition redisConfLines :: "RedisCluster \<Rightarrow> string \<Rightarrow> string \<Rightarrow> string \<Rightarrow> string list" where
  "redisConfLines cluster replicaOfDirective masterAuth podIP =
     (let spec = c_Spec cluster; memory = ResolveMaxMemoryBytes spec; policy = EffectiveMaxMemoryPolicy spec in
      [''bind 0.0.0.0'', ''dir /data'', ''appendonly yes'', ''aof-use-rdb-preamble yes'', ''appenddirname appendonlydir'',
       ''save 900 1'', ''save 300 10'', ''save 60 10000''] @
      listen_lines cluster 6379 @
      (if s_Mode spec = ClusterModeCluster then
         [''cluster-enabled yes'', ''cluster-config-file /data/nodes.conf'',
          ''cluster-node-timeout '' @ redisConfigValue cluster ''cluster-node-timeout'' ''15000'',
          ''cluster-announce-port 6379'', ''cluster-announce-bus-port 16379''] @
         (if podIP \<noteq> [] then [''cluster-announce-ip '' @ podIP] else [])
       else []) @
      (if replicaOfDirective \<noteq> [] then [replicaOfDirective] else []) @
      (if masterAuth \<noteq> [] then [''masterauth '' @ masterAuth] else []) @
      map (\<lambda>(key, val). key @ '' '' @ val) (s_Redis spec) @
      (if snd memory then [''maxmemory '' @ itoa (fst memory)] else []) @
      (if policy \<noteq> [] then [''maxmemory-policy '' @ policy] else []) @
      (if s_ACLConfigSecret spec \<noteq> None then [''aclfile /data/users.acl''] else []))"

definition join_lines :: "string list \<Rightarrow> string" where
  "join_lines lines = unsplit (CHR 0x0A) lines @ [CHR 0x0A]"

definition writeRedisConf :: "files \<Rightarrow> RedisCluster \<Rightarrow> string \<Rightarrow> string \<Rightarrow> string \<Rightarrow> ('s, unit) io" where
  "writeRedisConf fs cluster replicaOfDirective masterAuth podIP =
     bnd (wrap_err ''creating data directory'' (mkdir_all fs ''/data'')) (\<lambda>_.
     write_file fs ''/data/redis.conf'' (join_lines (redisConfLines cluster replicaOfDirective masterAuth podIP)))"

definition seedACLFile :: "files \<Rightarrow> RedisCluster \<Rightarrow> ('s, unit) io" where
  "seedACLFile fs cluster =
     (case s_ACLConfigSecret (c_Spec cluster) of
        None \<Rightarrow> ret ()
      | Some name \<Rightarrow>
          bnd (read_file fs (path_join [resolveProjectedSecretsDir fs, name, ''acl''])) (\<lambda>f.
          case f of
            FileMissing \<Rightarrow> write_file fs ''/data/users.acl'' []
          | FileError e \<Rightarrow> throw (Wrap (''reading projected ACL secret '' @ name @ ''/acl'') (Err e))
          | FileContent s \<Rightarrow> write_file fs ''/data/users.acl'' s))"

text \<open>The directive and the upstream password a pod starts with.\<close>

definition startup_role :: "env \<Rightarrow> files \<Rightarrow> RedisCluster \<Rightarrow> string \<Rightarrow> string \<Rightarrow> ('s, string \<times> string) io" where
  "startup_role env fs cluster podName namespace =
     (if isReplicaModeEnabled cluster then
        (case (case s_ReplicaMode (c_Spec cluster) of None \<Rightarrow> None | Some m \<Rightarrow> rm_Source m) of
           None \<Rightarrow> throw (Err ''replica mode is enabled but source.host is missing'')
         | Some source \<Rightarrow>
             if trimSpace (rs_Host source) = [] then throw (Err ''replica mode is enabled but source.host is missing'')
             else
               let directive = ''replicaof '' @ rs_Host source @ '' '' @ itoa (replicaModeSourcePort source) in
               if rs_AuthSecretName source \<noteq> [] then
                 bnd (wrap_err (''reading replica mode auth secret '' @ rs_AuthSecretName source @ ''/password'')
                   (readProjectedSecretPassword fs (rs_AuthSecretName source))) (\<lambda>password. ret (directive, password))
               else ret (directive, []))
      else if s_Mode (c_Spec cluster) = ClusterModeCluster then ret ([], [])
      else
        let primary = st_CurrentPrimary (c_Status cluster) in
        if primary \<noteq> podName \<and> primary \<noteq> [] then
          bnd (wrap_err ''resolving primary IP for split-brain guard'' (getPodIP env primary namespace)) (\<lambda>primaryIP.
          ret (''replicaof '' @ primaryIP @ '' '' @ itoa 6379, []))
        else ret ([], []))"

definition start_process :: "(string \<Rightarrow> string option) \<Rightarrow> string \<Rightarrow> string \<Rightarrow> ('s, unit) io" where
  "start_process exec prog arg = (\<lambda>w. case exec prog of
     Some e \<Rightarrow> (Inl (Err e), logged (StartProcess prog arg) False w)
   | None \<Rightarrow> (Inr (), logged (StartProcess prog arg) True w))"

definition isolation_config :: "RedisCluster \<Rightarrow> string \<Rightarrow> string \<Rightarrow> string \<Rightarrow> PrimaryIsolationConfig" where
  "isolation_config cluster clusterName podName namespace =
     (let cfg = s_PrimaryIsolation (c_Spec cluster) in
      \<lparr>pic_Enabled = primaryIsolationEnabled cfg, pic_ClusterName = clusterName, pic_Namespace = namespace, pic_PodName = podName,
       pic_APIServerTimeout = primaryIsolationAPIServerTimeout cfg, pic_PeerTimeout = primaryIsolationPeerTimeout cfg\<rparr>)"

text \<open>
  The client configuration for TLS: \<open>load_ca\<close> tells whether the CA certificate can be read and parsed.
\<close>

definition redisTLSConfig :: "(log \<Rightarrow> string option) \<Rightarrow> RedisCluster \<Rightarrow> ('s, unit) io" where
  "redisTLSConfig load_ca cluster =
     (if isTLSEnabled cluster then (\<lambda>w. case load_ca (w_log w) of Some e \<Rightarrow> (Inl (Err e), w) | None \<Rightarrow> (Inr (), w)) else ret ())"

text \<open>
  The start of a pod up to the point where the server, the HTTP server and the reconciler run: what is
  returned are the states of the two. \<open>exec\<close> tells whether a program can be started.
\<close>

definition launch ::
  "files \<Rightarrow> (string \<Rightarrow> string option) \<Rightarrow> (log \<Rightarrow> string option) \<Rightarrow> RedisCluster \<Rightarrow> string \<Rightarrow> string \<Rightarrow> string \<Rightarrow>
     ('s, Server \<times> InstanceReconciler) io" where
  "launch fs exec load_ca cluster clusterName podName namespace =
     bnd (wrap_err ''seeding ACL file'' (seedACLFile fs cluster)) (\<lambda>_.
     bnd (wrap_err ''starting redis-server'' (start_process exec ''redis-server'' ''/data/redis.conf'')) (\<lambda>_.
     bnd (wrap_err ''building redis client TLS config'' (redisTLSConfig load_ca cluster)) (\<lambda>_.
     bnd (wrap_err ''resolving local auth password'' (resolveLocalAuthPassword fs cluster)) (\<lambda>localAuthPassword.
     let client = ''127.0.0.1:'' @ itoa 6379;
         srv = SetRedisCmd Alive (SetPrimaryIsolationConfig True (isolation_config cluster clusterName podName namespace)
           (SetClusterMode (s_Mode (c_Spec cluster) = ClusterModeCluster)
             (SetMetricsIdentity clusterName namespace podName (NewServer client))))
     in ret (srv, SetInstanceCmd Alive (NewInstanceReconciler client clusterName podName namespace))))))"

definition Run ::
  "env \<Rightarrow> files \<Rightarrow> (string \<Rightarrow> string option) \<Rightarrow> (log \<Rightarrow> string option) \<Rightarrow> string \<Rightarrow> string \<Rightarrow> string \<Rightarrow>
     ('s, Server \<times> InstanceReconciler) io" where
  "Run env fs exec load_ca clusterName podName namespace =
     bnd (wrap_err (''fetching RedisCluster '' @ namespace @ ''/'' @ clusterName) (get_cluster env namespace clusterName)) (\<lambda>cluster.
     bnd (startup_role env fs cluster podName namespace) (\<lambda>(replicaOfDirective, masterAuth).
     bnd (wrap_err ''writing redis.conf'' (writeRedisConf fs cluster replicaOfDirective masterAuth (fl_getenv fs ''POD_IP''))) (\<lambda>_.
     launch fs exec load_ca cluster clusterName podName namespace)))"

section \<open>Starting a Sentinel pod\<close>

definition sentinelConfLines :: "RedisCluster \<Rightarrow> string \<Rightarrow> string \<Rightarrow> string list" where
  "sentinelConfLines cluster primaryIP authPass =
     (let name = c_Name cluster in
      [''bind 0.0.0.0'', ''dir /data''] @ listen_lines cluster SentinelPort @
      [''sentinel monitor '' @ name @ '' '' @ primaryIP @ '' '' @ itoa 6379 @ '' '' @ itoa SentinelQuorum,
       ''sentinel down-after-milliseconds '' @ name @ '' 5000'', ''sentinel failover-timeout '' @ name @ '' 60000'',
       ''sentinel parallel-syncs '' @ name @ '' 1''] @
      (if authPass \<noteq> [] then [''sentinel auth-pass '' @ name @ '' '' @ authPass] else []))"

definition writeSentinelConf :: "files \<Rightarrow> RedisCluster \<Rightarrow> string \<Rightarrow> string \<Rightarrow> ('s, unit) io" where
  "writeSentinelConf fs cluster primaryIP authPass =
     bnd (wrap_err ''creating data directory'' (mkdir_all fs ''/data'')) (\<lambda>_.
     write_file fs ''/data/sentinel.conf'' (join_lines (sentinelConfLines cluster primaryIP authPass)))"

definition resolveSentinelAuthPassword :: "files \<Rightarrow> RedisCluster \<Rightarrow> ('s, string) io" where
  "resolveSentinelAuthPassword fs cluster =
     (case s_AuthSecret (c_Spec cluster) of
        None \<Rightarrow> ret []
      | Some name \<Rightarrow> wrap_err (''reading projected auth secret '' @ name @ ''/password'') (readProjectedSecretPassword fs name))"

definition RunSentinel ::
  "env \<Rightarrow> files \<Rightarrow> (string \<Rightarrow> string option) \<Rightarrow> (log \<Rightarrow> string option) \<Rightarrow> string \<Rightarrow> string \<Rightarrow> ('s, Server) io" where
  "RunSentinel env fs exec load_ca clusterName namespace =
     bnd (wrap_err (''fetching RedisCluster '' @ namespace @ ''/'' @ clusterName) (get_cluster env namespace clusterName)) (\<lambda>cluster.
     if st_CurrentPrimary (c_Status cluster) = [] then throw (Err ''currentPrimary is not set; cannot start sentinel'')
     else
       bnd (wrap_err ''resolving primary IP for sentinel monitor'' (getPodIP env (st_CurrentPrimary (c_Status cluster)) namespace)) (\<lambda>primaryIP.
       bnd (wrap_err ''resolving sentinel auth password'' (resolveSentinelAuthPassword fs cluster)) (\<lambda>authPass.
       bnd (wrap_err ''writing sentinel.conf'' (writeSentinelConf fs cluster primaryIP authPass)) (\<lambda>_.
       bnd (wrap_err ''starting redis-sentinel'' (start_process exec ''redis-sentinel'' ''/data/sentinel.conf'')) (\<lambda>_.
       bnd (wrap_err ''building sentinel client TLS config'' (redisTLSConfig load_ca cluster)) (\<lambda>_.
       ret (NewSentinelServer (''127.0.0.1:'' @ itoa SentinelPort) Alive)))))))"

text \<open>One tick of the loop that reloads the certificates of a Sentinel; its state is the last checksum.\<close>

primrec concat_files :: "files \<Rightarrow> string list \<Rightarrow> string \<Rightarrow> ('s, string) io" where
  "concat_files fs [] acc = ret acc"
| "concat_files fs (path # paths) acc =
     bnd (read_file fs path) (\<lambda>f.
     bnd (wrap_err (''reading TLS file '' @ path) (content_of f)) (\<lambda>content. concat_files fs paths (acc @ content)))"

definition tlsCertsChecksum :: "files \<Rightarrow> ('s, string) io" where
  "tlsCertsChecksum fs = bnd (concat_files fs (map snd tlsFiles) []) (\<lambda>content. ret (EncodeToString (sha256 content)))"

definition reloadSentinelTLSCerts :: "env \<Rightarrow> string \<Rightarrow> ('s, unit) io" where
  "reloadSentinelTLSCerts env client = for_each (\<lambda>(key, path). wrap_err (''CONFIG SET '' @ key) (config_set env client key path)) tlsFiles"

definition watch_tick :: "env \<Rightarrow> files \<Rightarrow> string \<Rightarrow> string \<Rightarrow> ('s, string) io" where
  "watch_tick env fs client lastSum =
     bnd (attempt (tlsCertsChecksum fs)) (\<lambda>r.
     case r of
       Inl _ \<Rightarrow> ret lastSum
     | Inr digest \<Rightarrow>
         if digest = lastSum then ret lastSum
         else bnd (attempt (reloadSentinelTLSCerts env client)) (\<lambda>r. ret (if isl r then lastSum else digest)))"

section \<open>Calls of the instance manager\<close>

lemma issues_read_file [issues_intros]: "issues P (read_file fs path)"
  by (auto simp: issues_def read_file_def)

lemma issues_write_file [issues_intros]: "P (WriteFile path content) \<Longrightarrow> issues P (write_file fs path content)"
  by (auto simp: issues_def write_file_def logged_def split: option.split)

lemma issues_mkdir_all [issues_intros]: "issues P (mkdir_all fs path)"
  by (auto simp: issues_def mkdir_all_def split: option.split)

lemma issues_content_of [issues_intros]: "issues P (content_of f)"
  by (cases f) (auto simp: content_of_def intro: issues_intros)

lemma issues_start_process [issues_intros]: "P (StartProcess prog arg) \<Longrightarrow> issues P (start_process exec prog arg)"
  by (auto simp: issues_def start_process_def logged_def split: option.split)

lemma issues_stopRedis [issues_intros]: "P Interrupt \<Longrightarrow> issues P stopRedis"
  by (auto simp: issues_def stopRedis_def bnd_def obj_def ret_def logged_def)

lemma issues_redis_err [issues_intros]: "P (RedisDo a args) \<Longrightarrow> issues P (redis_err env a args)"
  unfolding redis_err_def by (intro issues_intros)

lemma issues_GetInfo [issues_intros]: "P (RedisDo a [''info'', ''replication'']) \<Longrightarrow> issues P (GetInfo env a)"
  unfolding GetInfo_def redis_text_def by (auto intro!: issues_intros split: redis_reply.split)

lemma issues_case_file [issues_intros]:
  "issues P m \<Longrightarrow> (\<And>e. issues P (f e)) \<Longrightarrow> (\<And>s. issues P (g s)) \<Longrightarrow>
   issues P (case x of FileMissing \<Rightarrow> m | FileError e \<Rightarrow> f e | FileContent s \<Rightarrow> g s)"
  by (cases x) auto

text \<open>Binding under \<open>guarded\<close>, with what is known of the first result.\<close>

lemma guarded_bnd_returns:
  assumes "guarded A B m" "returns R m" "\<And>a. R a \<Longrightarrow> guarded A B (f a)"
  shows "guarded A B (bnd m f)"
proof -
  let ?g = "\<lambda>a. if R a then f a else throw (Err [])"
  have "bnd m f = bnd m ?g" using assms(2) by (auto simp: bnd_def returns_def fun_eq_iff split: prod.split sum.split)
  moreover have "guarded A B (bnd m ?g)" using assms(1,3) by (intro guarded_intros) auto
  ultimately show ?thesis by simp
qed

section \<open>The role of an instance\<close>

text \<open>
  The abstract state of an instance is its role. It is a function of the calls made so far: Redis reports
  it, a successful SLAVEOF sets it and nothing else the instance manager does changes it.
\<close>

datatype node_role = PrimaryRole | ReplicaRole string int

definition role_of_info :: "Info \<Rightarrow> node_role option" where
  "role_of_info info =
     (if in_Role info = ''master'' then Some PrimaryRole
      else if in_Role info = ''slave'' then Some (ReplicaRole (in_MasterHost info) (in_MasterPort info))
      else None)"

definition tracks_role :: "env \<Rightarrow> string \<Rightarrow> (log \<Rightarrow> node_role) \<Rightarrow> bool" where
  "tracks_role env client role \<longleftrightarrow>
     (\<forall>l raw. e_redis env l client [''info'', ''replication''] = Inr (RStr raw) \<longrightarrow> role_of_info (parseInfo raw) = Some (role l)) \<and>
     (\<forall>l. role (l @ [(RedisDo client [''slaveof'', ''NO'', ''ONE''], True)]) = PrimaryRole) \<and>
     (\<forall>l host port. role (l @ [(RedisDo client [''slaveof'', host, itoa port], True)]) = ReplicaRole host port) \<and>
     (\<forall>l c b. (\<forall>args. c \<noteq> RedisDo client (''slaveof'' # args)) \<longrightarrow> role (l @ [(c, b)]) = role l)"

text \<open>The specification: the role the cluster object asks of a pod, if it asks for one.\<close>

definition wanted_role :: "RedisCluster \<Rightarrow> string \<Rightarrow> string \<Rightarrow> node_role option" where
  "wanted_role cluster podName primaryIP =
     (if s_Mode (c_Spec cluster) = ClusterModeCluster then None
      else if isReplicaModeEnabled cluster then
        (case replicaModeSourceEndpoint cluster of
           Inl _ \<Rightarrow> None
         | Inr (host, port) \<Rightarrow>
             if replica_promote cluster \<and> st_CurrentPrimary (c_Status cluster) = podName then Some PrimaryRole
             else Some (ReplicaRole host port))
      else if st_CurrentPrimary (c_Status cluster) = podName then Some PrimaryRole
      else Some (ReplicaRole primaryIP 6379))"

text \<open>The new part of the log, free of role commands.\<close>

definition no_role_command :: "string \<Rightarrow> log \<Rightarrow> bool" where
  "no_role_command client l \<longleftrightarrow> list_all (\<lambda>(c, b). \<forall>args. c \<noteq> RedisDo client (''slaveof'' # args)) l"

lemma no_role_command_keeps: "tracks_role env client role \<Longrightarrow> no_role_command client l' \<Longrightarrow> role (l @ l') = role l"
proof (induction l' rule: rev_induct)
  case (snoc x l')
  obtain c b where x: "x = (c, b)" by (cases x)
  have "role ((l @ l') @ [(c, b)]) = role (l @ l')" using snoc.prems unfolding tracks_role_def no_role_command_def x by (simp flip: append_assoc)
  with snoc x show ?case by (simp add: no_role_command_def)
qed simp

lemma GetInfo_done:
  "GetInfo env client w = (Inr info, w') \<Longrightarrow>
     (\<exists>raw. e_redis env (w_log w) client [''info'', ''replication''] = Inr (RStr raw) \<and> info = parseInfo raw) \<and>
     w' = logged (RedisDo client [''info'', ''replication'']) True w"
  by (auto simp: GetInfo_def redis_text_def redis_do_def bnd_def ret_def throw_def wrap_err_def split: sum.splits redis_reply.splits)

lemma getPodIP_done:
  "getPodIP env name ns w = (Inr ip, w') \<Longrightarrow>
     (\<exists>p. e_get env (w_log w) KPod ns name = Inr (OPod p) \<and> p_IP p = ip \<and> ip \<noteq> []) \<and> w' = logged (Get KPod ns name) True w"
  by (auto simp: getPodIP_def get_pod_def get_object_def perform_def bnd_def ret_def throw_def wrap_err_def
      split: sum.splits object.splits if_splits)

lemma get_cluster_done: "get_cluster env ns name w = (Inr c, w') \<Longrightarrow> e_get env (w_log w) KCluster ns name = Inr (OCluster c)"
  by (auto simp: get_cluster_def get_object_def perform_def bnd_def ret_def throw_def split: sum.splits object.splits)

lemma wrap_err_done: "wrap_err msg m w = (Inr a, w') \<longleftrightarrow> m w = (Inr a, w')"
  by (auto simp: wrap_err_def split: prod.splits sum.splits)

lemma bnd_done: "bnd m f w = (Inr b, w2) \<longleftrightarrow> (\<exists>a w1. m w = (Inr a, w1) \<and> f a w1 = (Inr b, w2))"
  by (auto simp: bnd_def split: prod.splits sum.splits)

lemma bnd_wrap_err: "m w = (Inr a, w') \<Longrightarrow> bnd (wrap_err msg m) f w = f a w'"
  by (simp add: bnd_def wrap_err_def)

lemma eventf_done: "eventf s r msg w = (Inr u, w') \<longleftrightarrow> w' = logged (Event s r msg) True w"
  by (auto simp: eventf_def)

lemmas done_simps = bnd_done wrap_err_done eventf_done obj_def ret_def throw_def

text \<open>What a successful step did: nothing to the role, or exactly one command that sets it.\<close>

definition role_step :: "string \<Rightarrow> node_role option \<Rightarrow> 's world \<Rightarrow> 's world \<Rightarrow> bool" where
  "role_step client to w w' \<longleftrightarrow>
     (\<exists>l. no_role_command client l \<and>
       (case to of
          None \<Rightarrow> w_log w' = w_log w @ l
        | Some PrimaryRole \<Rightarrow> w_log w' = w_log w @ l @ [(RedisDo client [''slaveof'', ''NO'', ''ONE''], True)]
        | Some (ReplicaRole host port) \<Rightarrow> w_log w' = w_log w @ l @ [(RedisDo client [''slaveof'', host, itoa port], True)]))"

lemma role_step_role:
  assumes "tracks_role env client role" "role_step client to w w'"
  shows "role (w_log w') = (case to of None \<Rightarrow> role (w_log w) | Some r \<Rightarrow> r)"
proof -
  obtain l where l: "no_role_command client l"
    "case to of None \<Rightarrow> w_log w' = w_log w @ l
        | Some PrimaryRole \<Rightarrow> w_log w' = w_log w @ l @ [(RedisDo client [''slaveof'', ''NO'', ''ONE''], True)]
        | Some (ReplicaRole host port) \<Rightarrow> w_log w' = w_log w @ l @ [(RedisDo client [''slaveof'', host, itoa port], True)]"
    using assms(2) unfolding role_step_def by blast
  show ?thesis
  proof (cases to)
    case None
    with l show ?thesis using no_role_command_keeps [OF assms(1)] by simp
  next
    case (Some r)
    with l(2) assms(1) show ?thesis
      unfolding tracks_role_def by (cases r) (simp_all flip: append_assoc)
  qed
qed

text \<open>The command a pod sends when Redis reports \<open>info\<close> and the cluster asks for \<open>want\<close>.\<close>

definition role_change :: "node_role option \<Rightarrow> node_role option \<Rightarrow> node_role option" where
  "role_change have want = (if want = None \<or> want = have then None else want)"

text \<open>The calls before the command: the question to Redis, perhaps a pod that is read, perhaps an event.\<close>

abbreviation asked :: "string \<Rightarrow> call \<times> bool" where "asked client \<equiv> (RedisDo client [''info'', ''replication''], True)"

lemma no_role_prefix [simp]:
  "no_role_command client [asked client]"
  "no_role_command client [asked client, (Event s r m, True)]"
  "no_role_command client [asked client, (Get k ns n, True)]"
  "no_role_command client [asked client, (Get k ns n, True), (Event s r m, True)]"
  by (simp_all add: no_role_command_def)

lemmas role_simps = role_step_def Promote_def SetReplicaOf_def done_simps role_change_def role_of_info_def

lemma quiet_step: "role_step client None w (logged (fst (asked client)) True w)"
  using no_role_prefix(1) by (auto simp: role_step_def)

lemma external_role_step:
  fixes w :: "InstanceReconciler world"
  assumes "external_role env cluster info (logged (fst (asked (ir_redisClient (w_obj w)))) True w) = (Inr (), w')"
    and "role_of_info info \<noteq> None" "isReplicaModeEnabled cluster" "s_Mode (c_Spec cluster) \<noteq> ClusterModeCluster"
  shows "role_step (ir_redisClient (w_obj w)) (role_change (role_of_info info) (wanted_role cluster (ir_podName (w_obj w)) ip)) w w'"
proof -
  have obj1 [simp]: "w_obj (logged c b w) = w_obj w" for c b by (simp add: logged_def)
  obtain host port where src: "replicaModeSourceEndpoint cluster = Inr (host, port)"
    using assms(1) by (auto simp: external_role_def done_simps split: sum.splits)
  show ?thesis
    using assms src quiet_step [of "ir_redisClient (w_obj w)" w] no_role_prefix(2) [of "ir_redisClient (w_obj w)"]
    by (auto simp: external_role_def wanted_role_def role_simps simp del: no_role_prefix dest!: redis_err_done split: if_splits)
qed

lemma follow_primary_step:
  fixes w :: "InstanceReconciler world"
  assumes run: "follow_primary env cluster info (logged (fst (asked (ir_redisClient (w_obj w)))) True w) = (Inr (), w')"
    and known: "role_of_info info \<noteq> None" and clustered: "\<not> isReplicaModeEnabled cluster" "s_Mode (c_Spec cluster) \<noteq> ClusterModeCluster"
    and follow: "st_CurrentPrimary (c_Status cluster) \<noteq> ir_podName (w_obj w)"
    and ip: "\<forall>l p. e_get env l KPod (c_Namespace cluster) (st_CurrentPrimary (c_Status cluster)) = Inr (OPod p) \<longrightarrow> p_IP p = ip"
  shows "role_step (ir_redisClient (w_obj w)) (role_change (role_of_info info) (wanted_role cluster (ir_podName (w_obj w)) ip)) w w'"
proof -
  let ?client = "ir_redisClient (w_obj w)" and ?primary = "st_CurrentPrimary (c_Status cluster)"
  have obj1 [simp]: "w_obj (logged c b w) = w_obj w" for c b by (simp add: logged_def)
  have pod: "x = ip \<and> v' = logged (Get KPod (c_Namespace cluster) ?primary) True v"
    if "getPodIP env ?primary (c_Namespace cluster) v = (Inr x, v')" for x and v v' :: "InstanceReconciler world"
    using getPodIP_done [OF that] ip by blast
  have nr: "no_role_command ?client [asked ?client, (Get KPod (c_Namespace cluster) ?primary, True), (Event s r m, True)]" for s r m
    by simp
  consider (demote) "in_Role info = ''master''"
    | (move) "in_Role info = ''slave''" "in_MasterHost info \<noteq> ip \<or> in_MasterPort info \<noteq> 6379"
    | (stay) "in_Role info = ''slave''" "in_MasterHost info = ip" "in_MasterPort info = 6379"
    using known by (auto simp: role_of_info_def split: if_splits)
  then show ?thesis
  proof cases
    case stay
    then have "w_log w' = w_log w @ [asked ?client, (Get KPod (c_Namespace cluster) ?primary, True)]"
      using run by (auto simp: follow_primary_def Let_def done_simps dest!: pod)
    then show ?thesis using stay follow clustered no_role_prefix(3)
      by (auto simp: wanted_role_def role_change_def role_of_info_def role_step_def)
  next
    case demote
    then show ?thesis using run follow clustered nr
      by (auto simp: follow_primary_def Let_def wanted_role_def role_simps simp del: no_role_prefix dest!: pod redis_err_done)
  next
    case move
    then show ?thesis using run follow clustered nr
      by (auto simp: follow_primary_def Let_def wanted_role_def role_simps simp del: no_role_prefix dest!: pod redis_err_done)
  qed
qed

lemma reconcileRole_step:
  assumes run: "reconcileRole env cluster w = (Inr (), w')" and clustered: "s_Mode (c_Spec cluster) \<noteq> ClusterModeCluster"
    and ip: "\<forall>l p. e_get env l KPod (c_Namespace cluster) (st_CurrentPrimary (c_Status cluster)) = Inr (OPod p) \<longrightarrow> p_IP p = ip"
  shows "\<exists>raw. e_redis env (w_log w) (ir_redisClient (w_obj w)) [''info'', ''replication''] = Inr (RStr raw) \<and>
    (role_of_info (parseInfo raw) \<noteq> None \<longrightarrow>
     role_step (ir_redisClient (w_obj w))
       (role_change (role_of_info (parseInfo raw)) (wanted_role cluster (ir_podName (w_obj w)) ip)) w w')"
proof -
  let ?client = "ir_redisClient (w_obj w)" and ?pod = "ir_podName (w_obj w)"
  let ?w1 = "logged (fst (asked ?client)) True w"
  obtain info w1 where info: "GetInfo env ?client w = (Inr info, w1)"
    and rest: "apply_role env cluster (w_obj w) info w1 = (Inr (), w')"
    using run clustered by (auto simp: reconcileRole_def bnd_done wrap_err_done obj_def)
  obtain raw where raw: "e_redis env (w_log w) ?client [''info'', ''replication''] = Inr (RStr raw)" "info = parseInfo raw" "w1 = ?w1"
    using GetInfo_done [OF info] by auto
  have "role_step ?client (role_change (role_of_info info) (wanted_role cluster ?pod ip)) w w'" if known: "role_of_info info \<noteq> None"
  proof -
    consider (replica) "isReplicaModeEnabled cluster"
      | (follow) "\<not> isReplicaModeEnabled cluster" "st_CurrentPrimary (c_Status cluster) \<noteq> ?pod"
      | (primary) "\<not> isReplicaModeEnabled cluster" "st_CurrentPrimary (c_Status cluster) = ?pod" by blast
    then show ?thesis
    proof cases
      case replica
      with rest raw(3) have "external_role env cluster info ?w1 = (Inr (), w')" by (simp add: apply_role_def)
      then show ?thesis by (rule external_role_step [OF _ known replica clustered])
    next
      case follow
      with rest raw(3) have "follow_primary env cluster info ?w1 = (Inr (), w')" by (simp add: apply_role_def)
      then show ?thesis by (rule follow_primary_step [OF _ known follow(1) clustered follow(2) ip])
    next
      case primary
      with rest raw(3) known clustered quiet_step [of ?client w] no_role_prefix(2) [of ?client] show ?thesis
        by (auto simp: apply_role_def wanted_role_def role_simps simp del: no_role_prefix dest!: redis_err_done split: if_splits)
    qed
  qed
  with raw show ?thesis by blast
qed

section \<open>Starting, fencing and passwords\<close>

text \<open>The written configuration makes Redis a replica of a pod that answers to the name.\<close>

definition writes_replica_conf :: "env \<Rightarrow> string \<Rightarrow> string \<Rightarrow> call \<times> bool \<Rightarrow> bool" where
  "writes_replica_conf env ns primary x \<longleftrightarrow>
     (\<exists>ls l p. x = (WriteFile ''/data/redis.conf'' (join_lines ls), True) \<and>
        e_get env l KPod ns primary = Inr (OPod p) \<and> p_IP p \<noteq> [] \<and> ''replicaof '' @ p_IP p @ '' '' @ itoa 6379 \<in> set ls)"

definition starts_redis :: "call \<Rightarrow> bool" where
  "starts_redis c \<longleftrightarrow> (\<exists>arg. c = StartProcess ''redis-server'' arg)"

lemma returns_startup_role:
  assumes "\<not> isReplicaModeEnabled cluster" "s_Mode (c_Spec cluster) \<noteq> ClusterModeCluster"
    and "st_CurrentPrimary (c_Status cluster) \<noteq> podName" "st_CurrentPrimary (c_Status cluster) \<noteq> []"
  shows "returns (\<lambda>(directive, masterAuth). \<exists>l p. e_get env l KPod namespace (st_CurrentPrimary (c_Status cluster)) = Inr (OPod p) \<and>
    p_IP p \<noteq> [] \<and> directive = ''replicaof '' @ p_IP p @ '' '' @ itoa 6379) (startup_role env fs cluster podName namespace)"
  unfolding returns_def
  using assms by (auto simp: startup_role_def Let_def done_simps dest!: getPodIP_done)

lemma secures_conf:
  assumes "e_get env l KPod ns primary = Inr (OPod p)" "p_IP p \<noteq> []"
  shows "secures (writes_replica_conf env ns primary) starts_redis
    (writeRedisConf fs cluster (''replicaof '' @ p_IP p @ '' '' @ itoa 6379) masterAuth podIP)"
proof -
  have "''replicaof '' @ p_IP p @ '' '' @ itoa 6379 \<in> set (redisConfLines cluster (''replicaof '' @ p_IP p @ '' '' @ itoa 6379) masterAuth podIP)"
    by (simp add: redisConfLines_def Let_def)
  with assms show ?thesis
    unfolding secures_def
    by (auto simp: writeRedisConf_def bnd_def mkdir_all_def write_file_def wrap_err_def logged_def starts_redis_def writes_replica_conf_def
        split: option.split)
qed

lemma isFenced_iff: "isFenced r cluster \<longleftrightarrow> ir_podName r \<in> set (getFencedPods cluster)"
proof -
  have "unmarshal_names [] = None" by (simp add: unmarshal_names_def json_ws_def)
  then show ?thesis
    by (cases "map_of (c_Annotations cluster) FencingAnnotationKey") (simp_all add: isFenced_def getFencedPods_def split: option.split)
qed

text \<open>The operator, the watch loop and the start read the password of the same Secret.\<close>

lemma auth_names_agree:
  "instanceAuthSecretName cluster = effectiveAuthSecretName cluster" "runAuthSecretName cluster = effectiveAuthSecretName cluster"
  by (cases "s_AuthSecret (c_Spec cluster)";
      simp add: instanceAuthSecretName_def runAuthSecretName_def effectiveAuthSecretName_def generatedAuthSecretName_def)+

lemma config_issues [issues_intros]: "P (RedisDo client [''config'', ''set'', key, val]) \<Longrightarrow> issues P (config_set env client key val)"
  unfolding config_set_def by (rule issues_redis_err)

section \<open>Footprints that depend on the state\<close>

text \<open>Computations that keep an invariant of the object in memory and, under it, make only certain calls.\<close>

definition stays :: "('s \<Rightarrow> bool) \<Rightarrow> (call \<Rightarrow> bool) \<Rightarrow> ('s, 'a) io \<Rightarrow> bool" where
  "stays I P m \<longleftrightarrow> (\<forall>w. I (w_obj w) \<longrightarrow> I (w_obj (snd (m w))) \<and> (\<exists>l. w_log (snd (m w)) = w_log w @ l \<and> list_all (\<lambda>x. P (fst x)) l))"

lemma stays_calls: "keeps m \<Longrightarrow> issues P m \<Longrightarrow> stays I P m"
  by (simp add: stays_def issues_def keeps_def list_all_iff)

lemma stays_bnd:
  fixes m :: "('s, 'a) io"
  assumes m: "stays I P m" and f: "\<And>a. stays I P (f a)"
  shows "stays I P (bnd m f)"
  unfolding stays_def
proof (intro allI impI)
  fix w :: "'s world" assume w: "I (w_obj w)"
  obtain r w1 where run: "m w = (r, w1)" by (cases "m w")
  obtain l where l: "I (w_obj w1)" "w_log w1 = w_log w @ l" "list_all (\<lambda>x. P (fst x)) l"
    using m [unfolded stays_def, rule_format, OF w] run by auto
  show "I (w_obj (snd (bnd m f w))) \<and> (\<exists>l. w_log (snd (bnd m f w)) = w_log w @ l \<and> list_all (\<lambda>x. P (fst x)) l)"
  proof (cases r)
    case (Inl e)
    with run l show ?thesis by (auto simp: bnd_def)
  next
    case (Inr a)
    obtain l2 where "I (w_obj (snd (f a w1)))" "w_log (snd (f a w1)) = w_log w1 @ l2" "list_all (\<lambda>x. P (fst x)) l2"
      using f [of a, unfolded stays_def, rule_format, OF l(1)] by auto
    with run l Inr show ?thesis by (intro conjI exI [of _ "l @ l2"]) (auto simp: bnd_def)
  qed
qed

lemma stays_obj: "(\<And>r. I r \<Longrightarrow> stays I P (f r)) \<Longrightarrow> stays I P (bnd obj f)"
  by (auto simp: stays_def bnd_def obj_def)

lemma stays_attempt: "stays I P m \<Longrightarrow> stays I P (attempt m)"
proof -
  have "snd (attempt m w) = snd (m w)" for w by (simp add: attempt_def split: prod.split sum.split)
  then show "stays I P m \<Longrightarrow> stays I P (attempt m)" by (simp add: stays_def)
qed

lemma stays_set_obj: "(\<And>r. I r \<Longrightarrow> I (f r)) \<Longrightarrow> stays I P (set_obj f)"
  by (auto simp: stays_def set_obj_def)

lemma stays_if: "(b \<Longrightarrow> stays I P m) \<Longrightarrow> (\<not> b \<Longrightarrow> stays I P n) \<Longrightarrow> stays I P (if b then m else n)"
  by simp

lemma stays_case_sum: "(\<And>e. stays I P (f e)) \<Longrightarrow> (\<And>a. stays I P (g a)) \<Longrightarrow> stays I P (case x of Inl e \<Rightarrow> f e | Inr a \<Rightarrow> g a)"
  by (cases x) auto

lemma keeps_files [keeps_intros]: "keeps (read_file fs path)" "keeps (write_file fs path content)" "keeps (content_of f)"
  by (simp_all add: keeps_def read_file_def write_file_def content_of_def ret_def throw_def logged_def split: option.split file_read.split)

lemma keeps_redis_err [keeps_intros]: "keeps (redis_err env a args)"
  unfolding redis_err_def by (intro keeps_intros)

lemma keeps_config_set [keeps_intros]: "keeps (config_set env a key val)"
  unfolding config_set_def by (rule keeps_redis_err)

lemma keeps_stopRedis [keeps_intros]: "keeps stopRedis"
  by (simp add: keeps_def stopRedis_def bnd_def obj_def ret_def logged_def)

lemma keeps_read_cluster [keeps_intros]: "keeps (get_cluster env ns name)"
  unfolding get_cluster_def by (rule keeps_bnd) (auto intro: keeps_intros split: object.split)

lemma keeps_GetInfo [keeps_intros]: "keeps (GetInfo env a)"
  unfolding GetInfo_def redis_text_def by (intro keeps_intros) (auto intro: keeps_intros split: redis_reply.split)

lemma keeps_readSecretKey [keeps_intros]: "keeps (readSecretKey fs name key)"
  unfolding readSecretKey_def by (intro keeps_intros) (auto intro: keeps_intros split: file_read.split)

lemma keeps_read_checksums: "keeps (read_checksums fs xs acc)"
  by (induction xs arbitrary: acc) (auto intro!: keeps_intros split: prod.split)

lemma issues_readSecretKey [issues_intros]: "issues P (readSecretKey fs name key)"
  unfolding readSecretKey_def by (intro issues_intros)

lemma issues_read_checksums: "issues P (read_checksums fs xs acc)"
  by (induction xs arbitrary: acc) (auto intro!: issues_intros split: prod.split)

text \<open>
  What an instance may do in a cycle: read, record events, talk to its own Redis, write its ACL file,
  stop its server, and write its own entry of the status.
\<close>

definition own_status_only :: "string \<Rightarrow> RedisCluster \<Rightarrow> RedisCluster \<Rightarrow> bool" where
  "own_status_only podName base x \<longleftrightarrow>
     (\<exists>m. x = base\<lparr>c_Status := (c_Status base)\<lparr>st_InstancesStatus := m\<rparr>\<rparr> \<and>
       (\<forall>n. n \<noteq> podName \<longrightarrow> map_of m n = map_of (st_InstancesStatus (c_Status base)) n))"

fun own_business :: "files \<Rightarrow> string \<Rightarrow> string \<Rightarrow> call \<Rightarrow> bool" where
  "own_business fs client podName (Get k ns name) \<longleftrightarrow> True"
| "own_business fs client podName (Event s r msg) \<longleftrightarrow> True"
| "own_business fs client podName Interrupt \<longleftrightarrow> True"
| "own_business fs client podName (RedisDo a args) \<longleftrightarrow> a = client"
| "own_business fs client podName (WriteFile path content) \<longleftrightarrow> path = resolveACLFilePath fs"
| "own_business fs client podName (StatusPatch (OCluster base) (OCluster x)) \<longleftrightarrow> own_status_only podName base x"
| "own_business fs client podName _ \<longleftrightarrow> False"

lemma own_status_report: "own_status_only podName base (with_report podName info base)"
  unfolding own_status_only_def with_report_def
  by (intro exI conjI) (auto simp: mput_def update_conv')

definition identity :: "string \<Rightarrow> string \<Rightarrow> InstanceReconciler \<Rightarrow> bool" where
  "identity client podName r \<longleftrightarrow> ir_redisClient r = client \<and> ir_podName r = podName"

lemma stays_external: "stays (identity client pod) (own_business fs client pod) (external_role env cluster info)"
  unfolding external_role_def Promote_def SetReplicaOf_def
  by (intro stays_obj, cases "replicaModeSourceEndpoint cluster")
    (auto intro!: stays_calls keeps_intros issues_intros simp: identity_def split: prod.split)

lemma stays_follow: "stays (identity client pod) (own_business fs client pod) (follow_primary env cluster info)"
  unfolding follow_primary_def getPodIP_def SetReplicaOf_def Let_def
  by (intro stays_obj stays_calls) (auto intro!: keeps_intros issues_intros simp: identity_def)

lemma stays_role: "stays (identity client pod) (own_business fs client pod) (reconcileRole env cluster)"
proof -
  have "stays (identity client pod) (own_business fs client pod) (apply_role env cluster r info)" if "identity client pod r" for r info
    unfolding apply_role_def Promote_def using that
    by (auto intro!: stays_external stays_follow stays_calls keeps_intros issues_intros simp: identity_def)
  then show ?thesis
    unfolding reconcileRole_def
    by (intro stays_if stays_obj stays_bnd) (auto intro!: stays_calls keeps_intros issues_intros simp: identity_def)
qed

lemma stays_config: "stays (identity client pod) (own_business fs client pod) (reconcileConfig env cluster)"
  unfolding reconcileConfig_def Let_def
  by (intro stays_obj stays_calls) (auto intro!: keeps_intros issues_intros simp: identity_def split: prod.split)

lemma stays_secrets: "stays (identity client pod) (own_business fs client pod) (reconcileInstanceSecrets env fs cluster)"
  unfolding reconcileInstanceSecrets_def apply_auth_def apply_acl_def apply_source_auth_def Let_def
  by (intro stays_bnd stays_obj stays_calls) (auto intro!: keeps_intros issues_intros simp: identity_def split: option.split)

lemma stays_certs: "stays (identity client pod) (own_business fs client pod) (reconcileTLSCerts env fs cluster)"
proof -
  have read: "stays (identity client pod) (own_business fs client pod) (readTLSCertChecksums fs)"
    unfolding readTLSCertChecksums_def by (rule stays_calls [OF keeps_read_checksums issues_read_checksums])
  have reload: "stays (identity client pod) (own_business fs client pod)
      (for_each (\<lambda>(key, path). wrap_err (''CONFIG SET '' @ key) (config_set env (ir_redisClient r) key path)) tlsFiles)"
    if "identity client pod r" for r
    using that by (auto intro!: stays_calls keeps_intros issues_intros simp: identity_def split: prod.split)
  show ?thesis
    unfolding reconcileTLSCerts_def
    by (intro stays_if stays_bnd stays_obj stays_set_obj read reload)
      (auto intro!: stays_calls keeps_intros issues_intros simp: identity_def)
qed

lemma stays_report: "stays (identity client pod) (own_business fs client pod) (reportStatus env cluster)"
  unfolding reportStatus_def Let_def
  by (intro stays_obj stays_calls) (auto intro!: keeps_intros issues_intros own_status_report simp: identity_def)

lemma stays_reconcile: "stays (identity client pod) (own_business fs client pod) (reconcileInstance env fs)"
proof -
  have stop: "stays (identity client pod) (own_business fs client pod) stopRedis"
    by (intro stays_calls keeps_intros issues_intros) simp
  show ?thesis
    unfolding reconcileInstance_def
    by (intro stays_obj stays_bnd stays_if stays_attempt stays_case_sum stays_role stays_config stays_secrets stays_certs stays_report stop)
      (auto intro!: stays_calls keeps_intros issues_intros)
qed

text \<open>The value a configuration parameter was last set to.\<close>

fun set_by :: "string \<Rightarrow> string \<Rightarrow> call \<times> bool \<Rightarrow> string option \<Rightarrow> string option" where
  "set_by client key (RedisDo a [c1, c2, k, v], True) old = (if a = client \<and> c1 = ''config'' \<and> c2 = ''set'' \<and> k = key then Some v else old)"
| "set_by client key _ old = old"

definition last_config :: "string \<Rightarrow> string \<Rightarrow> log \<Rightarrow> string option" where
  "last_config client key l = fold (set_by client key) l None"

lemma config_set_done:
  "config_set env client key v w = (Inr u, w') \<Longrightarrow> w' = logged (RedisDo client [''config'', ''set'', key, v]) True w"
  unfolding config_set_def by (rule redis_err_done)

lemma readSecretKey_run:
  assumes "\<And>l. fl_read fs l (path_join [resolveProjectedSecretsDir fs, name, key]) = FileContent raw"
  shows "readSecretKey fs name key w = (Inr (trimSpace raw), w)"
  using assms by (simp add: readSecretKey_def bnd_def read_file_def ret_def)

text \<open>The ACL step does not touch the passwords, and leaves the reconciler alone.\<close>

lemma apply_acl_config:
  assumes "apply_acl env fs cluster w = (Inr u, w')"
  shows "w_obj w' = w_obj w \<and> last_config client key (w_log w') = last_config client key (w_log w)"
proof -
  have "issues (\<lambda>c. \<forall>a k v. c \<noteq> RedisDo a [''config'', ''set'', k, v]) (apply_acl env fs cluster)"
    unfolding apply_acl_def by (intro issues_intros) auto
  then obtain l where l: "w_log w' = w_log w @ l" "\<forall>x \<in> set l. \<forall>a k v. fst x \<noteq> RedisDo a [''config'', ''set'', k, v]"
    using assms by (rule issuesE)
  have "set_by client key x old = old" if "x \<in> set l" for x old
    using l(2) that by (cases "(client, key, x, old)" rule: set_by.cases) force+
  then have "fold (set_by client key) l old = old" for old by (induction l arbitrary: old) auto
  moreover have "keeps (apply_acl env fs cluster)" unfolding apply_acl_def by (intro keeps_intros)
  then have "w_obj w' = w_obj w" using assms unfolding keeps_def by (metis snd_conv)
  ultimately show ?thesis using l(1) by (simp add: last_config_def)
qed

text \<open>The rest of the start, once the configuration is written.\<close>

lemma issues_redisTLSConfig [issues_intros]: "issues P (redisTLSConfig load_ca cluster)"
  by (auto simp: issues_def redisTLSConfig_def ret_def split: option.split)

lemma issues_launch: "issues (\<lambda>_. True) (launch fs exec load_ca cluster clusterName podName namespace)"
  unfolding launch_def seedACLFile_def resolveLocalAuthPassword_def readProjectedSecretPassword_def Let_def
  by (intro issues_intros) simp_all

lemma guarded_launch:
  assumes "e_get env l KPod ns primary = Inr (OPod p)" "p_IP p \<noteq> []"
  shows "guarded (writes_replica_conf env ns primary) starts_redis
    (bnd (wrap_err msg (writeRedisConf fs cluster (''replicaof '' @ p_IP p @ '' '' @ itoa 6379) masterAuth podIP)) (\<lambda>_.
     launch fs exec load_ca cluster clusterName podName namespace))"
  by (rule guarded_secured [OF secures_wrap_err [OF secures_conf [OF assms]] issues_launch])

lemma guarded_startup_role: "guarded A starts_redis (startup_role env fs cluster podName namespace)"
  by (rule guarded_none) (auto simp: startup_role_def readProjectedSecretPassword_def getPodIP_def Let_def starts_redis_def
      intro!: issues_intros split: option.split)

section \<open>Sample instances\<close>

definition sample_instance_rec :: InstanceReconciler where
  "sample_instance_rec = \<lparr>ir_redisClient = ''127.0.0.1:6379'', ir_clusterName = ''r'', ir_podName = ''r-1'', ir_namespace = ''ns'',
     ir_redisCmd = Alive, ir_tlsCertChecksums = []\<rparr>"

definition sample_files :: files where
  "sample_files = \<lparr>fl_read = (\<lambda>l path. FileContent ''secret''), fl_write = (\<lambda>l path content. None), fl_mkdir = (\<lambda>l path. None),
     fl_getenv = (\<lambda>name. [])\<rparr>"

definition fenced_cluster :: RedisCluster where
  "fenced_cluster = sample_cluster\<lparr>c_Annotations := [(FencingAnnotationKey, marshal_names [''r-1''])]\<rparr>"

definition pod_env :: "RedisCluster \<Rightarrow> env" where
  "pod_env c = (sample_env [])\<lparr>e_get := (\<lambda>l k ns name.
       if k = KCluster then Inr (OCluster c) else Inr (OPod (sample_pod name ''10.0.0.1'' [] True))),
     e_redis := (\<lambda>l a args. Inr (RStr ''OK''))\<rparr>"

text \<open>A Redis that starts as a primary and follows the role commands.\<close>

definition decimal_value :: "string \<Rightarrow> int" where
  "decimal_value s = (if hd s = CHR ''-'' then - int (digits_val (tl s)) else int (digits_val s))"

lemma decimal_value_itoa: "decimal_value (itoa i) = i"
  by (simp add: decimal_value_def itoa_def)

fun role_after :: "string \<Rightarrow> call \<times> bool \<Rightarrow> node_role \<Rightarrow> node_role" where
  "role_after client (RedisDo a [cmd, host, port], True) r =
     (if a = client \<and> cmd = ''slaveof'' then (if port = ''ONE'' then PrimaryRole else ReplicaRole host (decimal_value port)) else r)"
| "role_after client _ r = r"

definition role_log :: "string \<Rightarrow> log \<Rightarrow> node_role" where
  "role_log client l = fold (role_after client) l PrimaryRole"

definition role_env :: "string \<Rightarrow> env" where
  "role_env client = (pod_env sample_cluster)\<lparr>e_redis := (\<lambda>l a args.
     if args = [''info'', ''replication''] then (if role_log client l = PrimaryRole then Inr (RStr ''role:master'') else Inl ''loading'')
     else Inr (RStr ''OK''))\<rparr>"

lemma role_env_tracks: "tracks_role (role_env client) client (role_log client)"
proof -
  have one: "itoa port \<noteq> ''ONE''" for port using itoa_chars [of port] by (auto simp: is_digit_def)
  have other: "role_after client (c, b) r = r" if "\<forall>args. c \<noteq> RedisDo client (''slaveof'' # args)" for c b r
    using that by (cases "(client, (c, b), r)" rule: role_after.cases) auto
  show ?thesis
    unfolding tracks_role_def
    by (auto simp: role_env_def role_log_def role_of_info_def master_role one other decimal_value_itoa split: if_splits)
qed

text \<open>The same API server with other annotations on the cluster.\<close>

definition with_annotations :: "string \<Rightarrow> string \<Rightarrow> RedisCluster \<Rightarrow> (string, string) gomap \<Rightarrow> env \<Rightarrow> env" where
  "with_annotations ns name cluster annotations env = env\<lparr>e_get := (\<lambda>l k n m.
     if k = KCluster \<and> n = ns \<and> m = name then Inr (OCluster (cluster\<lparr>c_Annotations := annotations\<rparr>)) else e_get env l k n m)\<rparr>"

section \<open>Properties\<close>



text \<open>
  The three readers of the fencing annotation agree: the operator, the readiness probe and the watch
  loop of a named pod take the same pods to be fenced, malformed and empty annotations included.
\<close>

theorem fence_readers_agree:
  "(isFenced r cluster \<longleftrightarrow> ir_podName r \<in> set (getFencedPods cluster)) \<and>
   (podIsFenced cluster podName \<longleftrightarrow> podName \<in> set (getFencedPods cluster) - {[]})"
  using podIsFenced_iff [of podName cluster] by (cases "podName = []") (simp_all add: isFenced_iff podIsFenced_def)

text \<open>
  C35. A fenced instance is stopped and touched no further: when the cluster object fences the pod, other
  than as the owner of a planned handover, a cycle records an event and interrupts the server, and sends
  nothing to Redis, changes no role and reports no status.
\<close>

theorem fenced_instance_is_stopped:
  assumes "e_get env (w_log w) KCluster (ir_namespace (w_obj w)) (ir_clusterName (w_obj w)) = Inr (OCluster cluster)"
    and "ir_podName (w_obj w) \<in> set (getFencedPods cluster)" "fst (ClusterHandoverPods cluster) \<noteq> ir_podName (w_obj w)"
    and "ir_redisCmd (w_obj w) \<noteq> NoProcess"
  shows "\<exists>msg. reconcileInstance env fs w = (Inr (), w\<lparr>w_log := w_log w @
    [(Get KCluster (ir_namespace (w_obj w)) (ir_clusterName (w_obj w)), True), (Event Warning ''InstanceFenced'' msg, True), (Interrupt, True)]\<rparr>)"
proof -
  have "isFenced (w_obj w) cluster" using assms(2) by (simp add: isFenced_iff)
  then show ?thesis
    using assms by (cases w) (simp add: reconcileInstance_def requiresHardFence_def stopRedis_def bnd_def obj_def ret_def wrap_err_def get_cluster_def
        get_object_def perform_def eventf_def logged_def)
qed

theorem fenced_instance_is_stopped_witness:
  "''r-1'' \<in> set (getFencedPods fenced_cluster) \<and>
   (\<exists>msg. w_log (snd (reconcileInstance (pod_env fenced_cluster) sample_files (sample_world sample_instance_rec))) =
      [(Get KCluster ''ns'' ''r'', True), (Event Warning ''InstanceFenced'' msg, True), (Interrupt, True)])"
proof -
  have f: "getFencedPods fenced_cluster = [''r-1'']" by (simp add: fenced_cluster_def getFencedPods_def)
  have "fst (ClusterHandoverPods fenced_cluster) \<noteq> ''r-1''" by (simp add: ClusterHandoverPods_def fenced_cluster_def sample_simps)
  then show ?thesis
    using fenced_instance_is_stopped [of "pod_env fenced_cluster" "sample_world sample_instance_rec" fenced_cluster sample_files] f
    by (auto simp: pod_env_def sample_instance_rec_def sample_world_def)
qed



text \<open>
  C39. An instance minds its own business: whatever happens, a cycle reads, records events, talks to its
  own Redis, writes its ACL file, stops its server or writes the status; and of the status it changes
  nothing but its own entry.
\<close>

theorem instance_minds_its_business:
  "\<exists>l. w_log (snd (reconcileInstance env fs w)) = w_log w @ l \<and>
     list_all (\<lambda>x. own_business fs (ir_redisClient (w_obj w)) (ir_podName (w_obj w)) (fst x)) l"
  using stays_reconcile [of "ir_redisClient (w_obj w)" "ir_podName (w_obj w)" fs env]
  unfolding stays_def identity_def by blast

text \<open>
  A rotated password reaches Redis: when the projected files hold passwords and the secrets are
  reconciled without an error, clients authenticate with the local password, and the server authenticates
  to its primary with it or, in a replica cluster that names one, with the password of the source.
\<close>

theorem password_reaches_redis:
  assumes "reconcileInstanceSecrets env fs cluster w = (Inr (), w')" "instanceAuthSecretName cluster \<noteq> []"
    and "\<And>l name. name \<in> {instanceAuthSecretName cluster, source_auth_name cluster} \<Longrightarrow>
      fl_read fs l (path_join [resolveProjectedSecretsDir fs, name, ''password'']) = FileContent (raw name)"
    and "trimSpace (raw (instanceAuthSecretName cluster)) \<noteq> []"
  shows "last_config (ir_redisClient (w_obj w)) ''requirepass'' (w_log w') = Some (trimSpace (raw (instanceAuthSecretName cluster))) \<and>
    last_config (ir_redisClient (w_obj w)) ''masterauth'' (w_log w') =
      Some (trimSpace (raw (if source_auth_name cluster = [] then instanceAuthSecretName cluster else source_auth_name cluster)))"
proof -
  let ?client = "ir_redisClient (w_obj w)" and ?pw = "trimSpace (raw (instanceAuthSecretName cluster))"
  let ?w2 = "logged (RedisDo ?client [''config'', ''set'', ''masterauth'', ?pw]) True
    (logged (RedisDo ?client [''config'', ''set'', ''requirepass'', ?pw]) True w)"
  have read: "readSecretKey fs name ''password'' v = (Inr (trimSpace (raw name)), v)"
    if "name = instanceAuthSecretName cluster \<or> name = source_auth_name cluster" for name and v :: "InstanceReconciler world"
    by (rule readSecretKey_run) (use that assms(3) in blast)
  have auth: "p = ?pw \<and> v = ?w2" if "apply_auth env fs cluster w = (Inr p, v)" for p v
    using that assms(2,4) by (auto simp: apply_auth_def Let_def done_simps read dest!: config_set_done split: if_splits)
  obtain v where acl: "apply_acl env fs cluster ?w2 = (Inr (), v)" and src: "apply_source_auth env fs cluster ?pw v = (Inr (), w')"
    using assms(1) by (auto simp: reconcileInstanceSecrets_def bnd_done dest!: auth)
  have v: "w_obj v = w_obj w" "last_config ?client key (w_log v) = last_config ?client key (w_log ?w2)" for key
    using apply_acl_config [OF acl] by (auto simp: logged_def)
  show ?thesis
  proof (cases "source_auth_name cluster = []")
    case True
    then have "w' = v" using src assms(4) by (simp add: apply_source_auth_def Let_def done_simps)
    with True v(2) show ?thesis by (simp add: last_config_def)
  next
    case False
    then have "w' = logged (RedisDo ?client [''config'', ''set'', ''masterauth'', trimSpace (raw (source_auth_name cluster))]) True v"
      using src v(1) by (auto simp: apply_source_auth_def Let_def done_simps read dest!: config_set_done split: if_splits)
    with False v(2) show ?thesis by (simp add: last_config_def)
  qed
qed

theorem password_reaches_redis_witness:
  "\<exists>w'. reconcileInstanceSecrets (pod_env sample_cluster) sample_files sample_cluster (sample_world sample_instance_rec) = (Inr (), w') \<and>
     last_config ''127.0.0.1:6379'' ''requirepass'' (w_log w') = Some ''secret''"
proof -
  have trim: "trimSpace ''secret'' = ''secret''" "trimSpace ''r'' = ''r''" by (simp_all add: trimSpace_def is_space_def)
  have name: "instanceAuthSecretName sample_cluster = ''r-auth''" by (simp add: instanceAuthSecretName_def sample_simps trim)
  have spec: "s_ACLConfigSecret (c_Spec sample_cluster) = None" "s_ReplicaMode (c_Spec sample_cluster) = None" by (simp_all add: sample_simps)
  obtain w' where run: "reconcileInstanceSecrets (pod_env sample_cluster) sample_files sample_cluster (sample_world sample_instance_rec) = (Inr (), w')"
    by (simp add: reconcileInstanceSecrets_def apply_auth_def apply_acl_def apply_source_auth_def source_auth_name_def isReplicaModeEnabled_def
        readSecretKey_def read_file_def config_set_def redis_err_def redis_do_def bnd_def obj_def ret_def wrap_err_def name trim spec
        sample_files_def pod_env_def sample_instance_rec_def sample_world_def logged_def Let_def)
  have "last_config (ir_redisClient (w_obj (sample_world sample_instance_rec))) ''requirepass'' (w_log w') = Some (trimSpace ''secret'')"
    using password_reaches_redis [OF run, of "\<lambda>_. ''secret''"] by (simp add: name trim sample_files_def)
  with run show ?thesis by (simp add: trim sample_world_def sample_instance_rec_def)
qed

text \<open>
  A restart does not heed the fence: the start of a pod does not depend on the annotations of the
  cluster object, so a fenced pod whose server was stopped starts it again when its container restarts,
  and as a primary if the status still names it.
\<close>

theorem restart_ignores_fence:
  assumes "\<And>l. e_get env l KCluster namespace clusterName = Inr (OCluster cluster)"
  shows "Run (with_annotations namespace clusterName cluster annotations env) fs exec load_ca clusterName podName namespace w =
    Run env fs exec load_ca clusterName podName namespace w"
proof -
  let ?c = "cluster\<lparr>c_Annotations := annotations\<rparr>" and ?env = "with_annotations namespace clusterName cluster annotations env"
  have pod: "getPodIP ?env name ns = getPodIP env name ns" for name ns
    by (simp add: getPodIP_def get_pod_def get_object_def with_annotations_def)
  have role: "startup_role ?env fs ?c podName namespace = startup_role env fs cluster podName namespace"
    by (simp add: startup_role_def isReplicaModeEnabled_def pod Let_def)
  have conf: "writeRedisConf fs ?c d m ip = writeRedisConf fs cluster d m ip" for d m ip
    by (simp add: writeRedisConf_def redisConfLines_def listen_lines_def isTLSEnabled_def redisConfigValue_def Let_def)
  have same: "isTLSEnabled ?c = isTLSEnabled cluster" "runAuthSecretName ?c = runAuthSecretName cluster"
    by (simp add: isTLSEnabled_def) (cases "s_AuthSecret (c_Spec cluster)"; simp add: runAuthSecretName_def)
  have rest: "launch fs exec load_ca ?c clusterName podName namespace = launch fs exec load_ca cluster clusterName podName namespace"
    by (simp add: launch_def seedACLFile_def redisTLSConfig_def resolveLocalAuthPassword_def isolation_config_def same)
  have "get_cluster ?env namespace clusterName w = (Inr ?c, logged (Get KCluster namespace clusterName) True w)"
    "get_cluster env namespace clusterName w = (Inr cluster, logged (Get KCluster namespace clusterName) True w)"
    using assms by (simp_all add: get_cluster_def get_object_def perform_def bnd_def ret_def with_annotations_def)
  then show ?thesis by (simp add: Run_def bnd_wrap_err role conf rest)
qed

theorem restart_ignores_fence_witness:
  "Run (with_annotations ''ns'' ''r'' sample_cluster (c_Annotations fenced_cluster) (pod_env sample_cluster)) sample_files (\<lambda>_. None) (\<lambda>_. None) ''r'' ''r-1'' ''ns''
     (sample_world ()) =
   Run (pod_env sample_cluster) sample_files (\<lambda>_. None) (\<lambda>_. None) ''r'' ''r-1'' ''ns'' (sample_world ()) \<and>
   ''r-1'' \<in> set (getFencedPods (sample_cluster\<lparr>c_Annotations := c_Annotations fenced_cluster\<rparr>))"
proof
  show "Run (with_annotations ''ns'' ''r'' sample_cluster (c_Annotations fenced_cluster) (pod_env sample_cluster)) sample_files (\<lambda>_. None) (\<lambda>_. None) ''r'' ''r-1'' ''ns''
     (sample_world ()) =
   Run (pod_env sample_cluster) sample_files (\<lambda>_. None) (\<lambda>_. None) ''r'' ''r-1'' ''ns'' (sample_world ())"
    by (rule restart_ignores_fence) (simp add: pod_env_def)
  show "''r-1'' \<in> set (getFencedPods (sample_cluster\<lparr>c_Annotations := c_Annotations fenced_cluster\<rparr>))"
    by (simp add: fenced_cluster_def getFencedPods_def)
qed

end
