(* ===== verification/Webhooks.thy ===== *)
theory Webhooks
  imports Resources Frames
begin

text \<open>
  The admission webhooks of \<^verbatim>\<open>webhooks/\<close>: the defaulter of RedisCluster
  (\<^verbatim>\<open>rediscluster_defaulter.go\<close>), its validator (\<^verbatim>\<open>rediscluster_validator.go\<close>) and the validator
  of RedisScheduledBackup (\<^verbatim>\<open>redisscheduledbackup_validator.go\<close>). A check appends to a list of
  field errors; a request is admitted when the list is empty. The reader of the validator may be
  missing, as in the source, so it is an \<open>env option\<close>. The rule for DNS names, the cron parser and
  the time zone database are parameters.

  The lemmas show what the admission of a request guarantees to the controllers: the shape of an
  admitted specification, what a sequence of admitted updates can change, and that a defaulted
  specification is a fixed point of the defaulter.
\<close>

section \<open>Field errors\<close>

datatype bad_value = BadInt int | BadStr string | BadBool bool

datatype field_error =
    FieldInvalid string bad_value string
  | FieldRequired string string
  | FieldForbidden string string
  | FieldNotFound string string
  | FieldInternal string goerr

definition check :: "bool \<Rightarrow> field_error \<Rightarrow> field_error list" where
  "check b e = (if b then [e] else [])"

text \<open>The error of an admission request: an object of another kind, or the collected field errors.\<close>

datatype admission_err = WrongType string | Rejected "field_error list"

definition sentinelInstancesMinMessage :: string where
  "sentinelInstancesMinMessage = ''sentinel mode requires at least 3 redis instances''"
definition clusterShardsMinMessage :: string where
  "clusterShardsMinMessage = ''cluster mode requires spec.shards >= 3''"
definition clusterInstancesForbiddenMessage :: string where
  "clusterInstancesForbiddenMessage = ''spec.instances is not allowed in cluster mode; use shards and replicasPerShard''"
definition clusterMinSyncUnsupportedMessage :: string where
  "clusterMinSyncUnsupportedMessage = ''minSyncReplicas is not supported in cluster mode''"
definition clusterMaxSyncUnsupportedMessage :: string where
  "clusterMaxSyncUnsupportedMessage = ''maxSyncReplicas is not supported in cluster mode''"
definition clusterReplicaModeUnsupported :: string where
  "clusterReplicaModeUnsupported = ''replicaMode is not supported in cluster mode''"
definition tlsSecretRequiredMessage :: string where
  "tlsSecretRequiredMessage = ''tlsSecret is required when caSecret is set''"
definition caSecretRequiredMessage :: string where
  "caSecretRequiredMessage = ''caSecret is required when tlsSecret is set''"
definition primaryUpdateApprovalValue :: string where
  \<open>primaryUpdateApprovalValue = ''must be "true" when present''\<close>
definition maintenanceSingleInstanceMessage :: string where
  "maintenanceSingleInstanceMessage =
     ''nodeMaintenanceWindow.reusePVC=false is not allowed for single-instance clusters; set reusePVC=true or scale up first''"
definition replicaModeSourceRequiredMessage :: string where
  "replicaModeSourceRequiredMessage = ''source is required when replicaMode.enabled=true''"
definition replicaModeHostRequiredMessage :: string where
  "replicaModeHostRequiredMessage = ''source.host is required when replicaMode.enabled=true''"
definition replicaModePromoteMessage :: string where
  "replicaModePromoteMessage = ''replicaMode.promote=true requires replicaMode.enabled=true''"
definition replicaModeDisableMessage :: string where
  "replicaModeDisableMessage = ''replicaMode.enabled cannot be disabled directly; set replicaMode.promote=true first''"
definition ephemeralBootstrapMessage :: string where
  "ephemeralBootstrapMessage = ''bootstrap is not supported with ephemeral storage (storage.type=emptyDir); restored data would be lost when pods are recreated''"
definition ephemeralStorageClassMessage :: string where
  "ephemeralStorageClassMessage = ''storageClassName has no effect with ephemeral storage (storage.type=emptyDir); remove it''"
definition storageTypeImmutableMessage :: string where
  "storageTypeImmutableMessage = ''storage.type is immutable after creation; switching between pvc and emptyDir would destroy or migrate data''"
definition memoryRedisConflictMessage :: string where
  "memoryRedisConflictMessage = ''configure Redis memory via spec.memory; remove maxmemory/maxmemory-policy from spec.redis''"
definition memoryMutualExclusiveMessage :: string where
  "memoryMutualExclusiveMessage = ''spec.memory.maxMemory and spec.memory.maxMemoryPercent are mutually exclusive; set only one''"
definition memoryPercentRequiresLimit :: string where
  "memoryPercentRequiresLimit = ''spec.memory.maxMemoryPercent requires spec.resources.limits.memory to be set''"
definition memoryExceedsLimitMessage :: string where
  "memoryExceedsLimitMessage = ''spec.memory.maxMemory must not exceed spec.resources.limits.memory''"
definition memoryNonPositiveMessage :: string where
  "memoryNonPositiveMessage = ''spec.memory.maxMemory must be greater than 0''"
definition modeTransitionUnsupportedMessage :: string where
  "modeTransitionUnsupportedMessage = ''unsupported mode transition; only standalone->sentinel is supported as an in-place migration (set instances>=3 and do not enable TLS). See docs/runbooks/standalone-to-sentinel-migration.md''"
definition modeMigrationNotReadyMessage :: string where
  "modeMigrationNotReadyMessage = ''cannot migrate standalone->sentinel until status.currentPrimary is set; wait for the cluster to become Healthy before changing mode''"
definition modeMigrationTLSMessage :: string where
  "modeMigrationTLSMessage = ''cannot migrate standalone->sentinel in place for a TLS-enabled cluster; the in-place migration does not support TLS (clearing tlsSecret/caSecret in the same change would strand the migration). Sentinel mode itself does support TLS for clusters created as sentinel. Use the backup/recreate path. See docs/runbooks/standalone-to-sentinel-migration.md''"

section \<open>The defaulter\<close>

text \<open>
  The list of resource requests does not show whether the Go map is nil or empty, which the
  defaulter tells apart; \<open>requestsNil\<close> says that it is nil.
\<close>

definition default_mode :: "RedisClusterSpec \<Rightarrow> RedisClusterSpec" where
  "default_mode s = s\<lparr>s_Mode := (if s_Mode s = [] then ClusterModeStandalone else s_Mode s)\<rparr>"

definition default_size :: "RedisClusterSpec \<Rightarrow> RedisClusterSpec" where
  "default_size s =
     (if s_Mode s = ClusterModeCluster then s\<lparr>s_Shards := (if s_Shards s = 0 then 3 else s_Shards s)\<rparr>
      else s\<lparr>s_Instances := (if s_Instances s = 0 then 1 else s_Instances s)\<rparr>)"

definition default_storage :: "StorageSpec \<Rightarrow> StorageSpec" where
  "default_storage st = st\<lparr>
     ss_Type := (if ss_Type st = [] then StorageTypePVC else ss_Type st),
     ss_Size := (if q_nano (ss_Size st) = 0 then \<lparr>q_nano = 1073741824 * 1000000000, q_text = ''1Gi''\<rparr> else ss_Size st)\<rparr>"

definition default_requests :: "(string, quantity) gomap" where
  "default_requests =
     [(''memory'', \<lparr>q_nano = 134217728 * 1000000000, q_text = ''128Mi''\<rparr>),
      (''cpu'', \<lparr>q_nano = 100000000, q_text = ''100m''\<rparr>)]"

text \<open>A pointer field that is set when it is nil.\<close>

definition default_to :: "'a \<Rightarrow> 'a option \<Rightarrow> 'a option" where
  "default_to d p = (case p of None \<Rightarrow> Some d | Some v \<Rightarrow> Some v)"

definition default_isolation :: "PrimaryIsolationSpec option \<Rightarrow> PrimaryIsolationSpec option" where
  "default_isolation p =
     (let i = (case p of None \<Rightarrow> \<lparr>pis_Enabled = None, pis_APIServerTimeout = None, pis_PeerTimeout = None\<rparr> | Some i \<Rightarrow> i) in
      Some \<lparr>pis_Enabled = default_to True (pis_Enabled i),
        pis_APIServerTimeout = default_to (5 * 1000000000) (pis_APIServerTimeout i),
        pis_PeerTimeout = default_to (5 * 1000000000) (pis_PeerTimeout i)\<rparr>)"

definition default_memory :: "MemorySpec \<Rightarrow> MemorySpec" where
  "default_memory m = m\<lparr>ms_MaxMemoryPolicy := (if ms_MaxMemoryPolicy m = [] then ''noeviction'' else ms_MaxMemoryPolicy m)\<rparr>"

definition default_spec :: "bool \<Rightarrow> RedisClusterSpec \<Rightarrow> RedisClusterSpec" where
  "default_spec requestsNil spec =
     (let s = default_size (default_mode spec) in
      s\<lparr>s_ImageName := (if s_ImageName s = [] then ''redis:7.2'' else s_ImageName s),
        s_PrimaryUpdateStrategy := (if s_PrimaryUpdateStrategy s = [] then PrimaryUpdateStrategyUnsupervised else s_PrimaryUpdateStrategy s),
        s_Storage := default_storage (s_Storage s),
        s_Resources := (if requestsNil then (s_Resources s)\<lparr>rr_Requests := default_requests\<rparr> else s_Resources s),
        s_EnablePodDisruptionBudget := default_to True (s_EnablePodDisruptionBudget s),
        s_PrimaryIsolation := default_isolation (s_PrimaryIsolation s),
        s_Memory := map_option default_memory (s_Memory s),
        s_NodeMaintenanceWindow := map_option (\<lambda>n. n\<lparr>nmw_ReusePVC := default_to True (nmw_ReusePVC n)\<rparr>) (s_NodeMaintenanceWindow s)\<rparr>)"

definition Default :: "bool \<Rightarrow> object \<Rightarrow> object" where
  "Default requestsNil x =
     (case x of OCluster c \<Rightarrow> OCluster (c\<lparr>c_Spec := default_spec requestsNil (c_Spec c)\<rparr>) | _ \<Rightarrow> x)"

section \<open>The checks of a specification\<close>

text \<open>The checks of \<^verbatim>\<open>validate\<close> that read nothing but the object, in its order.\<close>

definition validate_replication :: "RedisCluster \<Rightarrow> field_error list" where
  "validate_replication cluster = (let s = c_Spec cluster in
     (if s_Mode s = ClusterModeCluster then
        check (s_Shards s < 3) (FieldInvalid ''spec.shards'' (BadInt (s_Shards s)) clusterShardsMinMessage) @
        check (s_Instances s \<noteq> 0) (FieldInvalid ''spec.instances'' (BadInt (s_Instances s)) clusterInstancesForbiddenMessage) @
        check (s_MinSyncReplicas s \<noteq> 0) (FieldInvalid ''spec.minSyncReplicas'' (BadInt (s_MinSyncReplicas s)) clusterMinSyncUnsupportedMessage) @
        check (s_MaxSyncReplicas s \<noteq> 0) (FieldInvalid ''spec.maxSyncReplicas'' (BadInt (s_MaxSyncReplicas s)) clusterMaxSyncUnsupportedMessage) @
        check (s_ReplicaMode s \<noteq> None) (FieldForbidden ''spec.replicaMode'' clusterReplicaModeUnsupported)
      else
        check (s_Instances s < 1) (FieldInvalid ''spec.instances'' (BadInt (s_Instances s)) ''must be at least 1'')) @
     check (s_Mode s \<noteq> ClusterModeCluster \<and> s_MinSyncReplicas s > int32 (s_Instances s - 1))
       (FieldInvalid ''spec.minSyncReplicas'' (BadInt (s_MinSyncReplicas s)) ''must be less than or equal to instances - 1'') @
     check (s_Mode s \<noteq> ClusterModeCluster \<and> s_MaxSyncReplicas s < s_MinSyncReplicas s)
       (FieldInvalid ''spec.maxSyncReplicas'' (BadInt (s_MaxSyncReplicas s)) ''must be greater than or equal to minSyncReplicas''))"

definition validate_annotations :: "RedisCluster \<Rightarrow> field_error list" where
  \<open>validate_annotations cluster =
     (case map_of (c_Annotations cluster) AnnotationHibernation of
        None \<Rightarrow> []
      | Some val \<Rightarrow> check (val \<notin> {''on'', ''off'', ''true'', ''false'', []})
          (FieldInvalid (''metadata.annotations.'' @ AnnotationHibernation) (BadStr val)
             ''must be "on", "off", "true", "false", or empty'')) @
     (case map_of (c_Annotations cluster) AnnotationApprovePrimaryUpdate of
        None \<Rightarrow> []
      | Some val \<Rightarrow> check (val \<noteq> ''true'' \<and> val \<noteq> [])
          (FieldInvalid (''metadata.annotations.'' @ AnnotationApprovePrimaryUpdate) (BadStr val) primaryUpdateApprovalValue))\<close>

definition validate_maintenance :: "RedisCluster \<Rightarrow> field_error list" where
  "validate_maintenance cluster =
     (case s_NodeMaintenanceWindow (c_Spec cluster) of
        None \<Rightarrow> []
      | Some w \<Rightarrow> check (nmw_InProgress w \<and> nmw_ReusePVC w = Some False \<and> DesiredDataInstances (c_Spec cluster) = 1)
          (FieldInvalid ''spec.nodeMaintenanceWindow.reusePVC'' (BadBool False) maintenanceSingleInstanceMessage))"

definition validate_shape :: "RedisCluster \<Rightarrow> field_error list" where
  "validate_shape cluster = (let s = c_Spec cluster in
     check (s_Mode s = ClusterModeSentinel \<and> s_Instances s < 3)
       (FieldInvalid ''spec.instances'' (BadInt (s_Instances s)) sentinelInstancesMinMessage) @
     check (s_TLSSecret s \<noteq> None \<and> s_CASecret s = None) (FieldRequired ''spec.caSecret'' caSecretRequiredMessage) @
     check (s_CASecret s \<noteq> None \<and> s_TLSSecret s = None) (FieldRequired ''spec.tlsSecret'' tlsSecretRequiredMessage) @
     validate_annotations cluster @ validate_replication cluster @ validate_maintenance cluster)"

definition validateMemory :: "RedisCluster \<Rightarrow> field_error list" where
  "validateMemory cluster =
     (case s_Memory (c_Spec cluster) of
        None \<Rightarrow> []
      | Some mem \<Rightarrow>
          let limit = MemoryLimitBytes (c_Spec cluster) in
          concat (map (\<lambda>(key, _). let normalized = toLower (trimSpace key) in
            check (normalized = ''maxmemory'' \<or> normalized = ''maxmemory-policy'')
              (FieldForbidden (''spec.redis['' @ key @ '']'') memoryRedisConflictMessage)) (s_Redis (c_Spec cluster))) @
          check (ms_MaxMemory mem \<noteq> None \<and> ms_MaxMemoryPercent mem \<noteq> None)
            (FieldForbidden ''spec.memory.maxMemoryPercent'' memoryMutualExclusiveMessage) @
          (case ms_MaxMemoryPercent mem of
             None \<Rightarrow> []
           | Some pct \<Rightarrow> check (limit \<le> 0) (FieldInvalid ''spec.memory.maxMemoryPercent'' (BadInt pct) memoryPercentRequiresLimit)) @
          (case ms_MaxMemory mem of
             None \<Rightarrow> []
           | Some q \<Rightarrow>
               if q_Value q \<le> 0 then [FieldInvalid ''spec.memory.maxMemory'' (BadStr (q_text q)) memoryNonPositiveMessage]
               else check (limit > 0 \<and> q_Value q > limit)
                 (FieldInvalid ''spec.memory.maxMemory'' (BadStr (q_text q)) memoryExceedsLimitMessage)))"

definition hasRawMaxMemory :: "RedisCluster \<Rightarrow> bool" where
  "hasRawMaxMemory cluster \<longleftrightarrow>
     list_ex (\<lambda>(key, val). toLower (trimSpace key) = ''maxmemory'' \<and> trimSpace val \<noteq> []) (s_Redis (c_Spec cluster))"

definition memoryWarnings :: "RedisCluster \<Rightarrow> string list" where
  "memoryWarnings cluster =
     (let limit = MemoryLimitBytes (c_Spec cluster); (bytes, ok) = ResolveMaxMemoryBytes (c_Spec cluster) in
      if limit \<le> 0 then []
      else if \<not> ok then
        if hasRawMaxMemory cluster then []
        else [''spec.resources.limits.memory is set ('' @ itoa limit @ '' bytes) but no Redis maxmemory is configured; '' @
          ''Redis may be OOM-killed at the container limit instead of applying eviction. '' @
          ''Set spec.memory.maxMemory or spec.memory.maxMemoryPercent.'']
      else if int64 (bytes * 10) \<ge> int64 (limit * 9) then
        [''spec.memory resolves maxmemory to '' @ itoa bytes @ '' bytes, at least 90% of the '' @ itoa limit @
          '' byte container limit; '' @
          ''leave headroom for replication buffers, copy-on-write during persistence, and fragmentation.'']
      else [])"

definition validateConnectionSecret :: "(string \<Rightarrow> string list) \<Rightarrow> RedisCluster \<Rightarrow> field_error list" where
  "validateConnectionSecret isDNS1123Subdomain cluster =
     (case s_ConnectionSecret (c_Spec cluster) of
        None \<Rightarrow> []
      | Some raw \<Rightarrow>
          let name = trimSpace raw in
          if name = [] then [FieldRequired ''spec.connectionSecret.name'' ''name is required when connectionSecret is set'']
          else map (FieldInvalid ''spec.connectionSecret.name'' (BadStr name)) (isDNS1123Subdomain name))"

definition validateStorage :: "RedisCluster \<Rightarrow> field_error list" where
  "validateStorage cluster =
     (if \<not> IsEphemeral (s_Storage (c_Spec cluster)) then []
      else
        check (s_Bootstrap (c_Spec cluster) \<notin> {None, Some []}) (FieldForbidden ''spec.bootstrap'' ephemeralBootstrapMessage) @
        check (ss_StorageClassName (s_Storage (c_Spec cluster)) \<notin> {None, Some []})
          (FieldForbidden ''spec.storage.storageClassName'' ephemeralStorageClassMessage))"

definition replicaModeEnabled :: "ReplicaModeSpec option \<Rightarrow> bool" where
  "replicaModeEnabled rm \<longleftrightarrow> (case rm of None \<Rightarrow> False | Some m \<Rightarrow> rm_Enabled m)"

definition bootstrapBackupName :: "string option \<Rightarrow> string" where
  "bootstrapBackupName spec = (case spec of None \<Rightarrow> [] | Some name \<Rightarrow> name)"

section \<open>The checks that read the cluster\<close>

definition validate_source_auth :: "env option \<Rightarrow> string \<Rightarrow> ReplicaSourceSpec \<Rightarrow> ('s, field_error list) io" where
  "validate_source_auth reader ns src =
     (let path = ''spec.replicaMode.source.authSecretName''; authSecretName = trimSpace (rs_AuthSecretName src) in
      case reader of
        Some env \<Rightarrow>
          if authSecretName = [] then ret []
          else bnd (attempt (get_secret env ns authSecretName)) (\<lambda>r.
            case r of
              Inr _ \<Rightarrow> ret []
            | Inl e \<Rightarrow>
                if IsNotFound e then ret [FieldNotFound path authSecretName]
                else ret [FieldInternal path (Wrap (''getting secret '' @ ns @ ''/'' @ authSecretName) e)])
      | None \<Rightarrow> ret [])"

definition validateReplicaMode :: "env option \<Rightarrow> RedisCluster \<Rightarrow> ('s, field_error list) io" where
  "validateReplicaMode reader cluster =
     (case s_ReplicaMode (c_Spec cluster) of
        None \<Rightarrow> ret []
      | Some rm \<Rightarrow>
          let promote = check (rm_Promote rm \<and> \<not> rm_Enabled rm)
                (FieldInvalid ''spec.replicaMode.promote'' (BadBool (rm_Promote rm)) replicaModePromoteMessage) in
          if \<not> rm_Enabled rm then ret promote
          else
            (case rm_Source rm of
               None \<Rightarrow> ret (promote @ [FieldRequired ''spec.replicaMode.source'' replicaModeSourceRequiredMessage])
             | Some src \<Rightarrow>
                 bnd (validate_source_auth reader (c_Namespace cluster) src) (\<lambda>auth.
                 ret (promote @
                   check (trimSpace (rs_Host src) = []) (FieldRequired ''spec.replicaMode.source.host'' replicaModeHostRequiredMessage) @
                   check (rs_Port src < 0 \<or> rs_Port src > 65535)
                     (FieldInvalid ''spec.replicaMode.source.port'' (BadInt (rs_Port src)) ''must be between 1 and 65535 when set'') @
                   check (rs_AuthSecretName src \<noteq> [] \<and> trimSpace (rs_AuthSecretName src) = [])
                     (FieldInvalid ''spec.replicaMode.source.authSecretName'' (BadStr (rs_AuthSecretName src)) ''must not be empty when set'') @
                   auth))))"

definition check_backup :: "string \<Rightarrow> RedisBackup \<Rightarrow> field_error list" where
  \<open>check_backup backupName backup =
     check (bst_Phase (b_Status backup) \<noteq> BackupPhaseCompleted)
       (FieldInvalid ''spec.bootstrap.backupName'' (BadStr backupName) ''referenced RedisBackup must be in phase "Completed"'') @
     (case Validate (bs_Destination (b_Spec backup)) of
        None \<Rightarrow> []
      | Some e \<Rightarrow> [FieldInvalid ''spec.bootstrap.backupName'' (BadStr backupName)
          (''referenced RedisBackup has an invalid destination: '' @ e)]) @
     check (bst_BackupPath (b_Status backup) = [] \<and> bst_ShardArtifacts (b_Status backup) = [])
       (FieldInvalid ''spec.bootstrap.backupName'' (BadStr backupName)
          ''referenced RedisBackup must have status.backupPath or status.shardArtifacts set'')\<close>

definition validateBootstrapReference :: "env option \<Rightarrow> RedisCluster \<Rightarrow> ('s, field_error list) io" where
  "validateBootstrapReference reader cluster =
     (let backupName = bootstrapBackupName (s_Bootstrap (c_Spec cluster)); path = ''spec.bootstrap.backupName'' in
      if backupName = [] then ret []
      else
        case reader of
          None \<Rightarrow> ret [FieldInternal path (Err ''validator reader is not configured'')]
        | Some env \<Rightarrow>
            bnd (attempt (get_backup env (c_Namespace cluster) backupName)) (\<lambda>r.
            case r of
              Inr backup \<Rightarrow> ret (check_backup backupName backup)
            | Inl e \<Rightarrow>
                if IsNotFound e then ret [FieldNotFound path backupName]
                else ret [FieldInternal path (Wrap (''fetching RedisBackup '' @ c_Namespace cluster @ ''/'' @ backupName) e)]))"

definition validate :: "(string \<Rightarrow> string list) \<Rightarrow> env option \<Rightarrow> RedisCluster \<Rightarrow> ('s, field_error list) io" where
  "validate dns reader cluster =
     bnd (if s_Mode (c_Spec cluster) \<noteq> ClusterModeCluster then validateReplicaMode reader cluster else ret []) (\<lambda>replica.
     bnd (validateBootstrapReference reader cluster) (\<lambda>bootstrap.
     ret (validate_shape cluster @ replica @ validateConnectionSecret dns cluster @ bootstrap @
       validateStorage cluster @ validateMemory cluster)))"

section \<open>The checks of an update\<close>

text \<open>The largest storage request among the volume claims; the zero quantity when there is none.\<close>

definition max_requested :: "PersistentVolumeClaim list \<Rightarrow> quantity" where
  "max_requested pvcs = fold (\<lambda>v best. if q_nano (currentRequest v) > q_nano best then currentRequest v else best) pvcs zero_quantity"

text \<open>
  The set of the storage classes in use, by the order of the range over it; the first class that is
  missing or does not allow expansion decides.
\<close>

definition storage_classes :: "RedisCluster \<Rightarrow> PersistentVolumeClaim list \<Rightarrow> string list" where
  "storage_classes cluster pvcs =
     remdups (filter (\<lambda>s. s \<noteq> []) (List.map_filter (\<lambda>x. x)
       (ss_StorageClassName (s_Storage (c_Spec cluster)) # map pvc_StorageClassName pvcs)))"

primrec expansion_allowed :: "env \<Rightarrow> string list \<Rightarrow> ('s, bool \<times> string) io" where
  "expansion_allowed env [] = ret (True, [])"
| \<open>expansion_allowed env (name # names) =
     bnd (attempt (get_storage_class env name)) (\<lambda>r.
     case r of
       Inl e \<Rightarrow>
         if IsNotFound e then ret (False, ''storageClass "'' @ name @ ''" was not found'')
         else throw (Wrap (''getting storageClass "'' @ name @ [CHR 0x22]) e)
     | Inr sc \<Rightarrow>
         if stc_AllowVolumeExpansion sc \<noteq> Some True
         then ret (False, ''storageClass "'' @ name @ ''" does not allow volume expansion'')
         else expansion_allowed env names)\<close>

definition validateStorageClassExpansion ::
  "(string list \<Rightarrow> string list) \<Rightarrow> env option \<Rightarrow> RedisCluster \<Rightarrow> ('s, bool \<times> string) io" where
  "validateStorageClassExpansion rng reader cluster =
     (case reader of
        None \<Rightarrow> ret (True, [])
      | Some env \<Rightarrow>
          bnd (wrap_err ''listing cluster PVCs'' (listClusterPVCs env cluster)) (\<lambda>pvcs.
          expansion_allowed env (rng (storage_classes cluster pvcs))))"

definition validate_shrink :: "env option \<Rightarrow> RedisCluster \<Rightarrow> ('s, field_error list) io" where
  \<open>validate_shrink reader newCluster =
     (let path = ''spec.storage.size'' in
      case reader of
        None \<Rightarrow> ret [FieldForbidden path ''storage size cannot be decreased after creation; only increases are allowed'']
      | Some env \<Rightarrow>
          bnd (attempt (listClusterPVCs env newCluster)) (\<lambda>r.
          case r of
            Inl e \<Rightarrow> ret [FieldInternal path (Wrap ''listing cluster PVCs'' e)]
          | Inr pvcs \<Rightarrow>
              ret (check (q_nano (max_requested pvcs) > q_nano (ss_Size (s_Storage (c_Spec newCluster))))
                (FieldForbidden path (''storage size cannot be decreased below currently requested PVC size "'' @
                  q_text (max_requested pvcs) @ [CHR 0x22])))))\<close>

definition validate_grow ::
  "(string list \<Rightarrow> string list) \<Rightarrow> env option \<Rightarrow> RedisCluster \<Rightarrow> ('s, field_error list) io" where
  "validate_grow rng reader newCluster =
     (let path = ''spec.storage.size'' in
      bnd (attempt (validateStorageClassExpansion rng reader newCluster)) (\<lambda>r.
      case r of
        Inl e \<Rightarrow> ret [FieldInternal path e]
      | Inr (expandable, reason) \<Rightarrow> ret (check (\<not> expandable) (FieldForbidden path reason))))"

definition validate_resize ::
  "(string list \<Rightarrow> string list) \<Rightarrow> env option \<Rightarrow> RedisCluster \<Rightarrow> RedisCluster \<Rightarrow> ('s, field_error list) io" where
  "validate_resize rng reader oldCluster newCluster =
     (let old = q_nano (ss_Size (s_Storage (c_Spec oldCluster))); new = q_nano (ss_Size (s_Storage (c_Spec newCluster))) in
      if IsEphemeral (s_Storage (c_Spec newCluster)) then ret []
      else if old > new then validate_shrink reader newCluster
      else if old < new then validate_grow rng reader newCluster
      else ret [])"

definition validateModeTransition :: "RedisCluster \<Rightarrow> RedisCluster \<Rightarrow> field_error list" where
  "validateModeTransition oldCluster newCluster =
     (let old = c_Spec oldCluster; new = c_Spec newCluster in
      if s_Mode old = ClusterModeStandalone \<and> s_Mode new = ClusterModeSentinel then
        if st_CurrentPrimary (c_Status newCluster) = [] then [FieldForbidden ''spec.mode'' modeMigrationNotReadyMessage]
        else if s_TLSSecret old \<noteq> None \<or> s_CASecret old \<noteq> None \<or> s_TLSSecret new \<noteq> None \<or> s_CASecret new \<noteq> None
        then [FieldForbidden ''spec.mode'' modeMigrationTLSMessage]
        else []
      else [FieldForbidden ''spec.mode'' modeTransitionUnsupportedMessage])"

definition promote_requested :: "ReplicaModeSpec option \<Rightarrow> bool" where
  "promote_requested rm \<longleftrightarrow> (case rm of None \<Rightarrow> False | Some m \<Rightarrow> rm_Promote m)"

definition validate_transition :: "RedisCluster \<Rightarrow> RedisCluster \<Rightarrow> field_error list" where
  "validate_transition oldCluster newCluster =
     (let old = c_Spec oldCluster; new = c_Spec newCluster in
      (if s_Mode old \<noteq> s_Mode new then validateModeTransition oldCluster newCluster else []) @
      check (bootstrapBackupName (s_Bootstrap old) \<noteq> bootstrapBackupName (s_Bootstrap new))
        (FieldForbidden ''spec.bootstrap.backupName'' ''bootstrap backupName is immutable after creation'') @
      check (replicaModeEnabled (s_ReplicaMode old) \<and> \<not> replicaModeEnabled (s_ReplicaMode new) \<and> \<not> promote_requested (s_ReplicaMode old))
        (FieldForbidden ''spec.replicaMode.enabled'' replicaModeDisableMessage) @
      check (\<not> replicaModeEnabled (s_ReplicaMode old) \<and> promote_requested (s_ReplicaMode new))
        (FieldForbidden ''spec.replicaMode.promote'' ''replicaMode.promote can only be set after replicaMode is already enabled''))"

definition validateUpdate ::
  "(string list \<Rightarrow> string list) \<Rightarrow> env option \<Rightarrow> RedisCluster \<Rightarrow> RedisCluster \<Rightarrow> ('s, field_error list) io" where
  "validateUpdate rng reader oldCluster newCluster =
     bnd (validate_resize rng reader oldCluster newCluster) (\<lambda>resize.
     ret (check (ss_Type (s_Storage (c_Spec oldCluster)) \<noteq> ss_Type (s_Storage (c_Spec newCluster)))
         (FieldForbidden ''spec.storage.type'' storageTypeImmutableMessage) @
       resize @ validate_transition oldCluster newCluster))"

section \<open>The entry points\<close>

definition ToAggregate :: "field_error list \<Rightarrow> 'a \<Rightarrow> admission_err + 'a" where
  "ToAggregate errs a = (if errs = [] then Inr a else Inl (Rejected errs))"

definition ValidateCreate ::
  "(string \<Rightarrow> string list) \<Rightarrow> env option \<Rightarrow> object \<Rightarrow> ('s, admission_err + string list) io" where
  "ValidateCreate dns reader x =
     (case x of
        OCluster cluster \<Rightarrow> bnd (validate dns reader cluster) (\<lambda>errs. ret (ToAggregate errs (memoryWarnings cluster)))
      | _ \<Rightarrow> ret (Inl (WrongType ''expected RedisCluster'')))"

definition ValidateUpdate ::
  "(string \<Rightarrow> string list) \<Rightarrow> (string list \<Rightarrow> string list) \<Rightarrow> env option \<Rightarrow> object \<Rightarrow> object \<Rightarrow>
   ('s, admission_err + string list) io" where
  "ValidateUpdate dns rng reader oldObj newObj =
     (case (oldObj, newObj) of
        (OCluster oldCluster, OCluster newCluster) \<Rightarrow>
          bnd (validate dns reader newCluster) (\<lambda>errs.
          bnd (validateUpdate rng reader oldCluster newCluster) (\<lambda>more.
          ret (ToAggregate (errs @ more) (memoryWarnings newCluster))))
      | _ \<Rightarrow> ret (Inl (WrongType ''expected RedisCluster'')))"

definition ValidateDelete :: "object \<Rightarrow> ('s, admission_err + string list) io" where
  "ValidateDelete x = ret (Inr [])"

section \<open>Scheduled backups\<close>

text \<open>
  A parsed cron expression is what the library makes of it: a function from a location and an
  instant to the next occurrence, with \<open>None\<close> for the zero time.
\<close>

type_synonym 'loc cron_schedule = "'loc \<Rightarrow> int \<Rightarrow> int option"

record 'loc time_lib =
  tl_UTC :: 'loc
  tl_LoadLocation :: "string \<Rightarrow> string + 'loc"
  tl_ParseStandard :: "string \<Rightarrow> string + 'loc cron_schedule"

definition validateSchedule :: "'loc time_lib \<Rightarrow> env \<Rightarrow> RedisScheduledBackup \<Rightarrow> ('s, field_error list) io" where
  "validateSchedule lib env scheduled =
     (let tz = sbs_TimeZone (sb_Spec scheduled); schedule = sbs_Schedule (sb_Spec scheduled);
          located = (if tz = [] then Inr (tl_UTC lib) else tl_LoadLocation lib tz);
          zone = (case located of
             Inl e \<Rightarrow> [FieldInvalid ''spec.timeZone'' (BadStr tz) (''not a valid IANA time zone: '' @ e)]
           | Inr _ \<Rightarrow> []) in
      case tl_ParseStandard lib schedule of
        Inl e \<Rightarrow> ret (zone @ [FieldInvalid ''spec.schedule'' (BadStr schedule) (''not a valid cron expression: '' @ e)])
      | Inr sched \<Rightarrow>
          bnd (now env) (\<lambda>t.
          ret (zone @ check (sched (case located of Inl _ \<Rightarrow> tl_UTC lib | Inr l \<Rightarrow> l) t = None)
            (FieldInvalid ''spec.schedule'' (BadStr schedule) ''cron expression has no upcoming occurrences''))))"

text \<open>Creation and update of a scheduled backup are validated alike.\<close>

definition ValidateScheduled :: "'loc time_lib \<Rightarrow> env \<Rightarrow> object \<Rightarrow> ('s, admission_err + string list) io" where
  "ValidateScheduled lib env x =
     (case x of
        OScheduledBackup scheduled \<Rightarrow> bnd (validateSchedule lib env scheduled) (\<lambda>errs. ret (ToAggregate errs []))
      | _ \<Rightarrow> ret (Inl (WrongType ''expected RedisScheduledBackup'')))"

section \<open>Facts\<close>

lemma check_Nil [simp]: "check b e = [] \<longleftrightarrow> \<not> b"
  by (simp add: check_def)

lemma ToAggregate_Inr [simp]: "ToAggregate errs a = Inr b \<longleftrightarrow> errs = [] \<and> b = a"
  by (auto simp: ToAggregate_def)

text \<open>What the default of every field is, as one predicate.\<close>

definition defaulted :: "RedisClusterSpec \<Rightarrow> bool" where
  "defaulted s \<longleftrightarrow>
     s_Mode s \<noteq> [] \<and> (if s_Mode s = ClusterModeCluster then s_Shards s \<noteq> 0 else s_Instances s \<noteq> 0) \<and>
     s_ImageName s \<noteq> [] \<and> s_PrimaryUpdateStrategy s \<noteq> [] \<and>
     ss_Type (s_Storage s) \<noteq> [] \<and> q_nano (ss_Size (s_Storage s)) \<noteq> 0 \<and>
     s_EnablePodDisruptionBudget s \<noteq> None \<and>
     (\<exists>e a p. s_PrimaryIsolation s = Some \<lparr>pis_Enabled = Some e, pis_APIServerTimeout = Some a, pis_PeerTimeout = Some p\<rparr>) \<and>
     (\<forall>m. s_Memory s = Some m \<longrightarrow> ms_MaxMemoryPolicy m \<noteq> []) \<and>
     (\<forall>n. s_NodeMaintenanceWindow s = Some n \<longrightarrow> nmw_ReusePVC n \<noteq> None)"

lemma default_to_Some: "\<exists>v. default_to d p = Some v"
  by (cases p) (simp_all add: default_to_def)

lemma default_memory_policy: "ms_MaxMemoryPolicy (default_memory m) \<noteq> []"
  by (simp add: default_memory_def)

lemma defaulted_default_spec: "defaulted (default_spec n s)"
proof -
  obtain e a p where "default_isolation (s_PrimaryIsolation s) =
      Some \<lparr>pis_Enabled = Some e, pis_APIServerTimeout = Some a, pis_PeerTimeout = Some p\<rparr>"
    by (simp add: default_isolation_def Let_def) (metis default_to_Some)
  then show ?thesis
    by (auto simp: defaulted_def default_spec_def default_size_def default_mode_def default_storage_def
        default_memory_policy default_to_def Let_def split: option.split)
qed

lemma default_spec_fixed: "defaulted s \<Longrightarrow> default_spec False s = s"
proof -
  assume d: "defaulted s"
  have "default_size (default_mode s) = s"
    using d by (simp add: defaulted_def default_mode_def default_size_def split: if_splits)
  moreover have "default_storage (s_Storage s) = s_Storage s" using d by (simp add: defaulted_def default_storage_def)
  moreover have "map_option default_memory (s_Memory s) = s_Memory s"
    using d by (cases "s_Memory s") (simp_all add: defaulted_def default_memory_def)
  moreover have "map_option (\<lambda>n. n\<lparr>nmw_ReusePVC := default_to True (nmw_ReusePVC n)\<rparr>) (s_NodeMaintenanceWindow s) =
      s_NodeMaintenanceWindow s"
    using d by (cases "s_NodeMaintenanceWindow s") (auto simp: defaulted_def default_to_def)
  moreover have "default_isolation (s_PrimaryIsolation s) = s_PrimaryIsolation s"
    "default_to True (s_EnablePodDisruptionBudget s) = s_EnablePodDisruptionBudget s"
    using d by (auto simp: defaulted_def default_isolation_def default_to_def)
  ultimately show "default_spec False s = s"
    using d by (simp add: default_spec_def Let_def defaulted_def)
qed

text \<open>The shape of an admitted specification.\<close>

definition wf_sizes :: "RedisClusterSpec \<Rightarrow> bool" where
  "wf_sizes s \<longleftrightarrow>
     (if s_Mode s = ClusterModeCluster
      then 3 \<le> s_Shards s \<and> s_Instances s = 0 \<and> s_MinSyncReplicas s = 0 \<and> s_MaxSyncReplicas s = 0 \<and> s_ReplicaMode s = None
      else 1 \<le> s_Instances s \<and> s_MinSyncReplicas s < s_Instances s \<and> s_MinSyncReplicas s \<le> s_MaxSyncReplicas s) \<and>
     (s_Mode s = ClusterModeSentinel \<longrightarrow> 3 \<le> s_Instances s)"

definition wf_memory :: "RedisClusterSpec \<Rightarrow> bool" where
  "wf_memory s \<longleftrightarrow>
     (case s_Memory s of
        None \<Rightarrow> True
      | Some m \<Rightarrow>
          (ms_MaxMemory m = None \<or> ms_MaxMemoryPercent m = None) \<and>
          (ms_MaxMemoryPercent m = None \<or> 0 < MemoryLimitBytes s) \<and>
          (case ms_MaxMemory m of
             None \<Rightarrow> True
           | Some q \<Rightarrow> ResolveMaxMemoryBytes s = (q_Value q, True) \<and> 0 < q_Value q \<and>
               (MemoryLimitBytes s \<le> 0 \<or> q_Value q \<le> MemoryLimitBytes s)) \<and>
          (\<forall>(k, v) \<in> set (s_Redis s). toLower (trimSpace k) \<notin> {''maxmemory'', ''maxmemory-policy''}))"

definition wf_replica_mode :: "RedisClusterSpec \<Rightarrow> bool" where
  "wf_replica_mode s \<longleftrightarrow>
     (case s_ReplicaMode s of
        None \<Rightarrow> True
      | Some rm \<Rightarrow>
          if rm_Enabled rm
          then (\<exists>src. rm_Source rm = Some src \<and> trimSpace (rs_Host src) \<noteq> [] \<and> rs_Port src \<in> {0..65535})
          else \<not> rm_Promote rm)"

definition wf_spec :: "RedisClusterSpec \<Rightarrow> bool" where
  "wf_spec s \<longleftrightarrow> wf_sizes s \<and> wf_memory s \<and> wf_replica_mode s \<and>
     (s_TLSSecret s = None \<longleftrightarrow> s_CASecret s = None) \<and>
     (IsEphemeral (s_Storage s) \<longrightarrow> s_Bootstrap s \<in> {None, Some []} \<and> ss_StorageClassName (s_Storage s) \<in> {None, Some []})"

lemma validate_replication_sizes:
  assumes "validate_replication cluster = []" "in_int32 (s_Instances (c_Spec cluster))"
    and "s_Mode (c_Spec cluster) \<noteq> ClusterModeSentinel \<or> 3 \<le> s_Instances (c_Spec cluster)"
  shows "wf_sizes (c_Spec cluster)"
proof (cases "s_Mode (c_Spec cluster) = ClusterModeCluster")
  case True
  with assms show ?thesis by (simp add: validate_replication_def wf_sizes_def Let_def)
next
  case False
  with assms have "1 \<le> s_Instances (c_Spec cluster)" by (simp add: validate_replication_def Let_def)
  with assms(2) have "in_int32 (s_Instances (c_Spec cluster) - 1)" by (simp add: in_int32_def)
  with False assms show ?thesis by (simp add: validate_replication_def wf_sizes_def Let_def)
qed

lemma validateMemory_wf: "validateMemory cluster = [] \<Longrightarrow> wf_memory (c_Spec cluster)"
  by (auto simp: validateMemory_def wf_memory_def Let_def ResolveMaxMemoryBytes_def split: option.splits if_splits)

lemma validateReplicaMode_wf:
  "validateReplicaMode reader cluster w = (Inr [], w') \<Longrightarrow> wf_replica_mode (c_Spec cluster)"
  by (auto simp: validateReplicaMode_def wf_replica_mode_def Let_def ret_def bnd_def
      split: option.splits if_splits prod.splits sum.splits)

lemma validate_parts:
  assumes "validate dns reader cluster w = (Inr [], w')"
  shows "validate_shape cluster = [] \<and> validateStorage cluster = [] \<and> validateMemory cluster = [] \<and>
    (s_Mode (c_Spec cluster) \<noteq> ClusterModeCluster \<longrightarrow> wf_replica_mode (c_Spec cluster))"
  using assms by (auto simp: validate_def bnd_def ret_def split: prod.splits sum.splits if_splits dest!: validateReplicaMode_wf)

lemma validate_wf:
  assumes "validate dns reader cluster w = (Inr [], w')" "in_int32 (s_Instances (c_Spec cluster))"
  shows "wf_spec (c_Spec cluster)"
proof -
  note parts = validate_parts [OF assms(1)]
  have sizes: "wf_sizes (c_Spec cluster)"
    using parts assms(2) by (intro validate_replication_sizes) (auto simp: validate_shape_def Let_def)
  moreover have "wf_replica_mode (c_Spec cluster)"
  proof (cases "s_Mode (c_Spec cluster) = ClusterModeCluster")
    case True
    with sizes show ?thesis by (simp add: wf_sizes_def wf_replica_mode_def)
  next
    case False
    with parts show ?thesis by blast
  qed
  ultimately show ?thesis
    using parts by (auto simp: wf_spec_def validate_shape_def validateStorage_def Let_def intro: validateMemory_wf split: if_splits)
qed

text \<open>An admitted update, and the histories of a resource: any number of admitted updates.\<close>

definition admitted_update ::
  "(string \<Rightarrow> string list) \<Rightarrow> (string list \<Rightarrow> string list) \<Rightarrow> RedisCluster \<Rightarrow> RedisCluster \<Rightarrow> bool" where
  "admitted_update dns rng old new \<longleftrightarrow>
     (\<exists>reader (w :: unit world) ws w'. ValidateUpdate dns rng reader (OCluster old) (OCluster new) w = (Inr (Inr ws), w'))"

inductive history :: "(string \<Rightarrow> string list) \<Rightarrow> (string list \<Rightarrow> string list) \<Rightarrow> RedisCluster \<Rightarrow> RedisCluster \<Rightarrow> bool"
  for dns rng c where
  created: "history dns rng c c"
| updated: "history dns rng c d \<Longrightarrow> admitted_update dns rng d e \<Longrightarrow> history dns rng c e"

lemma update_parts:
  assumes "ValidateUpdate dns rng reader (OCluster old) (OCluster new) w = (Inr (Inr ws), w')"
  obtains w1 where "validate dns reader new w = (Inr [], w1)" "validateUpdate rng reader old new w1 = (Inr [], w')"
  using assms by (auto simp: ValidateUpdate_def bnd_def ret_def split: prod.splits sum.splits)

lemma validateUpdate_parts:
  assumes "validateUpdate rng reader old new w = (Inr [], w')"
  shows "ss_Type (s_Storage (c_Spec old)) = ss_Type (s_Storage (c_Spec new)) \<and> validate_transition old new = [] \<and>
    validate_resize rng reader old new w = (Inr [], w')"
  using assms by (auto simp: validateUpdate_def bnd_def ret_def split: prod.splits sum.splits)

lemma validateModeTransition_Nil:
  "validateModeTransition old new = [] \<longleftrightarrow>
    s_Mode (c_Spec old) = ClusterModeStandalone \<and> s_Mode (c_Spec new) = ClusterModeSentinel \<and>
    st_CurrentPrimary (c_Status new) \<noteq> [] \<and> s_TLSSecret (c_Spec old) = None \<and> s_CASecret (c_Spec old) = None \<and>
    s_TLSSecret (c_Spec new) = None \<and> s_CASecret (c_Spec new) = None"
  by (auto simp: validateModeTransition_def Let_def)

lemma admitted_update_keeps:
  assumes "admitted_update dns rng old new"
  shows "ss_Type (s_Storage (c_Spec new)) = ss_Type (s_Storage (c_Spec old)) \<and>
    bootstrapBackupName (s_Bootstrap (c_Spec new)) = bootstrapBackupName (s_Bootstrap (c_Spec old)) \<and>
    (s_Mode (c_Spec new) = s_Mode (c_Spec old) \<or>
      s_Mode (c_Spec old) = ClusterModeStandalone \<and> s_Mode (c_Spec new) = ClusterModeSentinel)"
proof -
  from assms obtain reader w ws w' where
    "ValidateUpdate dns rng reader (OCluster old) (OCluster new) (w :: unit world) = (Inr (Inr ws), w')"
    unfolding admitted_update_def by blast
  then obtain w1 where "validateUpdate rng reader old new w1 = (Inr [], w')" by (rule update_parts)
  from validateUpdate_parts [OF this] show ?thesis
    by (auto simp: validate_transition_def Let_def validateModeTransition_Nil split: if_splits)
qed

text \<open>The fold over the claims finds the largest request.\<close>

lemma max_requested_fold:
  "q_nano q \<le> q_nano (fold (\<lambda>v best. if q_nano (currentRequest v) > q_nano best then currentRequest v else best) pvcs q) \<and>
   (\<forall>v \<in> set pvcs. q_nano (currentRequest v) \<le>
      q_nano (fold (\<lambda>v best. if q_nano (currentRequest v) > q_nano best then currentRequest v else best) pvcs q))"
proof (induction pvcs arbitrary: q)
  case (Cons v pvcs)
  show ?case
    using Cons.IH [of "if q_nano (currentRequest v) > q_nano q then currentRequest v else q"]
    by (auto split: if_splits)
qed simp

lemma max_requested_upper: "v \<in> set pvcs \<Longrightarrow> q_nano (currentRequest v) \<le> q_nano (max_requested pvcs)"
  unfolding max_requested_def using max_requested_fold by blast

lemma expansion_allowed_all:
  "expansion_allowed env names w = (Inr (True, reason), w') \<Longrightarrow>
   \<forall>name \<in> set names. \<exists>l sc. e_get env l KStorageClass [] name = Inr (OStorageClass sc) \<and> stc_AllowVolumeExpansion sc = Some True"
proof (induction names arbitrary: w)
  case (Cons name names)
  from Cons.prems obtain sc w1 where get: "e_get env (w_log w) KStorageClass [] name = Inr (OStorageClass sc)"
    "stc_AllowVolumeExpansion sc = Some True" and rest: "expansion_allowed env names w1 = (Inr (True, reason), w')"
    by (auto simp: bnd_def attempt_def get_storage_class_def get_object_def perform_def ret_def throw_def
        split: sum.splits prod.splits object.splits if_splits)
  from Cons.IH [OF rest] get show ?case by auto
qed simp

lemma listClusterPVCs_result:
  "listClusterPVCs env cluster w = (Inr pvcs, w') \<Longrightarrow>
   \<exists>items. e_list env (w_log w) KPVC (c_Namespace cluster) [(LabelCluster, c_Name cluster)] = Inr items \<and>
     pvcs = List.map_filter (\<lambda>x. case x of OPVC v \<Rightarrow> Some v | _ \<Rightarrow> None) items"
  by (auto simp: listClusterPVCs_def list_pvcs_def list_objects_def perform_def bnd_def ret_def split: sum.splits prod.splits)

lemma in_pvcs: "OPVC v \<in> set items \<Longrightarrow> v \<in> set (List.map_filter (\<lambda>x. case x of OPVC v \<Rightarrow> Some v | _ \<Rightarrow> None) items)"
  by (force simp: List.map_filter_def)

lemma validate_shrink_all:
  assumes "validate_shrink (Some env) new w = (Inr [], w')"
  shows "\<exists>l items. e_list env l KPVC (c_Namespace new) [(LabelCluster, c_Name new)] = Inr items \<and>
    (\<forall>v. OPVC v \<in> set items \<longrightarrow> q_nano (currentRequest v) \<le> q_nano (ss_Size (s_Storage (c_Spec new))))"
proof -
  from assms obtain pvcs w1 where list: "listClusterPVCs env new w = (Inr pvcs, w1)"
    and max: "q_nano (max_requested pvcs) \<le> q_nano (ss_Size (s_Storage (c_Spec new)))"
    by (auto simp: validate_shrink_def Let_def bnd_def attempt_def ret_def split: sum.splits prod.splits if_splits)
  from listClusterPVCs_result [OF list] obtain items where
    items: "e_list env (w_log w) KPVC (c_Namespace new) [(LabelCluster, c_Name new)] = Inr items"
    and pvcs: "pvcs = List.map_filter (\<lambda>x. case x of OPVC v \<Rightarrow> Some v | _ \<Rightarrow> None) items" by blast
  have "q_nano (currentRequest v) \<le> q_nano (ss_Size (s_Storage (c_Spec new)))" if "OPVC v \<in> set items" for v
    using order_trans [OF max_requested_upper max] in_pvcs [OF that] by (simp add: pvcs)
  with items show ?thesis by blast
qed

lemma validate_grow_all:
  assumes "validate_grow rng (Some env) new w = (Inr [], w')" and "\<forall>xs. set (rng xs) = set xs"
  shows "\<exists>l items. e_list env l KPVC (c_Namespace new) [(LabelCluster, c_Name new)] = Inr items \<and>
    (\<forall>v name. OPVC v \<in> set items \<longrightarrow> pvc_StorageClassName v = Some name \<longrightarrow> name \<noteq> [] \<longrightarrow>
      (\<exists>l sc. e_get env l KStorageClass [] name = Inr (OStorageClass sc) \<and> stc_AllowVolumeExpansion sc = Some True))"
proof -
  from assms(1) obtain pvcs w1 w2 reason where list: "listClusterPVCs env new w = (Inr pvcs, w1)"
    and "expansion_allowed env (rng (storage_classes new pvcs)) w1 = (Inr (True, reason), w2)"
    by (auto simp: validate_grow_def Let_def validateStorageClassExpansion_def wrap_err_def bnd_def attempt_def ret_def
        split: sum.splits prod.splits if_splits)
  from expansion_allowed_all [OF this(2)] assms(2)
  have ok: "\<exists>l sc. e_get env l KStorageClass [] name = Inr (OStorageClass sc) \<and> stc_AllowVolumeExpansion sc = Some True"
    if "name \<in> set (storage_classes new pvcs)" for name using that by blast
  have "name \<in> set (storage_classes new pvcs)" if "v \<in> set pvcs" "pvc_StorageClassName v = Some name" "name \<noteq> []" for v name
    using that by (force simp: storage_classes_def List.map_filter_def)
  note named = ok [OF this]
  from listClusterPVCs_result [OF list] obtain items where
    items: "e_list env (w_log w) KPVC (c_Namespace new) [(LabelCluster, c_Name new)] = Inr items"
    and "pvcs = List.map_filter (\<lambda>x. case x of OPVC v \<Rightarrow> Some v | _ \<Rightarrow> None) items" by blast
  then have "v \<in> set pvcs" if "OPVC v \<in> set items" for v using in_pvcs [OF that] by simp
  with items named show ?thesis by blast
qed

section \<open>Properties\<close>

text \<open>
  Defaulting establishes the invariant of a defaulted specification (a mode, a size, an image, a
  storage type and size, an isolation policy and the rest are set), and a defaulted specification
  is a fixed point: admitting a stored object again changes nothing.
\<close>

theorem defaults_are_stable:
  "defaulted (default_spec requestsNil spec) \<and>
   default_spec False (default_spec requestsNil spec) = default_spec requestsNil spec"
  using defaulted_default_spec default_spec_fixed by blast


text \<open>
  C32. Over any sequence of admitted updates, whatever the API server answers in between, the storage
  type and the bootstrap backup of a cluster never change, and its mode changes at most from
  standalone to sentinel.
\<close>

theorem history_immutable:
  assumes "history dns rng c d"
  shows "ss_Type (s_Storage (c_Spec d)) = ss_Type (s_Storage (c_Spec c)) \<and>
    bootstrapBackupName (s_Bootstrap (c_Spec d)) = bootstrapBackupName (s_Bootstrap (c_Spec c)) \<and>
    (s_Mode (c_Spec d) = s_Mode (c_Spec c) \<or>
      s_Mode (c_Spec c) = ClusterModeStandalone \<and> s_Mode (c_Spec d) = ClusterModeSentinel)"
  using assms
proof induction
  case (updated d e)
  from admitted_update_keeps [OF updated.hyps(2)] updated.IH show ?case by auto
qed simp

text \<open>
  An admitted change of the storage size of a cluster on volume claims is one the volumes can
  follow: a smaller size is at least the request of every claim of the cluster, and for a larger one
  every storage class in use exists and allows expansion, as a configured reader reported them.
\<close>

theorem admitted_resize_is_possible:
  assumes "ValidateUpdate dns rng (Some env) (OCluster old) (OCluster new) w = (Inr (Inr warnings), w')"
    and "\<not> IsEphemeral (s_Storage (c_Spec new))" and "\<forall>xs. set (rng xs) = set xs"
  shows "q_nano (ss_Size (s_Storage (c_Spec new))) = q_nano (ss_Size (s_Storage (c_Spec old))) \<or>
    (\<exists>l items. e_list env l KPVC (c_Namespace new) [(LabelCluster, c_Name new)] = Inr items \<and>
      (if q_nano (ss_Size (s_Storage (c_Spec new))) < q_nano (ss_Size (s_Storage (c_Spec old)))
       then \<forall>v. OPVC v \<in> set items \<longrightarrow> q_nano (currentRequest v) \<le> q_nano (ss_Size (s_Storage (c_Spec new)))
       else \<forall>v name. OPVC v \<in> set items \<longrightarrow> pvc_StorageClassName v = Some name \<longrightarrow> name \<noteq> [] \<longrightarrow>
         (\<exists>l sc. e_get env l KStorageClass [] name = Inr (OStorageClass sc) \<and> stc_AllowVolumeExpansion sc = Some True)))"
proof -
  let ?old = "q_nano (ss_Size (s_Storage (c_Spec old)))" and ?new = "q_nano (ss_Size (s_Storage (c_Spec new)))"
  obtain w1 where "validateUpdate rng (Some env) old new w1 = (Inr [], w')" using assms(1) by (rule update_parts)
  then have resize: "validate_resize rng (Some env) old new w1 = (Inr [], w')" by (simp add: validateUpdate_parts)
  show ?thesis
  proof (cases ?old ?new rule: linorder_cases)
    case less
    with resize assms(2) have "validate_grow rng (Some env) new w1 = (Inr [], w')" by (simp add: validate_resize_def)
    from validate_grow_all [OF this assms(3)] less show ?thesis by auto
  next
    case greater
    with resize assms(2) have "validate_shrink (Some env) new w1 = (Inr [], w')" by (simp add: validate_resize_def)
    from validate_shrink_all [OF this] greater show ?thesis by auto
  qed simp
qed

section \<open>Witnesses\<close>

lemma sample_admitted: "ValidateCreate (\<lambda>_. []) None (OCluster sample_cluster) (sample_world ()) = (Inr (Inr []), sample_world ())"
  by (simp add: ValidateCreate_def validate_def validate_shape_def validate_annotations_def validate_replication_def
      validate_maintenance_def validateReplicaMode_def validateConnectionSecret_def validateBootstrapReference_def
      validateStorage_def validateMemory_def bootstrapBackupName_def memoryWarnings_def MemoryLimitBytes_def
      ToAggregate_def IsEphemeral_def int32_def Let_def bnd_def ret_def sample_simps)


definition sentinel_cluster :: RedisCluster where
  "sentinel_cluster = c_Spec_update (s_Mode_update (\<lambda>_. ClusterModeSentinel)) sample_cluster"

lemma validate_sentinel_cluster: "validate (\<lambda>_. []) reader sentinel_cluster w = (Inr [], w)"
  by (simp add: sentinel_cluster_def validate_def validate_shape_def validate_annotations_def validate_replication_def
      validate_maintenance_def validateReplicaMode_def validateConnectionSecret_def validateBootstrapReference_def
      validateStorage_def validateMemory_def bootstrapBackupName_def IsEphemeral_def int32_def Let_def bnd_def ret_def sample_simps)

lemma sentinel_migration: "admitted_update (\<lambda>_. []) (\<lambda>x. x) sample_cluster sentinel_cluster"
  unfolding admitted_update_def
  by (rule exI [of _ None], rule exI [of _ "sample_world ()"])
    (simp add: ValidateUpdate_def bnd_def validate_sentinel_cluster validateUpdate_def validate_resize_def
      validate_transition_def validateModeTransition_def Let_def ret_def,
     simp add: sentinel_cluster_def check_def ToAggregate_def replicaModeEnabled_def promote_requested_def
      bootstrapBackupName_def IsEphemeral_def sample_simps)

theorem history_immutable_witness:
  "history (\<lambda>_. []) (\<lambda>x. x) sample_cluster sentinel_cluster \<and>
   s_Mode (c_Spec sample_cluster) = ClusterModeStandalone \<and> s_Mode (c_Spec sentinel_cluster) = ClusterModeSentinel"
proof -
  have h: "history (\<lambda>_. []) (\<lambda>x. x) sample_cluster sentinel_cluster"
    by (rule history.updated [OF history.created sentinel_migration])
  moreover have "s_Mode (c_Spec sentinel_cluster) \<noteq> s_Mode (c_Spec sample_cluster)"
    by (simp add: sentinel_cluster_def sample_simps)
  ultimately show ?thesis using history_immutable [OF h] by simp
qed

text \<open>A reduction of the volumes from ten to five gibibytes, with one claim that requests one.\<close>

definition sized_cluster :: "int \<Rightarrow> RedisCluster" where
  "sized_cluster gib = c_Spec_update (s_Storage_update (ss_Size_update (\<lambda>_. \<lparr>q_nano = gib * 1073741824 * 1000000000, q_text = ''s''\<rparr>)))
     sentinel_cluster"

definition sample_claim :: PersistentVolumeClaim where
  "sample_claim = \<lparr>pvc_Meta = new_meta ''r-0-data'' ''ns'' [], pvc_AccessModes = [],
     pvc_Requests = [(''storage'', \<lparr>q_nano = 1073741824 * 1000000000, q_text = ''1Gi''\<rparr>)], pvc_StorageClassName = None,
     pvc_Conditions = []\<rparr>"

lemma validate_sized_cluster: "validate (\<lambda>_. []) reader (sized_cluster n) w = (Inr [], w)"
  by (simp add: sized_cluster_def sentinel_cluster_def validate_def validate_shape_def validate_annotations_def validate_replication_def
      validate_maintenance_def validateReplicaMode_def validateConnectionSecret_def validateBootstrapReference_def
      validateStorage_def validateMemory_def bootstrapBackupName_def IsEphemeral_def int32_def Let_def bnd_def ret_def sample_simps)

theorem admitted_resize_is_possible_witness:
  "q_nano (currentRequest sample_claim) \<le> q_nano (ss_Size (s_Storage (c_Spec (sized_cluster 5))))"
proof -
  let ?env = "sample_env [OPVC sample_claim]"
  have "\<exists>ws w'. ValidateUpdate (\<lambda>_. []) (\<lambda>x. x) (Some ?env) (OCluster (sized_cluster 10)) (OCluster (sized_cluster 5)) (sample_world ()) = (Inr (Inr ws), w')"
    by (simp add: ValidateUpdate_def bnd_def validate_sized_cluster validateUpdate_def validate_resize_def validate_shrink_def
        validate_transition_def attempt_def Resources.listClusterPVCs_def list_pvcs_def list_objects_def perform_def Let_def ret_def)
      (simp add: sized_cluster_def sentinel_cluster_def ToAggregate_def check_def replicaModeEnabled_def promote_requested_def
        bootstrapBackupName_def IsEphemeral_def max_requested_def currentRequest_def sample_claim_def zero_quantity_def
        List.map_filter_simps sample_simps mget_def)
  then obtain ws w' where run: "ValidateUpdate (\<lambda>_. []) (\<lambda>x. x) (Some ?env) (OCluster (sized_cluster 10)) (OCluster (sized_cluster 5))
      (sample_world ()) = (Inr (Inr ws), w')" by blast
  have sizes: "\<not> IsEphemeral (s_Storage (c_Spec (sized_cluster 5)))"
    "q_nano (ss_Size (s_Storage (c_Spec (sized_cluster 5)))) < q_nano (ss_Size (s_Storage (c_Spec (sized_cluster 10))))"
    "\<forall>l. e_list ?env l KPVC (c_Namespace (sized_cluster 5)) [(LabelCluster, c_Name (sized_cluster 5))] = Inr [OPVC sample_claim]"
    by (simp_all add: sized_cluster_def sentinel_cluster_def IsEphemeral_def sample_simps)
  with admitted_resize_is_possible [OF run sizes(1)] show ?thesis by simp
qed

definition oversized_cluster :: RedisCluster where
  "oversized_cluster = c_Spec_update (\<lambda>s. s\<lparr>s_Mode := ClusterModeCluster, s_Instances := 0, s_Shards := 3,
     s_ReplicasPerShard := 1073741824\<rparr>) sample_cluster"

text \<open>
  The validator puts no upper bound on the number of instances of a cluster. It admits three
  shards of more than a billion replicas, for which the 32-bit number of desired instances is
  negative, and a scale-down to it always ends in an error, after deleting what it can.
\<close>

theorem oversized_cluster_admitted:
  "fst (ValidateCreate (\<lambda>_. []) reader (OCluster oversized_cluster) w) = Inr (Inr []) \<and>
   DesiredDataInstances (c_Spec oversized_cluster) = -1073741821 \<and>
   fst (scale_down env oversized_cluster pods (DesiredDataInstances (c_Spec oversized_cluster)) v) \<in> range Inl"
proof (intro conjI)
  show neg: "DesiredDataInstances (c_Spec oversized_cluster) = -1073741821"
    by (simp add: oversized_cluster_def DesiredDataInstances_def int32_def sample_simps)
  show "fst (ValidateCreate (\<lambda>_. []) reader (OCluster oversized_cluster) w) = Inr (Inr [])"
    by (simp add: oversized_cluster_def ValidateCreate_def validate_def validate_shape_def validate_annotations_def
        validate_replication_def validate_maintenance_def validateConnectionSecret_def
        validateBootstrapReference_def validateStorage_def validateMemory_def bootstrapBackupName_def memoryWarnings_def
        MemoryLimitBytes_def ToAggregate_def IsEphemeral_def Let_def bnd_def ret_def sample_simps)
  show "fst (scale_down env oversized_cluster pods (DesiredDataInstances (c_Spec oversized_cluster)) v) \<in> range Inl"
    unfolding neg by (auto simp: scale_down_def Let_def bnd_def throw_def split: prod.splits sum.splits)
qed

end
