(* ===== verification/Backups.thy ===== *)
theory Backups
  imports Webhooks "HOL-Library.Product_Lexorder"
begin

text \<open>
  The backup controllers of \<^verbatim>\<open>internal/controller/backup\<close>: the reconciler of RedisBackup
  (\<^verbatim>\<open>reconciler.go\<close>) with the request to the instance manager (\<^verbatim>\<open>executor.go\<close>), the reconciler of
  RedisScheduledBackup (\<^verbatim>\<open>scheduled_reconciler.go\<close>) and the backup gauges (\<^verbatim>\<open>metrics.go\<close>). The object
  in memory is the backup or the scheduled backup being reconciled. The time at which a condition is
  set is read from the clock when the condition is built; the generation a condition refers to is not
  part of the model. A clock reading is in whole seconds, as are the occurrences of a cron schedule,
  and so is the delay after which a scheduled backup is reconciled again.

  The lemmas show that a completed backup can be restored from, that a finished one is left alone,
  when a schedule fires, and what the retention deletes.
\<close>

section \<open>The object in memory\<close>

definition observe_as :: "('s \<Rightarrow> object) \<Rightarrow> 's \<Rightarrow> ('s, unit) io" where
  "observe_as mk x = (\<lambda>w. (Inr (), logged (Observed (mk x)) True w\<lparr>w_obj := x\<rparr>))"

text \<open>A status patch of an object other than a cluster.\<close>

definition patch_status_as ::
  "('s \<Rightarrow> object) \<Rightarrow> (object \<Rightarrow> 's option) \<Rightarrow> env \<Rightarrow> ('s \<Rightarrow> 's) \<Rightarrow> ('s, unit) io" where
  "patch_status_as mk dest env f = (\<lambda>w.
     let base = mk (w_obj w); new = f (w_obj w); w' = logged (StatusPatch base (mk new)) in
     case e_status_patch env (w_log w) base (mk new) of
       Inl e \<Rightarrow> (Inl (Api e), w' False (w\<lparr>w_obj := new\<rparr>))
     | Inr answer \<Rightarrow>
         (case dest answer of
            Some x \<Rightarrow> observe_as mk x (w' True (w\<lparr>w_obj := new\<rparr>))
          | None \<Rightarrow> (Inl wrong_kind, w' True (w\<lparr>w_obj := new\<rparr>))))"

definition as_backup :: "object \<Rightarrow> RedisBackup option" where
  "as_backup x = (case x of OBackup b \<Rightarrow> Some b | _ \<Rightarrow> None)"

definition as_scheduled :: "object \<Rightarrow> RedisScheduledBackup option" where
  "as_scheduled x = (case x of OScheduledBackup b \<Rightarrow> Some b | _ \<Rightarrow> None)"

abbreviation patch_backup :: "env \<Rightarrow> (RedisBackupStatus \<Rightarrow> RedisBackupStatus) \<Rightarrow> (RedisBackup, unit) io" where
  "patch_backup env f \<equiv> patch_status_as OBackup as_backup env (b_Status_update f)"

abbreviation patch_scheduled ::
  "env \<Rightarrow> (RedisScheduledBackupStatus \<Rightarrow> RedisScheduledBackupStatus) \<Rightarrow> (RedisScheduledBackup, unit) io" where
  "patch_scheduled env f \<equiv> patch_status_as OScheduledBackup as_scheduled env (sb_Status_update f)"

definition get_scheduled :: "env \<Rightarrow> string \<Rightarrow> string \<Rightarrow> ('s, RedisScheduledBackup) io" where
  "get_scheduled env ns name = bnd (get_object env KScheduledBackup ns name)
     (\<lambda>x. case x of OScheduledBackup b \<Rightarrow> ret b | _ \<Rightarrow> throw wrong_kind)"

definition list_backups :: "env \<Rightarrow> string \<Rightarrow> (string, string) gomap \<Rightarrow> ('s, RedisBackup list) io" where
  "list_backups env ns sel = bnd (list_objects env KBackup ns sel) (\<lambda>xs. ret (List.map_filter as_backup xs))"

text \<open>A deferred call: it runs after the function, on every path, and its error is only logged.\<close>

definition deferred :: "('s, 'a) io \<Rightarrow> ('s, unit) io \<Rightarrow> ('s, 'a) io" where
  "deferred m d = (\<lambda>w. case m w of (r, w') \<Rightarrow> (r, snd (d w')))"

section \<open>The request to the instance manager\<close>

abbreviation backup_path :: string where "backup_path \<equiv> ''/v1/backup''"

definition triggerBackupWithOptions ::
  "env \<Rightarrow> string \<Rightarrow> string \<Rightarrow> string \<Rightarrow> BackupDestination option \<Rightarrow> ('s, BackupResult) io" where
  "triggerBackupWithOptions env podIP backupName meth destination =
     (let url = instance_url podIP backup_path; missing = Err ''instance manager backup response is missing backupPath'' in
      bnd (http env ''POST'' podIP backup_path (BackupPayload backupName meth destination)) (\<lambda>r.
      case r of
        Inl e \<Rightarrow> throw (Wrap (''POST '' @ url) (Err e))
      | Inr (status, answer) \<Rightarrow>
          if status \<noteq> 200
          then throw (Err (''POST '' @ url @ '' returned '' @ itoa status @ '': '' @ trimSpace (take 4096 (reply_text answer))))
          else
            (case answer of
               BackupReply result \<Rightarrow> if br_BackupPath result = [] then throw missing else ret result
             | StatusReply _ \<Rightarrow> throw missing
             | TextReply text \<Rightarrow> throw (Wrap ''decoding backup response'' (Err text)))))"

definition triggerBackup :: "env \<Rightarrow> string \<Rightarrow> RedisBackup \<Rightarrow> ('s, BackupResult) io" where
  "triggerBackup env podIP backup =
     triggerBackupWithOptions env podIP (om_Name (b_Meta backup)) (bs_Method (b_Spec backup)) (bs_Destination (b_Spec backup))"

section \<open>Metrics\<close>

abbreviation unknownBackupPhase :: string where "unknownBackupPhase \<equiv> ''Unknown''"

definition knownBackupPhases :: "string list" where
  "knownBackupPhases = [BackupPhasePending, BackupPhaseRunning, BackupPhaseCompleted, BackupPhaseFailed, unknownBackupPhase]"

definition normalizeBackupPhase :: "string \<Rightarrow> string" where
  "normalizeBackupPhase phase =
     (if phase = [] then unknownBackupPhase else if phase \<in> set knownBackupPhases then phase else unknownBackupPhase)"

definition count_backup :: "RedisBackup \<Rightarrow> (string, int) gomap \<times> int \<Rightarrow> (string, int) gomap \<times> int" where
  "count_backup backup acc =
     (let (counts, latest) = acc; phase = normalizeBackupPhase (bst_Phase (b_Status backup)) in
      (mput phase (mget 0 counts phase + 1) counts,
       if bst_Phase (b_Status backup) \<noteq> BackupPhaseCompleted then latest
       else case bst_CompletedAt (b_Status backup) of None \<Rightarrow> latest | Some t \<Rightarrow> if t > latest then t else latest))"

definition summarizeBackupMetrics :: "RedisBackup list \<Rightarrow> (string, int) gomap \<times> int" where
  "summarizeBackupMetrics backups = fold count_backup backups (map (\<lambda>p. (p, 0)) knownBackupPhases, 0)"

definition refreshClusterBackupMetrics :: "env \<Rightarrow> string \<Rightarrow> string \<Rightarrow> ('s, unit) io" where
  "refreshClusterBackupMetrics env namespace clusterName =
     (if namespace = [] \<or> clusterName = [] then ret ()
      else
        bnd (wrap_err ''listing RedisBackup resources for metrics'' (list_backups env namespace [])) (\<lambda>all.
        let backups = filter (\<lambda>b. bs_ClusterName (b_Spec b) = clusterName) all;
            (counts, latest) = summarizeBackupMetrics backups in
        bnd (for_each (\<lambda>phase. metric ''redis_backup_phase_count'') knownBackupPhases) (\<lambda>_.
        metric ''redis_last_successful_backup_timestamp'')))"

section \<open>The reconciler of a backup\<close>

definition backup_requeueInterval :: int where "backup_requeueInterval = 30 * 1000000000"

definition setBackupPending :: "env \<Rightarrow> (RedisBackup, unit) io" where
  "setBackupPending env = bnd obj (\<lambda>backup.
     if bst_Phase (b_Status backup) = BackupPhasePending then ret ()
     else patch_backup env (\<lambda>st. st\<lparr>bst_Phase := BackupPhasePending, bst_Error := []\<rparr>))"

definition setBackupFailed :: "env \<Rightarrow> string \<Rightarrow> (RedisBackup, unit) io" where
  "setBackupFailed env errMsg = patch_backup env (\<lambda>st. st\<lparr>bst_Phase := BackupPhaseFailed, bst_Error := errMsg\<rparr>)"

definition selectTargetPod :: "env \<Rightarrow> RedisCluster \<Rightarrow> string \<Rightarrow> ('s, string \<times> string) io" where
  "selectTargetPod env cluster target =
     bnd (wrap_err ''listing pods'' (listClusterPods env cluster)) (\<lambda>pods.
     let primary = st_CurrentPrimary (c_Status cluster);
         replica = (if target = BackupTargetPreferReplica
           then find (\<lambda>p. p_Name p \<noteq> primary \<and> p_IP p \<noteq> []) pods else None) in
     case replica of
       Some p \<Rightarrow> ret (p_Name p, p_IP p)
     | None \<Rightarrow>
         (case find (\<lambda>p. p_Name p = primary \<and> p_IP p \<noteq> []) pods of
            Some p \<Rightarrow> ret (p_Name p, p_IP p)
          | None \<Rightarrow> throw (Err ''no suitable pod found for backup'')))"

definition mark_running :: "env \<Rightarrow> string \<Rightarrow> (RedisBackup, unit) io" where
  "mark_running env target = bnd (now env) (\<lambda>t.
     patch_backup env (\<lambda>st. st\<lparr>bst_Phase := BackupPhaseRunning, bst_TargetPod := target, bst_StartedAt := Some t\<rparr>))"

definition startBackup :: "env \<Rightarrow> string \<Rightarrow> string \<Rightarrow> (RedisBackup, BackupResult) io" where
  "startBackup env targetPod targetIP =
     bnd (mark_running env targetPod) (\<lambda>_. bnd obj (\<lambda>backup. triggerBackup env targetIP backup))"

record clusterBackupTarget =
  cbt_PodName :: string
  cbt_PodIP :: string

definition status_targets :: "RedisCluster \<Rightarrow> Pod list \<Rightarrow> (string, clusterBackupTarget) gomap" where
  "status_targets cluster pods = fold (\<lambda>(shard, shardStatus) targets.
     if sh_PrimaryPod shardStatus = [] then targets
     else
       case find (\<lambda>p. p_Name p = sh_PrimaryPod shardStatus) (rev pods) of
         None \<Rightarrow> targets
       | Some pod \<Rightarrow>
           if p_IP pod = [] then targets
           else mput shard \<lparr>cbt_PodName = p_Name pod, cbt_PodIP = p_IP pod\<rparr> targets) (st_Shards (c_Status cluster)) []"

definition label_targets :: "Pod list \<Rightarrow> (string, clusterBackupTarget) gomap" where
  "label_targets pods = fold (\<lambda>pod targets.
     let shard = mget [] (p_Labels pod) LabelShard in
     if mget [] (p_Labels pod) LabelRole = LabelRoleSentinel \<or> mget [] (p_Labels pod) LabelShardRole \<noteq> LabelRolePrimary \<or>
        shard = [] \<or> p_IP pod = []
     then targets
     else mput shard \<lparr>cbt_PodName = p_Name pod, cbt_PodIP = p_IP pod\<rparr> targets) pods []"

definition selectClusterBackupTargets :: "env \<Rightarrow> RedisCluster \<Rightarrow> ('s, (string, clusterBackupTarget) gomap) io" where
  "selectClusterBackupTargets env cluster =
     bnd (wrap_err ''listing pods'' (listClusterPods env cluster)) (\<lambda>pods.
     if status_targets cluster pods \<noteq> [] then ret (status_targets cluster pods)
     else if label_targets pods = [] then throw (Err ''no shard primary pods with IP found for cluster backup'')
     else ret (label_targets pods))"

fun join :: "string \<Rightarrow> string list \<Rightarrow> string" where
  "join sep [] = []"
| "join sep [s] = s"
| "join sep (s # ss) = s @ sep @ join sep ss"

definition zero_target :: clusterBackupTarget where
  "zero_target = \<lparr>cbt_PodName = [], cbt_PodIP = []\<rparr>"

primrec backup_shards ::
  "env \<Rightarrow> RedisBackup \<Rightarrow> (string, clusterBackupTarget) gomap \<Rightarrow> string list \<Rightarrow> (string, ShardBackupArtifact) gomap \<Rightarrow>
   ('s, (string, ShardBackupArtifact) gomap) io" where
  "backup_shards env backup targets [] artifacts = ret artifacts"
| "backup_shards env backup targets (shard # shards) artifacts =
     (let target = mget zero_target targets shard in
      bnd (wrap_err (''triggering shard backup '' @ shard @ '' on pod '' @ cbt_PodName target)
        (triggerBackupWithOptions env (cbt_PodIP target) (om_Name (b_Meta backup) @ ''-'' @ shard)
          (bs_Method (b_Spec backup)) (bs_Destination (b_Spec backup)))) (\<lambda>result.
      backup_shards env backup targets shards (mput shard
        \<lparr>sa_TargetPod = cbt_PodName target, sa_BackupPath = br_BackupPath result, sa_BackupSize = br_BackupSize result,
         sa_ArtifactType = br_ArtifactType result, sa_ChecksumSHA256 = br_ChecksumSHA256 result\<rparr> artifacts)))"

definition startClusterBackup ::
  "env \<Rightarrow> (string, clusterBackupTarget) gomap \<Rightarrow> (RedisBackup, (string, ShardBackupArtifact) gomap) io" where
  "startClusterBackup env targets =
     bnd (mark_running env (join '','' (sort (map (cbt_PodName \<circ> snd) targets)))) (\<lambda>_.
     bnd obj (\<lambda>backup. backup_shards env backup targets (sort (map fst targets)) []))"

definition zero_artifact :: ShardBackupArtifact where
  "zero_artifact = \<lparr>sa_TargetPod = [], sa_BackupPath = [], sa_BackupSize = 0, sa_ArtifactType = [], sa_ChecksumSHA256 = []\<rparr>"

definition completed_status ::
  "BackupResult option \<Rightarrow> (string, ShardBackupArtifact) gomap \<Rightarrow> int \<Rightarrow> RedisBackupStatus \<Rightarrow> RedisBackupStatus" where
  "completed_status result shardArtifacts t st0 =
     (let st = st0\<lparr>bst_Phase := BackupPhaseCompleted, bst_ShardArtifacts := [], bst_CompletedAt := Some t\<rparr> in
      case result of
        Some r \<Rightarrow>
          st\<lparr>bst_BackupPath := br_BackupPath r, bst_BackupSize := br_BackupSize r,
             bst_ArtifactType := (if br_ArtifactType r \<noteq> [] then br_ArtifactType r else bst_ArtifactType st)\<rparr>
      | None \<Rightarrow>
          if shardArtifacts = [] then st
          else
            let shards = sort (map fst shardArtifacts); first = mget zero_artifact shardArtifacts (hd shards) in
            st\<lparr>bst_ShardArtifacts := shardArtifacts, bst_BackupPath := sa_BackupPath first,
               bst_ArtifactType := sa_ArtifactType first,
               bst_BackupSize := fold (\<lambda>n total. int64 (total + sa_BackupSize (mget zero_artifact shardArtifacts n))) shards 0\<rparr>)"

definition setBackupCompleted ::
  "env \<Rightarrow> BackupResult option \<Rightarrow> (string, ShardBackupArtifact) gomap \<Rightarrow> (RedisBackup, unit) io" where
  "setBackupCompleted env result shardArtifacts =
     bnd (now env) (\<lambda>t. patch_backup env (completed_status result shardArtifacts t))"

definition starts :: "string \<Rightarrow> bool" where
  "starts phase \<longleftrightarrow> phase = [] \<or> phase = BackupPhasePending"

text \<open>A start that fails is reported and recorded; the reconciliation ends there.\<close>

definition backup_start :: "env \<Rightarrow> string \<Rightarrow> (RedisBackup, 'a) io \<Rightarrow> ('a \<Rightarrow> (RedisBackup, int) io) \<Rightarrow> (RedisBackup, int) io" where
  "backup_start env msg m f =
     bnd (attempt m) (\<lambda>r.
     case r of
       Inl e \<Rightarrow>
         bnd (eventf Warning ''BackupFailed'' (''Backup failed: '' @ error_text e)) (\<lambda>_.
         bnd (setBackupFailed env (msg @ '': '' @ error_text e)) (\<lambda>_. ret 0))
     | Inr a \<Rightarrow> f a)"

definition backup_finish ::
  "env \<Rightarrow> string \<Rightarrow> BackupResult option \<Rightarrow> (string, ShardBackupArtifact) gomap \<Rightarrow> string \<Rightarrow> (RedisBackup, int) io" where
  "backup_finish env currentPhase result shardArtifacts msg =
     (if currentPhase = BackupPhaseRunning then ret backup_requeueInterval
      else bnd (setBackupCompleted env result shardArtifacts) (\<lambda>_.
        bnd (eventf Normal ''BackupCompleted'' msg) (\<lambda>_. ret 0)))"

definition cluster_backup :: "env \<Rightarrow> RedisCluster \<Rightarrow> string \<Rightarrow> (RedisBackup, int) io" where
  "cluster_backup env cluster currentPhase =
     bnd (attempt (selectClusterBackupTargets env cluster)) (\<lambda>r.
     case r of
       Inl e \<Rightarrow> bnd (setBackupFailed env (''selecting cluster backup targets: '' @ error_text e)) (\<lambda>_. ret 0)
     | Inr targets \<Rightarrow>
         if starts currentPhase then
           bnd (eventf Normal ''BackupStarted'' ''Cluster backup started'') (\<lambda>_.
           backup_start env ''starting cluster backup'' (startClusterBackup env targets) (\<lambda>artifacts.
           backup_finish env currentPhase None artifacts ''Cluster backup completed successfully''))
         else backup_finish env currentPhase None [] ''Cluster backup completed successfully'')"

definition single_backup :: "env \<Rightarrow> RedisCluster \<Rightarrow> string \<Rightarrow> (RedisBackup, int) io" where
  "single_backup env cluster currentPhase = bnd obj (\<lambda>backup.
     bnd (attempt (selectTargetPod env cluster (bs_Target (b_Spec backup)))) (\<lambda>r.
     case r of
       Inl e \<Rightarrow> bnd (setBackupFailed env (''selecting target pod: '' @ error_text e)) (\<lambda>_. ret 0)
     | Inr (targetPod, targetIP) \<Rightarrow>
         if starts currentPhase then
           bnd (eventf Normal ''BackupStarted'' (''Backup started on pod '' @ targetPod)) (\<lambda>_.
           backup_start env ''starting backup'' (startBackup env targetPod targetIP) (\<lambda>result.
           backup_finish env currentPhase (Some result) [] ''Backup completed successfully''))
         else backup_finish env currentPhase None [] ''Backup completed successfully''))"

definition reconcile_backup :: "env \<Rightarrow> (RedisBackup, int) io" where
  "reconcile_backup env = bnd obj (\<lambda>backup.
     let clusterName = bs_ClusterName (b_Spec backup); phase = bst_Phase (b_Status backup) in
     if phase = BackupPhaseCompleted \<or> phase = BackupPhaseFailed then ret 0
     else
       bnd (attempt (get_cluster env (om_Namespace (b_Meta backup)) clusterName)) (\<lambda>r.
       case r of
         Inl e \<Rightarrow>
           bnd (eventf Warning ''BackupFailed'' (''Cluster '' @ clusterName @ '' not found'')) (\<lambda>_.
           bnd (setBackupFailed env (''cluster '' @ clusterName @ '' not found: '' @ error_text e)) (\<lambda>_. ret 0))
       | Inr cluster \<Rightarrow>
           if st_Phase (c_Status cluster) \<noteq> ClusterPhaseHealthy
           then bnd (setBackupPending env) (\<lambda>_. ret backup_requeueInterval)
           else
             (case Validate (bs_Destination (b_Spec backup)) of
                Some e \<Rightarrow> bnd (setBackupFailed env (''invalid backup destination: '' @ e)) (\<lambda>_. ret 0)
              | None \<Rightarrow>
                  if s_Mode (c_Spec cluster) = ClusterModeCluster then cluster_backup env cluster phase
                  else single_backup env cluster phase)))"

definition Reconcile_backup :: "env \<Rightarrow> string \<Rightarrow> string \<Rightarrow> (RedisBackup, int) io" where
  "Reconcile_backup env namespace name =
     bnd (attempt (get_backup env namespace name)) (\<lambda>r.
     case r of
       Inl e \<Rightarrow> if IsNotFound e then ret 0 else throw e
     | Inr backup \<Rightarrow>
         bnd (observe_as OBackup backup) (\<lambda>_.
         if bs_ClusterName (b_Spec backup) \<noteq> []
         then deferred (reconcile_backup env) (bnd obj (\<lambda>backup.
           refreshClusterBackupMetrics env (om_Namespace (b_Meta backup)) (bs_ClusterName (b_Spec backup))))
         else reconcile_backup env))"

section \<open>The reconciler of a schedule\<close>

abbreviation ScheduledBackupPhaseActive :: string where "ScheduledBackupPhaseActive \<equiv> ''Active''"
abbreviation ScheduledBackupPhaseSuspended :: string where "ScheduledBackupPhaseSuspended \<equiv> ''Suspended''"
abbreviation ScheduledBackupConditionScheduleValid :: string where
  "ScheduledBackupConditionScheduleValid \<equiv> ''ScheduleValid''"
abbreviation scheduledBackupLabel :: string where "scheduledBackupLabel \<equiv> ''redis.io/scheduled-backup''"

text \<open>\<^verbatim>\<open>meta.SetStatusCondition\<close>: the transition time changes only with the status.\<close>

primrec SetStatusCondition :: "Condition list \<Rightarrow> Condition \<Rightarrow> Condition list" where
  "SetStatusCondition [] c = [c]"
| "SetStatusCondition (old # conds) c =
     (if cond_Type old = cond_Type c
      then c\<lparr>cond_LastTransitionTime :=
        (if cond_Status old = cond_Status c then cond_LastTransitionTime old else cond_LastTransitionTime c)\<rparr> # conds
      else old # SetStatusCondition conds c)"

definition baselineTime :: "RedisScheduledBackup \<Rightarrow> int" where
  "baselineTime scheduled =
     (case sbt_LastScheduleTime (sb_Status scheduled) of Some t \<Rightarrow> t | None \<Rightarrow> sb_CreationTimestamp scheduled)"

definition parseSchedule :: "'loc time_lib \<Rightarrow> string \<Rightarrow> string \<Rightarrow> goerr + 'loc cron_schedule \<times> 'loc" where
  \<open>parseSchedule lib expr timeZone =
     (let tz = (if timeZone = [] then ''UTC'' else timeZone) in
      case tl_LoadLocation lib tz of
        Inl e \<Rightarrow> Inl (Wrap (''invalid timeZone "'' @ tz @ [CHR 0x22]) (Err e))
      | Inr loc \<Rightarrow>
          (case tl_ParseStandard lib expr of
             Inl e \<Rightarrow> Inl (Wrap (''invalid schedule "'' @ expr @ [CHR 0x22]) (Err e))
           | Inr sched \<Rightarrow> Inr (sched, loc)))\<close>

definition requeueDelay :: "int \<Rightarrow> int \<Rightarrow> int" where
  "requeueDelay nxt t = (if nxt - t > 1 then nxt - t else 1)"

definition scheduleValidCondition :: "int \<Rightarrow> Condition" where
  "scheduleValidCondition t = \<lparr>cond_Type = ScheduledBackupConditionScheduleValid, cond_Status = ConditionTrue,
     cond_LastTransitionTime = t, cond_Reason = ''ScheduleParsed'', cond_Message = ''Schedule parsed successfully''\<rparr>"

definition markScheduleInvalid :: "env \<Rightarrow> goerr \<Rightarrow> (RedisScheduledBackup, int) io" where
  "markScheduleInvalid env cause =
     bnd (now env) (\<lambda>t.
     bnd (patch_scheduled env (\<lambda>st. st\<lparr>sbt_Conditions := SetStatusCondition (sbt_Conditions st)
         \<lparr>cond_Type = ScheduledBackupConditionScheduleValid, cond_Status = ConditionFalse, cond_LastTransitionTime = t,
          cond_Reason = ''InvalidSchedule'', cond_Message = error_text cause\<rparr>,
       sbt_Phase := ScheduledBackupPhaseActive\<rparr>)) (\<lambda>_.
     bnd (eventf Warning ''InvalidSchedule'' (''Cannot schedule backups: '' @ error_text cause)) (\<lambda>_. ret 0)))"

definition sortByCreationTime :: "RedisBackup list \<Rightarrow> RedisBackup list" where
  "sortByCreationTime backups = sort_key (\<lambda>b. (b_CreationTimestamp b, om_Name (b_Meta b))) backups"

fun delete_oldest :: "env \<Rightarrow> string \<Rightarrow> nat \<Rightarrow> RedisBackup list \<Rightarrow> ('s, unit) io" where
  "delete_oldest env msg 0 backups = ret ()"
| "delete_oldest env msg (Suc k) [] = throw (Panic ''index out of range'')"
| "delete_oldest env msg (Suc k) (b # backups) =
     bnd (wrap_err msg (delete env KBackup (om_Namespace (b_Meta b)) (om_Name (b_Meta b)))) (\<lambda>_.
     delete_oldest env msg k backups)"

definition trim_backups :: "env \<Rightarrow> string \<Rightarrow> int option \<Rightarrow> RedisBackup list \<Rightarrow> ('s, unit) io" where
  "trim_backups env msg limitp backups =
     (let limit = (case limitp of Some l \<Rightarrow> l | None \<Rightarrow> 3); count = int32 (int (length backups)) in
      if count > limit then delete_oldest env msg (nat (int32 (count - limit))) (sortByCreationTime backups) else ret ())"

definition cleanupOldBackups :: "env \<Rightarrow> RedisScheduledBackup \<Rightarrow> ('s, unit) io" where
  "cleanupOldBackups env scheduled =
     bnd (wrap_err ''listing backups'' (list_backups env (om_Namespace (sb_Meta scheduled))
       [(scheduledBackupLabel, om_Name (sb_Meta scheduled))])) (\<lambda>items.
     bnd (trim_backups env ''deleting old successful backup'' (sbs_SuccessfulBackupsHistoryLimit (sb_Spec scheduled))
       (filter (\<lambda>b. bst_Phase (b_Status b) = BackupPhaseCompleted) items)) (\<lambda>_.
     trim_backups env ''deleting old failed backup'' (sbs_FailedBackupsHistoryLimit (sb_Spec scheduled))
       (filter (\<lambda>b. bst_Phase (b_Status b) = BackupPhaseFailed) items)))"

definition zero_RedisBackupStatus :: RedisBackupStatus where
  "zero_RedisBackupStatus = \<lparr>bst_Phase = [], bst_TargetPod = [], bst_StartedAt = None, bst_CompletedAt = None,
     bst_BackupSize = 0, bst_BackupPath = [], bst_ArtifactType = [], bst_ShardArtifacts = [], bst_Error = [], bst_Conditions = []\<rparr>"

definition scheduled_backup :: "RedisScheduledBackup \<Rightarrow> int \<Rightarrow> RedisBackup" where
  "scheduled_backup scheduled t = (let spec = sb_Spec scheduled in
     \<lparr>b_Meta = new_meta (om_Name (sb_Meta scheduled) @ ''-'' @ itoa t) (om_Namespace (sb_Meta scheduled))
        [(LabelCluster, sbs_ClusterName spec), (scheduledBackupLabel, om_Name (sb_Meta scheduled))],
      b_CreationTimestamp = 0,
      b_Spec = \<lparr>bs_ClusterName = sbs_ClusterName spec, bs_Target = sbs_Target spec, bs_Method = sbs_Method spec,
        bs_Destination = sbs_Destination spec\<rparr>,
      b_Status = zero_RedisBackupStatus\<rparr>)"

definition wait_for :: "env \<Rightarrow> int \<Rightarrow> int \<Rightarrow> (RedisScheduledBackup, int) io" where
  "wait_for env nxt t =
     bnd (now env) (\<lambda>t'.
     bnd (patch_scheduled env (\<lambda>st. st\<lparr>sbt_NextScheduleTime := Some nxt, sbt_Phase := ScheduledBackupPhaseActive,
       sbt_Conditions := SetStatusCondition (sbt_Conditions st) (scheduleValidCondition t')\<rparr>)) (\<lambda>_.
     ret (requeueDelay nxt t)))"

text \<open>The zero time of an exhausted schedule is recorded as no time; it lies before every instant.\<close>

definition fire :: "env \<Rightarrow> (int \<Rightarrow> int option) \<Rightarrow> int \<Rightarrow> (RedisScheduledBackup, int) io" where
  "fire env nextAfter t = bnd obj (\<lambda>scheduled.
     let backup = scheduled_backup scheduled t; backupName = om_Name (b_Meta backup); nextRun = nextAfter t in
     bnd (wrap_err ''creating RedisBackup'' (create env (OBackup backup))) (\<lambda>_.
     bnd (eventf Normal ''ScheduledBackupTriggered'' (''Created backup '' @ backupName @ '' from schedule '' @ sbs_Schedule (sb_Spec scheduled))) (\<lambda>_.
     bnd (now env) (\<lambda>t'.
     bnd (patch_scheduled env (\<lambda>st. st\<lparr>sbt_LastScheduleTime := Some t, sbt_LastBackupName := backupName,
       sbt_NextScheduleTime := nextRun, sbt_Phase := ScheduledBackupPhaseActive,
       sbt_Conditions := SetStatusCondition (sbt_Conditions st) (scheduleValidCondition t')\<rparr>)) (\<lambda>_.
     bnd obj (\<lambda>scheduled.
     bnd (attempt (cleanupOldBackups env scheduled)) (\<lambda>_.
     ret (case nextRun of Some n \<Rightarrow> requeueDelay n t | None \<Rightarrow> 1))))))))"

definition reconcile_scheduled :: "'loc time_lib \<Rightarrow> env \<Rightarrow> (RedisScheduledBackup, int) io" where
  \<open>reconcile_scheduled lib env = bnd obj (\<lambda>scheduled.
     let spec = sb_Spec scheduled in
     if sbs_Suspend spec = Some True then
       bnd (patch_scheduled env (\<lambda>st. st\<lparr>sbt_Phase := ScheduledBackupPhaseSuspended\<rparr>)) (\<lambda>_. ret 0)
     else
       bnd (wrap_err (''cluster '' @ sbs_ClusterName spec @ '' not found'')
         (get_cluster env (om_Namespace (sb_Meta scheduled)) (sbs_ClusterName spec))) (\<lambda>_.
       case parseSchedule lib (sbs_Schedule spec) (sbs_TimeZone spec) of
         Inl e \<Rightarrow> markScheduleInvalid env e
       | Inr (sched, loc) \<Rightarrow>
           bnd (now env) (\<lambda>t.
           case sched loc (baselineTime scheduled) of
             None \<Rightarrow> markScheduleInvalid env (Err (''schedule "'' @ sbs_Schedule spec @ ''" has no upcoming occurrences''))
           | Some nxt \<Rightarrow> if nxt > t then wait_for env nxt t else fire env (sched loc) t)))\<close>

definition Reconcile_scheduled :: "'loc time_lib \<Rightarrow> env \<Rightarrow> string \<Rightarrow> string \<Rightarrow> (RedisScheduledBackup, int) io" where
  "Reconcile_scheduled lib env namespace name =
     bnd (attempt (get_scheduled env namespace name)) (\<lambda>r.
     case r of
       Inl e \<Rightarrow> if IsNotFound e then ret 0 else throw e
     | Inr scheduled \<Rightarrow> bnd (observe_as OScheduledBackup scheduled) (\<lambda>_. reconcile_scheduled lib env))"

section \<open>Facts\<close>

lemma wp_observe_as [wp_simps]:
  "wp (observe_as mk x) Q E w = Q () (logged (Observed (mk x)) True w\<lparr>w_obj := x\<rparr>)"
  by (simp add: wp_def observe_as_def)

lemma wp_patch_status_as [wp_simps]:
  "wp (patch_status_as mk dest env f) Q E w =
     (let base = mk (w_obj w); new = f (w_obj w); w' = logged (StatusPatch base (mk new)) in
      case e_status_patch env (w_log w) base (mk new) of
        Inl e \<Rightarrow> E (Api e) (w' False (w\<lparr>w_obj := new\<rparr>))
      | Inr answer \<Rightarrow>
          (case dest answer of
             Some x \<Rightarrow> Q () (logged (Observed (mk x)) True (w' True (w\<lparr>w_obj := new\<rparr>))\<lparr>w_obj := x\<rparr>)
           | None \<Rightarrow> E wrong_kind (w' True (w\<lparr>w_obj := new\<rparr>))))"
  by (simp add: wp_def patch_status_as_def observe_as_def Let_def split: sum.splits option.splits)

lemma issues_observe_as [issues_intros]: "P (Observed (mk x)) \<Longrightarrow> issues P (observe_as mk x)"
  by (simp add: issues_def observe_as_def logged_def)

lemma issues_patch_status_as [issues_intros]:
  "(\<And>x. P (StatusPatch (mk x) (mk (f x)))) \<Longrightarrow> (\<And>x. P (Observed (mk x))) \<Longrightarrow> issues P (patch_status_as mk dest env f)"
  by (auto simp: issues_def patch_status_as_def observe_as_def logged_def Let_def split: sum.splits option.splits)

lemma issues_get_scheduled [issues_intros]:
  "P (Get KScheduledBackup ns name) \<Longrightarrow> issues P (get_scheduled env ns name)"
  by (auto simp: get_scheduled_def intro!: issues_intros split: object.split)

lemma issues_list_backups [issues_intros]: "P (ListOf KBackup ns sel) \<Longrightarrow> issues P (list_backups env ns sel)"
  by (auto simp: list_backups_def intro!: issues_intros)

lemma issues_case_reply3 [issues_intros]:
  "(\<And>s. issues P (f s)) \<Longrightarrow> (\<And>b. issues P (h b)) \<Longrightarrow> (\<And>x. issues P (g x)) \<Longrightarrow>
   issues P (case r of StatusReply s \<Rightarrow> f s | BackupReply b \<Rightarrow> h b | TextReply x \<Rightarrow> g x)"
  by (cases r) simp_all

lemma issues_trigger [issues_intros]:
  "P (Http ''POST'' ip backup_path (BackupPayload n m d)) \<Longrightarrow> issues P (triggerBackupWithOptions env ip n m d)"
  unfolding triggerBackupWithOptions_def Let_def by (intro issues_intros)

lemma issues_backup_shards [issues_intros]:
  "(\<And>ip n m d. P (Http ''POST'' ip backup_path (BackupPayload n m d))) \<Longrightarrow>
   issues P (backup_shards env backup targets shards artifacts)"
  by (induction shards arbitrary: artifacts) (auto simp: Let_def intro!: issues_intros)

text \<open>The deferred call comes last.\<close>

lemma footprint_deferred:
  assumes "footprint P m w" "issues P d"
  shows "footprint P (deferred m d) w"
proof -
  obtain r w' where mw: "m w = (r, w')" by (cases "m w")
  obtain r2 w2 where dw: "d w' = (r2, w2)" by (cases "d w'")
  obtain l where "w_log w' = w_log w @ l" "list_all (\<lambda>x. P (fst x)) l" using assms(1) mw by (auto simp: footprint_def)
  moreover obtain l2 where "w_log w2 = w_log w' @ l2" "\<forall>x \<in> set l2. P (fst x)" using assms(2) dw by (rule issuesE)
  ultimately show ?thesis
    using mw dw by (auto simp: footprint_def deferred_def list_all_iff intro!: exI [of _ "l @ l2"])
qed

lemma issues_refresh_metrics:
  assumes "\<And>ns. P (ListOf KBackup ns [])" "\<And>n. P (Metric n)"
  shows "issues P (refreshClusterBackupMetrics env ns c)"
  unfolding refreshClusterBackupMetrics_def Let_def by (intro issues_intros assms; simp add: assms)

subsection \<open>Results of a backup\<close>

lemma trigger_path:
  "returns (\<lambda>r. br_BackupPath r \<noteq> []) (triggerBackupWithOptions env ip n m d)"
  by (rule returns_wp) (simp add: triggerBackupWithOptions_def Let_def wp_simps split: sum.split prod.split reply.split)

definition all_paths :: "(string, ShardBackupArtifact) gomap \<Rightarrow> bool" where
  "all_paths artifacts \<longleftrightarrow> (\<forall>k a. map_of artifacts k = Some a \<longrightarrow> sa_BackupPath a \<noteq> [])"

lemma all_paths_mput: "all_paths m \<Longrightarrow> sa_BackupPath a \<noteq> [] \<Longrightarrow> all_paths (mput k a m)"
  by (auto simp: all_paths_def mput_def update_conv' split: if_splits)

lemma mput_not_Nil: "mput k v m \<noteq> []"
  by (cases m) (auto simp: mput_def split: prod.splits)

lemma backup_shards_paths:
  "all_paths artifacts \<Longrightarrow>
   wp (backup_shards env backup targets shards artifacts)
     (\<lambda>r w'. all_paths r \<and> (shards \<noteq> [] \<or> artifacts \<noteq> [] \<longrightarrow> r \<noteq> []) \<and> w_obj w' = w_obj w) (\<lambda>_ _. True) w"
proof (induction shards arbitrary: artifacts w)
  case Nil
  then show ?case by (simp add: wp_simps)
next
  case (Cons shard shards)
  have "wp (triggerBackupWithOptions env ip n m d) (\<lambda>r w'. br_BackupPath r \<noteq> [] \<and> w_obj w' = w_obj w) (\<lambda>_ _. True) w"
    for ip n m d
    by (simp add: triggerBackupWithOptions_def Let_def wp_simps logged_def split: sum.split prod.split reply.split)
  then show ?case
    unfolding backup_shards.simps Let_def wp_bnd wp_wrap_err
    by (rule wp_mono) (auto intro!: wp_mono [OF Cons.IH] all_paths_mput Cons.prems simp: mput_not_Nil)
qed

lemma completed_path:
  assumes "case result of Some r \<Rightarrow> br_BackupPath r \<noteq> [] | None \<Rightarrow> artifacts \<noteq> [] \<and> all_paths artifacts"
  shows "bst_BackupPath (completed_status result artifacts t st) \<noteq> []"
proof (cases result)
  case (Some r)
  with assms show ?thesis by (simp add: completed_status_def Let_def)
next
  case None
  with assms have ne: "artifacts \<noteq> []" and all: "all_paths artifacts" by auto
  then have "sort (map fst artifacts) \<noteq> []" by (metis length_0_conv length_map length_sort)
  from hd_in_set [OF this] have "hd (sort (map fst artifacts)) \<in> fst ` set artifacts" by simp
  then obtain a where "map_of artifacts (hd (sort (map fst artifacts))) = Some a"
    by (cases "map_of artifacts (hd (sort (map fst artifacts)))") (simp_all add: map_of_eq_None_iff)
  with all ne None show ?thesis
    by (auto simp: completed_status_def Let_def mget_def all_paths_def)
qed

definition restorable :: "string \<Rightarrow> call \<Rightarrow> bool" where
  "restorable n c \<longleftrightarrow>
     (case c of
        StatusPatch base x \<Rightarrow>
          (case as_backup x of
             Some b \<Rightarrow> bst_Phase (b_Status b) = BackupPhaseCompleted \<longrightarrow> check_backup n b = []
           | None \<Rightarrow> True)
      | _ \<Rightarrow> True)"

lemma restorable_simps [simp]:
  "restorable n (Get k ns name)" "restorable n (ListOf k ns sel)" "restorable n (Http m ip path body)"
  "restorable n (Event s r msg)" "restorable n (Metric name)" "restorable n Clock" "restorable n (Observed x)"
  "restorable n (StatusPatch base (OBackup b)) \<longleftrightarrow>
     (bst_Phase (b_Status b) = BackupPhaseCompleted \<longrightarrow> check_backup n b = [])"
  by (simp_all add: restorable_def as_backup_def)

text \<open>The server answers a status patch with the specification it was sent.\<close>

definition spec_honest :: "env \<Rightarrow> bool" where
  "spec_honest env \<longleftrightarrow> (\<forall>l base x y. e_status_patch env l base (OBackup x) = Inr (OBackup y) \<longrightarrow> b_Spec y = b_Spec x)"

lemma as_backup_Some [simp]: "as_backup x = Some b \<longleftrightarrow> x = OBackup b"
  by (cases x) (auto simp: as_backup_def)

lemma as_backup_OBackup [simp]: "as_backup (OBackup b) = Some b"
  by simp

lemma wp_mark_running:
  assumes "spec_honest env"
  shows "wp (mark_running env target) (\<lambda>_ w'. b_Spec (w_obj w') = b_Spec (w_obj w)) (\<lambda>_ _. True) w"
  using assms by (auto simp: mark_running_def wp_simps spec_honest_def Let_def logged_def split: sum.split option.split)

lemma start_single:
  assumes "spec_honest env"
  shows "wp (startBackup env pod ip) (\<lambda>r w'. br_BackupPath r \<noteq> [] \<and> b_Spec (w_obj w') = b_Spec (w_obj w)) (\<lambda>_ _. True) w"
  unfolding startBackup_def wp_bnd
  by (rule wp_mono [OF wp_mark_running [OF assms]])
    (simp_all add: wp_simps triggerBackup_def triggerBackupWithOptions_def Let_def logged_def split: sum.split prod.split reply.split)

lemma start_cluster:
  assumes "spec_honest env" "targets \<noteq> []"
  shows "wp (startClusterBackup env targets)
    (\<lambda>r w'. r \<noteq> [] \<and> all_paths r \<and> b_Spec (w_obj w') = b_Spec (w_obj w)) (\<lambda>_ _. True) w"
  unfolding startClusterBackup_def wp_bnd
proof (rule wp_mono [OF wp_mark_running [OF assms(1)]])
  fix u :: unit and w' :: "RedisBackup world"
  assume spec: "b_Spec (w_obj w') = b_Spec (w_obj w)"
  have "sort (map fst targets) \<noteq> []" using assms(2) by (metis length_0_conv length_map length_sort)
  with spec show "wp obj (\<lambda>backup. wp (backup_shards env backup targets (sort (map fst targets)) [])
      (\<lambda>r w'. r \<noteq> [] \<and> all_paths r \<and> b_Spec (w_obj w') = b_Spec (w_obj w)) (\<lambda>_ _. True)) (\<lambda>_ _. True) w'"
    unfolding wp_obj by (intro wp_mono [OF backup_shards_paths]) (auto simp: all_paths_def)
qed simp

lemma restorable_finish:
  assumes "Validate (bs_Destination (b_Spec (w_obj w))) = None"
    and "case result of Some r \<Rightarrow> br_BackupPath r \<noteq> [] | None \<Rightarrow> artifacts \<noteq> [] \<and> all_paths artifacts"
  shows "footprint (restorable n) (backup_finish env phase result artifacts msg) w"
proof -
  have phase: "bst_Phase (completed_status result artifacts t st) = BackupPhaseCompleted" for t st
    by (simp add: completed_status_def Let_def split: option.split)
  have "footprint (restorable n) (patch_backup env (completed_status result artifacts t)) (logged Clock True w)" for t
    using assms(1) completed_path [OF assms(2)]
    by (auto simp: footprint_def patch_status_as_def observe_as_def logged_def Let_def check_backup_def phase
        split: sum.split option.split)
  then show ?thesis
    unfolding backup_finish_def setBackupCompleted_def
    by (intro footprint_if footprint_ret footprint_bnd footprint_issues [OF issues_eventf] footprint_issues [OF issues_now])
      (auto simp: now_def)
qed

lemma restorable_start:
  assumes "issues (restorable n) m" "wp m Q (\<lambda>_ _. True) w"
    and "\<And>a w'. Q a w' \<Longrightarrow> footprint (restorable n) (f a) w'"
  shows "footprint (restorable n) (backup_start env msg m f) w"
  unfolding backup_start_def
proof (rule footprint_bnd, goal_cases)
  case 1
  show ?case by (intro footprint_issues issues_attempt assms(1))
next
  case (2 r w')
  show ?case
  proof (cases r)
    case (Inl e)
    then show ?thesis by (auto simp: setBackupFailed_def intro!: footprint_issues issues_intros)
  next
    case (Inr a)
    with 2 have "m w = (Inr a, w')" by (auto simp: attempt_def split: prod.splits sum.splits if_splits)
    with assms(2,3) Inr show ?thesis by (simp add: wp_def)
  qed
qed

text \<open>Reading the cluster and choosing the pods leave the backup in memory alone.\<close>

lemma keeps_get_cluster: "keeps (get_cluster env ns name)"
  unfolding get_cluster_def by (intro keeps_intros | simp split: object.split add: keeps_basic)+

lemma keeps_selectTargetPod: "keeps (selectTargetPod env cluster target)"
  unfolding selectTargetPod_def listClusterPods_def Let_def by (intro keeps_intros)

lemma keeps_selectClusterBackupTargets: "keeps (selectClusterBackupTargets env cluster)"
  unfolding selectClusterBackupTargets_def listClusterPods_def by (intro keeps_intros)

lemma targets_not_Nil: "returns (\<lambda>targets. targets \<noteq> []) (selectClusterBackupTargets env cluster)"
  unfolding selectClusterBackupTargets_def returns_def
  by (auto simp: bnd_def ret_def throw_def split: prod.splits sum.splits if_splits)

lemma bnd_run: "m w = (Inr a, w') \<Longrightarrow> bnd m f w = f a w'"
  by (simp add: bnd_def)

lemma attempt_Inr: "attempt m w = (Inr (Inr a), w') \<longleftrightarrow> m w = (Inr a, w')"
  by (auto simp: attempt_def split: prod.splits sum.splits if_splits)

lemma issues_select: "(\<And>ns sel. P (ListOf KPod ns sel)) \<Longrightarrow> issues P (selectTargetPod env cluster target)"
  "(\<And>ns sel. P (ListOf KPod ns sel)) \<Longrightarrow> issues P (selectClusterBackupTargets env cluster)"
  unfolding selectTargetPod_def selectClusterBackupTargets_def Let_def by (intro issues_intros; simp)+

lemma issues_setBackupFailed:
  "issues (restorable n) (setBackupFailed env msg)" "issues (restorable n) (setBackupPending env)"
  "issues (restorable n) (mark_running env target)"
  unfolding setBackupFailed_def setBackupPending_def mark_running_def by (intro issues_intros; simp)+

lemma restorable_single:
  assumes "spec_honest env" "Validate (bs_Destination (b_Spec (w_obj w))) = None" "starts phase \<or> phase = BackupPhaseRunning"
  shows "footprint (restorable n) (single_backup env cluster phase) w"
  unfolding single_backup_def
proof (rule footprint_bnd_obj, rule footprint_bnd, goal_cases)
  case 1
  show ?case by (intro footprint_issues issues_attempt issues_select) simp
next
  case (2 r w')
  have same: "w_obj w' = w_obj w" by (rule keepsD [OF keeps_attempt [OF keeps_selectTargetPod] 2])
  show ?case
  proof (cases r)
    case (Inl e)
    then show ?thesis by (auto intro!: footprint_issues issues_intros issues_setBackupFailed)
  next
    case (Inr target)
    obtain pod ip where target: "target = (pod, ip)" by (cases target)
    have start: "footprint (restorable n) (backup_start env ''starting backup'' (startBackup env pod ip)
        (\<lambda>result. backup_finish env phase (Some result) [] msg)) w2" if "w_obj w2 = w_obj w" for w2 msg
    proof (rule restorable_start [OF _ start_single [OF assms(1)]])
      show "issues (restorable n) (startBackup env pod ip)"
        unfolding startBackup_def triggerBackup_def by (intro issues_intros issues_setBackupFailed; simp)
    next
      fix r :: BackupResult and w3 :: "RedisBackup world"
      assume "br_BackupPath r \<noteq> [] \<and> b_Spec (w_obj w3) = b_Spec (w_obj w2)"
      with that assms(2) show "footprint (restorable n) (backup_finish env phase (Some r) [] msg) w3"
        by (intro restorable_finish) simp_all
    qed
    have rest: "footprint (restorable n) (backup_finish env phase None [] msg) w'" if "\<not> starts phase" for msg
      using that assms(3) by (simp add: backup_finish_def footprint_ret)
    show ?thesis
      unfolding Inr target sum.case prod.case
      by (intro footprint_if rest footprint_bnd [OF footprint_issues [OF issues_eventf]] start)
        (auto simp: eventf_def logged_def same)
  qed
qed

lemma restorable_cluster:
  assumes "spec_honest env" "Validate (bs_Destination (b_Spec (w_obj w))) = None" "starts phase \<or> phase = BackupPhaseRunning"
  shows "footprint (restorable n) (cluster_backup env cluster phase) w"
  unfolding cluster_backup_def
proof (rule footprint_bnd, goal_cases)
  case 1
  show ?case by (intro footprint_issues issues_attempt issues_select) simp
next
  case (2 r w')
  have same: "w_obj w' = w_obj w" by (rule keepsD [OF keeps_attempt [OF keeps_selectClusterBackupTargets] 2])
  show ?case
  proof (cases r)
    case (Inl e)
    then show ?thesis by (auto intro!: footprint_issues issues_intros issues_setBackupFailed)
  next
    case (Inr targets)
    with 2 have "selectClusterBackupTargets env cluster w = (Inr targets, w')" by (simp add: attempt_Inr)
    with targets_not_Nil have "targets \<noteq> []" unfolding returns_def by blast
    then have start: "footprint (restorable n) (backup_start env ''starting cluster backup'' (startClusterBackup env targets)
        (\<lambda>artifacts. backup_finish env phase None artifacts msg)) w2" if "w_obj w2 = w_obj w" for w2 msg
    proof (intro restorable_start [OF _ start_cluster [OF assms(1)]])
      show "issues (restorable n) (startClusterBackup env targets)"
        unfolding startClusterBackup_def by (intro issues_intros issues_setBackupFailed; simp)
    next
      fix r :: "(string, ShardBackupArtifact) gomap" and w3 :: "RedisBackup world"
      assume "r \<noteq> [] \<and> all_paths r \<and> b_Spec (w_obj w3) = b_Spec (w_obj w2)"
      with that assms(2) show "footprint (restorable n) (backup_finish env phase None r msg) w3"
        by (intro restorable_finish) simp_all
    qed
    have rest: "footprint (restorable n) (backup_finish env phase None [] msg) w'" if "\<not> starts phase" for msg
      using that assms(3) by (simp add: backup_finish_def footprint_ret)
    show ?thesis
      unfolding Inr sum.case
      by (intro footprint_if rest footprint_bnd [OF footprint_issues [OF issues_eventf]] start)
        (auto simp: eventf_def logged_def same)
  qed
qed

lemma restorable_reconcile:
  assumes "spec_honest env"
    and "bst_Phase (b_Status (w_obj w)) \<in> {[], BackupPhasePending, BackupPhaseRunning, BackupPhaseCompleted, BackupPhaseFailed}"
  shows "footprint (restorable n) (reconcile_backup env) w"
  unfolding reconcile_backup_def Let_def
proof (rule footprint_bnd_obj, rule footprint_if [OF footprint_ret], rule footprint_bnd, goal_cases)
  case 1
  show ?case by (intro footprint_issues issues_intros) simp
next
  case (2 r w')
  have same: "w_obj w' = w_obj w" by (rule keepsD [OF keeps_attempt [OF keeps_get_cluster] 2(2)])
  have phase: "starts (bst_Phase (b_Status (w_obj w))) \<or> bst_Phase (b_Status (w_obj w)) = BackupPhaseRunning"
    using assms(2) 2(1) by (auto simp: starts_def)
  show ?case
  proof (cases r)
    case (Inl e)
    then show ?thesis by (auto intro!: footprint_issues issues_intros issues_setBackupFailed)
  next
    case (Inr cluster)
    show ?thesis
    proof (cases "st_Phase (c_Status cluster) \<noteq> ClusterPhaseHealthy \<or> Validate (bs_Destination (b_Spec (w_obj w))) \<noteq> None")
      case True
      then show ?thesis
        unfolding Inr sum.case
        by (cases "Validate (bs_Destination (b_Spec (w_obj w)))")
          (auto intro!: footprint_issues issues_intros issues_setBackupFailed)
    next
      case False
      then show ?thesis
        using restorable_single [OF assms(1) _ phase] restorable_cluster [OF assms(1) _ phase] same Inr by simp
    qed
  qed
qed

section \<open>Properties\<close>

text \<open>
  C33. Every backup the controller marks as completed is one a new cluster may be bootstrapped from:
  it has a valid destination and a path or shard artifacts, so that the validator finds no fault with
  it. This holds whatever the instance managers and the API server answer, as long as the server
  does not change the specification in the answer to a status patch and the recorded phase is one
  the controller knows.
\<close>

theorem completed_backup_is_restorable:
  assumes "spec_honest env"
    and "\<forall>l b. e_get env l KBackup ns name = Inr (OBackup b) \<longrightarrow>
      bst_Phase (b_Status b) \<in> {[], BackupPhasePending, BackupPhaseRunning, BackupPhaseCompleted, BackupPhaseFailed}"
  shows "footprint (restorable n) (Reconcile_backup env ns name) w"
  unfolding Reconcile_backup_def
proof (rule footprint_bnd, goal_cases)
  case 1
  show ?case by (intro footprint_issues issues_intros) simp
next
  case (2 r w')
  show ?case
  proof (cases r)
    case (Inl e)
    then show ?thesis by (auto intro!: footprint_issues issues_intros)
  next
    case (Inr b)
    with 2 have "e_get env (w_log w) KBackup ns name = Inr (OBackup b)"
      by (auto simp: attempt_Inr get_backup_def get_object_def perform_def bnd_def ret_def throw_def
          split: sum.splits prod.splits object.splits)
    with assms(2) have "bst_Phase (b_Status b) \<in> {[], BackupPhasePending, BackupPhaseRunning, BackupPhaseCompleted, BackupPhaseFailed}"
      by blast
    then have "footprint (restorable n) (reconcile_backup env) w2" if "w_obj w2 = b" for w2
      using that by (intro restorable_reconcile assms(1)) simp
    moreover have "issues (restorable n) (bnd obj (\<lambda>backup.
        refreshClusterBackupMetrics env (om_Namespace (b_Meta backup)) (bs_ClusterName (b_Spec backup))))"
      by (intro issues_intros issues_refresh_metrics; simp)
    ultimately show ?thesis
      unfolding Inr sum.case
      by (intro footprint_bnd [OF footprint_issues [OF issues_observe_as]] footprint_if footprint_deferred)
        (auto simp: observe_as_def)
  qed
qed

text \<open>A backup of the sample cluster, and a server that knows both; the instance manager reports success.\<close>

definition sample_backup :: "string \<Rightarrow> RedisBackup" where
  "sample_backup phase = \<lparr>b_Meta = new_meta ''b'' ''ns'' [], b_CreationTimestamp = 0,
     b_Spec = \<lparr>bs_ClusterName = ''r'', bs_Target = BackupTargetPreferReplica, bs_Method = BackupMethodRDB,
       bs_Destination = Some \<lparr>bd_S3 = Some \<lparr>s3_Bucket = ''k'', s3_Path = [], s3_Endpoint = [], s3_Region = []\<rparr>, bd_Azure = None\<rparr>\<rparr>,
     b_Status = zero_RedisBackupStatus\<lparr>bst_Phase := phase\<rparr>\<rparr>"

definition backup_env :: "string \<Rightarrow> object list \<Rightarrow> env" where
  "backup_env phase pods = (sample_env pods)\<lparr>
     e_get := (\<lambda>l k ns name. if k = KBackup then Inr (OBackup (sample_backup phase))
       else if k = KCluster then Inr (OCluster (c_Status_update (st_Phase_update (\<lambda>_. ClusterPhaseHealthy)) sample_cluster))
       else Inl NotFound),
     e_http := (\<lambda>l meth ip path body. Inr (200, BackupReply
       \<lparr>br_ArtifactType = BackupArtifactTypeRDB, br_BackupPath = ''k/b.rdb'', br_BackupSize = 7, br_ChecksumSHA256 = []\<rparr>))\<rparr>"

theorem completed_backup_is_restorable_witness:
  "footprint (restorable ''b'') (Reconcile_backup (backup_env [] sample_pods) ''ns'' ''b'') (sample_world (sample_backup [])) \<and>
   bst_Phase (b_Status (w_obj (snd (Reconcile_backup (backup_env [] sample_pods) ''ns'' ''b'' (sample_world (sample_backup [])))))) =
     BackupPhaseCompleted"
proof
  have "spec_honest (backup_env [] sample_pods)" by (simp add: spec_honest_def backup_env_def sample_env_def)
  then show "footprint (restorable ''b'') (Reconcile_backup (backup_env [] sample_pods) ''ns'' ''b'') (sample_world (sample_backup []))"
    by (rule completed_backup_is_restorable) (simp add: backup_env_def sample_backup_def zero_RedisBackupStatus_def)
  show "bst_Phase (b_Status (w_obj (snd (Reconcile_backup (backup_env [] sample_pods) ''ns'' ''b'' (sample_world (sample_backup [])))))) =
     BackupPhaseCompleted"
    by code_simp
qed

text \<open>
  A finished backup is final: reconciling a backup that is completed or failed reads objects and
  sets gauges, and writes nothing to the API server or to an instance manager.
\<close>

theorem finished_backup_is_final:
  assumes "\<forall>l. e_get env l KBackup ns name = Inr (OBackup b)"
    and "bst_Phase (b_Status b) \<in> {BackupPhaseCompleted, BackupPhaseFailed}"
  shows "footprint (\<lambda>c. (\<exists>k ns name. c = Get k ns name) \<or> (\<exists>k ns sel. c = ListOf k ns sel) \<or> (\<exists>m. c = Metric m) \<or> (\<exists>x. c = Observed x))
    (Reconcile_backup env ns name) w"
    (is "footprint ?P _ _")
  unfolding Reconcile_backup_def
proof (rule footprint_bnd, goal_cases)
  case 1
  show ?case by (intro footprint_issues issues_intros) simp
next
  case (2 r w')
  with assms(1) have r: "r = Inr b" by (simp add: attempt_def get_backup_def get_object_def perform_def bnd_def ret_def)
  have "footprint ?P (reconcile_backup env) w2" if "w_obj w2 = b" for w2
    unfolding reconcile_backup_def by (rule footprint_bnd_obj) (use that assms(2) in \<open>auto simp: Let_def footprint_ret\<close>)
  moreover have "issues ?P (bnd obj (\<lambda>backup.
      refreshClusterBackupMetrics env (om_Namespace (b_Meta backup)) (bs_ClusterName (b_Spec backup))))"
    by (intro issues_intros issues_refresh_metrics; simp)
  ultimately show ?case
    unfolding r sum.case
    by (intro footprint_bnd [OF footprint_issues [OF issues_observe_as]] footprint_if footprint_deferred) (auto simp: observe_as_def)
qed

theorem finished_backup_is_final_witness:
  "footprint (\<lambda>c. (\<exists>k ns name. c = Get k ns name) \<or> (\<exists>k ns sel. c = ListOf k ns sel) \<or> (\<exists>m. c = Metric m) \<or> (\<exists>x. c = Observed x))
    (Reconcile_backup (backup_env BackupPhaseFailed []) ''ns'' ''b'') (sample_world (sample_backup []))"
  by (rule finished_backup_is_final [of _ _ _ "sample_backup BackupPhaseFailed"])
    (simp_all add: backup_env_def sample_backup_def)

text \<open>
  A backup that was interrupted does not go on: once its phase is running, every reconciliation
  with a healthy cluster, a valid destination and a pod to take it from sends no request and writes
  nothing, and only asks to be called again.
\<close>

theorem interrupted_backup_stalls:
  assumes "\<forall>l. e_get env l KBackup ns name = Inr (OBackup b)" and "bst_Phase (b_Status b) = BackupPhaseRunning"
    and "\<forall>l. e_get env l KCluster (om_Namespace (b_Meta b)) (bs_ClusterName (b_Spec b)) = Inr (OCluster c)"
    and "st_Phase (c_Status c) = ClusterPhaseHealthy" "s_Mode (c_Spec c) \<noteq> ClusterModeCluster"
    and "Validate (bs_Destination (b_Spec b)) = None"
    and "\<forall>l. e_list env l KPod (c_Namespace c) [(LabelCluster, c_Name c)] = Inr (map OPod pods)"
    and "p \<in> set pods" "p_Name p = st_CurrentPrimary (c_Status c)" "p_IP p \<noteq> []"
  shows "fst (Reconcile_backup env ns name w) = Inr backup_requeueInterval \<and>
    bst_Phase (b_Status (w_obj (snd (Reconcile_backup env ns name w)))) = BackupPhaseRunning"
proof -
  have pods: "listClusterPods env c w = (Inr pods, logged (ListOf KPod (c_Namespace c) [(LabelCluster, c_Name c)]) True w)" for w :: "RedisBackup world"
    using assms(7) by (simp add: listClusterPods_def list_pods_def list_objects_def perform_def bnd_def ret_def List.map_filter_def comp_def)
  have "\<exists>pod. find (\<lambda>p. p_Name p = st_CurrentPrimary (c_Status c) \<and> p_IP p \<noteq> []) pods = Some pod"
    using assms(8-10) by (cases "find (\<lambda>p. p_Name p = st_CurrentPrimary (c_Status c) \<and> p_IP p \<noteq> []) pods") (auto simp: find_None_iff)
  then have select: "\<exists>t. selectTargetPod env c target w = (Inr t, logged (ListOf KPod (c_Namespace c) [(LabelCluster, c_Name c)]) True w)"
    for target and w :: "RedisBackup world"
    by (auto simp: selectTargetPod_def bnd_def wrap_err_def pods ret_def Let_def split: option.split)
  have run: "\<exists>w'. reconcile_backup env w = (Inr backup_requeueInterval, w') \<and> w_obj w' = b" if "w_obj w = b" for w
  proof -
    let ?w = "logged (Get KCluster (om_Namespace (b_Meta b)) (bs_ClusterName (b_Spec b))) True w"
    obtain t where "selectTargetPod env c (bs_Target (b_Spec b)) ?w =
        (Inr t, logged (ListOf KPod (c_Namespace c) [(LabelCluster, c_Name c)]) True ?w)" using select by blast
    with that assms(2-6) show ?thesis
      by (cases t) (simp add: reconcile_backup_def single_backup_def backup_finish_def starts_def bnd_def obj_def attempt_def
        get_cluster_def get_object_def perform_def ret_def Let_def logged_def)
  qed
  have get: "attempt (get_backup env ns name) w = (Inr (Inr b), logged (Get KBackup ns name) True w)"
    using assms(1) by (simp add: attempt_def get_backup_def get_object_def perform_def bnd_def ret_def)
  let ?w = "logged (Observed (OBackup b)) True (logged (Get KBackup ns name) True w)\<lparr>w_obj := b\<rparr>"
  obtain w' where w': "reconcile_backup env ?w = (Inr backup_requeueInterval, w')" "w_obj w' = b"
    using run [of ?w] by (auto simp: logged_def)
  have keep: "w_obj (snd (bnd obj (\<lambda>backup. refreshClusterBackupMetrics env (om_Namespace (b_Meta backup)) (bs_ClusterName (b_Spec backup))) w')) = b"
  proof -
    have "keeps (bnd obj (\<lambda>backup. refreshClusterBackupMetrics env (om_Namespace (b_Meta backup)) (bs_ClusterName (b_Spec backup))) :: (RedisBackup, unit) io)"
      unfolding refreshClusterBackupMetrics_def list_backups_def Let_def by (intro keeps_intros)
    with w'(2) show ?thesis by (simp add: keeps_def)
  qed
  have obs: "observe_as OBackup b (logged (Get KBackup ns name) True w) = (Inr (), ?w)" by (simp add: observe_as_def)
  show ?thesis
    unfolding Reconcile_backup_def using w' keep assms(2) by (simp add: bnd_run [where m = "attempt _", OF get] bnd_run [where m = "observe_as _ _", OF obs] deferred_def)
qed

theorem interrupted_backup_stalls_witness:
  "fst (Reconcile_backup (backup_env BackupPhaseRunning sample_pods) ''ns'' ''b'' (sample_world (sample_backup []))) = Inr backup_requeueInterval \<and>
   bst_Phase (b_Status (w_obj (snd (Reconcile_backup (backup_env BackupPhaseRunning sample_pods) ''ns'' ''b'' (sample_world (sample_backup [])))))) =
     BackupPhaseRunning"
  by (rule interrupted_backup_stalls [where b = "sample_backup BackupPhaseRunning" and p = "sample_pod ''r-0'' ''10.0.0.1'' [] False"
      and c = "c_Status_update (st_Phase_update (\<lambda>_. ClusterPhaseHealthy)) sample_cluster"
      and pods = "[sample_pod ''r-0'' ''10.0.0.1'' [] False, sample_pod ''r-1'' ''10.0.0.2'' [] True, sample_pod ''r-2'' ''10.0.0.3'' [] True]"])
    (simp_all add: backup_env_def sample_backup_def Validate_def sample_simps zero_RedisBackupStatus_def)

subsection \<open>Retention\<close>

abbreviation age_key :: "RedisBackup \<Rightarrow> int \<times> string" where
  "age_key b \<equiv> (b_CreationTimestamp b, om_Name (b_Meta b))"

lemma int32_le: "0 \<le> x \<Longrightarrow> int32 x \<le> x"
  unfolding int32_def using zmod_le_nonneg_dividend [of "x + 2 ^ 31" "2 ^ 32"] by simp

lemma issues_delete_oldest:
  "(\<And>b. b \<in> set (take k backups) \<Longrightarrow> P (Delete KBackup (om_Namespace (b_Meta b)) (om_Name (b_Meta b)))) \<Longrightarrow>
   issues P (delete_oldest env msg k backups)"
  by (induction env msg k backups rule: delete_oldest.induct) (auto intro!: issues_intros)

text \<open>Whatever is among the first of a sorted list has all the others behind it.\<close>

lemma sorted_prefix_count:
  fixes f :: "'a \<Rightarrow> 'b :: linorder"
  assumes "x \<in> set (take k (sort_key f xs))"
  shows "length xs - k < length (filter (\<lambda>y. f x \<le> f y) xs)"
proof -
  let ?ys = "sort_key f xs"
  from assms obtain i where i: "i < k" "i < length xs" "x = ?ys ! i"
    by (auto simp: in_set_conv_nth)
  have "f x \<le> f y" if "y \<in> set (drop i ?ys)" for y
  proof -
    from that obtain j where "j < length ?ys - i" "y = ?ys ! (i + j)" by (auto simp: in_set_conv_nth)
    with i sorted_nth_mono [OF sorted_sort_key [of f xs], of i "i + j"] show ?thesis by simp
  qed
  then have "drop i ?ys = filter (\<lambda>y. f x \<le> f y) (drop i ?ys)" by (simp add: filter_id_conv)
  then have "length (drop i ?ys) \<le> length (filter (\<lambda>y. f x \<le> f y) (take i ?ys @ drop i ?ys))"
    unfolding filter_append by (metis le_add2 length_append)
  also have "\<dots> = length (filter (\<lambda>y. f x \<le> f y) ?ys)" by simp
  also have "\<dots> = length (filter (\<lambda>y. f x \<le> f y) xs)" by (metis mset_filter mset_sort size_mset)
  finally show ?thesis using i by simp
qed

lemma issues_trim:
  assumes "\<And>b. b \<in> set backups \<Longrightarrow>
      (case limitp of Some l \<Rightarrow> l | None \<Rightarrow> 3) < int (length (filter (\<lambda>b'. age_key b \<le> age_key b') backups)) \<Longrightarrow>
      P (Delete KBackup (om_Namespace (b_Meta b)) (om_Name (b_Meta b)))"
  shows "issues P (trim_backups env msg limitp backups)"
proof -
  define limit where "limit = (case limitp of Some l \<Rightarrow> l | None \<Rightarrow> 3)"
  define count where "count = int32 (int (length backups))"
  have "P (Delete KBackup (om_Namespace (b_Meta b)) (om_Name (b_Meta b)))"
    if due: "count > limit" and b: "b \<in> set (take (nat (int32 (count - limit))) (sortByCreationTime backups))" for b
  proof -
    have "int32 (count - limit) \<le> count - limit" using due by (intro int32_le) simp
    moreover have "count \<le> int (length backups)" unfolding count_def by (rule int32_le) simp
    ultimately have "limit \<le> int (length backups - nat (int32 (count - limit)))"
      using due by (cases "nat (int32 (count - limit)) \<le> length backups") (auto simp: of_nat_diff)
    moreover have "b \<in> set backups" using in_set_takeD [OF b] by (simp add: sortByCreationTime_def)
    ultimately show ?thesis
      using assms [folded limit_def] sorted_prefix_count [OF b [unfolded sortByCreationTime_def]] by fastforce
  qed
  then show ?thesis
    unfolding trim_backups_def Let_def limit_def [symmetric] count_def [symmetric]
    by (intro issues_if issues_ret issues_delete_oldest)
qed

text \<open>The deletion of a listed, finished backup that has enough backups of its phase after it.\<close>

definition surplus :: "env \<Rightarrow> RedisScheduledBackup \<Rightarrow> string \<Rightarrow> int \<Rightarrow> string \<Rightarrow> string \<Rightarrow> bool" where
  "surplus env s phase limit ns name \<longleftrightarrow>
     (\<exists>l items b. e_list env l KBackup (om_Namespace (sb_Meta s)) [(scheduledBackupLabel, om_Name (sb_Meta s))] = Inr items \<and>
        OBackup b \<in> set items \<and> bst_Phase (b_Status b) = phase \<and> om_Namespace (b_Meta b) = ns \<and> om_Name (b_Meta b) = name \<and>
        limit < int (length (filter (\<lambda>b'. bst_Phase (b_Status b') = phase \<and> age_key b \<le> age_key b') (List.map_filter as_backup items))))"

definition retention_ok :: "env \<Rightarrow> RedisScheduledBackup \<Rightarrow> call \<Rightarrow> bool" where
  "retention_ok env s c \<longleftrightarrow>
     (case c of
        Delete k ns name \<Rightarrow> k = KBackup \<and>
          (surplus env s BackupPhaseCompleted (case sbs_SuccessfulBackupsHistoryLimit (sb_Spec s) of Some l \<Rightarrow> l | None \<Rightarrow> 3) ns name \<or>
           surplus env s BackupPhaseFailed (case sbs_FailedBackupsHistoryLimit (sb_Spec s) of Some l \<Rightarrow> l | None \<Rightarrow> 3) ns name)
      | ListOf k ns sel \<Rightarrow> True
      | _ \<Rightarrow> False)"

lemma returns_list_backups:
  "returns (\<lambda>bs. \<exists>l items. e_list env l KBackup ns sel = Inr items \<and> bs = List.map_filter as_backup items) (list_backups env ns sel)"
  by (rule returns_wp) (auto simp: list_backups_def list_objects_def wp_simps split: sum.split)

lemma in_backups: "b \<in> set (List.map_filter as_backup items) \<longleftrightarrow> OBackup b \<in> set items"
  by (induction items) (auto simp: List.map_filter_simps split: option.split)

text \<open>
  C34. Retention deletes only backups of the schedule that are finished and that have at least as
  many backups of the same outcome as the history limit created after them, the limit being three
  when none is set; in particular never a backup that is pending or running, and never one of the
  newest. It changes nothing else.
\<close>

theorem retention_deletes_only_surplus:
  "issues (retention_ok env scheduled) (cleanupOldBackups env scheduled)"
  unfolding cleanupOldBackups_def
proof (rule issues_bnd_returns [OF _ returns_wrap_err [OF returns_list_backups]], goal_cases)
  case 1
  show ?case by (intro issues_intros) (simp add: retention_ok_def)
next
  case (2 items)
  then obtain l objs where list: "e_list env l KBackup (om_Namespace (sb_Meta scheduled))
      [(scheduledBackupLabel, om_Name (sb_Meta scheduled))] = Inr objs" and items: "items = List.map_filter as_backup objs" by blast
  have filters: "filter (\<lambda>b'. age_key b \<le> age_key b') (filter (\<lambda>b. bst_Phase (b_Status b) = phase) items) =
      filter (\<lambda>b'. bst_Phase (b_Status b') = phase \<and> age_key b \<le> age_key b') items" for b phase
    by (simp add: conj_commute)
  have "retention_ok env scheduled (Delete KBackup (om_Namespace (b_Meta b)) (om_Name (b_Meta b)))"
    if "b \<in> set (filter (\<lambda>b. bst_Phase (b_Status b) = phase) items)"
      "limit < int (length (filter (\<lambda>b'. age_key b \<le> age_key b') (filter (\<lambda>b. bst_Phase (b_Status b) = phase) items)))"
      "(phase, limit) \<in> {(BackupPhaseCompleted, case sbs_SuccessfulBackupsHistoryLimit (sb_Spec scheduled) of Some l \<Rightarrow> l | None \<Rightarrow> 3),
        (BackupPhaseFailed, case sbs_FailedBackupsHistoryLimit (sb_Spec scheduled) of Some l \<Rightarrow> l | None \<Rightarrow> 3)}" for b phase limit
  proof -
    have "surplus env scheduled phase limit (om_Namespace (b_Meta b)) (om_Name (b_Meta b))"
      unfolding surplus_def using list that(1,2) unfolding filters by (auto simp: items in_backups)
    with that(3) show ?thesis by (auto simp: retention_ok_def)
  qed
  then show ?case by (intro issues_bnd issues_trim) auto
qed

subsection \<open>Schedules\<close>

text \<open>The creation of a backup that is due: the occurrence after the last run has been reached.\<close>

definition due_backup :: "'loc time_lib \<Rightarrow> env \<Rightarrow> string \<Rightarrow> string \<Rightarrow> object \<Rightarrow> bool" where
  "due_backup lib env ns name x \<longleftrightarrow>
     (\<exists>l s l' sched loc nxt. e_get env l KScheduledBackup ns name = Inr (OScheduledBackup s) \<and>
        sbs_Suspend (sb_Spec s) \<noteq> Some True \<and>
        parseSchedule lib (sbs_Schedule (sb_Spec s)) (sbs_TimeZone (sb_Spec s)) = Inr (sched, loc) \<and>
        sched loc (baselineTime s) = Some nxt \<and> nxt \<le> e_now env l' \<and> x = OBackup (scheduled_backup s (e_now env l')))"

definition creates_due :: "'loc time_lib \<Rightarrow> env \<Rightarrow> string \<Rightarrow> string \<Rightarrow> call \<Rightarrow> bool" where
  "creates_due lib env ns name c \<longleftrightarrow> (\<forall>x. c = Create x \<longrightarrow> due_backup lib env ns name x)"

lemma creates_due_simps [simp]:
  "creates_due lib env ns name (Get k n m)" "creates_due lib env ns name (ListOf k n sel)" "creates_due lib env ns name Clock"
  "creates_due lib env ns name (StatusPatch a b)" "creates_due lib env ns name (Event s r msg)"
  "creates_due lib env ns name (Delete k n m)" "creates_due lib env ns name (Observed x)"
  by (simp_all add: creates_due_def)

lemma issues_cleanup:
  assumes "\<And>k n m. P (Delete k n m)" "\<And>k n sel. P (ListOf k n sel)"
  shows "issues P (cleanupOldBackups env s)"
  unfolding cleanupOldBackups_def by (intro issues_intros issues_trim; simp add: assms)

lemma issues_invalid: "issues (creates_due lib env ns name) (markScheduleInvalid env' e)"
  unfolding markScheduleInvalid_def by (intro issues_intros; simp)

lemma issues_wait: "issues (creates_due lib env ns name) (wait_for env' nxt t)"
  unfolding wait_for_def by (intro issues_intros; simp)

lemma footprint_fire:
  assumes "due_backup lib env ns name (OBackup (scheduled_backup (w_obj w) t))"
  shows "footprint (creates_due lib env ns name) (fire env nextAfter t) w"
  unfolding fire_def Let_def
  by (rule footprint_bnd_obj) (intro footprint_issues issues_intros issues_cleanup; use assms in \<open>simp add: creates_due_def\<close>)

lemma footprint_reconcile_scheduled:
  assumes "e_get env l KScheduledBackup ns name = Inr (OScheduledBackup (w_obj w))"
  shows "footprint (creates_due lib env ns name) (reconcile_scheduled lib env) w"
  unfolding reconcile_scheduled_def Let_def
proof (rule footprint_bnd_obj, rule footprint_if, goal_cases)
  case 1
  show ?case by (intro footprint_issues issues_intros; simp)
next
  case suspend: 2
  show ?case
  proof (rule footprint_bnd, goal_cases)
    case 1
    show ?case by (intro footprint_issues issues_intros; simp)
  next
    case (2 c w1)
    have w1: "w_obj w1 = w_obj w" by (rule keepsD [OF keeps_wrap_err [OF keeps_get_cluster] 2])
    show ?case
    proof (cases "parseSchedule lib (sbs_Schedule (sb_Spec (w_obj w))) (sbs_TimeZone (sb_Spec (w_obj w)))")
      case (Inl e)
      then show ?thesis by (simp add: footprint_issues issues_invalid)
    next
      case (Inr r)
      obtain sched loc where r: "r = (sched, loc)" by (cases r)
      have "footprint (creates_due lib env ns name) (case sched loc (baselineTime (w_obj w)) of
          None \<Rightarrow> markScheduleInvalid env e | Some nxt \<Rightarrow> if nxt > t then wait_for env nxt t else fire env (sched loc) t) w2"
        if "now env w1 = (Inr t, w2)" for t w2 e
      proof (cases "sched loc (baselineTime (w_obj w))")
        case None
        then show ?thesis by (simp add: footprint_issues issues_invalid)
      next
        case (Some nxt)
        have t: "t = e_now env (w_log w1)" and w2: "w_obj w2 = w_obj w" using that w1 by (auto simp: now_def logged_def)
        have "footprint (creates_due lib env ns name) (fire env (sched loc) t) w2" if "\<not> nxt > t"
          by (rule footprint_fire, unfold due_backup_def, rule exI [of _ l], rule exI [of _ "w_obj w"],
              rule exI [of _ "w_log w1"], rule exI [of _ sched], rule exI [of _ loc], rule exI [of _ nxt])
            (use assms suspend Inr r Some that t w2 in simp)
        with Some show ?thesis by (simp add: footprint_issues issues_wait)
      qed
      then show ?thesis
        unfolding Inr r sum.case prod.case by (intro footprint_bnd footprint_issues [OF issues_now]) simp_all
    qed
  qed
qed

text \<open>
  A schedule creates a backup only when it is due: in every run of the controller, whatever the
  API server answers, a created backup belongs to a schedule that is not suspended and parses, and
  the clock has reached the first occurrence after its last run, or after its creation when it never
  ran. So after one run for several missed occurrences there is none before the next occurrence.
\<close>

theorem schedule_fires_only_when_due:
  "footprint (creates_due lib env ns name) (Reconcile_scheduled lib env ns name) w"
  unfolding Reconcile_scheduled_def
proof (rule footprint_bnd, goal_cases)
  case 1
  show ?case by (intro footprint_issues issues_intros; simp)
next
  case (2 r w')
  show ?case
  proof (cases r)
    case (Inl e)
    then show ?thesis by (auto intro!: footprint_issues issues_intros)
  next
    case (Inr s)
    with 2 have "e_get env (w_log w) KScheduledBackup ns name = Inr (OScheduledBackup s)"
      by (auto simp: attempt_Inr get_scheduled_def get_object_def perform_def bnd_def ret_def throw_def
          split: sum.splits prod.splits object.splits)
    then have "footprint (creates_due lib env ns name) (reconcile_scheduled lib env) w2" if "w_obj w2 = s" for w2
      using footprint_reconcile_scheduled that by blast
    then show ?thesis
      unfolding Inr sum.case
      by (intro footprint_bnd [OF footprint_issues [OF issues_observe_as]]) (auto simp: observe_as_def)
  qed
qed

text \<open>
  The webhook and the controller agree on schedules: for a schedule the webhook admits, the
  controller parses the expression and the time zone, and finds a next occurrence from the instant
  of the admission on. The time zone database is assumed to know UTC by its name.
\<close>

theorem admitted_schedule_is_parsed:
  assumes "ValidateScheduled lib env (OScheduledBackup s) w = (Inr (Inr warnings), w')"
    and "tl_LoadLocation lib ''UTC'' = Inr (tl_UTC lib)"
  shows "\<exists>sched loc. parseSchedule lib (sbs_Schedule (sb_Spec s)) (sbs_TimeZone (sb_Spec s)) = Inr (sched, loc) \<and>
    sched loc (e_now env (w_log w)) \<noteq> None"
  using assms
  by (auto simp: ValidateScheduled_def validateSchedule_def parseSchedule_def bnd_def ret_def now_def Let_def
      split: sum.splits if_splits)

definition sample_time_lib :: "unit time_lib" where
  "sample_time_lib = \<lparr>tl_UTC = (), tl_LoadLocation = (\<lambda>_. Inr ()), tl_ParseStandard = (\<lambda>_. Inr (\<lambda>_ t. Some (t + 60)))\<rparr>"

definition sample_scheduled :: RedisScheduledBackup where
  "sample_scheduled = \<lparr>sb_Meta = new_meta ''s'' ''ns'' [], sb_UID = ''u'', sb_CreationTimestamp = 0,
     sb_Spec = \<lparr>sbs_Schedule = ''* * * * *'', sbs_TimeZone = [], sbs_ClusterName = ''r'', sbs_Target = [], sbs_Method = [],
       sbs_Destination = None, sbs_Suspend = None, sbs_SuccessfulBackupsHistoryLimit = None, sbs_FailedBackupsHistoryLimit = None\<rparr>,
     sb_Status = \<lparr>sbt_Phase = [], sbt_LastScheduleTime = None, sbt_NextScheduleTime = None, sbt_LastBackupName = [], sbt_Conditions = []\<rparr>\<rparr>"

theorem admitted_schedule_is_parsed_witness:
  "\<exists>sched loc. parseSchedule sample_time_lib ''* * * * *'' [] = Inr (sched, loc) \<and> sched loc 100 \<noteq> None"
proof -
  have "\<exists>w'. ValidateScheduled sample_time_lib (sample_env []) (OScheduledBackup sample_scheduled) (sample_world ()) = (Inr (Inr []), w')"
    by (simp add: ValidateScheduled_def validateSchedule_def sample_time_lib_def sample_scheduled_def check_def ToAggregate_def
        bnd_def now_def ret_def Let_def)
  then obtain w' where "ValidateScheduled sample_time_lib (sample_env []) (OScheduledBackup sample_scheduled) (sample_world ()) = (Inr (Inr []), w')"
    by blast
  from admitted_schedule_is_parsed [OF this] show ?thesis
    by (simp add: sample_time_lib_def sample_scheduled_def sample_env_def)
qed

section \<open>Two observations\<close>

text \<open>A Sentinel pod in front of the listing is taken for a replica to run the backup on.\<close>

lemma backup_targets_sentinel:
  assumes "e_list env (w_log w) KPod (c_Namespace c) [(LabelCluster, c_Name c)] = Inr (OPod p # items)"
    and "mget [] (p_Labels p) LabelWorkload = LabelWorkloadSentinel"
    and "p_Name p \<noteq> st_CurrentPrimary (c_Status c)" "p_IP p \<noteq> []"
  shows "fst (selectTargetPod env c BackupTargetPreferReplica w) = Inr (p_Name p, p_IP p)"
  using assms by (simp add: selectTargetPod_def listClusterPods_def list_pods_def list_objects_def perform_def wrap_err_def
      bnd_def ret_def Let_def List.map_filter_simps)

text \<open>Any error in reading the cluster, also a passing one, makes a backup fail for good.\<close>

lemma passing_error_fails_backup:
  assumes "e_get env (w_log w) KCluster (om_Namespace (b_Meta (w_obj w))) (bs_ClusterName (b_Spec (w_obj w))) = Inl (OtherApi msg)"
    and "bst_Phase (b_Status (w_obj w)) \<notin> {BackupPhaseCompleted, BackupPhaseFailed}"
    and "\<forall>l base x. e_status_patch env l base x = Inr x"
  shows "bst_Phase (b_Status (w_obj (snd (reconcile_backup env w)))) = BackupPhaseFailed"
  using assms by (simp add: reconcile_backup_def setBackupFailed_def patch_status_as_def observe_as_def bnd_def obj_def
      attempt_def get_cluster_def get_object_def perform_def eventf_def ret_def logged_def Let_def)

end
