(* ===== verification/Backup_Upload.thy ===== *)
theory Backup_Upload
  imports Instance_Manager Backups
begin

text \<open>
  Taking a backup inside a pod, \<^verbatim>\<open>internal/instance-manager/webserver/backup.go\<close>: the request, the
  persistence command and the wait for its end, the artifact and the archive it may be packed in, the name
  of the object it is stored under, the credentials, the choice of the client and the upload. The
  operations on the disk and on the object store are recorded, each with its outcome, in the object in
  memory; whether one fails, what a walk of a directory meets, the size and the content of a file and the
  name of a temporary file are parameters (\<open>disk_lib\<close>), as functions of the operations so far. The SDKs of
  the object stores are parameters too (\<open>cloud_lib\<close>): whether they accept a configuration. The field
  \<^verbatim>\<open>backupUploader\<close> of the server, which only tests set, is nil.

  A backup ends with an answer once the deadline of the request passes; an answer with a document means
  the persistence command succeeded and the object was stored under the key the document names.
\<close>

section \<open>Strings\<close>

definition hasPrefix :: "string \<Rightarrow> string \<Rightarrow> bool" where
  "hasPrefix p s \<longleftrightarrow> take (length p) s = p"

definition trimPrefix :: "string \<Rightarrow> string \<Rightarrow> string" where
  "trimPrefix p s = (if hasPrefix p s then drop (length p) s else s)"

definition trimSuffix :: "string \<Rightarrow> string \<Rightarrow> string" where
  "trimSuffix p s = rev (trimPrefix (rev p) (rev s))"

definition trimSlashes :: "string \<Rightarrow> string" where
  "trimSlashes s = rev (dropWhile (\<lambda>c. c = CHR ''/'') (rev (dropWhile (\<lambda>c. c = CHR ''/'') s)))"

section \<open>The disk and the object stores\<close>

record s3_client =
  sc_region :: string
  sc_endpoint :: "string option"
  sc_pathStyle :: bool
  sc_credentials :: "string \<times> string \<times> string"

datatype azure_client = AzConnection string | AzSharedKey string string string | AzNoCredential string

datatype object_location = S3Object s3_client string string | AzureObject azure_client string string

datatype tar_type = TypeDir | TypeReg | TypeXHeader | TypeXGlobalHeader | TypeOther int

record tar_header =
  th_Name :: string
  th_Typeflag :: tar_type
  th_Size :: int

text \<open>
  What a walk of a directory meets: an entry by its elements below the directory, none for the directory
  itself. What is neither a directory nor a regular file has a mode and the flag the tar header gets.
\<close>

datatype file_kind = IsDirectory | IsRegular | IsOther string int

record walk_entry =
  we_elems :: "string list"
  we_walkErr :: "string option"
  we_infoErr :: "string option"
  we_headerErr :: "string option"
  we_kind :: file_kind
  we_size :: int

datatype disk_op =
    MakeDir string
  | SetMode string
  | CreateFile string
  | FillFile string
  | CloseFile string
  | RemoveFile string
  | RemoveTree string
  | MoveTo string string
  | StatFile string
  | OpenFile string
  | OpenGzip string
  | ReadAll string
  | TempFile string
  | AppendEntry string tar_header
  | CopyFile string string
  | FlushTar string
  | FlushGzip string
  | PutObject object_location string
  | GetObject object_location

type_synonym ops = "(disk_op \<times> bool) list"

record disk =
  dk_ops :: ops

record disk_lib =
  dl_try :: "ops \<Rightarrow> disk_op \<Rightarrow> string option"
  dl_size :: "ops \<Rightarrow> string \<Rightarrow> int"
  dl_content :: "ops \<Rightarrow> string \<Rightarrow> string"
  dl_temp :: "ops \<Rightarrow> string \<Rightarrow> string"
  dl_walk :: "ops \<Rightarrow> string \<Rightarrow> walk_entry list"

record cloud_lib =
  cl_aws :: "string \<Rightarrow> string option"
  cl_sharedKey :: "string \<Rightarrow> string \<Rightarrow> string option"
  cl_azure :: "azure_client \<Rightarrow> string option"

definition do_op :: "disk_lib \<Rightarrow> disk_op \<Rightarrow> ('a disk_scheme, unit) io" where
  "do_op dl op = (\<lambda>w. case dl_try dl (dk_ops (w_obj w)) op of
     Some e \<Rightarrow> (Inl (Err e), w\<lparr>w_obj := (w_obj w)\<lparr>dk_ops := dk_ops (w_obj w) @ [(op, False)]\<rparr>\<rparr>)
   | None \<Rightarrow> (Inr (), w\<lparr>w_obj := (w_obj w)\<lparr>dk_ops := dk_ops (w_obj w) @ [(op, True)]\<rparr>\<rparr>))"

text \<open>An operation whose error is ignored.\<close>

definition try_op :: "disk_lib \<Rightarrow> disk_op \<Rightarrow> ('a disk_scheme, unit) io" where
  "try_op dl op = bnd (attempt (do_op dl op)) (\<lambda>_. ret ())"

section \<open>Names of objects\<close>

definition buildObjectKey :: "string \<Rightarrow> string \<Rightarrow> string \<Rightarrow> string" where
  "buildObjectKey pathPrefix backupName artifactType =
     (let extension = (if artifactType = BackupArtifactTypeAOFArchive then ''.aof.tar.gz'' else ''.rdb'');
          objectName = backupName @ extension;
          prefix = trimSlashes pathPrefix
      in if prefix = [] then objectName else prefix @ ''/'' @ objectName)"

section \<open>Credentials and clients\<close>

definition defaultAWSRegion :: string where "defaultAWSRegion = ''us-east-1''"

primrec firstCredentialValue :: "files \<Rightarrow> string \<Rightarrow> string list \<Rightarrow> ('s, string) io" where
  "firstCredentialValue fs mountDir [] = ret []"
| "firstCredentialValue fs mountDir (name # names) =
     (let path = path_join [mountDir, name] in
      bnd (read_file fs path) (\<lambda>f.
      case f of
        FileMissing \<Rightarrow> firstCredentialValue fs mountDir names
      | FileError e \<Rightarrow> throw (Wrap (''reading credential file '' @ path) (Err e))
      | FileContent raw \<Rightarrow> if trimSpace raw \<noteq> [] then ret (trimSpace raw) else firstCredentialValue fs mountDir names))"

definition awsAccessKeys :: "string list" where
  "awsAccessKeys = [''AWS_ACCESS_KEY_ID'', ''aws_access_key_id'', ''accessKeyId'', ''access_key_id'']"

definition awsSecretKeys :: "string list" where
  "awsSecretKeys = [''AWS_SECRET_ACCESS_KEY'', ''aws_secret_access_key'', ''secretAccessKey'', ''secret_access_key'']"

definition awsSessionKeys :: "string list" where
  "awsSessionKeys = [''AWS_SESSION_TOKEN'', ''aws_session_token'', ''sessionToken'', ''session_token'']"

definition readAWSCredentialsFromDir :: "files \<Rightarrow> string \<Rightarrow> ('s, string \<times> string \<times> string) io" where
  "readAWSCredentialsFromDir fs mountDir =
     bnd (firstCredentialValue fs mountDir awsAccessKeys) (\<lambda>accessKeyID.
     bnd (firstCredentialValue fs mountDir awsSecretKeys) (\<lambda>secretAccessKey.
     bnd (firstCredentialValue fs mountDir awsSessionKeys) (\<lambda>sessionToken.
     if accessKeyID = [] \<or> secretAccessKey = [] then
       throw (Err ''backup credentials secret must include AWS access key and secret key'')
     else ret (accessKeyID, secretAccessKey, sessionToken))))"

record azure_credentials =
  ac_connectionString :: string
  ac_accountName :: string
  ac_accountKey :: string
  ac_sasToken :: string

definition azureConnectionKeys :: "string list" where
  "azureConnectionKeys = [''AZURE_STORAGE_CONNECTION_STRING'', ''azureStorageConnectionString'', ''connectionString'']"

definition azureAccountKeys :: "string list" where
  "azureAccountKeys = [''AZURE_STORAGE_ACCOUNT'', ''azureStorageAccount'', ''accountName'']"

definition azureSharedKeys :: "string list" where
  "azureSharedKeys = [''AZURE_STORAGE_KEY'', ''azureStorageKey'', ''accountKey'']"

definition azureSasKeys :: "string list" where
  "azureSasKeys = [''AZURE_STORAGE_SAS_TOKEN'', ''azureStorageSasToken'', ''sasToken'']"

definition readAzureCredentialsFromDir :: "files \<Rightarrow> string \<Rightarrow> ('s, azure_credentials) io" where
  "readAzureCredentialsFromDir fs mountDir =
     bnd (firstCredentialValue fs mountDir azureConnectionKeys) (\<lambda>connectionString.
     bnd (firstCredentialValue fs mountDir azureAccountKeys) (\<lambda>accountName.
     bnd (firstCredentialValue fs mountDir azureSharedKeys) (\<lambda>accountKey.
     bnd (firstCredentialValue fs mountDir azureSasKeys) (\<lambda>sasToken.
     ret \<lparr>ac_connectionString = connectionString, ac_accountName = accountName, ac_accountKey = accountKey, ac_sasToken = sasToken\<rparr>))))"

definition newS3Client :: "cloud_lib \<Rightarrow> S3Destination \<Rightarrow> string \<times> string \<times> string \<Rightarrow> ('s, s3_client) io" where
  "newS3Client cl destination keys =
     (let region = (if s3_Region destination = [] then defaultAWSRegion else s3_Region destination) in
      case cl_aws cl region of
        Some e \<Rightarrow> throw (Wrap ''loading AWS config'' (Err e))
      | None \<Rightarrow> ret \<lparr>sc_region = region,
          sc_endpoint = (if s3_Endpoint destination \<noteq> [] then Some (s3_Endpoint destination) else None),
          sc_pathStyle = (s3_Endpoint destination \<noteq> []), sc_credentials = keys\<rparr>)"

definition azureServiceURL :: "string \<Rightarrow> string \<Rightarrow> ('s, string) io" where
  "azureServiceURL accountName endpoint =
     (if endpoint \<noteq> [] then ret endpoint
      else if accountName = [] then throw (Err ''azure destination requires accountName or endpoint when not using a connection string'')
      else ret (''https://'' @ accountName @ ''.blob.core.windows.net/''))"

definition appendSASToken :: "string \<Rightarrow> string \<Rightarrow> string" where
  "appendSASToken serviceURL sasToken = trimSuffix ''/'' serviceURL @ ''/?'' @ trimPrefix ''?'' sasToken"

definition azure_accepts :: "cloud_lib \<Rightarrow> string \<Rightarrow> azure_client \<Rightarrow> ('s, azure_client) io" where
  "azure_accepts cl msg c = (case cl_azure cl c of Some e \<Rightarrow> throw (Wrap msg (Err e)) | None \<Rightarrow> ret c)"

definition newAzureBlobClient :: "cloud_lib \<Rightarrow> AzureBlobDestination \<Rightarrow> azure_credentials \<Rightarrow> ('s, azure_client) io" where
  "newAzureBlobClient cl destination creds =
     (if ac_connectionString creds \<noteq> [] then
        azure_accepts cl ''creating azure client from connection string'' (AzConnection (ac_connectionString creds))
      else
        let effectiveAccount = (if az_AccountName destination = [] then ac_accountName creds else az_AccountName destination) in
        bnd (azureServiceURL effectiveAccount (az_Endpoint destination)) (\<lambda>serviceURL.
        if ac_accountKey creds \<noteq> [] then
          if effectiveAccount = [] then
            throw (Err ''azure shared-key auth requires an account name (set destination.azure.accountName or AZURE_STORAGE_ACCOUNT in the credentials secret)'')
          else
            (case cl_sharedKey cl effectiveAccount (ac_accountKey creds) of
               Some e \<Rightarrow> throw (Wrap ''creating azure shared key credential'' (Err e))
             | None \<Rightarrow> azure_accepts cl ''creating azure client with shared key'' (AzSharedKey serviceURL effectiveAccount (ac_accountKey creds)))
        else if ac_sasToken creds \<noteq> [] then
          azure_accepts cl ''creating azure client with SAS token'' (AzNoCredential (appendSASToken serviceURL (ac_sasToken creds)))
        else throw (Err ''azure backup credentials must include one of AZURE_STORAGE_CONNECTION_STRING, AZURE_STORAGE_KEY, or AZURE_STORAGE_SAS_TOKEN'')))"

section \<open>The artifact\<close>

record backup_server = disk +
  bsv_redisClient :: "string option"
  bsv_dataDir :: string
  bsv_credentialsDir :: string

definition backupDataDir :: "backup_server \<Rightarrow> string" where
  "backupDataDir s = (if bsv_dataDir s \<noteq> [] then bsv_dataDir s else ''/data'')"

definition backupCredentialsMountDir :: "backup_server \<Rightarrow> string" where
  "backupCredentialsMountDir s = (if bsv_credentialsDir s \<noteq> [] then bsv_credentialsDir s else ''/backup-credentials'')"

definition parseInfoKeyValues :: "string \<Rightarrow> (string, string) gomap" where
  "parseInfoKeyValues raw = fold (\<lambda>line values.
     if line = [] \<or> hasPrefix ''#'' line then values
     else case cut (CHR '':'') line of None \<Rightarrow> values | Some (k, v) \<Rightarrow> mput k v values) (split_crlf raw) []"

text \<open>
  The wait for the end of a background save. \<open>expired\<close> tells when the deadline of the request has
  passed; without one the loop would poll for ever.
\<close>

partial_function (option) waitForPersistenceCompletion ::
  "env \<Rightarrow> (log \<Rightarrow> bool) \<Rightarrow> string \<Rightarrow> string \<Rightarrow> string \<Rightarrow> 's world \<Rightarrow> ((goerr + unit) \<times> 's world) option" where
  "waitForPersistenceCompletion env expired client inProgressKey lastStatusKey w =
     (case redis_text env client [''info'', ''persistence''] w of
        (Inl e, w1) \<Rightarrow> Some (Inl (Wrap ''INFO persistence'' e), w1)
      | (Inr raw, w1) \<Rightarrow>
          let info = parseInfoKeyValues raw in
          (case map_of info inProgressKey of
             None \<Rightarrow> Some (Inl (Err (''INFO persistence missing key '' @ quoted inProgressKey)), w1)
           | Some inProgress \<Rightarrow>
               if inProgress = ''0'' then
                 let status = mget [] info lastStatusKey in
                 if status \<noteq> [] \<and> status \<noteq> ''ok'' then Some (Inl (Err (lastStatusKey @ ''='' @ status)), w1)
                 else Some (Inr (), w1)
               else if expired (w_log w1) then
                 Some (Inl (Wrap ''waiting for persistence completion'' (Err ''context deadline exceeded'')), w1)
               else waitForPersistenceCompletion env expired client inProgressKey lastStatusKey w1))"

definition walk_path :: "string \<Rightarrow> string list \<Rightarrow> string" where
  "walk_path dir elems = (if elems = [] then dir else path_join (dir # elems))"

definition entry_header :: "walk_entry \<Rightarrow> tar_header" where
  "entry_header e =
     \<lparr>th_Name = unsplit (CHR ''/'') (we_elems e),
      th_Typeflag = (case we_kind e of IsDirectory \<Rightarrow> TypeDir | IsRegular \<Rightarrow> TypeReg | IsOther _ flag \<Rightarrow> TypeOther flag),
      th_Size = (if we_kind e = IsRegular then we_size e else 0)\<rparr>"

text \<open>The function given to \<^verbatim>\<open>filepath.WalkDir\<close>.\<close>

definition archive_entry :: "disk_lib \<Rightarrow> string \<Rightarrow> string \<Rightarrow> walk_entry \<Rightarrow> ('a disk_scheme, unit) io" where
  "archive_entry dl sourceDir archivePath e =
     (let path = walk_path sourceDir (we_elems e) in
      case we_walkErr e of
        Some err \<Rightarrow> throw (Err err)
      | None \<Rightarrow>
          if path = sourceDir then ret ()
          else
            (case we_infoErr e of
               Some err \<Rightarrow> throw (Wrap (''reading file info for '' @ path) (Err err))
             | None \<Rightarrow>
                 (case we_headerErr e of
                    Some err \<Rightarrow> throw (Wrap (''building tar header for '' @ path) (Err err))
                  | None \<Rightarrow>
                      bnd (wrap_err (''writing tar header for '' @ path) (do_op dl (AppendEntry archivePath (entry_header e)))) (\<lambda>_.
                      case we_kind e of
                        IsDirectory \<Rightarrow> ret ()
                      | IsOther mode _ \<Rightarrow> throw (Err (''unsupported file type '' @ path @ '' ('' @ mode @ '')''))
                      | IsRegular \<Rightarrow>
                          bnd (wrap_err (''opening '' @ path) (do_op dl (OpenFile path))) (\<lambda>_.
                          bnd (attempt (do_op dl (CopyFile path archivePath))) (\<lambda>copyErr.
                          bnd (attempt (do_op dl (CloseFile path))) (\<lambda>closeErr.
                          case (copyErr, closeErr) of
                            (Inl err, _) \<Rightarrow> throw (Wrap (''archiving '' @ path) err)
                          | (Inr _, Inl err) \<Rightarrow> throw (Wrap (''closing source file '' @ path) err)
                          | (Inr _, Inr _) \<Rightarrow> ret ())))))))"

definition joined_errors :: "goerr list \<Rightarrow> goerr" where
  "joined_errors es = Err (unsplit (CHR 0x0A) (map error_text es))"

definition errors_of :: "(goerr + unit) list \<Rightarrow> goerr list" where
  "errors_of rs = concat (map (\<lambda>r. case r of Inl e \<Rightarrow> [e] | Inr _ \<Rightarrow> []) rs)"

definition writeTarGz :: "disk_lib \<Rightarrow> string \<Rightarrow> string \<Rightarrow> ('a disk_scheme, unit) io" where
  "writeTarGz dl sourceDir archivePath =
     bnd (wrap_err (''opening archive file '' @ archivePath) (do_op dl (CreateFile archivePath))) (\<lambda>_.
     bnd obj (\<lambda>s.
     bnd (attempt (for_each (archive_entry dl sourceDir archivePath) (dl_walk dl (dk_ops s) sourceDir))) (\<lambda>walkErr.
     bnd (attempt (do_op dl (FlushTar archivePath))) (\<lambda>tarCloseErr.
     bnd (attempt (do_op dl (FlushGzip archivePath))) (\<lambda>gzipCloseErr.
     bnd (attempt (do_op dl (CloseFile archivePath))) (\<lambda>fileCloseErr.
     let closeErrs = errors_of [tarCloseErr, gzipCloseErr, fileCloseErr] in
     case walkErr of
       Inl err \<Rightarrow>
         throw (Wrap (''creating tar.gz archive from '' @ sourceDir)
           (if closeErrs \<noteq> [] then joined_errors [err, joined_errors closeErrs] else err))
     | Inr _ \<Rightarrow>
         (case tarCloseErr of
            Inl e \<Rightarrow> throw (Wrap ''closing tar writer'' e)
          | Inr _ \<Rightarrow>
              (case gzipCloseErr of
                 Inl e \<Rightarrow> throw (Wrap ''closing gzip writer'' e)
               | Inr _ \<Rightarrow>
                   (case fileCloseErr of
                      Inl e \<Rightarrow> throw (Wrap (''closing archive file '' @ archivePath) e)
                    | Inr _ \<Rightarrow> ret ())))))))))"

definition archiveDirectoryAsTarGz :: "disk_lib \<Rightarrow> string \<Rightarrow> string \<Rightarrow> ('a disk_scheme, string) io" where
  "archiveDirectoryAsTarGz dl directoryPath requiredFile =
     (let requiredPath = path_join [directoryPath, requiredFile] in
      bnd (wrap_err (''required file '' @ requiredPath @ '' is missing'') (do_op dl (StatFile requiredPath))) (\<lambda>_.
      bnd obj (\<lambda>s. let tempPath = dl_temp dl (dk_ops s) [] in
      bnd (wrap_err ''creating temp archive file'' (do_op dl (TempFile tempPath))) (\<lambda>_.
      bnd (attempt (wrap_err ''closing temp archive file'' (do_op dl (CloseFile tempPath)))) (\<lambda>r.
      case r of
        Inl e \<Rightarrow> bnd (try_op dl (RemoveFile tempPath)) (\<lambda>_. throw e)
      | Inr _ \<Rightarrow>
          bnd (attempt (writeTarGz dl directoryPath tempPath)) (\<lambda>r.
          case r of Inl e \<Rightarrow> bnd (try_op dl (RemoveFile tempPath)) (\<lambda>_. throw e) | Inr _ \<Rightarrow> ret tempPath))))))"

text \<open>
  The artifact of a method: its path, its type and whether it is temporary. The two background commands
  are followed by the wait.
\<close>

definition lift_io :: "('s, 'a) io \<Rightarrow> 's world \<Rightarrow> ((goerr + 'a) \<times> 's world) option" where
  "lift_io m w = Some (m w)"

definition bnd_opt ::
  "('s world \<Rightarrow> ((goerr + 'a) \<times> 's world) option) \<Rightarrow> ('a \<Rightarrow> 's world \<Rightarrow> ((goerr + 'b) \<times> 's world) option) \<Rightarrow>
     's world \<Rightarrow> ((goerr + 'b) \<times> 's world) option" where
  "bnd_opt m f w = (case m w of None \<Rightarrow> None | Some (Inl e, w1) \<Rightarrow> Some (Inl e, w1) | Some (Inr a, w1) \<Rightarrow> f a w1)"

definition prepareBackupArtifact ::
  "env \<Rightarrow> disk_lib \<Rightarrow> (log \<Rightarrow> bool) \<Rightarrow> string \<Rightarrow> string \<Rightarrow> backup_server world \<Rightarrow>
     ((goerr + string \<times> string \<times> bool) \<times> backup_server world) option" where
  "prepareBackupArtifact env dl expired client backupMethod w =
     (let dataDir = backupDataDir (w_obj w) in
      if backupMethod = BackupMethodRDB then
        bnd_opt (lift_io (wrap_err ''triggering BGSAVE'' (redis_err env client [''bgsave'']))) (\<lambda>_.
        bnd_opt (waitForPersistenceCompletion env expired client ''rdb_bgsave_in_progress'' ''rdb_last_bgsave_status'') (\<lambda>_.
        let rdbPath = path_join [dataDir, ''dump.rdb''] in
        lift_io (bnd (wrap_err (''checking RDB file '' @ rdbPath) (do_op dl (StatFile rdbPath))) (\<lambda>_.
          ret (rdbPath, BackupArtifactTypeRDB, False))))) w
      else if backupMethod = BackupMethodAOF then
        bnd_opt (lift_io (wrap_err ''triggering BGREWRITEAOF'' (redis_err env client [''BGREWRITEAOF'']))) (\<lambda>_.
        bnd_opt (waitForPersistenceCompletion env expired client ''aof_rewrite_in_progress'' ''aof_last_bgrewrite_status'') (\<lambda>_.
        lift_io (bnd (archiveDirectoryAsTarGz dl (path_join [dataDir, ''appendonlydir'']) ''appendonly.aof.manifest'') (\<lambda>archivePath.
          ret (archivePath, BackupArtifactTypeAOFArchive, True))))) w
      else Some (Inl (Err (''unsupported backup method '' @ quoted backupMethod)), w))"

section \<open>The upload\<close>

record backupResponse =
  bp_ArtifactType :: string
  bp_BackupPath :: string
  bp_ObjectKey :: string
  bp_BackupSize :: int
  bp_ChecksumSHA256 :: string

text \<open>What follows the choice of a client: opening, transferring and describing the artifact.\<close>

definition send_artifact :: "disk_lib \<Rightarrow> object_location \<Rightarrow> string \<Rightarrow> string \<Rightarrow> string \<Rightarrow> string \<Rightarrow> string \<Rightarrow> ('a disk_scheme, backupResponse) io" where
  "send_artifact dl loc failed backupPath objectKey artifactPath artifactType =
     bnd (wrap_err (''opening artifact '' @ artifactPath) (do_op dl (OpenFile artifactPath))) (\<lambda>_.
     bnd (wrap_err failed (do_op dl (PutObject loc artifactPath))) (\<lambda>_.
     bnd (wrap_err (''reading artifact metadata for '' @ artifactPath) (do_op dl (StatFile artifactPath))) (\<lambda>_.
     bnd obj (\<lambda>s. let artifactSize = dl_size dl (dk_ops s) artifactPath in
     bnd (wrap_err (''computing checksum for '' @ artifactPath) (bnd (do_op dl (OpenFile artifactPath)) (\<lambda>_. do_op dl (ReadAll artifactPath)))) (\<lambda>_.
     bnd obj (\<lambda>s.
     ret \<lparr>bp_ArtifactType = artifactType, bp_BackupPath = backupPath, bp_ObjectKey = objectKey, bp_BackupSize = artifactSize,
       bp_ChecksumSHA256 = EncodeToString (sha256 (dl_content dl (dk_ops s) artifactPath))\<rparr>))))))"

definition uploadBackupToS3 ::
  "files \<Rightarrow> disk_lib \<Rightarrow> cloud_lib \<Rightarrow> string \<Rightarrow> S3Destination \<Rightarrow> string \<Rightarrow> string \<Rightarrow> (backup_server, backupResponse) io" where
  "uploadBackupToS3 fs dl cl backupName destination artifactPath artifactType = bnd obj (\<lambda>s.
     bnd (readAWSCredentialsFromDir fs (backupCredentialsMountDir s)) (\<lambda>keys.
     bnd (newS3Client cl destination keys) (\<lambda>client.
     let objectKey = buildObjectKey (s3_Path destination) backupName artifactType;
         target = ''s3://'' @ s3_Bucket destination @ ''/'' @ objectKey
     in send_artifact dl (S3Object client (s3_Bucket destination) objectKey) (''uploading to '' @ target) target objectKey artifactPath artifactType)))"

definition uploadBackupToAzure ::
  "files \<Rightarrow> disk_lib \<Rightarrow> cloud_lib \<Rightarrow> string \<Rightarrow> AzureBlobDestination \<Rightarrow> string \<Rightarrow> string \<Rightarrow> (backup_server, backupResponse) io" where
  "uploadBackupToAzure fs dl cl backupName destination artifactPath artifactType = bnd obj (\<lambda>s.
     bnd (readAzureCredentialsFromDir fs (backupCredentialsMountDir s)) (\<lambda>creds.
     bnd (newAzureBlobClient cl destination creds) (\<lambda>client.
     let blobName = buildObjectKey (az_Path destination) backupName artifactType;
         target = ''azblob://'' @ az_Container destination @ ''/'' @ blobName
     in send_artifact dl (AzureObject client (az_Container destination) blobName)
          (''uploading to azure container '' @ quoted (az_Container destination) @ '' blob '' @ quoted blobName) target blobName artifactPath artifactType)))"

definition uploadBackup ::
  "files \<Rightarrow> disk_lib \<Rightarrow> cloud_lib \<Rightarrow> string \<Rightarrow> BackupDestination \<Rightarrow> string \<Rightarrow> string \<Rightarrow> (backup_server, backupResponse) io" where
  "uploadBackup fs dl cl backupName destination artifactPath artifactType =
     (case bd_S3 destination of
        Some d \<Rightarrow> uploadBackupToS3 fs dl cl backupName d artifactPath artifactType
      | None \<Rightarrow>
          (case bd_Azure destination of
             Some d \<Rightarrow> uploadBackupToAzure fs dl cl backupName d artifactPath artifactType
           | None \<Rightarrow> throw (Err ''no backup destination configured'')))"

section \<open>The request\<close>

record backupRequest =
  brq_BackupName :: string
  brq_Method :: string
  brq_Destination :: "BackupDestination option"

datatype backup_reply = BackupPlain int string | BackupDocument backupResponse

definition upload_prepared ::
  "files \<Rightarrow> disk_lib \<Rightarrow> cloud_lib \<Rightarrow> string \<Rightarrow> BackupDestination \<Rightarrow> string \<times> string \<times> bool \<Rightarrow> (backup_server, backup_reply) io" where
  "upload_prepared fs dl cl backupName destination artifact =
     (case artifact of (artifactPath, artifactType, temporary) \<Rightarrow>
       bnd (attempt (uploadBackup fs dl cl backupName destination artifactPath artifactType)) (\<lambda>r.
       bnd (if temporary then try_op dl (RemoveFile artifactPath) else ret ()) (\<lambda>_.
       ret (case r of
              Inl e \<Rightarrow> BackupPlain 500 (''uploading backup artifact: '' @ error_text e @ [CHR 0x0A])
            | Inr result \<Rightarrow> BackupDocument result))))"

definition handleBackup ::
  "env \<Rightarrow> files \<Rightarrow> disk_lib \<Rightarrow> cloud_lib \<Rightarrow> (log \<Rightarrow> bool) \<Rightarrow> string \<Rightarrow> (string + backupRequest) \<Rightarrow> backup_server world \<Rightarrow>
     ((goerr + backup_reply) \<times> backup_server world) option" where
  "handleBackup env fs dl cl expired meth body w =
     (if meth \<noteq> ''POST'' then Some (Inr (BackupPlain 405 (''method not allowed'' @ [CHR 0x0A])), w)
      else
        case bsv_redisClient (w_obj w) of
          None \<Rightarrow> Some (Inr (BackupPlain 500 (''redis client is not configured'' @ [CHR 0x0A])), w)
        | Some client \<Rightarrow>
            (case body of
               Inl e \<Rightarrow> Some (Inr (BackupPlain 400 (''invalid request body: '' @ e @ [CHR 0x0A])), w)
             | Inr req \<Rightarrow>
                 if brq_BackupName req = [] then Some (Inr (BackupPlain 400 (''backupName is required'' @ [CHR 0x0A])), w)
                 else
                   (case (Validate (brq_Destination req), brq_Destination req) of
                      (Some e, _) \<Rightarrow> Some (Inr (BackupPlain 400 (e @ [CHR 0x0A])), w)
                    | (None, None) \<Rightarrow> Some (Inl (Panic ''nil pointer dereference''), w)
                    | (None, Some destination) \<Rightarrow>
                        let backupMethod = (if brq_Method req = [] then BackupMethodRDB else brq_Method req) in
                        (case prepareBackupArtifact env dl expired client backupMethod w of
                           None \<Rightarrow> None
                         | Some (Inl e, w1) \<Rightarrow> Some (Inr (BackupPlain 500 (''preparing backup artifact: '' @ error_text e @ [CHR 0x0A])), w1)
                         | Some (Inr artifact, w1) \<Rightarrow> Some (upload_prepared fs dl cl (brq_BackupName req) destination artifact w1)))))"

section \<open>Operations on the disk\<close>

text \<open>
  A program that only works on the disk, and whose operations have a property, is closed under the
  combinators whenever the property holds of no operations and of the operations of two parts in a row.
\<close>

named_theorems disk_intros

definition with_ops :: "ops \<Rightarrow> 'a disk_scheme world \<Rightarrow> 'a disk_scheme world" where
  "with_ops l w = w\<lparr>w_obj := (w_obj w)\<lparr>dk_ops := dk_ops (w_obj w) @ l\<rparr>\<rparr>"

lemma with_ops_simps [simp]:
  "dk_ops (w_obj (with_ops l w)) = dk_ops (w_obj w) @ l" "w_log (with_ops l w) = w_log w" "with_ops [] w = w"
  "with_ops l' (with_ops l w) = with_ops (l @ l') w"
  by (simp_all add: with_ops_def)

lemma with_ops_ex: "L l \<Longrightarrow> \<exists>l'. with_ops l w = with_ops l' w \<and> L l'"
  by blast

lemma do_op_with:
  "do_op dl op w = (case dl_try dl (dk_ops (w_obj w)) op of
     Some e \<Rightarrow> (Inl (Err e), with_ops [(op, False)] w) | None \<Rightarrow> (Inr (), with_ops [(op, True)] w))"
  by (simp add: do_op_def with_ops_def split: option.split)

definition adds :: "(ops \<Rightarrow> bool) \<Rightarrow> ('a disk_scheme, 'b) io \<Rightarrow> bool" where
  "adds L m \<longleftrightarrow> (\<forall>w. \<exists>l. snd (m w) = with_ops l w \<and> L l)"

lemma adds_exact:
  assumes "adds L m" "m w = (r, w')"
  shows "\<exists>l. w' = with_ops l w \<and> L l"
  using assms unfolding adds_def by (metis snd_conv)

lemma adds_run:
  assumes "adds L m" "m w = (r, w')"
  shows "w_log w' = w_log w \<and> (\<exists>l. dk_ops (w_obj w') = dk_ops (w_obj w) @ l \<and> L l)"
  using adds_exact [OF assms] by auto

lemma adds_attempt [disk_intros]: "adds L m \<Longrightarrow> adds L (attempt m)"
  unfolding adds_def attempt_def by (simp split: prod.splits sum.splits) (metis snd_conv)

lemma adds_wrap_err [disk_intros]: "adds L m \<Longrightarrow> adds L (wrap_err msg m)"
  unfolding adds_def wrap_err_def by (simp split: prod.splits sum.splits) (metis snd_conv)

lemma adds_if [disk_intros]: "adds L m \<Longrightarrow> adds L m' \<Longrightarrow> adds L (if b then m else m')"
  by simp

lemma adds_option [disk_intros]:
  "adds L m \<Longrightarrow> (\<And>y. adds L (f y)) \<Longrightarrow> adds L (case x of None \<Rightarrow> m | Some y \<Rightarrow> f y)"
  by (simp split: option.split)

lemma adds_sum [disk_intros]:
  "(\<And>e. adds L (m e)) \<Longrightarrow> (\<And>y. adds L (f y)) \<Longrightarrow> adds L (case x of Inl e \<Rightarrow> m e | Inr y \<Rightarrow> f y)"
  by (simp split: sum.split)

lemma adds_do_op: "L [(op, True)] \<Longrightarrow> L [(op, False)] \<Longrightarrow> adds L (do_op dl op)"
  by (auto simp: adds_def do_op_with split: option.split intro!: with_ops_ex)

locale op_trace =
  fixes L :: "ops \<Rightarrow> bool"
  assumes nil: "L []"
    and append: "L l \<Longrightarrow> L l' \<Longrightarrow> L (l @ l')"
begin

lemma adds_idle: "(\<And>w. snd (m w) = w) \<Longrightarrow> adds L m"
  unfolding adds_def by (intro allI exI [of _ "[]"]) (simp add: nil)

lemma adds_ret: "adds L (ret a)" by (simp add: adds_idle ret_def)

lemma adds_throw: "adds L (throw e)" by (simp add: adds_idle throw_def)

lemma adds_obj: "adds L obj" by (simp add: adds_idle obj_def)

lemma adds_read_file: "adds L (read_file fs path)" by (simp add: adds_idle read_file_def)

lemma adds_bnd:
  fixes m :: "('a disk_scheme, 'b) io" and f :: "'b \<Rightarrow> ('a disk_scheme, 'c) io"
  assumes "adds L m" "\<And>a. adds L (f a)"
  shows "adds L (bnd m f)"
  unfolding adds_def
proof
  fix w :: "'a disk_scheme world"
  obtain r w1 where m: "m w = (r, w1)" by (cases "m w")
  from adds_exact [OF assms(1) m] obtain l where l: "w1 = with_ops l w" "L l" by blast
  show "\<exists>l. snd (bnd m f w) = with_ops l w \<and> L l"
  proof (cases r)
    case (Inl e)
    then show ?thesis using m l by (auto simp: bnd_def)
  next
    case (Inr a)
    obtain r2 w2 where f: "f a w1 = (r2, w2)" by (cases "f a w1")
    from adds_exact [OF assms(2) f] obtain l2 where "w2 = with_ops l2 w1" "L l2" by blast
    then show ?thesis using m l Inr f append [of l l2] by (intro exI [of _ "l @ l2"]) (simp add: bnd_def)
  qed
qed

lemma adds_for_each: "(\<And>x. adds L (f x)) \<Longrightarrow> adds L (for_each f xs)"
  by (induction xs) (simp_all add: adds_ret adds_bnd)

lemmas adds_intros = adds_ret adds_throw adds_obj adds_read_file adds_bnd adds_for_each

end

abbreviation on_disk :: "(disk_op \<Rightarrow> bool) \<Rightarrow> ('a disk_scheme, 'b) io \<Rightarrow> bool" where
  "on_disk P \<equiv> adds (list_all (\<lambda>(op, _). P op))"

interpretation each_op: op_trace "list_all (\<lambda>(op, _). P op)" for P
  by unfold_locales simp_all

lemmas on_disk_combinators [disk_intros] = each_op.adds_intros

lemma on_disk_do_op [disk_intros]: "P op \<Longrightarrow> on_disk P (do_op dl op)"
  by (simp add: adds_do_op)

lemma on_disk_try_op [disk_intros]: "P op \<Longrightarrow> on_disk P (try_op dl op)"
  unfolding try_op_def by (intro disk_intros)

lemma on_disk_credential [disk_intros]: "on_disk P (firstCredentialValue fs dir names)"
  by (induction names) (auto intro!: disk_intros split: file_read.split simp: Let_def)

lemma on_disk_archive [disk_intros]: "on_disk (\<lambda>_. True) (archiveDirectoryAsTarGz dl dir file)"
  unfolding archiveDirectoryAsTarGz_def writeTarGz_def archive_entry_def Let_def
  by (auto intro!: disk_intros split: sum.split option.split file_kind.split)

section \<open>Waiting for a save\<close>

definition info_persistence :: "string \<Rightarrow> call" where
  "info_persistence client = RedisDo client [''info'', ''persistence'']"

text \<open>
  The calls of a wait that ended well: polls, the last of which was answered with a report that no save
  is in progress and that the last one did not fail.
\<close>

definition save_seen :: "env \<Rightarrow> string \<Rightarrow> string \<Rightarrow> string \<Rightarrow> log \<Rightarrow> log \<Rightarrow> bool" where
  "save_seen env client inProgressKey lastStatusKey before calls \<longleftrightarrow>
     (\<exists>polls raw. calls = polls @ [(info_persistence client, True)] \<and> set polls \<subseteq> {(info_persistence client, True)} \<and>
        e_redis env (before @ polls) client [''info'', ''persistence''] = Inr (RStr raw) \<and>
        map_of (parseInfoKeyValues raw) inProgressKey = Some ''0'' \<and>
        mget [] (parseInfoKeyValues raw) lastStatusKey \<in> {[], ''ok''})"

lemma redis_text_run:
  "\<exists>r b. redis_text env client args w = (r, w\<lparr>w_log := w_log w @ [(RedisDo client args, b)]\<rparr>) \<and>
     (\<forall>raw. r = Inr raw \<longrightarrow> b \<and> e_redis env (w_log w) client args = Inr (RStr raw))"
  by (auto simp: redis_text_def redis_do_def bnd_def ret_def throw_def logged_def split: sum.split redis_reply.split)

lemma wait_returns:
  assumes "\<forall>l. n \<le> length l \<longrightarrow> expired l"
  shows "\<exists>r w'. waitForPersistenceCompletion env expired client inProgressKey lastStatusKey w = Some (r, w')"
proof (induction "n - length (w_log w)" arbitrary: w rule: less_induct)
  case less
  obtain r b where run: "redis_text env client [''info'', ''persistence''] w =
      (r, w\<lparr>w_log := w_log w @ [(RedisDo client [''info'', ''persistence''], b)]\<rparr>)" using redis_text_run by blast
  let ?w1 = "w\<lparr>w_log := w_log w @ [(RedisDo client [''info'', ''persistence''], b)]\<rparr>"
  show ?case
  proof (cases "expired (w_log ?w1)")
    case True
    then show ?thesis using run by (subst waitForPersistenceCompletion.simps) (auto simp: Let_def split: sum.split option.split)
  next
    case False
    then have "\<not> n \<le> length (w_log ?w1)" using assms by blast
    then have "n - length (w_log ?w1) < n - length (w_log w)" by simp
    from less [OF this] show ?thesis
      using run by (subst waitForPersistenceCompletion.simps) (auto simp: Let_def split: sum.split option.split)
  qed
qed

definition wait_result :: "env \<Rightarrow> (log \<Rightarrow> bool) \<Rightarrow> string \<Rightarrow> string \<Rightarrow> string \<Rightarrow> 's world \<Rightarrow> (goerr + unit) \<times> 's world \<Rightarrow> bool" where
  "wait_result env expired client inProgressKey lastStatusKey w y \<longleftrightarrow> (fst y = Inr () \<longrightarrow> w_obj (snd y) = w_obj w \<and>
     (\<exists>l. w_log (snd y) = w_log w @ l \<and> save_seen env client inProgressKey lastStatusKey (w_log w) l))"

lemma wait_result_holds:
  assumes "waitForPersistenceCompletion env expired client inProgressKey lastStatusKey w = Some y"
  shows "wait_result env expired client inProgressKey lastStatusKey w y"
proof (rule waitForPersistenceCompletion.raw_induct [where P = wait_result, OF _ assms])
  fix wait env expired client inProgressKey lastStatusKey and w :: "'a world" and y
  assume IH: "\<And>env expired client inProgressKey lastStatusKey (w :: 'a world) y.
      wait env expired client inProgressKey lastStatusKey w = Some y \<Longrightarrow> wait_result env expired client inProgressKey lastStatusKey w y"
  assume body: "(case redis_text env client [''info'', ''persistence''] w of
        (Inl e, w1) \<Rightarrow> Some (Inl (Wrap ''INFO persistence'' e), w1)
      | (Inr raw, w1) \<Rightarrow>
          let info = parseInfoKeyValues raw in
          (case map_of info inProgressKey of
             None \<Rightarrow> Some (Inl (Err (''INFO persistence missing key '' @ quoted inProgressKey)), w1)
           | Some inProgress \<Rightarrow>
               if inProgress = ''0'' then
                 let status = mget [] info lastStatusKey in
                 if status \<noteq> [] \<and> status \<noteq> ''ok'' then Some (Inl (Err (lastStatusKey @ ''='' @ status)), w1)
                 else Some (Inr (), w1)
               else if expired (w_log w1) then
                 Some (Inl (Wrap ''waiting for persistence completion'' (Err ''context deadline exceeded'')), w1)
               else wait env expired client inProgressKey lastStatusKey w1)) = Some y"
  obtain t b where run: "redis_text env client [''info'', ''persistence''] w =
      (t, w\<lparr>w_log := w_log w @ [(RedisDo client [''info'', ''persistence''], b)]\<rparr>)"
    and t: "\<forall>raw. t = Inr raw \<longrightarrow> b \<and> e_redis env (w_log w) client [''info'', ''persistence''] = Inr (RStr raw)"
    using redis_text_run by blast
  let ?w1 = "w\<lparr>w_log := w_log w @ [(info_persistence client, True)]\<rparr>"
  show "wait_result env expired client inProgressKey lastStatusKey w y"
    unfolding wait_result_def
  proof (intro impI)
    assume r: "fst y = Inr ()"
    obtain raw v where raw: "t = Inr raw" and v: "map_of (parseInfoKeyValues raw) inProgressKey = Some v"
      using body run r by (auto simp: Let_def split: sum.splits option.splits)
    have b: "b" and reply: "e_redis env (w_log w) client [''info'', ''persistence''] = Inr (RStr raw)" using t raw by auto
    have run1: "redis_text env client [''info'', ''persistence''] w = (Inr raw, ?w1)" using run raw b by (simp add: info_persistence_def)
    show "w_obj (snd y) = w_obj w \<and> (\<exists>l. w_log (snd y) = w_log w @ l \<and> save_seen env client inProgressKey lastStatusKey (w_log w) l)"
    proof (cases "v = ''0''")
      case True
      then have "snd y = ?w1" "mget [] (parseInfoKeyValues raw) lastStatusKey \<in> {[], ''ok''}"
        using body run1 v r by (auto simp: Let_def split: if_splits)
      moreover have "save_seen env client inProgressKey lastStatusKey (w_log w) [(info_persistence client, True)]"
        if "mget [] (parseInfoKeyValues raw) lastStatusKey \<in> {[], ''ok''}"
        unfolding save_seen_def using that reply v True by (intro exI [of _ "[]"] exI [of _ raw]) simp
      ultimately show ?thesis by auto
    next
      case False
      then have "wait env expired client inProgressKey lastStatusKey ?w1 = Some y"
        using body run1 v r by (auto simp: Let_def split: if_splits)
      from IH [OF this] r obtain l where l: "w_obj (snd y) = w_obj w" "w_log (snd y) = w_log ?w1 @ l"
        "save_seen env client inProgressKey lastStatusKey (w_log ?w1) l" by (auto simp: wait_result_def)
      from l(3) obtain polls raw2 where "l = polls @ [(info_persistence client, True)]" "set polls \<subseteq> {(info_persistence client, True)}"
        "e_redis env (w_log ?w1 @ polls) client [''info'', ''persistence''] = Inr (RStr raw2)"
        "map_of (parseInfoKeyValues raw2) inProgressKey = Some ''0''" "mget [] (parseInfoKeyValues raw2) lastStatusKey \<in> {[], ''ok''}"
        unfolding save_seen_def by blast
      then have "save_seen env client inProgressKey lastStatusKey (w_log w) ((info_persistence client, True) # l)"
        unfolding save_seen_def by (intro exI [of _ "(info_persistence client, True) # polls"] exI [of _ raw2]) simp
      with l show ?thesis by (intro conjI exI [of _ "(info_persistence client, True) # l"]) simp_all
    qed
  qed
qed

lemma wait_done:
  assumes "waitForPersistenceCompletion env expired client inProgressKey lastStatusKey w = Some (Inr (), w')"
  shows "w_obj w' = w_obj w \<and> (\<exists>l. w_log w' = w_log w @ l \<and> save_seen env client inProgressKey lastStatusKey (w_log w) l)"
  using wait_result_holds [OF assms] by (simp add: wait_result_def)

section \<open>Answers\<close>

definition save_command :: "string \<Rightarrow> string list \<times> string \<times> string" where
  "save_command backupMethod =
     (if backupMethod = [] \<or> backupMethod = BackupMethodRDB then ([''bgsave''], ''rdb_bgsave_in_progress'', ''rdb_last_bgsave_status'')
      else ([''BGREWRITEAOF''], ''aof_rewrite_in_progress'', ''aof_last_bgrewrite_status''))"

text \<open>The object a document describes: in the destination of the request, under the key of the backup.\<close>

definition stored_at :: "BackupDestination \<Rightarrow> string \<Rightarrow> backupResponse \<Rightarrow> object_location \<Rightarrow> bool" where
  "stored_at dest backupName resp loc \<longleftrightarrow>
     (case bd_S3 dest of
        Some d \<Rightarrow>
          bp_ObjectKey resp = buildObjectKey (s3_Path d) backupName (bp_ArtifactType resp) \<and>
          bp_BackupPath resp = ''s3://'' @ s3_Bucket d @ ''/'' @ bp_ObjectKey resp \<and>
          (\<exists>client. loc = S3Object client (s3_Bucket d) (bp_ObjectKey resp))
      | None \<Rightarrow>
          (case bd_Azure dest of
             None \<Rightarrow> False
           | Some d \<Rightarrow>
               bp_ObjectKey resp = buildObjectKey (az_Path d) backupName (bp_ArtifactType resp) \<and>
               bp_BackupPath resp = ''azblob://'' @ az_Container d @ ''/'' @ bp_ObjectKey resp \<and>
               (\<exists>client. loc = AzureObject client (az_Container d) (bp_ObjectKey resp))))"

text \<open>Inversion of the runs that succeed, one rule per combinator.\<close>

named_theorems runs_simps

definition did :: "disk_op \<Rightarrow> 'a disk_scheme world \<Rightarrow> 'a disk_scheme world" where
  "did op w = w\<lparr>w_obj := (w_obj w)\<lparr>dk_ops := dk_ops (w_obj w) @ [(op, True)]\<rparr>\<rparr>"

lemma did_simps [simp]: "dk_ops (w_obj (did op w)) = dk_ops (w_obj w) @ [(op, True)]" "w_log (did op w) = w_log w"
  by (simp_all add: did_def)

lemma do_op_Inr [runs_simps]: "do_op dl op w = (Inr a, w') \<longleftrightarrow> dl_try dl (dk_ops (w_obj w)) op = None \<and> w' = did op w"
  by (auto simp: do_op_def did_def split: option.split)

lemma bnd_Inr [runs_simps]: "bnd m f w = (Inr b, w') \<longleftrightarrow> (\<exists>a w1. m w = (Inr a, w1) \<and> f a w1 = (Inr b, w'))"
  by (auto simp: bnd_def split: prod.splits sum.splits)

lemma obj_Inr [runs_simps]: "obj w = (Inr a, w') \<longleftrightarrow> a = w_obj w \<and> w' = w"
  by (auto simp: obj_def)

lemma ret_Inr [runs_simps]: "ret x w = (Inr a, w') \<longleftrightarrow> a = x \<and> w' = w"
  by (auto simp: ret_def)

lemma throw_Inr [runs_simps]: "\<not> throw e w = (Inr a, w')"
  by (simp add: throw_def)

lemma wrap_err_run_Inr [runs_simps]: "wrap_err msg m w = (Inr a, w') \<longleftrightarrow> m w = (Inr a, w')"
  by (auto simp: wrap_err_def split: prod.splits sum.splits)

lemma send_artifact_run:
  assumes "send_artifact dl loc failed backupPath objectKey artifactPath artifactType w = (Inr resp, w')"
  shows "(PutObject loc artifactPath, True) \<in> set (dk_ops (w_obj w')) \<and>
    bp_ArtifactType resp = artifactType \<and> bp_BackupPath resp = backupPath \<and> bp_ObjectKey resp = objectKey"
  using assms by (simp add: send_artifact_def runs_simps Let_def)

lemma on_disk_send [disk_intros]: "on_disk (\<lambda>_. True) (send_artifact dl loc failed backupPath objectKey artifactPath artifactType)"
  unfolding send_artifact_def Let_def by (intro disk_intros TrueI)

lemma on_disk_clients [disk_intros]:
  "on_disk P (readAWSCredentialsFromDir fs dir)" "on_disk P (readAzureCredentialsFromDir fs dir)"
  "on_disk P (newS3Client cl d3 keys)" "on_disk P (azureServiceURL account endpoint)" "on_disk P (azure_accepts cl msg c)"
  unfolding readAWSCredentialsFromDir_def readAzureCredentialsFromDir_def newS3Client_def azureServiceURL_def azure_accepts_def Let_def
  by (intro disk_intros)+

lemma on_disk_azure_client [disk_intros]: "on_disk P (newAzureBlobClient cl d creds)"
  unfolding newAzureBlobClient_def Let_def by (intro disk_intros)

lemma on_disk_upload [disk_intros]: "on_disk (\<lambda>_. True) (uploadBackup fs dl cl backupName dest artifactPath artifactType)"
proof -
  have "on_disk (\<lambda>_. True) (uploadBackupToS3 fs dl cl backupName d artifactPath artifactType)" for d
    unfolding uploadBackupToS3_def Let_def by (intro disk_intros)
  moreover have "on_disk (\<lambda>_. True) (uploadBackupToAzure fs dl cl backupName d artifactPath artifactType)" for d
    unfolding uploadBackupToAzure_def Let_def by (intro disk_intros)
  ultimately show ?thesis unfolding uploadBackup_def by (simp add: disk_intros split: option.split)
qed

lemma upload_run:
  assumes "uploadBackup fs dl cl backupName dest artifactPath artifactType w = (Inr resp, w')"
  shows "\<exists>loc. (PutObject loc artifactPath, True) \<in> set (dk_ops (w_obj w')) \<and> stored_at dest backupName resp loc"
proof (cases "bd_S3 dest")
  case (Some d)
  then obtain client w1 where "send_artifact dl (S3Object client (s3_Bucket d) (buildObjectKey (s3_Path d) backupName artifactType))
      (''uploading to '' @ ''s3://'' @ s3_Bucket d @ ''/'' @ buildObjectKey (s3_Path d) backupName artifactType)
      (''s3://'' @ s3_Bucket d @ ''/'' @ buildObjectKey (s3_Path d) backupName artifactType)
      (buildObjectKey (s3_Path d) backupName artifactType) artifactPath artifactType w1 = (Inr resp, w')"
    using assms by (auto simp: uploadBackup_def uploadBackupToS3_def bnd_Inr Let_def)
  from send_artifact_run [OF this] Some show ?thesis by (auto simp: stored_at_def)
next
  case None
  then obtain d where d: "bd_Azure dest = Some d" using assms by (auto simp: uploadBackup_def throw_def split: option.splits)
  then obtain client w1 failed where "send_artifact dl (AzureObject client (az_Container d) (buildObjectKey (az_Path d) backupName artifactType))
      failed (''azblob://'' @ az_Container d @ ''/'' @ buildObjectKey (az_Path d) backupName artifactType)
      (buildObjectKey (az_Path d) backupName artifactType) artifactPath artifactType w1 = (Inr resp, w')"
    using assms None by (auto simp: uploadBackup_def uploadBackupToAzure_def bnd_Inr Let_def)
  from send_artifact_run [OF this] None d show ?thesis by (auto simp: stored_at_def)
qed

lemma upload_prepared_done:
  assumes "upload_prepared fs dl cl backupName dest (artifactPath, artifactType, temporary) w = (Inr (BackupDocument resp), w')"
  shows "\<exists>w1 l. uploadBackup fs dl cl backupName dest artifactPath artifactType w = (Inr resp, w1) \<and> w' = with_ops l w1"
proof -
  obtain r w1 where tried: "attempt (uploadBackup fs dl cl backupName dest artifactPath artifactType) w = (Inr r, w1)"
    and rest: "(if temporary then try_op dl (RemoveFile artifactPath) else ret ()) w1 = (Inr (), w')"
    and doc: "(case r of Inl e \<Rightarrow> BackupPlain 500 (''uploading backup artifact: '' @ error_text e @ [CHR 0x0A]) | Inr result \<Rightarrow> BackupDocument result) =
      BackupDocument resp"
    using assms by (auto simp: upload_prepared_def bnd_Inr ret_def)
  have "r = Inr resp" using doc by (cases r) auto
  with tried have up: "uploadBackup fs dl cl backupName dest artifactPath artifactType w = (Inr resp, w1)"
    by (auto simp: attempt_def split: prod.splits sum.splits if_splits)
  have "on_disk (\<lambda>_. True) (if temporary then try_op dl (RemoveFile artifactPath) else ret () :: (backup_server, unit) io)"
    by (auto intro!: disk_intros)
  from adds_exact [OF this rest] up show ?thesis by blast
qed

lemma upload_prepared_run:
  assumes "upload_prepared fs dl cl backupName dest (artifactPath, artifactType, temporary) w = (Inr (BackupDocument resp), w')"
  shows "w_log w' = w_log w \<and> (\<exists>loc. (PutObject loc artifactPath, True) \<in> set (dk_ops (w_obj w')) \<and> stored_at dest backupName resp loc)"
proof -
  from upload_prepared_done [OF assms] obtain w1 l where
    up: "uploadBackup fs dl cl backupName dest artifactPath artifactType w = (Inr resp, w1)" and w': "w' = with_ops l w1" by blast
  from adds_run [OF on_disk_upload up] upload_run [OF up] w' show ?thesis by auto
qed

lemma redis_err_run:
  "redis_err env client args w = (Inr (), w') \<Longrightarrow> w' = w\<lparr>w_log := w_log w @ [(RedisDo client args, True)]\<rparr>"
  by (auto simp: redis_err_def redis_do_def bnd_def ret_def throw_def logged_def split: sum.splits if_splits)

text \<open>What an artifact that was prepared has behind it.\<close>

lemma prepare_run:
  assumes "prepareBackupArtifact env dl expired client backupMethod w = Some (Inr artifact, w')"
    and "save_command backupMethod = (cmd, inProgressKey, lastStatusKey)" "backupMethod \<noteq> []"
  shows "backupCredentialsMountDir (w_obj w') = backupCredentialsMountDir (w_obj w) \<and>
    (\<exists>l. w_log w' = w_log w @ (RedisDo client cmd, True) # l \<and>
      save_seen env client inProgressKey lastStatusKey (w_log w @ [(RedisDo client cmd, True)]) l)"
proof -
  obtain msg m w1 w2 where m: "on_disk (\<lambda>_. True) m" and cmd: "wrap_err msg (redis_err env client cmd) w = (Inr (), w1)"
    and wait: "waitForPersistenceCompletion env expired client inProgressKey lastStatusKey w1 = Some (Inr (), w2)"
    and art: "m w2 = (Inr artifact, w')"
  proof (cases "backupMethod = BackupMethodRDB")
    case True
    define m where "m = bnd (wrap_err (''checking RDB file '' @ path_join [backupDataDir (w_obj w), ''dump.rdb''])
        (do_op dl (StatFile (path_join [backupDataDir (w_obj w), ''dump.rdb'']))))
      (\<lambda>_. ret (path_join [backupDataDir (w_obj w), ''dump.rdb''], BackupArtifactTypeRDB, False) :: (backup_server, _) io)"
    have "on_disk (\<lambda>_. True) m" unfolding m_def by (intro disk_intros TrueI)
    then show thesis using assms True that [of m "''triggering BGSAVE''"]
      by (auto simp: prepareBackupArtifact_def save_command_def bnd_opt_def lift_io_def m_def Let_def split: option.splits prod.splits sum.splits)
  next
    case False
    define m where "m = bnd (archiveDirectoryAsTarGz dl (path_join [backupDataDir (w_obj w), ''appendonlydir'']) ''appendonly.aof.manifest'')
      (\<lambda>archivePath. ret (archivePath, BackupArtifactTypeAOFArchive, True) :: (backup_server, _) io)"
    have "on_disk (\<lambda>_. True) m" unfolding m_def by (intro disk_intros)
    then show thesis using assms False that [of m "''triggering BGREWRITEAOF''"]
      by (auto simp: prepareBackupArtifact_def save_command_def bnd_opt_def lift_io_def m_def Let_def split: option.splits prod.splits sum.splits if_splits)
  qed
  have w1: "w1 = w\<lparr>w_log := w_log w @ [(RedisDo client cmd, True)]\<rparr>"
    using cmd by (intro redis_err_run) (auto simp: wrap_err_def split: prod.splits sum.splits)
  have "backupCredentialsMountDir (w_obj w') = backupCredentialsMountDir (w_obj w2)"
    using adds_exact [OF m art] by (auto simp: with_ops_def backupCredentialsMountDir_def)
  with wait_done [OF wait] adds_run [OF m art] show ?thesis by (auto simp: w1)
qed

text \<open>
  C20. A backup request is always answered: once the deadline of the request has passed, which is the case
  after some number of calls, the wait for the save ends, whatever Redis, the disk and the object store
  answer before.
\<close>

theorem backup_request_returns:
  assumes "\<forall>l. n \<le> length l \<longrightarrow> expired l"
  shows "\<exists>r w'. handleBackup env fs dl cl expired meth body w = Some (r, w')"
proof -
  have "\<exists>r w'. bnd_opt m f w = Some (r, w')" if "\<exists>r w'. m w = Some (r, w')" "\<And>a w. \<exists>r w'. f a w = Some (r, w')"
    for m :: "backup_server world \<Rightarrow> ((goerr + 'x) \<times> backup_server world) option"
      and f :: "'x \<Rightarrow> backup_server world \<Rightarrow> ((goerr + 'y) \<times> backup_server world) option" and w
    using that by (auto simp: bnd_opt_def split: option.split sum.split)
  note bnd = this
  have lift: "\<exists>r w'. lift_io m w = Some (r, w')" for m :: "(backup_server, 'x) io" and w
    by (cases "m w") (simp add: lift_io_def)
  have "\<exists>r w'. prepareBackupArtifact env dl expired client backupMethod w = Some (r, w')" for client backupMethod
    unfolding prepareBackupArtifact_def Let_def by (auto intro!: bnd lift wait_returns [OF assms])
  then have "prepareBackupArtifact env dl expired client backupMethod w \<noteq> None" for client backupMethod by (metis option.distinct(1))
  then show ?thesis unfolding handleBackup_def Let_def by (auto simp del: not_None_eq split: option.split sum.split)
qed

lemma request_run:
  assumes "handleBackup env fs dl cl expired meth (Inr req) w = Some (Inr (BackupDocument resp), w')"
    and "save_command (brq_Method req) = (cmd, inProgressKey, lastStatusKey)"
  shows "\<exists>client dest l w1 path ty tmp. bsv_redisClient (w_obj w) = Some client \<and> brq_Destination req = Some dest \<and>
    w_log w1 = w_log w @ (RedisDo client cmd, True) # l \<and>
    save_seen env client inProgressKey lastStatusKey (w_log w @ [(RedisDo client cmd, True)]) l \<and>
    backupCredentialsMountDir (w_obj w1) = backupCredentialsMountDir (w_obj w) \<and>
    upload_prepared fs dl cl (brq_BackupName req) dest (path, ty, tmp) w1 = (Inr (BackupDocument resp), w')"
proof -
  let ?backupMethod = "if brq_Method req = [] then BackupMethodRDB else brq_Method req"
  obtain client dest w1 artifact where client: "bsv_redisClient (w_obj w) = Some client" and dest: "brq_Destination req = Some dest"
    and prep: "prepareBackupArtifact env dl expired client ?backupMethod w = Some (Inr artifact, w1)"
    and up: "upload_prepared fs dl cl (brq_BackupName req) dest artifact w1 = (Inr (BackupDocument resp), w')"
    using assms(1) by (auto simp: handleBackup_def Let_def split: if_splits option.splits prod.splits sum.splits)
  have ne: "?backupMethod \<noteq> []" by simp
  have "save_command ?backupMethod = (cmd, inProgressKey, lastStatusKey)" using assms(2) by (auto simp: save_command_def)
  from prepare_run [OF prep this ne] obtain l where "backupCredentialsMountDir (w_obj w1) = backupCredentialsMountDir (w_obj w)"
    "w_log w1 = w_log w @ (RedisDo client cmd, True) # l"
    "save_seen env client inProgressKey lastStatusKey (w_log w @ [(RedisDo client cmd, True)]) l" by blast
  moreover obtain path ty tmp where "artifact = (path, ty, tmp)" by (cases artifact)
  ultimately show ?thesis using client dest up by blast
qed


section \<open>An example\<close>

definition sample_disk :: disk_lib where
  "sample_disk = \<lparr>dl_try = \<lambda>_ _. None, dl_size = \<lambda>_ _. 7, dl_content = \<lambda>_ path. path, dl_temp = \<lambda>_ _. ''/tmp/a'', dl_walk = \<lambda>_ _. []\<rparr>"

definition sample_cloud :: cloud_lib where
  "sample_cloud = \<lparr>cl_aws = \<lambda>_. None, cl_sharedKey = \<lambda>_ _. None, cl_azure = \<lambda>_. None\<rparr>"

definition sample_credentials :: files where
  "sample_credentials = \<lparr>fl_read = \<lambda>_ _. FileContent ''key'', fl_write = \<lambda>_ _ _. None, fl_mkdir = \<lambda>_ _. None, fl_getenv = \<lambda>_. []\<rparr>"

definition sample_destination :: BackupDestination where
  "sample_destination = \<lparr>bd_S3 = Some \<lparr>s3_Bucket = ''b'', s3_Path = ''p'', s3_Endpoint = [], s3_Region = []\<rparr>, bd_Azure = None\<rparr>"

definition sample_request :: backupRequest where
  "sample_request = \<lparr>brq_BackupName = ''x'', brq_Method = [], brq_Destination = Some sample_destination\<rparr>"

definition sample_backup_server :: backup_server where
  "sample_backup_server = \<lparr>dk_ops = [], bsv_redisClient = Some ''127.0.0.1:6379'', bsv_dataDir = [], bsv_credentialsDir = []\<rparr>"

definition saving_env :: env where
  "saving_env = (sample_env [])\<lparr>e_redis := \<lambda>_ _ args. Inr (RStr (if args = [''bgsave''] then ''OK'' else ''rdb_bgsave_in_progress:0''))\<rparr>"

lemma sample_backup_with:
  assumes "\<And>w :: backup_server world. readAWSCredentialsFromDir fs ''/backup-credentials'' w = (Inr keys, w)"
  shows "\<exists>resp w'. handleBackup saving_env fs sample_disk sample_cloud (\<lambda>l. 4 \<le> length l) ''POST'' (Inr sample_request)
     (sample_world sample_backup_server) = Some (Inr (BackupDocument resp), w') \<and>
     bp_ObjectKey resp = ''p/x.rdb'' \<and> bp_BackupPath resp = ''s3://b/p/x.rdb''"
proof -
  have parse: "parseInfoKeyValues ''rdb_bgsave_in_progress:0'' = [(''rdb_bgsave_in_progress'', ''0'')]"
    by (simp add: parseInfoKeyValues_def hasPrefix_def cut_def mput_def)
  have key: "buildObjectKey ''p'' ''x'' BackupArtifactTypeRDB = ''p/x.rdb''" by (simp add: buildObjectKey_def trimSlashes_def)
  let ?w = "sample_world sample_backup_server"
  have wait: "waitForPersistenceCompletion saving_env expired client ''rdb_bgsave_in_progress'' ''rdb_last_bgsave_status'' w =
      Some (Inr (), logged (RedisDo client [''info'', ''persistence'']) True w)" for expired client and w :: "backup_server world"
    by (subst waitForPersistenceCompletion.simps) (simp add: redis_text_def redis_do_def bnd_def ret_def saving_env_def parse mget_def)
  have saving_env_do: "e_redis saving_env l client [''bgsave''] = Inr (RStr ''OK'')" for l client by (simp add: saving_env_def)
  obtain path w1 where prep: "prepareBackupArtifact saving_env sample_disk (\<lambda>l. 4 \<le> length l) ''127.0.0.1:6379'' BackupMethodRDB ?w =
      Some (Inr (path, BackupArtifactTypeRDB, False), w1)" and dir: "bsv_credentialsDir (w_obj w1) = []"
    by (simp add: prepareBackupArtifact_def bnd_opt_def lift_io_def wrap_err_def redis_err_def redis_do_def bnd_def ret_def wait Let_def
        saving_env_do do_op_def sample_disk_def sample_world_def sample_backup_server_def logged_def)
  have "\<exists>resp w'. upload_prepared fs sample_disk sample_cloud ''x'' sample_destination (path, BackupArtifactTypeRDB, False) w1 =
      (Inr (BackupDocument resp), w') \<and> bp_ObjectKey resp = ''p/x.rdb'' \<and> bp_BackupPath resp = ''s3://b/p/x.rdb''"
    by (simp add: upload_prepared_def uploadBackup_def uploadBackupToS3_def newS3Client_def send_artifact_def sample_cloud_def sample_disk_def
        sample_destination_def attempt_def bnd_def obj_def ret_def wrap_err_def do_op_def backupCredentialsMountDir_def dir assms Let_def key)
  then show ?thesis using prep
    by (simp add: handleBackup_def sample_request_def sample_world_def sample_backup_server_def Validate_def sample_destination_def)
qed

lemma sample_backup_run:
  "\<exists>resp w'. handleBackup saving_env sample_credentials sample_disk sample_cloud (\<lambda>l. 4 \<le> length l) ''POST'' (Inr sample_request)
     (sample_world sample_backup_server) = Some (Inr (BackupDocument resp), w') \<and>
     bp_ObjectKey resp = ''p/x.rdb'' \<and> bp_BackupPath resp = ''s3://b/p/x.rdb''"
proof (rule sample_backup_with)
  have trim: "trimSpace ''key'' = ''key''" by (simp add: trimSpace_def is_space_def)
  show "readAWSCredentialsFromDir sample_credentials ''/backup-credentials'' w = (Inr (''key'', ''key'', ''key''), w)" for w :: "backup_server world"
    by (simp add: readAWSCredentialsFromDir_def awsAccessKeys_def awsSecretKeys_def awsSessionKeys_def read_file_def sample_credentials_def
        bnd_def ret_def trim Let_def)
qed

theorem backup_request_returns_witness:
  "\<exists>r w'. handleBackup saving_env sample_credentials sample_disk sample_cloud (\<lambda>l. 4 \<le> length l) ''POST'' (Inr sample_request)
     (sample_world sample_backup_server) = Some (r, w')"
  by (rule backup_request_returns [where n = 4]) simp


end
