(* ===== verification/Restore.thy ===== *)
theory Restore
  imports Backup_Upload Sentinel
begin

text \<open>
  The restore program of the init container, \<^verbatim>\<open>internal/cmd/manager/restore/restore.go\<close>: which artifact a
  pod restores, where the object store keeps it, the download and the extraction of an archive of the
  append-only files. The disk and the SDKs are the parameters of the upload; the entries a tar reader
  yields and how many bytes of each it can deliver are a parameter as well. Of \<^verbatim>\<open>net/url\<close> the host and
  the path of a URL with a scheme and an authority are modelled; the text of its errors is not.
\<close>

section \<open>URLs\<close>

fun url_unescape :: "(nat \<Rightarrow> nat \<Rightarrow> bool) \<Rightarrow> (char \<Rightarrow> bool) \<Rightarrow> string \<Rightarrow> string option" where
  "url_unescape okHex okChar [] = Some []"
| "url_unescape okHex okChar (c # s) =
     (if c = CHR ''%'' then
        (case s of
           a # b # rest \<Rightarrow>
             (case (hex_val a, hex_val b) of
                (Some x, Some y) \<Rightarrow>
                  if okHex x y then map_option (Cons (char_of (16 * x + y))) (url_unescape okHex okChar rest) else None
              | _ \<Rightarrow> None)
         | _ \<Rightarrow> None)
      else if okChar c then map_option (Cons c) (url_unescape okHex okChar s) else None)"

definition url_alnum :: "char \<Rightarrow> bool" where
  "url_alnum c \<longleftrightarrow> (let n = of_char c :: nat in 48 \<le> n \<and> n \<le> 57 \<or> 65 \<le> n \<and> n \<le> 90 \<or> 97 \<le> n \<and> n \<le> 122)"

definition hostChars :: string where
  "hostChars = ''!$&'' @ [CHR 0x27] @ ''()*+,;=:[]<>'' @ [CHR 0x22] @ ''-_.~''"

definition host_char :: "char \<Rightarrow> bool" where
  "host_char c \<longleftrightarrow> url_alnum c \<or> c \<in> set hostChars"

definition unescape_path :: "string \<Rightarrow> string option" where
  "unescape_path = url_unescape (\<lambda>_ _. True) (\<lambda>_. True)"

definition unescape_host :: "string \<Rightarrow> string option" where
  "unescape_host = url_unescape (\<lambda>x y. 8 \<le> x \<or> x = 2 \<and> y = 5) (\<lambda>c. 128 \<le> (of_char c :: nat) \<or> host_char c)"

definition unescape_zone :: "string \<Rightarrow> string option" where
  "unescape_zone = url_unescape (\<lambda>x y. x = 2 \<and> y = 5 \<or> x = 2 \<and> y = 0 \<or> host_char (char_of (16 * x + y)))
     (\<lambda>c. 128 \<le> (of_char c :: nat) \<or> host_char c)"

definition is_digit_char :: "char \<Rightarrow> bool" where
  "is_digit_char c \<longleftrightarrow> (let n = of_char c :: nat in 48 \<le> n \<and> n \<le> 57)"

definition validOptionalPort :: "string \<Rightarrow> bool" where
  "validOptionalPort port \<longleftrightarrow> port = [] \<or> hd port = CHR '':'' \<and> list_all is_digit_char (tl port)"

text \<open>What follows the last occurrence of a byte, the byte included; everything when it does not occur.\<close>

definition from_last :: "char \<Rightarrow> string \<Rightarrow> string" where
  "from_last c s = (if c \<in> set s then c # rev (takeWhile (\<lambda>x. x \<noteq> c) (rev s)) else s)"

fun zone_index :: "string \<Rightarrow> nat option" where
  "zone_index [] = None"
| "zone_index (c # s) = (if take 3 (c # s) = ''%25'' then Some 0 else map_option Suc (zone_index s))"

definition parseHost :: "string \<Rightarrow> string option" where
  "parseHost host =
     (if take 1 host = ''['' then
        if CHR '']'' \<notin> set host then None
        else
          let colonPort = tl (from_last (CHR '']'') host); i = length host - length (from_last (CHR '']'') host) in
          if \<not> validOptionalPort colonPort then None
          else
            (case zone_index (take i host) of
               None \<Rightarrow> unescape_host host
             | Some z \<Rightarrow>
                 (case (unescape_host (take z host), unescape_zone (drop z (take i host)), unescape_host (drop i host)) of
                    (Some a, Some b, Some c) \<Rightarrow> Some (a @ b @ c)
                  | _ \<Rightarrow> None))
      else if CHR '':'' \<in> set host \<and> \<not> validOptionalPort (from_last (CHR '':'') host) then None
      else unescape_host host)"

definition userinfo_char :: "char \<Rightarrow> bool" where
  "userinfo_char c \<longleftrightarrow> url_alnum c \<or> c \<in> set (''-._:~!$&'' @ [CHR 0x27] @ ''()*+,;=%@'')"

definition valid_user :: "string \<Rightarrow> bool" where
  "valid_user u \<longleftrightarrow> list_all userinfo_char u \<and>
     (case cut (CHR '':'') u of
        None \<Rightarrow> unescape_path u \<noteq> None
      | Some (name, password) \<Rightarrow> unescape_path name \<noteq> None \<and> unescape_path password \<noteq> None)"

definition parseAuthority :: "string \<Rightarrow> string option" where
  "parseAuthority a =
     (if CHR ''@'' \<in> set a then
        let host = tl (from_last (CHR ''@'') a) in
        if valid_user (take (length a - length host - 1) a) then parseHost host else None
      else parseHost a)"

definition is_ctl :: "char \<Rightarrow> bool" where
  "is_ctl c \<longleftrightarrow> (let n = of_char c :: nat in n < 32 \<or> n = 127)"

text \<open>The host and the path of a URL that begins with the given scheme.\<close>

definition url_Parse :: "string \<Rightarrow> string \<Rightarrow> (string \<times> string) option" where
  "url_Parse scheme raw =
     (let u = takeWhile (\<lambda>c. c \<noteq> CHR ''#'') raw;
          frag = drop (length u + 1) raw;
          rest = drop (length scheme + 3) (takeWhile (\<lambda>c. c \<noteq> CHR ''?'') u);
          authority = takeWhile (\<lambda>c. c \<noteq> CHR ''/'') rest
      in if list_ex is_ctl u \<or> unescape_path frag = None then None
         else
           (case (parseAuthority authority, unescape_path (drop (length authority) rest)) of
              (Some host, Some path) \<Rightarrow> Some (host, path)
            | _ \<Rightarrow> None))"

text \<open>
  \<^verbatim>\<open>resolveBackupLocation\<close> and \<^verbatim>\<open>resolveAzureBlobLocation\<close> differ in the scheme and in the words of their
  errors only.
\<close>

definition resolve_location :: "string \<Rightarrow> string \<Rightarrow> string \<Rightarrow> string \<Rightarrow> string \<Rightarrow> goerr + string \<times> string" where
  "resolve_location scheme container object_noun configured backupPath =
     (let trimmedPath = trimSpace backupPath in
      if trimmedPath = [] then Inl (Err ''backup path is empty'')
      else if hasPrefix (scheme @ ''://'') trimmedPath then
        (case url_Parse scheme trimmedPath of
           None \<Rightarrow> Inl (Wrap (''parsing '' @ scheme @ '' backup path '' @ quoted trimmedPath) (Err ''invalid URL''))
         | Some (host, path) \<Rightarrow>
             if host = [] then Inl (Err (scheme @ '' backup path '' @ quoted trimmedPath @ '' is missing '' @ container))
             else if configured \<noteq> [] \<and> configured \<noteq> host then
               Inl (Err (''backup path '' @ container @ '' '' @ quoted host @ '' does not match configured '' @ container @ '' '' @ quoted configured))
             else
               let key = trimPrefix ''/'' path in
               if key = [] then Inl (Err (scheme @ '' backup path '' @ quoted trimmedPath @ '' is missing '' @ object_noun))
               else Inr (if configured = [] then host else configured, key))
      else if configured = [] then
        Inl (Err (''backup path '' @ quoted trimmedPath @ '' is not an '' @ scheme @ '':// URL and no destination '' @ container @ '' is configured''))
      else
        let key = trimPrefix ''/'' trimmedPath in
        if key = [] then Inl (Err (''backup path '' @ quoted trimmedPath @ '' is missing '' @ object_noun))
        else Inr (configured, key))"

definition resolveBackupLocation :: "string \<Rightarrow> string \<Rightarrow> goerr + string \<times> string" where
  "resolveBackupLocation = resolve_location ''s3'' ''bucket'' ''object key''"

definition resolveAzureBlobLocation :: "string \<Rightarrow> string \<Rightarrow> goerr + string \<times> string" where
  "resolveAzureBlobLocation = resolve_location ''azblob'' ''container'' ''blob name''"

section \<open>Credentials and clients\<close>

primrec secretValue :: "Secret \<Rightarrow> string list \<Rightarrow> string" where
  "secretValue secret [] = []"
| "secretValue secret (key # keys) =
     (case map_of (sec_Data secret) key of
        None \<Rightarrow> secretValue secret keys
      | Some value \<Rightarrow> if trimSpace value \<noteq> [] then trimSpace value else secretValue secret keys)"

definition readAWSCredentials :: "Secret \<Rightarrow> goerr + string \<times> string \<times> string" where
  "readAWSCredentials secret =
     (let accessKeyID = secretValue secret awsAccessKeys;
          secretAccessKey = secretValue secret awsSecretKeys;
          sessionToken = secretValue secret awsSessionKeys
      in if accessKeyID = [] \<or> secretAccessKey = [] then
           Inl (Err ''secret must include access key and secret key (supported keys: AWS_ACCESS_KEY_ID/AWS_SECRET_ACCESS_KEY)'')
         else Inr (accessKeyID, secretAccessKey, sessionToken))"

definition readAzureCredentials :: "Secret \<Rightarrow> azure_credentials" where
  "readAzureCredentials secret =
     \<lparr>ac_connectionString = secretValue secret azureConnectionKeys, ac_accountName = secretValue secret azureAccountKeys,
      ac_accountKey = secretValue secret azureSharedKeys, ac_sasToken = secretValue secret azureSasKeys\<rparr>"

definition restore_newS3Client :: "cloud_lib \<Rightarrow> S3Destination \<Rightarrow> string \<times> string \<times> string \<Rightarrow> goerr + s3_client" where
  "restore_newS3Client cl destination keys =
     (let region = (if s3_Region destination = [] then defaultAWSRegion else s3_Region destination) in
      case cl_aws cl region of
        Some e \<Rightarrow> Inl (Err e)
      | None \<Rightarrow> Inr \<lparr>sc_region = region,
          sc_endpoint = (if s3_Endpoint destination \<noteq> [] then Some (s3_Endpoint destination) else None),
          sc_pathStyle = (s3_Endpoint destination \<noteq> []), sc_credentials = keys\<rparr>)"

section \<open>Downloads\<close>

text \<open>The three steps after the transfer into the temporary file: closing it, and moving it into place.\<close>

definition settle_download :: "disk_lib \<Rightarrow> string \<Rightarrow> string \<Rightarrow> ('a disk_scheme, unit) io" where
  "settle_download dl tempPath outputPath =
     bnd (attempt (do_op dl (CloseFile tempPath))) (\<lambda>r.
     case r of
       Inl e \<Rightarrow> bnd (try_op dl (RemoveFile tempPath)) (\<lambda>_. throw (Wrap (''closing output file '' @ tempPath) e))
     | Inr _ \<Rightarrow>
         bnd (attempt (do_op dl (MoveTo tempPath outputPath))) (\<lambda>r.
         case r of
           Inl e \<Rightarrow> bnd (try_op dl (RemoveFile tempPath)) (\<lambda>_. throw (Wrap (''renaming '' @ tempPath @ '' to '' @ outputPath) e))
         | Inr _ \<Rightarrow> ret ()))"

definition abandon_download :: "disk_lib \<Rightarrow> string \<Rightarrow> goerr \<Rightarrow> ('a disk_scheme, unit) io" where
  "abandon_download dl tempPath e =
     bnd (try_op dl (CloseFile tempPath)) (\<lambda>_. bnd (try_op dl (RemoveFile tempPath)) (\<lambda>_. throw e))"

definition downloadObjectToFile :: "disk_lib \<Rightarrow> object_location \<Rightarrow> string \<Rightarrow> ('a disk_scheme, unit) io" where
  "downloadObjectToFile dl loc outputPath =
     (let tempPath = outputPath @ ''.tmp'' in
      bnd (wrap_err ''creating output directory'' (do_op dl (MakeDir (path_Dir outputPath)))) (\<lambda>_.
      bnd (do_op dl (GetObject loc)) (\<lambda>_.
      bnd (wrap_err (''opening output file '' @ tempPath) (do_op dl (CreateFile tempPath))) (\<lambda>_.
      bnd (attempt (do_op dl (FillFile tempPath))) (\<lambda>r.
      case r of
        Inl e \<Rightarrow> abandon_download dl tempPath (Wrap ''writing backup file'' e)
      | Inr _ \<Rightarrow> settle_download dl tempPath outputPath)))))"

definition downloadAzureBlobToFile :: "disk_lib \<Rightarrow> object_location \<Rightarrow> string \<Rightarrow> string \<Rightarrow> string \<Rightarrow> ('a disk_scheme, unit) io" where
  "downloadAzureBlobToFile dl loc container blob outputPath =
     (let tempPath = outputPath @ ''.tmp'' in
      bnd (wrap_err ''creating output directory'' (do_op dl (MakeDir (path_Dir outputPath)))) (\<lambda>_.
      bnd (wrap_err (''opening output file '' @ tempPath) (do_op dl (CreateFile tempPath))) (\<lambda>_.
      bnd (attempt (do_op dl (GetObject loc))) (\<lambda>r.
      case r of
        Inl e \<Rightarrow> abandon_download dl tempPath (Wrap (''downloading azure container '' @ quoted container @ '' blob '' @ quoted blob) e)
      | Inr _ \<Rightarrow> settle_download dl tempPath outputPath))))"

definition lift_sum :: "goerr + 'a \<Rightarrow> ('s, 'a) io" where
  "lift_sum r = (case r of Inl e \<Rightarrow> throw e | Inr a \<Rightarrow> ret a)"

definition download :: "disk_lib \<Rightarrow> object_location \<Rightarrow> string \<Rightarrow> ('a disk_scheme, unit) io" where
  "download dl loc outputPath =
     (case loc of
        S3Object _ _ _ \<Rightarrow> downloadObjectToFile dl loc outputPath
      | AzureObject _ container blob \<Rightarrow> downloadAzureBlobToFile dl loc container blob outputPath)"

text \<open>The downloader, by the location it downloads from; the destination is the valid one of the backup.\<close>

definition newBackupDownloader ::
  "cloud_lib \<Rightarrow> BackupDestination option \<Rightarrow> string \<Rightarrow> Secret \<Rightarrow> ('s, object_location) io" where
  "newBackupDownloader cl destination backupPath secret =
     (case destination of
        None \<Rightarrow> throw (Panic ''nil pointer dereference'')
      | Some destination \<Rightarrow>
     case bd_S3 destination of
       Some d \<Rightarrow>
         bnd (wrap_err ''resolving backup location'' (lift_sum (resolveBackupLocation (s3_Bucket d) backupPath))) (\<lambda>(bucket, key).
         bnd (wrap_err (''reading AWS credentials from secret '' @ om_Name (sec_Meta secret)) (lift_sum (readAWSCredentials secret))) (\<lambda>keys.
         bnd (wrap_err ''creating S3 client'' (lift_sum (restore_newS3Client cl d keys))) (\<lambda>client.
         ret (S3Object client bucket key))))
     | None \<Rightarrow>
         (case bd_Azure destination of
            Some d \<Rightarrow>
              bnd (wrap_err ''resolving backup location'' (lift_sum (resolveAzureBlobLocation (az_Container d) backupPath))) (\<lambda>(container, blob).
              bnd (wrap_err ''creating Azure client'' (newAzureBlobClient cl d (readAzureCredentials secret))) (\<lambda>client.
              ret (AzureObject client container blob)))
          | None \<Rightarrow> throw (Err ''backup has no supported destination'')))"

section \<open>Archives\<close>

text \<open>What the tar reader yields next: an entry with the bytes it can deliver, or an error.\<close>

datatype tar_item = TarEntry tar_header int | TarError string

definition maxExtractedBytes :: int where "maxExtractedBytes = 32 * 2 ^ 30"

definition sanitizeArchivePath :: "string \<Rightarrow> string \<Rightarrow> goerr + string" where
  "sanitizeArchivePath baseDir archiveEntry =
     (let cleanEntry = Clean (trimSpace archiveEntry) in
      if cleanEntry = ''.'' \<or> cleanEntry = [] then Inl (Err ''archive contains empty path entry'')
      else if hasPrefix ''/'' cleanEntry \<or> cleanEntry = ''..'' \<or> hasPrefix ''../'' cleanEntry then
        Inl (Err (''archive entry '' @ quoted archiveEntry @ '' escapes extraction root''))
      else
        let targetPath = path_join [baseDir, cleanEntry];
            cleanBase = Clean baseDir;
            cleanTarget = Clean targetPath
        in if cleanTarget \<noteq> cleanBase \<and> \<not> hasPrefix (cleanBase @ ''/'') cleanTarget then
             Inl (Err (''archive entry '' @ quoted archiveEntry @ '' escapes extraction root''))
           else Inr cleanTarget)"

text \<open>\<^verbatim>\<open>io.Copy\<close> from a reader limited to the size the header announces.\<close>

definition copied :: "tar_header \<Rightarrow> int \<Rightarrow> int" where
  "copied header available = max 0 (min (th_Size header) available)"

text \<open>One entry of the archive; the result is the number of bytes extracted so far.\<close>

definition extract_file :: "disk_lib \<Rightarrow> int \<Rightarrow> string \<Rightarrow> tar_header \<Rightarrow> int \<Rightarrow> int \<Rightarrow> ('a disk_scheme, int) io" where
  "extract_file dl extractLimit entryPath header available extractedBytes =
     (let parentDir = path_Dir entryPath; written = copied header available in
      bnd (wrap_err (''creating parent directory for '' @ entryPath) (do_op dl (MakeDir parentDir))) (\<lambda>_.
      bnd (wrap_err (''setting permissions on parent directory '' @ parentDir) (do_op dl (SetMode parentDir))) (\<lambda>_.
      bnd (wrap_err (''creating extracted file '' @ entryPath) (do_op dl (CreateFile entryPath))) (\<lambda>_.
      bnd (attempt (do_op dl (FillFile entryPath))) (\<lambda>copyErr.
      bnd (attempt (do_op dl (CloseFile entryPath))) (\<lambda>closeErr.
      case (copyErr, closeErr) of
        (Inl e, _) \<Rightarrow> throw (Wrap (''extracting file '' @ entryPath) e)
      | (Inr _, Inl e) \<Rightarrow> throw (Wrap (''closing extracted file '' @ entryPath) e)
      | (Inr _, Inr _) \<Rightarrow>
          if written \<noteq> th_Size header then
            throw (Err (''extracted file '' @ entryPath @ '' truncated (wrote '' @ itoa written @ '' bytes, expected '' @ itoa (th_Size header) @ '')''))
          else
            bnd (wrap_err (''setting permissions on extracted file '' @ entryPath) (do_op dl (SetMode entryPath))) (\<lambda>_.
            let extractedBytes' = int64 (extractedBytes + written) in
            if extractedBytes' > extractLimit then
              throw (Err (''archive expands to '' @ itoa extractedBytes' @ '' bytes, exceeding limit '' @ itoa extractLimit))
            else ret extractedBytes')))))))"

definition tar_code :: "tar_type \<Rightarrow> int" where
  "tar_code t = (case t of TypeReg \<Rightarrow> 48 | TypeDir \<Rightarrow> 53 | TypeXHeader \<Rightarrow> 120 | TypeXGlobalHeader \<Rightarrow> 103 | TypeOther n \<Rightarrow> n)"

definition extract_entry :: "disk_lib \<Rightarrow> string \<Rightarrow> int \<Rightarrow> tar_header \<Rightarrow> int \<Rightarrow> int \<Rightarrow> ('a disk_scheme, int) io" where
  "extract_entry dl stagingDir extractLimit header available extractedBytes =
     bnd (lift_sum (sanitizeArchivePath stagingDir (th_Name header))) (\<lambda>entryPath.
     case th_Typeflag header of
       TypeDir \<Rightarrow>
         bnd (wrap_err (''creating directory '' @ entryPath) (do_op dl (MakeDir entryPath))) (\<lambda>_.
         bnd (wrap_err (''setting permissions on directory '' @ entryPath) (do_op dl (SetMode entryPath))) (\<lambda>_. ret extractedBytes))
     | TypeReg \<Rightarrow> extract_file dl extractLimit entryPath header available extractedBytes
     | TypeXHeader \<Rightarrow> ret extractedBytes
     | TypeXGlobalHeader \<Rightarrow> ret extractedBytes
     | TypeOther n \<Rightarrow> throw (Err (''unsupported tar entry type '' @ itoa n @ '' for '' @ quoted (th_Name header))))"

primrec extract_entries :: "disk_lib \<Rightarrow> string \<Rightarrow> int \<Rightarrow> tar_item list \<Rightarrow> int \<Rightarrow> ('a disk_scheme, int) io" where
  "extract_entries dl stagingDir extractLimit [] extractedBytes = ret extractedBytes"
| "extract_entries dl stagingDir extractLimit (item # items) extractedBytes =
     (case item of
        TarError e \<Rightarrow> throw (Wrap ''reading tar entry'' (Err e))
      | TarEntry header available \<Rightarrow>
          bnd (extract_entry dl stagingDir extractLimit header available extractedBytes) (\<lambda>n.
          extract_entries dl stagingDir extractLimit items n))"

text \<open>The manifest is there: the old directory goes and the staging directory takes its place.\<close>

definition promote_staging :: "disk_lib \<Rightarrow> string \<Rightarrow> string \<Rightarrow> ('a disk_scheme, unit) io" where
  "promote_staging dl stagingDir targetDir =
     (let manifestPath = path_join [stagingDir, ''appendonly.aof.manifest''] in
      bnd (wrap_err (''expected AOF manifest '' @ manifestPath @ '' is missing'') (do_op dl (StatFile manifestPath))) (\<lambda>_.
      bnd (wrap_err (''removing old AOF directory '' @ targetDir) (do_op dl (RemoveTree targetDir))) (\<lambda>_.
      wrap_err (''promoting staging directory '' @ stagingDir @ '' to '' @ targetDir) (do_op dl (MoveTo stagingDir targetDir)))))"

definition extract_limit :: "int \<Rightarrow> int" where
  "extract_limit archiveSize =
     (let extractLimit = int64 (int64 (archiveSize * 100) + 64 * 2 ^ 20) in
      if extractLimit > maxExtractedBytes then maxExtractedBytes else extractLimit)"

definition extractTarGz :: "disk_lib \<Rightarrow> (ops \<Rightarrow> string \<Rightarrow> tar_item list) \<Rightarrow> string \<Rightarrow> string \<Rightarrow> ('a disk_scheme, unit) io" where
  "extractTarGz dl tar archivePath dataDir =
     bnd (wrap_err (''stat archive '' @ archivePath) (do_op dl (StatFile archivePath))) (\<lambda>_.
     bnd obj (\<lambda>s. let archiveSize = dl_size dl (dk_ops s) archivePath in
     bnd (wrap_err (''opening archive '' @ archivePath) (do_op dl (OpenFile archivePath))) (\<lambda>_.
     bnd (wrap_err (''creating gzip reader for '' @ archivePath) (do_op dl (OpenGzip archivePath))) (\<lambda>_.
     let targetDir = path_join [dataDir, ''appendonlydir'']; stagingDir = targetDir @ ''.restore-tmp'' in
     bnd (wrap_err (''cleaning staging directory '' @ stagingDir) (do_op dl (RemoveTree stagingDir))) (\<lambda>_.
     bnd (wrap_err (''creating staging directory '' @ stagingDir) (do_op dl (MakeDir stagingDir))) (\<lambda>_.
     bnd (wrap_err (''setting permissions on staging directory '' @ stagingDir) (do_op dl (SetMode stagingDir))) (\<lambda>_.
     bnd obj (\<lambda>s.
     bnd (attempt (bnd (extract_entries dl stagingDir (extract_limit archiveSize) (tar (dk_ops s) archivePath) 0) (\<lambda>_.
       promote_staging dl stagingDir targetDir))) (\<lambda>r.
     case r of
       Inl e \<Rightarrow> bnd (try_op dl (RemoveTree stagingDir)) (\<lambda>_. throw e)
     | Inr _ \<Rightarrow> ret ())))))))))"

definition downloadAndExtractAOFArchive ::
  "disk_lib \<Rightarrow> (ops \<Rightarrow> string \<Rightarrow> tar_item list) \<Rightarrow> object_location \<Rightarrow> string \<Rightarrow> ('a disk_scheme, unit) io" where
  "downloadAndExtractAOFArchive dl tar loc dataDir = bnd obj (\<lambda>s.
     let archivePath = dl_temp dl (dk_ops s) dataDir in
     bnd (wrap_err ''creating temporary AOF archive file'' (do_op dl (TempFile archivePath))) (\<lambda>_.
     bnd (attempt (do_op dl (CloseFile archivePath))) (\<lambda>r.
     case r of
       Inl e \<Rightarrow> bnd (try_op dl (RemoveFile archivePath)) (\<lambda>_. throw (Wrap (''closing temporary archive file '' @ archivePath) e))
     | Inr _ \<Rightarrow>
         bnd (attempt (bnd (wrap_err (''downloading archive to '' @ archivePath) (download dl loc archivePath)) (\<lambda>_.
           wrap_err (''extracting AOF archive '' @ archivePath) (extractTarGz dl tar archivePath dataDir)))) (\<lambda>r.
         bnd (try_op dl (RemoveFile archivePath)) (\<lambda>_. lift_sum r)))))"

section \<open>The program\<close>

definition clusterShardFromPod :: "string \<Rightarrow> int \<Rightarrow> string \<Rightarrow> goerr + string \<times> bool" where
  "clusterShardFromPod clusterName replicasPerShard podName =
     (let prefix = clusterName @ ''-'' in
      if clusterName = [] \<or> podName = [] then Inl (Err ''cluster and pod name are required'')
      else if \<not> hasPrefix prefix podName then Inl (Err (''pod '' @ podName @ '' does not match cluster prefix '' @ prefix))
      else
        let ordinal = trimPrefix prefix podName in
        case atoi_opt ordinal of
          None \<Rightarrow> Inl (Wrap (''parsing pod ordinal from '' @ podName) (atoi_error ordinal))
        | Some index \<Rightarrow>
            let groupSize = (if int32 (1 + replicasPerShard) \<le> 0 then 1 else int32 (1 + replicasPerShard)) in
            Inr (''s'' @ itoa (index sdiv groupSize), index smod groupSize = 0))"

definition resolveArtifactType :: "RedisBackup \<Rightarrow> goerr + string" where
  "resolveArtifactType backup =
     (let artifactType = bst_ArtifactType (b_Status backup) in
      if artifactType \<noteq> [] then
        if artifactType = BackupArtifactTypeRDB \<or> artifactType = BackupArtifactTypeAOFArchive then Inr artifactType
        else Inl (Err (''unknown status.artifactType '' @ quoted artifactType))
      else
        let method = (if bs_Method (b_Spec backup) = [] then BackupMethodRDB else bs_Method (b_Spec backup)) in
        if method = BackupMethodRDB then Inr BackupArtifactTypeRDB
        else if method = BackupMethodAOF then Inr BackupArtifactTypeAOFArchive
        else Inl (Err (''unsupported backup method '' @ quoted method)))"

text \<open>
  The artifact a pod restores: a path and a type, or nothing for the pods that resynchronise from the
  primary of their shard.
\<close>

definition select_artifact :: "string \<Rightarrow> RedisBackup \<Rightarrow> RedisCluster \<Rightarrow> string \<Rightarrow> string \<Rightarrow> goerr + (string \<times> string) option" where
  "select_artifact backupRef backup cluster podName artifactType =
     (if s_Mode (c_Spec cluster) = ClusterModeCluster \<and> bst_ShardArtifacts (b_Status backup) \<noteq> [] then
        if podName = [] then Inl (Err ''pod name is required for cluster-mode restore when status.shardArtifacts is set'')
        else
          (case clusterShardFromPod (c_Name cluster) (s_ReplicasPerShard (c_Spec cluster)) podName of
             Inl e \<Rightarrow> Inl (Wrap (''determining shard for pod '' @ podName) e)
           | Inr (shard, shardPrimary) \<Rightarrow>
               if \<not> shardPrimary then Inr None
               else
                 (case map_of (bst_ShardArtifacts (b_Status backup)) shard of
                    None \<Rightarrow> Inl (Err (backupRef @ '' has no shard artifact for '' @ shard))
                  | Some a \<Rightarrow>
                      if sa_BackupPath a = [] then Inl (Err (backupRef @ '' shard '' @ shard @ '' has empty backupPath''))
                      else Inr (Some (sa_BackupPath a, if sa_ArtifactType a \<noteq> [] then sa_ArtifactType a else artifactType))))
      else if bst_BackupPath (b_Status backup) = [] then Inl (Err (backupRef @ '' has empty status.backupPath''))
      else Inr (Some (bst_BackupPath (b_Status backup), artifactType)))"

definition restore_artifact ::
  "disk_lib \<Rightarrow> (ops \<Rightarrow> string \<Rightarrow> tar_item list) \<Rightarrow> object_location \<Rightarrow> string \<Rightarrow> string \<Rightarrow> string \<Rightarrow> ('a disk_scheme, unit) io" where
  "restore_artifact dl tar loc backupPath artifactType dataDir =
     (if artifactType = BackupArtifactTypeRDB then
        let targetPath = path_join [dataDir, ''dump.rdb''] in
        wrap_err (''downloading backup '' @ quoted backupPath @ '' to '' @ targetPath) (download dl loc targetPath)
      else if artifactType = BackupArtifactTypeAOFArchive then
        wrap_err (''restoring AOF archive from '' @ quoted backupPath) (downloadAndExtractAOFArchive dl tar loc dataDir)
      else throw (Err (''unsupported artifact type '' @ quoted artifactType)))"

definition restore_Run ::
  "env \<Rightarrow> disk_lib \<Rightarrow> cloud_lib \<Rightarrow> (ops \<Rightarrow> string \<Rightarrow> tar_item list) \<Rightarrow> string option \<Rightarrow>
     string \<Rightarrow> string \<Rightarrow> string \<Rightarrow> string \<Rightarrow> string \<Rightarrow> (disk, unit) io" where
  "restore_Run env dl cl tar kubeErr clusterName backupName backupNamespace dataDir podName =
     (let backupRef = ''RedisBackup '' @ backupNamespace @ ''/'' @ backupName in
      if clusterName = [] then throw (Err ''cluster name is required'')
      else if backupName = [] then throw (Err ''backup name is required'')
      else if backupNamespace = [] then throw (Err ''backup namespace is required'')
      else if dataDir = [] then throw (Err ''data directory is required'')
      else
        case kubeErr of
          Some e \<Rightarrow> throw (Wrap ''creating Kubernetes client'' (Err e))
        | None \<Rightarrow>
            bnd (wrap_err (''fetching '' @ backupRef) (get_backup env backupNamespace backupName)) (\<lambda>backup.
            if bst_Phase (b_Status backup) \<noteq> BackupPhaseCompleted then
              throw (Err (backupRef @ '' is not completed (phase='' @ bst_Phase (b_Status backup) @ '')''))
            else
              case Validate (bs_Destination (b_Spec backup)) of
                Some e \<Rightarrow> throw (Wrap (backupRef @ '' has invalid destination'') (Err e))
              | None \<Rightarrow>
                  bnd (wrap_err (''fetching RedisCluster '' @ backupNamespace @ ''/'' @ clusterName) (get_cluster env backupNamespace clusterName)) (\<lambda>cluster.
                  bnd (wrap_err (''determining backup artifact type for '' @ backupRef) (lift_sum (resolveArtifactType backup))) (\<lambda>artifactType.
                  bnd (lift_sum (select_artifact backupRef backup cluster podName artifactType)) (\<lambda>selected.
                  case selected of
                    None \<Rightarrow> ret ()
                  | Some (backupPath, artifactType) \<Rightarrow>
                      (case s_BackupCredentialsSecret (c_Spec cluster) of
                         None \<Rightarrow> throw (Err (''RedisCluster '' @ backupNamespace @ ''/'' @ c_Name cluster @ '' has no backupCredentialsSecret configured''))
                       | Some secretName \<Rightarrow>
                           bnd (wrap_err (''fetching backup credentials secret '' @ backupNamespace @ ''/'' @ secretName)
                             (get_secret env backupNamespace secretName)) (\<lambda>secret.
                           bnd (newBackupDownloader cl (bs_Destination (b_Spec backup)) backupPath secret) (\<lambda>loc.
                           restore_artifact dl tar loc backupPath artifactType dataDir))))))))"

section \<open>Extraction stays in place\<close>

text \<open>The directories of an extraction, and what lies in one of them.\<close>

definition aofDir :: "string \<Rightarrow> string" where
  "aofDir dataDir = path_of (rooted dataDir) (path_elems dataDir @ [''appendonlydir''])"

definition aofStagingDir :: "string \<Rightarrow> string" where
  "aofStagingDir dataDir = path_of (rooted dataDir) (path_elems dataDir @ [''appendonlydir.restore-tmp''])"

definition aofManifest :: "string \<Rightarrow> string" where
  "aofManifest dataDir = path_of (rooted dataDir) (path_elems dataDir @ [''appendonlydir.restore-tmp'', ''appendonly.aof.manifest''])"

definition below :: "string \<Rightarrow> string \<Rightarrow> bool" where
  "below base p \<longleftrightarrow> (\<exists>es. list_all plain_elem es \<and> p = path_of (rooted base) (path_elems base @ es))"

lemma aof_elems: "plain_elem ''appendonlydir''" "plain_elem ''appendonlydir.restore-tmp''" "plain_elem ''appendonly.aof.manifest''"
  by (simp_all add: plain_elem_def)

lemma aof_paths:
  assumes "dataDir \<noteq> []"
  shows "path_join [dataDir, ''appendonlydir''] = aofDir dataDir"
    and "aofDir dataDir @ ''.restore-tmp'' = aofStagingDir dataDir"
    and "path_join [aofStagingDir dataDir, ''appendonly.aof.manifest''] = aofManifest dataDir"
    and "path_elems (aofStagingDir dataDir) = path_elems dataDir @ [''appendonlydir.restore-tmp'']"
    and "rooted (aofStagingDir dataDir) = rooted dataDir"
    and "aofDir dataDir \<noteq> aofStagingDir dataDir"
proof -
  have c: "cleaned (rooted dataDir) (path_elems dataDir @ [e])" if "plain_elem e" for e
    by (rule cleaned_append [OF path_elems_cleaned]) (simp add: that)
  show "path_join [dataDir, ''appendonlydir''] = aofDir dataDir"
    using path_join_below [OF assms, of "[''appendonlydir'']"] by (simp add: aofDir_def path_of_single aof_elems)
  show "aofDir dataDir @ ''.restore-tmp'' = aofStagingDir dataDir"
    by (cases "path_elems dataDir = []") (simp_all add: aofDir_def aofStagingDir_def path_of_def unsplit_snoc)
  show el: "path_elems (aofStagingDir dataDir) = path_elems dataDir @ [''appendonlydir.restore-tmp'']"
    and r: "rooted (aofStagingDir dataDir) = rooted dataDir"
    using c [OF aof_elems(2)] by (simp_all add: aofStagingDir_def)
  have "aofStagingDir dataDir \<noteq> []" using el by (auto simp: path_elems_def split_at_def clean_step_def)
  from path_join_below [OF this, of "[''appendonly.aof.manifest'']"]
  show "path_join [aofStagingDir dataDir, ''appendonly.aof.manifest''] = aofManifest dataDir"
    by (simp add: aofManifest_def path_of_single aof_elems el r)
  show "aofDir dataDir \<noteq> aofStagingDir dataDir"
    using path_of_roundtrip(2) [OF c [OF aof_elems(1)]] el by (auto simp: aofDir_def)
qed

lemma path_of_elems: "list_all plain_elem es \<Longrightarrow> path_elems (path_of r (path_elems s @ es)) = path_elems s @ es \<or> r \<noteq> rooted s"
  by (cases "r = rooted s") (simp_all add: cleaned_append path_elems_cleaned)

lemma sanitize_below:
  assumes "sanitizeArchivePath base entry = Inr p" "base \<noteq> []"
  shows "list_all plain_elem (path_elems (trimSpace entry)) \<and> path_elems (trimSpace entry) \<noteq> [] \<and>
    p = path_of (rooted base) (path_elems base @ path_elems (trimSpace entry))"
proof -
  let ?c = "Clean (trimSpace entry)" and ?es = "path_elems (trimSpace entry)"
  have "\<not> rooted ?c" "?c \<noteq> ''.''" "?c \<noteq> ''..''" "take 3 ?c \<noteq> ''../''" and p: "p = Clean (path_join [base, ?c])"
    using assms(1) by (auto simp: sanitizeArchivePath_def hasPrefix_def rooted_def numeral_3_eq_3 Let_def split: if_splits)
  from cleaned_below [OF this(1-4)] have es: "list_all plain_elem ?es" "?es \<noteq> []" and c: "?c = path_of False ?es" by auto
  have "p = Clean (path_of (rooted base) (path_elems base @ ?es))" unfolding p c by (simp add: path_join_below [OF assms(2) es])
  also have "\<dots> = path_of (rooted base) (path_elems base @ ?es)"
    using cleaned_append [OF path_elems_cleaned es(1), of base] by (simp add: Clean_def)
  finally show ?thesis using es by simp
qed

lemma below_dir:
  assumes "list_all plain_elem es" "es \<noteq> []"
  shows "below base (path_Dir (path_of (rooted base) (path_elems base @ es)))"
proof -
  obtain fs e where es: "es = fs @ [e]" using assms(2) by (cases es rule: rev_cases) auto
  with assms(1) have "list_all plain_elem fs" "plain_elem e" by auto
  then show ?thesis using path_Dir_below [OF cleaned_append [OF path_elems_cleaned [of base]]] by (auto simp: below_def es)
qed

text \<open>
  The operations an extraction may make: it reads the archive, works in the staging directory, and
  replaces the target by it.
\<close>

definition confined :: "string \<Rightarrow> string \<Rightarrow> disk_op \<Rightarrow> bool" where
  "confined archivePath dataDir op \<longleftrightarrow>
     (case op of
        StatFile p \<Rightarrow> p = archivePath \<or> below (aofStagingDir dataDir) p
      | OpenFile p \<Rightarrow> p = archivePath
      | OpenGzip p \<Rightarrow> p = archivePath
      | MakeDir p \<Rightarrow> below (aofStagingDir dataDir) p
      | SetMode p \<Rightarrow> below (aofStagingDir dataDir) p
      | CreateFile p \<Rightarrow> below (aofStagingDir dataDir) p
      | FillFile p \<Rightarrow> below (aofStagingDir dataDir) p
      | CloseFile p \<Rightarrow> below (aofStagingDir dataDir) p
      | RemoveTree p \<Rightarrow> p = aofStagingDir dataDir \<or> p = aofDir dataDir
      | MoveTo p q \<Rightarrow> p = aofStagingDir dataDir \<and> q = aofDir dataDir
      | _ \<Rightarrow> False)"

text \<open>The operations that make or fill something, as the entries of an archive cause them.\<close>

definition fills :: "string \<Rightarrow> disk_op \<Rightarrow> bool" where
  "fills base op \<longleftrightarrow>
     (case op of
        MakeDir p \<Rightarrow> below base p | SetMode p \<Rightarrow> below base p | CreateFile p \<Rightarrow> below base p
      | FillFile p \<Rightarrow> below base p | CloseFile p \<Rightarrow> below base p | _ \<Rightarrow> False)"

lemma fills_ops:
  "fills base (MakeDir p) = below base p" "fills base (SetMode p) = below base p" "fills base (CreateFile p) = below base p"
  "fills base (FillFile p) = below base p" "fills base (CloseFile p) = below base p"
  by (simp_all add: fills_def)

lemma on_disk_mono:
  assumes "on_disk P m" "\<And>op. P op \<Longrightarrow> Q op"
  shows "on_disk Q m"
  using assms(1) unfolding adds_def by (fast elim!: list.pred_mono_strong intro: assms(2))

lemma on_disk_entry:
  assumes "base \<noteq> []"
  shows "on_disk (fills base) (extract_entry dl base extractLimit header available n)"
proof (cases "sanitizeArchivePath base (th_Name header)")
  case (Inl e)
  then show ?thesis unfolding extract_entry_def lift_sum_def by (simp add: each_op.adds_idle bnd_def throw_def)
next
  case (Inr p)
  from sanitize_below [OF this assms] obtain es where es: "list_all plain_elem es" "es \<noteq> []" and
    p: "p = path_of (rooted base) (path_elems base @ es)" by blast
  have b: "below base p" using es(1) by (auto simp: below_def p)
  have d: "below base (path_Dir p)" using below_dir [OF es] by (simp add: p)
  have f: "on_disk (fills base) (extract_file dl extractLimit p header available n)"
    unfolding extract_file_def Let_def by (auto intro!: disk_intros simp: fills_ops b d split: sum.split)
  have r: "bnd (lift_sum (Inr p)) f = f p" for f :: "string \<Rightarrow> ('a disk_scheme, int) io" by (simp add: lift_sum_def bnd_def ret_def)
  show ?thesis unfolding extract_entry_def Inr r
    by (cases "th_Typeflag header") (auto intro!: disk_intros f simp: fills_ops b)
qed

lemma on_disk_entries:
  "base \<noteq> [] \<Longrightarrow> on_disk (fills base) (extract_entries dl base extractLimit items n)"
  by (induction items arbitrary: n) (auto intro!: disk_intros on_disk_entry split: tar_item.split)

text \<open>
  C8. An archive cannot write outside its place: whatever entries the archive has, absolute names, names
  that climb with \<^verbatim>\<open>..\<close>, links or devices included, an extraction reads the archive, makes directories and
  files only at and below the staging directory beside the append-only directory, at paths whose elements
  are those of the staging directory followed by plain names, and otherwise only removes the staging or the
  append-only directory and renames the one to the other.
\<close>

theorem extraction_contained:
  assumes "dataDir \<noteq> []"
  shows "on_disk (confined archivePath dataDir) (extractTarGz dl tar archivePath dataDir)"
proof -
  let ?s = "aofStagingDir dataDir"
  have s: "?s \<noteq> []" using aof_paths(4) [OF assms] by (auto simp: path_elems_def split_at_def clean_step_def)
  have b: "below ?s ?s" unfolding below_def
    by (intro exI [of _ "[]"]) (simp add: aof_paths(4,5) [OF assms], simp add: aofStagingDir_def)
  have m: "below ?s (aofManifest dataDir)" unfolding below_def
    by (intro exI [of _ "[''appendonly.aof.manifest'']"]) (simp add: aof_paths(4,5) [OF assms] aofManifest_def aof_elems)
  have e: "on_disk (confined archivePath dataDir) (extract_entries dl ?s extractLimit items n)" for extractLimit items n
    by (rule on_disk_mono [OF on_disk_entries [OF s]]) (simp add: fills_def confined_def split: disk_op.splits)
  have p: "on_disk (confined archivePath dataDir) (promote_staging dl ?s (aofDir dataDir))"
    unfolding promote_staging_def Let_def aof_paths(3) [OF assms] by (intro disk_intros) (simp_all add: confined_def m)
  show ?thesis
    unfolding extractTarGz_def Let_def aof_paths(1-2) [OF assms]
    by (intro disk_intros e p) (simp_all add: confined_def b)
qed

section \<open>The old files stay until the new ones are complete\<close>

text \<open>Every operation of a kind comes after a successful operation that guards it.\<close>

definition after_op :: "disk_op \<Rightarrow> (disk_op \<Rightarrow> bool) \<Rightarrow> ops \<Rightarrow> bool" where
  "after_op g T l \<longleftrightarrow> list_all (\<lambda>(op, _). \<not> T op) (takeWhile (\<lambda>x. x \<noteq> (g, True)) l)"

interpretation after: op_trace "after_op g T" for g T
proof
  show "after_op g T []" by (simp add: after_op_def)
next
  fix l l' assume "after_op g T l" "after_op g T l'"
  moreover have "takeWhile (\<lambda>x. x \<noteq> (g, True)) (l @ l') = takeWhile (\<lambda>x. x \<noteq> (g, True)) l @
      (if (g, True) \<in> set l then [] else takeWhile (\<lambda>x. x \<noteq> (g, True)) l')"
    by (induction l) auto
  ultimately show "after_op g T (l @ l')" by (simp add: after_op_def)
qed

lemma after_op_Cons: "after_op g T (x # l) \<longleftrightarrow> x = (g, True) \<or> \<not> T (fst x) \<and> after_op g T l"
  by (cases x) (auto simp: after_op_def)

lemma after_op_free: "list_all (\<lambda>(op, _). \<not> T op) l \<Longrightarrow> after_op g T l"
  by (auto simp: after_op_def list_all_iff dest: set_takeWhileD)

lemma adds_weaken: "adds L m \<Longrightarrow> (\<And>l. L l \<Longrightarrow> L' l) \<Longrightarrow> adds L' m"
  unfolding adds_def by blast

lemma after_do_op [disk_intros]: "\<not> T op \<Longrightarrow> adds (after_op g T) (do_op dl op)"
  by (rule adds_do_op) (simp_all add: after_op_free)

lemmas after_combinators [disk_intros] = after.adds_intros

lemma after_try_op [disk_intros]: "\<not> T op \<Longrightarrow> adds (after_op g T) (try_op dl op)"
  unfolding try_op_def by (intro disk_intros)

text \<open>The operations that destroy or replace the append-only directory.\<close>

definition replaces :: "string \<Rightarrow> disk_op \<Rightarrow> bool" where
  "replaces dir op \<longleftrightarrow> (case op of RemoveTree p \<Rightarrow> p = dir | MoveTo p q \<Rightarrow> p = dir \<or> q = dir | _ \<Rightarrow> False)"

lemma after_promote:
  assumes "aofDir dataDir \<noteq> aofStagingDir dataDir"
    and "path_join [aofStagingDir dataDir, ''appendonly.aof.manifest''] = aofManifest dataDir"
  shows "adds (after_op (StatFile (aofManifest dataDir)) (replaces (aofDir dataDir))) (promote_staging dl (aofStagingDir dataDir) (aofDir dataDir))"
  unfolding promote_staging_def Let_def assms(2)
  by (auto simp: adds_def bnd_def wrap_err_def do_op_with after_op_Cons replaces_def after.nil split: option.split intro!: with_ops_ex)

text \<open>Inversion of the runs that fail; the programs of the extraction fail without a panic.\<close>

named_theorems fails_simps

definition failed :: "disk_op \<Rightarrow> 'a disk_scheme world \<Rightarrow> 'a disk_scheme world" where
  "failed op w = w\<lparr>w_obj := (w_obj w)\<lparr>dk_ops := dk_ops (w_obj w) @ [(op, False)]\<rparr>\<rparr>"

lemma failed_ops [simp]: "dk_ops (w_obj (failed op w)) = dk_ops (w_obj w) @ [(op, False)]"
  by (simp add: failed_def)

lemma do_op_Inl [fails_simps]: "do_op dl op w = (Inl e, w') \<longleftrightarrow> (\<exists>s. dl_try dl (dk_ops (w_obj w)) op = Some s \<and> e = Err s) \<and> w' = failed op w"
  by (auto simp: do_op_def failed_def split: option.split)

lemma bnd_Inl [fails_simps]: "bnd m f w = (Inl e, w') \<longleftrightarrow> m w = (Inl e, w') \<or> (\<exists>a w1. m w = (Inr a, w1) \<and> f a w1 = (Inl e, w'))"
  by (auto simp: bnd_def split: prod.splits sum.splits)

lemma obj_Inl [fails_simps]: "\<not> obj w = (Inl e, w')" by (simp add: obj_def)

lemma ret_Inl [fails_simps]: "\<not> ret a w = (Inl e, w')" by (simp add: ret_def)

lemma throw_Inl [fails_simps]: "throw e' w = (Inl e, w') \<longleftrightarrow> e = e' \<and> w' = w" by (auto simp: throw_def)

lemma wrap_err_Inl [fails_simps]: "wrap_err msg m w = (Inl e, w') \<longleftrightarrow> (\<exists>e'. m w = (Inl e', w') \<and> e = Wrap msg e')"
  by (auto simp: wrap_err_def split: prod.splits sum.splits)

named_theorems no_panic_intros

definition no_panic :: "('s, 'a) io \<Rightarrow> bool" where
  "no_panic m \<longleftrightarrow> (\<forall>w e w'. m w = (Inl e, w') \<longrightarrow> \<not> is_panic e)"

lemma no_panicD: "no_panic m \<Longrightarrow> m w = (Inl e, w') \<Longrightarrow> is_panic e \<Longrightarrow> False"
  unfolding no_panic_def by blast

lemma no_panicI: "(\<And>w e w'. m w = (Inl e, w') \<Longrightarrow> \<not> is_panic e) \<Longrightarrow> no_panic m"
  unfolding no_panic_def by blast

lemma no_panic_combinators [no_panic_intros]:
  "no_panic (do_op dl op)" "no_panic (ret a)" "no_panic obj" "\<not> is_panic e \<Longrightarrow> no_panic (throw e)"
  "no_panic m \<Longrightarrow> no_panic (wrap_err msg m)" "no_panic m \<Longrightarrow> no_panic (attempt m)"
  by (auto intro!: no_panicI simp: fails_simps attempt_def split: prod.splits sum.splits if_splits) (meson no_panicD)+

lemma no_panic_bnd [no_panic_intros]: "no_panic m \<Longrightarrow> (\<And>a. no_panic (f a)) \<Longrightarrow> no_panic (bnd m f)"
  by (auto intro!: no_panicI simp: fails_simps) (meson no_panicD)+

lemma no_panic_bnd_attempt:
  "no_panic m \<Longrightarrow> (\<And>r. \<forall>e. r = Inl e \<longrightarrow> \<not> is_panic e \<Longrightarrow> no_panic (f r)) \<Longrightarrow> no_panic (bnd (attempt m) f)"
  by (rule no_panicI) (auto simp: bnd_def attempt_def split: prod.splits sum.splits if_splits dest: no_panicD)

lemma sanitize_no_panic: "sanitizeArchivePath base entry = Inl e \<Longrightarrow> \<not> is_panic e"
  by (auto simp: sanitizeArchivePath_def Let_def split: if_splits)

lemma no_panic_entries [no_panic_intros]: "no_panic (extract_entries dl base extractLimit items n)"
proof (induction items arbitrary: n)
  case Nil
  show ?case by (simp add: no_panic_intros)
next
  case (Cons item items)
  have "no_panic (extract_file dl extractLimit p header available n)" for p header available n
    unfolding extract_file_def Let_def by (intro no_panic_bnd_attempt no_panic_intros) (auto intro!: no_panic_intros split: sum.splits)
  then have "no_panic (extract_entry dl base extractLimit header available n)" for header available n
    unfolding extract_entry_def
    by (intro no_panic_intros) (auto intro!: no_panic_intros split: tar_type.split simp: lift_sum_def sanitize_no_panic split: sum.split)
  with Cons show ?case by (cases item) (auto intro!: no_panic_intros)
qed

lemma no_panic_promote [no_panic_intros]: "no_panic (promote_staging dl stagingDir targetDir)"
  unfolding promote_staging_def Let_def by (intro no_panic_intros)

lemma no_panic_attempt_Inl: "no_panic m \<Longrightarrow> \<not> attempt m w = (Inl e, w')"
  by (auto dest: no_panicD simp: attempt_def split: prod.splits sum.splits if_splits)

lemma try_op_run: "\<exists>ok. try_op dl op w = (Inr (), w\<lparr>w_obj := (w_obj w)\<lparr>dk_ops := dk_ops (w_obj w) @ [(op, ok)]\<rparr>\<rparr>)"
  by (auto simp: try_op_def do_op_def attempt_def bnd_def ret_def split: option.split)

lemma cleanup_last:
  assumes "bnd (try_op dl op) (\<lambda>_. throw e) w = (Inl e', w')"
  shows "fst (last (dk_ops (w_obj w'))) = op"
proof -
  obtain ok where "try_op dl op w = (Inr (), w\<lparr>w_obj := (w_obj w)\<lparr>dk_ops := dk_ops (w_obj w) @ [(op, ok)]\<rparr>\<rparr>)" using try_op_run by blast
  then show ?thesis using assms by (auto simp: bnd_def throw_def)
qed

lemma cleanup_failed:
  "(case r of Inl e \<Rightarrow> bnd (try_op dl op) (\<lambda>_. throw e) | Inr u \<Rightarrow> ret (f u)) w = (Inl e', w') \<Longrightarrow> fst (last (dk_ops (w_obj w'))) = op"
  by (auto simp: ret_Inl dest: cleanup_last split: sum.splits)

lemmas cleanup_failed_rules = cleanup_failed [where f = "\<lambda>u. u"] cleanup_failed [where f = "\<lambda>_. ()"]

lemma cleanup_none:
  "(case r of Inl e \<Rightarrow> bnd (try_op dl op) (\<lambda>_. throw e) | Inr _ \<Rightarrow> ret ()) w = (Inr u, w') \<Longrightarrow> r = Inr () \<and> w' = w"
  by (auto simp: runs_simps split: sum.splits)

lemma attempt_done: "attempt m w = (Inr (Inr a), w') \<Longrightarrow> m w = (Inr a, w')"
  by (auto simp: attempt_def split: prod.splits sum.splits if_splits)

text \<open>How an extraction ends.\<close>

definition setup_ops :: "string \<Rightarrow> string \<Rightarrow> ops" where
  "setup_ops archivePath dataDir =
     [(StatFile archivePath, True), (OpenFile archivePath, True), (OpenGzip archivePath, True),
      (RemoveTree (aofStagingDir dataDir), True), (MakeDir (aofStagingDir dataDir), True), (SetMode (aofStagingDir dataDir), True)]"

lemma extract_done:
  assumes "extractTarGz dl tar archivePath dataDir w = (Inr (), w')" "dataDir \<noteq> []"
  shows "\<exists>w1 n w2. dk_ops (w_obj w1) = dk_ops (w_obj w) @ setup_ops archivePath dataDir \<and>
    extract_entries dl (aofStagingDir dataDir) (extract_limit (dl_size dl (dk_ops (w_obj w) @ [(StatFile archivePath, True)]) archivePath))
      (tar (dk_ops (w_obj w1)) archivePath) 0 w1 = (Inr n, w2) \<and>
    promote_staging dl (aofStagingDir dataDir) (aofDir dataDir) w2 = (Inr (), w')"
proof -
  let ?s = "aofStagingDir dataDir"
  let ?w1 = "did (SetMode ?s) (did (MakeDir ?s) (did (RemoveTree ?s) (did (OpenGzip archivePath) (did (OpenFile archivePath) (did (StatFile archivePath) w)))))"
  let ?m = "bnd (extract_entries dl ?s (extract_limit (dl_size dl (dk_ops (w_obj (did (StatFile archivePath) w))) archivePath))
      (tar (dk_ops (w_obj ?w1)) archivePath) 0) (\<lambda>_. promote_staging dl ?s (aofDir dataDir))"
  have "\<exists>r w3. attempt ?m ?w1 = (Inr r, w3) \<and>
      (case r of Inl e \<Rightarrow> bnd (try_op dl (RemoveTree ?s)) (\<lambda>_. throw e) | Inr _ \<Rightarrow> ret ()) w3 = (Inr (), w')"
    using assms(1) unfolding extractTarGz_def Let_def aof_paths(1-2) [OF assms(2)] bnd_Inr wrap_err_run_Inr do_op_Inr obj_Inr
    by (elim exE conjE) (simp only:, blast)
  then obtain r w3 where at: "attempt ?m ?w1 = (Inr r, w3)"
    and fin: "(case r of Inl e \<Rightarrow> bnd (try_op dl (RemoveTree ?s)) (\<lambda>_. throw e) | Inr _ \<Rightarrow> ret ()) w3 = (Inr (), w')" by blast
  from attempt_done [of ?m ?w1 "()" w3] at cleanup_none [OF fin] have "?m ?w1 = (Inr (), w')" by simp
  then obtain n w2 where "extract_entries dl ?s (extract_limit (dl_size dl (dk_ops (w_obj w) @ [(StatFile archivePath, True)]) archivePath))
      (tar (dk_ops (w_obj ?w1)) archivePath) 0 ?w1 = (Inr n, w2)" "promote_staging dl ?s (aofDir dataDir) w2 = (Inr (), w')"
    by (auto simp: bnd_Inr)
  then show ?thesis by (intro exI [of _ ?w1] exI [of _ n] exI [of _ w2] conjI) (simp_all add: setup_ops_def)
qed

lemma promote_done:
  "promote_staging dl stagingDir targetDir w = (Inr (), w') \<Longrightarrow> \<exists>l. dk_ops (w_obj w') = dk_ops (w_obj w) @ l @ [(MoveTo stagingDir targetDir, True)]"
  by (auto simp: promote_staging_def runs_simps Let_def)

lemma extract_failed:
  assumes "extractTarGz dl tar archivePath dataDir w = (Inl e, w')" "dataDir \<noteq> []"
  shows "fst (last (dk_ops (w_obj w'))) = RemoveTree (aofStagingDir dataDir) \<or>
    (\<exists>l. dk_ops (w_obj w') = dk_ops (w_obj w) @ l \<and> (SetMode (aofStagingDir dataDir), True) \<notin> set l)"
  using assms(1) unfolding extractTarGz_def Let_def aof_paths(1-2) [OF assms(2)]
    bnd_Inl [of _ "\<lambda>_. bnd _ _"] bnd_Inl [of obj] bnd_Inl [of "attempt _"] wrap_err_Inl do_op_Inl obj_Inl wrap_err_run_Inr do_op_Inr obj_Inr
  by (auto simp: no_panic_attempt_Inl [OF no_panic_bnd [OF no_panic_entries no_panic_promote]] ret_Inl obj_Inl dest!: cleanup_failed_rules)

text \<open>
  C9. The old append-only files stay until the new ones are complete: an extraction removes the
  append-only directory, and renames the staging directory to it, only after it has found the manifest
  among the extracted files. When the extraction succeeds, the rename is the last thing it did, and it
  succeeded. When it fails after the staging directory was set up, the last thing it did was to remove the
  staging directory.
\<close>

theorem old_files_kept:
  assumes "extractTarGz dl tar archivePath dataDir w = (r, w')" "dataDir \<noteq> []"
  shows "\<exists>l. dk_ops (w_obj w') = dk_ops (w_obj w) @ l \<and>
    after_op (StatFile (aofManifest dataDir)) (replaces (aofDir dataDir)) l \<and>
    (r = Inr () \<longrightarrow> l \<noteq> [] \<and> last l = (MoveTo (aofStagingDir dataDir) (aofDir dataDir), True)) \<and>
    (r \<noteq> Inr () \<and> (SetMode (aofStagingDir dataDir), True) \<in> set l \<longrightarrow> fst (last l) = RemoveTree (aofStagingDir dataDir))"
proof -
  let ?s = "aofStagingDir dataDir" and ?t = "aofDir dataDir"
  have s: "?s \<noteq> []" using aof_paths(4) [OF assms(2)] by (auto simp: path_elems_def split_at_def clean_step_def)
  have entries: "adds (after_op g (replaces ?t)) (extract_entries dl ?s extractLimit items n)" for g extractLimit items n
    by (rule adds_weaken [OF on_disk_entries [OF s]], rule after_op_free)
      (auto elim!: list.pred_mono_strong simp: fills_def replaces_def split: disk_op.splits)
  have "adds (after_op (StatFile (aofManifest dataDir)) (replaces ?t)) (extractTarGz dl tar archivePath dataDir)"
    unfolding extractTarGz_def Let_def aof_paths(1-2) [OF assms(2)]
    by (intro disk_intros entries after_promote aof_paths(3,6) assms(2)) (simp_all add: replaces_def aof_paths(6) [OF assms(2), symmetric])
  from adds_run [OF this assms(1)] obtain l where l: "dk_ops (w_obj w') = dk_ops (w_obj w) @ l"
    "after_op (StatFile (aofManifest dataDir)) (replaces ?t) l" by blast
  have "l \<noteq> [] \<and> last l = (MoveTo ?s ?t, True)" if "r = Inr ()"
  proof -
    from extract_done [OF assms(1) [unfolded that] assms(2)] obtain w1 n w2 lim items where
      "dk_ops (w_obj w1) = dk_ops (w_obj w) @ setup_ops archivePath dataDir" "extract_entries dl ?s lim items 0 w1 = (Inr n, w2)"
      "promote_staging dl ?s ?t w2 = (Inr (), w')" by blast
    with adds_run [OF on_disk_entries [OF s] this(2)] promote_done [OF this(3)] l(1) show ?thesis by auto
  qed
  moreover have "fst (last l) = RemoveTree ?s" if bad: "r \<noteq> Inr ()" and set: "(SetMode ?s, True) \<in> set l"
  proof -
    obtain e where "r = Inl e" using bad by (cases r) auto
    moreover have "l \<noteq> []" using set by auto
    ultimately show ?thesis using extract_failed [OF _ assms(2), of dl tar archivePath w e w'] assms(1) l(1) set by auto
  qed
  ultimately show ?thesis using l by blast
qed

section \<open>The size of what is extracted\<close>

definition item_bytes :: "tar_item \<Rightarrow> int" where
  "item_bytes item = (case item of TarEntry h _ \<Rightarrow> if th_Typeflag h = TypeReg then th_Size h else 0 | TarError _ \<Rightarrow> 0)"

definition regular_bytes :: "tar_item list \<Rightarrow> int" where
  "regular_bytes items = sum_list (map item_bytes items)"

lemma no_error_Inr [runs_simps]:
  "(case r of Inl e \<Rightarrow> throw (f e) | Inr x \<Rightarrow> m x) w = (Inr a, w') \<longleftrightarrow> (\<exists>x. r = Inr x \<and> m x w = (Inr a, w'))"
  by (cases r) (simp_all add: throw_def)

lemma entry_bytes:
  assumes "extract_entry dl base extractLimit header available n w = (Inr m, w')"
  shows "if th_Typeflag header = TypeReg then 0 \<le> th_Size header \<and> m = int64 (n + th_Size header) \<and> m \<le> extractLimit else m = n"
proof (cases "th_Typeflag header")
  case TypeReg
  then obtain p w1 where "extract_file dl extractLimit p header available n w1 = (Inr m, w')"
    using assms by (auto simp: extract_entry_def runs_simps)
  then have "copied header available = th_Size header \<and> m = int64 (n + copied header available) \<and> m \<le> extractLimit"
    by (auto simp: extract_file_def runs_simps Let_def split: if_splits)
  moreover have "0 \<le> copied header available" by (simp add: copied_def)
  ultimately show ?thesis using TypeReg by auto
qed (use assms in \<open>auto simp: extract_entry_def runs_simps\<close>)

lemma entries_bytes:
  assumes "extract_entries dl base extractLimit items n w = (Inr m, w')" "0 \<le> n" "n \<le> max 0 extractLimit" "extractLimit \<le> maxExtractedBytes"
    and "\<forall>item \<in> set items. item_bytes item < 2 ^ 62"
  shows "m = n + regular_bytes items \<and> m \<le> max 0 extractLimit"
  using assms
proof (induction items arbitrary: n w)
  case Nil
  then show ?case by (simp add: ret_def regular_bytes_def)
next
  case (Cons item items)
  obtain header available k w1 where item: "item = TarEntry header available"
    and one: "extract_entry dl base extractLimit header available n w = (Inr k, w1)"
    and rest: "extract_entries dl base extractLimit items k w1 = (Inr m, w')"
    using Cons.prems(1) by (auto simp: runs_simps split: tar_item.splits)
  have "0 \<le> k \<and> k \<le> max 0 extractLimit \<and> k = n + item_bytes item"
  proof (cases "th_Typeflag header = TypeReg")
    case True
    then have "in_int64 (n + th_Size header)"
      using entry_bytes [OF one] Cons.prems(2-5) item by (auto simp: in_int64_def item_bytes_def maxExtractedBytes_def)
    then show ?thesis using entry_bytes [OF one] True Cons.prems(2) item by (auto simp: item_bytes_def)
  next
    case False
    then show ?thesis using entry_bytes [OF one] Cons.prems(2,3) item by (simp add: item_bytes_def)
  qed
  with Cons.IH [OF rest _ _ Cons.prems(4)] Cons.prems(5) show ?case by (simp add: regular_bytes_def)
qed

text \<open>
  C21. An archive that restores is not a bomb: when an extraction succeeds, the regular files of the archive
  together have at most a hundred times the size of the archive and 64 MiB more, and never more than 32 GiB,
  for archives below 2 to the power of 50 bytes whose headers announce less than 2 to the power of 62 bytes,
  so that the sums do not wrap around.
\<close>

theorem extraction_bounded:
  fixes w :: "'a disk_scheme world"
  assumes "extractTarGz dl tar archivePath dataDir w = (Inr (), w')" "dataDir \<noteq> []"
    and "\<forall>l. tar l archivePath = items" "\<forall>item \<in> set items. item_bytes item < 2 ^ 62"
    and "\<forall>l. dl_size dl l archivePath = bytes" "0 \<le> bytes" "bytes < 2 ^ 50"
  shows "regular_bytes items \<le> min (bytes * 100 + 64 * 2 ^ 20) (32 * 2 ^ 30)"
proof -
  obtain w1 w2 :: "'a disk_scheme world" and n
    where run: "extract_entries dl (aofStagingDir dataDir) (extract_limit bytes) items 0 w1 = (Inr n, w2)"
    using extract_done [OF assms(1,2)] assms(3,5) by auto
  have "in_int64 (bytes * 100)" "in_int64 (bytes * 100 + 64 * 2 ^ 20)" using assms(6,7) by (auto simp: in_int64_def)
  then have limit: "extract_limit bytes = min (bytes * 100 + 64 * 2 ^ 20) (32 * 2 ^ 30)"
    by (simp add: extract_limit_def maxExtractedBytes_def min_def Let_def)
  have "extract_limit bytes \<le> maxExtractedBytes" by (simp add: limit maxExtractedBytes_def)
  from entries_bytes [OF run _ _ this assms(4)] have "regular_bytes items \<le> max 0 (extract_limit bytes)" by simp
  then show ?thesis using assms(6) by (simp add: limit)
qed

section \<open>The object that was stored is the object that is fetched\<close>

definition key_char :: "char \<Rightarrow> bool" where
  "key_char c \<longleftrightarrow> c \<notin> set ''#?%'' \<and> \<not> is_ctl c"

definition bucket_char :: "char \<Rightarrow> bool" where
  "bucket_char c \<longleftrightarrow> url_alnum c \<or> c \<in> set ''-._''"

definition plain_bucket :: "string \<Rightarrow> bool" where
  "plain_bucket b \<longleftrightarrow> b \<noteq> [] \<and> list_all bucket_char b"

lemma url_unescape_plain: "list_all (\<lambda>c. c \<noteq> CHR ''%'' \<and> okChar c) s \<Longrightarrow> url_unescape okHex okChar s = Some s"
  by (induction s) auto

lemma bucket_chars:
  assumes "bucket_char c"
  shows "host_char c" "key_char c" "c \<noteq> CHR ''%''" "c \<noteq> CHR ''/''" "c \<noteq> CHR ''@''" "c \<noteq> CHR '':''" "c \<noteq> CHR ''[''" "\<not> is_space c"
  using assms by (auto simp: bucket_char_def host_char_def key_char_def hostChars_def url_alnum_def is_ctl_def is_space_def Let_def)

lemma parseAuthority_plain:
  assumes "plain_bucket b"
  shows "parseAuthority b = Some b"
proof -
  have all: "\<forall>c \<in> set b. bucket_char c" using assms by (simp add: plain_bucket_def list_all_iff)
  have "unescape_host b = Some b"
    unfolding unescape_host_def by (rule url_unescape_plain) (use all bucket_chars in \<open>simp add: list_all_iff\<close>)
  moreover have "take 1 b \<noteq> ''[''" using all bucket_chars(7) by (cases b) auto
  moreover have "CHR ''@'' \<notin> set b" "CHR '':'' \<notin> set b" using all bucket_chars(5,6) by blast+
  ultimately show ?thesis by (simp add: parseAuthority_def parseHost_def)
qed

lemma url_Parse_plain:
  assumes "list_all url_alnum scheme" "plain_bucket b" "list_all key_char key"
  shows "url_Parse scheme (scheme @ ''://'' @ b @ ''/'' @ key) = Some (b, CHR ''/'' # key)"
proof -
  let ?raw = "scheme @ ''://'' @ b @ ''/'' @ key"
  have sk: "key_char c" if "url_alnum c" for c using that by (rule bucket_chars(2) [OF bucket_char_def [THEN iffD2, OF disjI1]])
  have b: "\<forall>c \<in> set b. bucket_char c" using assms(2) by (simp add: plain_bucket_def list_all_iff)
  have punct: "key_char (CHR '':'')" "key_char (CHR ''/'')" by (simp_all add: key_char_def is_ctl_def Let_def)
  have all: "\<forall>c \<in> set ?raw. key_char c"
    using assms(1,3) b bucket_chars(2) sk punct by (auto simp: list_all_iff)
  have u: "takeWhile (\<lambda>c. c \<noteq> CHR ''#'') ?raw = ?raw" "takeWhile (\<lambda>c. c \<noteq> CHR ''?'') ?raw = ?raw"
    using all unfolding takeWhile_eq_all_conv by (auto simp: key_char_def)
  have rest: "drop (length scheme + 3) ?raw = b @ CHR ''/'' # key" by simp
  have "\<forall>c \<in> set b. c \<noteq> CHR ''/''" using b bucket_chars(4) by blast
  then have auth: "takeWhile (\<lambda>c. c \<noteq> CHR ''/'') (b @ CHR ''/'' # key) = b" by (simp add: takeWhile_append2 takeWhile_tail)
  have path: "unescape_path (CHR ''/'' # key) = Some (CHR ''/'' # key)"
    unfolding unescape_path_def by (rule url_unescape_plain) (use assms(3) in \<open>auto simp: list_all_iff key_char_def\<close>)
  have "\<not> list_ex is_ctl ?raw" using all by (auto simp: list_ex_iff key_char_def)
  moreover have "unescape_path [] = Some []" by (simp add: unescape_path_def)
  ultimately show ?thesis
    unfolding url_Parse_def Let_def u rest auth by (simp add: parseAuthority_plain [OF assms(2)] path)
qed

lemma resolve_plain:
  assumes "list_all url_alnum scheme" "scheme \<noteq> []" "plain_bucket b" "list_all key_char key" "key \<noteq> []" "\<not> is_space (last key)"
  shows "resolve_location scheme noun1 noun2 b (scheme @ ''://'' @ b @ ''/'' @ key) = Inr (b, key)"
proof -
  let ?raw = "scheme @ ''://'' @ b @ ''/'' @ key"
  have "\<not> is_space (hd scheme)" using assms(1,2) bucket_chars(8) by (cases scheme) (auto simp: bucket_char_def)
  then have trim: "trimSpace ?raw = ?raw" using assms(2,5,6) by (intro trimSpace_id) auto
  have "hasPrefix (scheme @ ''://'') ?raw" by (simp add: hasPrefix_def)
  then show ?thesis using assms(3,5)
    unfolding resolve_location_def Let_def trim url_Parse_plain [OF assms(1,3,4)] by (simp add: trimPrefix_def hasPrefix_def plain_bucket_def)
qed

lemma trimSlashes_subset: "set (trimSlashes s) \<subseteq> set s"
  unfolding trimSlashes_def by (auto dest!: set_dropWhileD)

lemma key_plain:
  assumes "list_all key_char pre" "list_all key_char name"
  shows "list_all key_char (buildObjectKey pre name ty)" "buildObjectKey pre name ty \<noteq> []" "\<not> is_space (last (buildObjectKey pre name ty))"
proof -
  have ext: "list_all key_char ''.aof.tar.gz''" "list_all key_char ''.rdb''" "key_char (CHR ''/'')"
    by (simp_all add: key_char_def is_ctl_def Let_def)
  have "list_all key_char (trimSlashes pre)" using assms(1) trimSlashes_subset by (auto simp: list_all_iff)
  then show "list_all key_char (buildObjectKey pre name ty)"
    using assms(2) ext unfolding buildObjectKey_def Let_def by simp
  show "buildObjectKey pre name ty \<noteq> []" "\<not> is_space (last (buildObjectKey pre name ty))"
    by (simp_all add: buildObjectKey_def Let_def is_space_def)
qed

text \<open>The credentials mounted into the pod are those of the secret.\<close>

definition credentialNames :: "string list" where
  "credentialNames = awsAccessKeys @ awsSecretKeys @ awsSessionKeys @ azureConnectionKeys @ azureAccountKeys @ azureSharedKeys @ azureSasKeys"

definition mounted :: "files \<Rightarrow> string \<Rightarrow> Secret \<Rightarrow> bool" where
  "mounted fs dir secret \<longleftrightarrow> (\<forall>l. \<forall>key \<in> set credentialNames. fl_read fs l (path_join [dir, key]) =
     (case map_of (sec_Data secret) key of None \<Rightarrow> FileMissing | Some v \<Rightarrow> FileContent v))"

lemma mounted_names:
  "mounted fs dir secret \<Longrightarrow> set names \<subseteq> set credentialNames \<Longrightarrow> firstCredentialValue fs dir names w = (Inr (secretValue secret names), w)"
  by (induction names) (auto simp: mounted_def ret_def bnd_def read_file_def Let_def split: option.split)

lemma mounted_value:
  assumes "mounted fs dir secret"
  shows "firstCredentialValue fs dir awsAccessKeys w = (Inr (secretValue secret awsAccessKeys), w)"
    "firstCredentialValue fs dir awsSecretKeys w = (Inr (secretValue secret awsSecretKeys), w)"
    "firstCredentialValue fs dir awsSessionKeys w = (Inr (secretValue secret awsSessionKeys), w)"
    "firstCredentialValue fs dir azureConnectionKeys w = (Inr (secretValue secret azureConnectionKeys), w)"
    "firstCredentialValue fs dir azureAccountKeys w = (Inr (secretValue secret azureAccountKeys), w)"
    "firstCredentialValue fs dir azureSharedKeys w = (Inr (secretValue secret azureSharedKeys), w)"
    "firstCredentialValue fs dir azureSasKeys w = (Inr (secretValue secret azureSasKeys), w)"
  by (rule mounted_names [OF assms], auto simp: credentialNames_def)+

lemma mounted_aws:
  assumes "mounted fs dir secret" "readAWSCredentialsFromDir fs dir w = (Inr keys, w')"
  shows "readAWSCredentials secret = Inr keys"
  using assms(2)
  by (auto simp: readAWSCredentialsFromDir_def readAWSCredentials_def bnd_def mounted_value [OF assms(1)] ret_def throw_def Let_def split: if_splits)

lemma mounted_azure:
  "mounted fs dir secret \<Longrightarrow> readAzureCredentialsFromDir fs dir w = (Inr creds, w') \<Longrightarrow> creds = readAzureCredentials secret"
  by (auto simp: readAzureCredentialsFromDir_def readAzureCredentials_def bnd_def mounted_value ret_def)

lemma same_s3_client: "newS3Client cl d keys w = (Inr client, w') \<Longrightarrow> restore_newS3Client cl d keys = Inr client"
  by (cases "cl_aws cl (if s3_Region d = [] then defaultAWSRegion else s3_Region d)")
    (simp_all add: newS3Client_def restore_newS3Client_def ret_def throw_def Let_def)

lemma same_azure_client:
  fixes w :: "'s world" and v :: "'t world"
  assumes "newAzureBlobClient cl d creds w = (Inr client, w')"
  shows "newAzureBlobClient cl d creds v = (Inr client, v)"
  using assms
  by (auto simp: newAzureBlobClient_def azureServiceURL_def azure_accepts_def bnd_def ret_def throw_def Let_def split: if_splits option.splits)

definition plain_destination :: "BackupDestination \<Rightarrow> bool" where
  "plain_destination dest \<longleftrightarrow>
     (case bd_S3 dest of
        Some d \<Rightarrow> plain_bucket (s3_Bucket d) \<and> list_all key_char (s3_Path d)
      | None \<Rightarrow> (case bd_Azure dest of None \<Rightarrow> True | Some d \<Rightarrow> plain_bucket (az_Container d) \<and> list_all key_char (az_Path d)))"

lemma schemes: "list_all url_alnum ''s3''" "list_all url_alnum ''azblob''"
  by (simp_all add: url_alnum_def Let_def)

lemma upload_same_object:
  assumes "uploadBackup fs dl cl backupName dest artifactPath artifactType w = (Inr resp, w')"
    and "mounted fs (backupCredentialsMountDir (w_obj w)) secret" "plain_destination dest" "list_all key_char backupName"
  shows "\<exists>loc. (PutObject loc artifactPath, True) \<in> set (dk_ops (w_obj w')) \<and>
    newBackupDownloader cl (Some dest) (bp_BackupPath resp) secret v = (Inr loc, v)"
proof (cases "bd_S3 dest")
  case (Some d)
  let ?key = "buildObjectKey (s3_Path d) backupName artifactType"
  obtain keys client w1 w2 where keys: "readAWSCredentialsFromDir fs (backupCredentialsMountDir (w_obj w)) w = (Inr keys, w1)"
    and client: "newS3Client cl d keys w1 = (Inr client, w2)"
    and send: "send_artifact dl (S3Object client (s3_Bucket d) ?key) (''uploading to '' @ ''s3://'' @ s3_Bucket d @ ''/'' @ ?key)
      (''s3://'' @ s3_Bucket d @ ''/'' @ ?key) ?key artifactPath artifactType w2 = (Inr resp, w')"
    using assms(1) Some by (auto simp: uploadBackup_def uploadBackupToS3_def bnd_Inr obj_Inr Let_def)
  have plain: "plain_bucket (s3_Bucket d)" "list_all key_char (s3_Path d)" using assms(3) Some by (auto simp: plain_destination_def)
  have "resolveBackupLocation (s3_Bucket d) (''s3://'' @ s3_Bucket d @ ''/'' @ ?key) = Inr (s3_Bucket d, ?key)"
    unfolding resolveBackupLocation_def
    using resolve_plain [OF schemes(1) _ plain(1) key_plain [OF plain(2) assms(4)], where ty1 = artifactType] by simp
  then show ?thesis using send_artifact_run [OF send] Some mounted_aws [OF assms(2) keys] same_s3_client [OF client]
    by (auto simp: newBackupDownloader_def lift_sum_def wrap_err_def bnd_def ret_def)
next
  case None
  then obtain d where d: "bd_Azure dest = Some d" using assms(1) by (auto simp: uploadBackup_def throw_def split: option.splits)
  let ?key = "buildObjectKey (az_Path d) backupName artifactType"
  obtain creds client w1 w2 failed where creds: "readAzureCredentialsFromDir fs (backupCredentialsMountDir (w_obj w)) w = (Inr creds, w1)"
    and client: "newAzureBlobClient cl d creds w1 = (Inr client, w2)"
    and send: "send_artifact dl (AzureObject client (az_Container d) ?key) failed (''azblob://'' @ az_Container d @ ''/'' @ ?key) ?key artifactPath artifactType w2 = (Inr resp, w')"
    using assms(1) None d by (auto simp: uploadBackup_def uploadBackupToAzure_def bnd_Inr obj_Inr Let_def)
  have plain: "plain_bucket (az_Container d)" "list_all key_char (az_Path d)" using assms(3) None d by (auto simp: plain_destination_def)
  have "resolveAzureBlobLocation (az_Container d) (''azblob://'' @ az_Container d @ ''/'' @ ?key) = Inr (az_Container d, ?key)"
    unfolding resolveAzureBlobLocation_def
    using resolve_plain [OF schemes(2) _ plain(1) key_plain [OF plain(2) assms(4)], where ty1 = artifactType] by simp
  then show ?thesis using send_artifact_run [OF send] None d mounted_azure [OF assms(2) creds] same_azure_client [OF client, of v]
    by (auto simp: newBackupDownloader_def lift_sum_def wrap_err_def bnd_def ret_def)
qed


definition sample_secret :: Secret where
  "sample_secret = \<lparr>sec_Meta = new_meta ''creds'' ''ns'' [], sec_Type = [],
     sec_Data = [(''AWS_ACCESS_KEY_ID'', ''key''), (''AWS_SECRET_ACCESS_KEY'', ''key'')]\<rparr>"

definition mounted_files :: files where
  "mounted_files = sample_credentials\<lparr>fl_read := \<lambda>_ path.
     if path \<in> {''/backup-credentials/AWS_ACCESS_KEY_ID'', ''/backup-credentials/AWS_SECRET_ACCESS_KEY''} then FileContent ''key'' else FileMissing\<rparr>"

lemma mounted_sample: "mounted mounted_files ''/backup-credentials'' sample_secret"
proof -
  have "list_all (\<lambda>key. fl_read mounted_files [] (path_join [''/backup-credentials'', key]) =
      (case map_of (sec_Data sample_secret) key of None \<Rightarrow> FileMissing | Some v \<Rightarrow> FileContent v)) credentialNames" by code_simp
  moreover have "fl_read mounted_files l p = fl_read mounted_files [] p" for l p by (simp add: mounted_files_def)
  ultimately show ?thesis unfolding mounted_def list_all_iff by metis
qed


text \<open>A path that is no URL in disguise is needed: a prefix with a question mark is stored under a key the restore does not look for.\<close>

theorem restore_loses_query:
  "resolveBackupLocation ''b'' (''s3://b/'' @ buildObjectKey ''a?c'' ''x'' BackupArtifactTypeRDB) = Inr (''b'', ''a'')"
proof -
  have key: "''s3://b/'' @ buildObjectKey ''a?c'' ''x'' BackupArtifactTypeRDB = ''s3://b/a?c/x.rdb''"
    by (simp add: buildObjectKey_def trimSlashes_def)
  have trim: "trimSpace ''s3://b/a?c/x.rdb'' = ''s3://b/a?c/x.rdb''" by (rule trimSpace_id) (simp_all add: is_space_def)
  have "url_Parse ''s3'' ''s3://b/a?c/x.rdb'' = Some (''b'', ''/a'')"
    by (simp add: url_Parse_def parseAuthority_def parseHost_def unescape_host_def unescape_path_def host_char_def url_alnum_def is_ctl_def Let_def)
  then show ?thesis
    unfolding key resolveBackupLocation_def resolve_location_def trim Let_def by (simp add: hasPrefix_def trimPrefix_def)
qed

section \<open>Where the shards of a backup go\<close>

text \<open>The shard the restore sees in the name of a pod: pods are numbered shard by shard, primaries first.\<close>

lemma shard_from_pod:
  assumes "clusterName \<noteq> []" "0 \<le> i" "i < 2 ^ 63" "0 \<le> r" "r < 2 ^ 31 - 1"
  shows "clusterShardFromPod clusterName r (podNameForIndex clusterName i) = Inr (''s'' @ itoa (i div (1 + r)), i mod (1 + r) = 0)"
proof -
  have "in_int32 (1 + r)" "in_int64 i" using assms by (auto simp: in_int32_def in_int64_def)
  moreover have "i sdiv (1 + r) = i div (1 + r)" "i smod (1 + r) = i mod (1 + r)"
    using assms(2,4) by (simp_all add: signed_divide_int_def signed_modulo_int_def sgn_if)
  moreover have "hasPrefix (clusterName @ ''-'') (podNameForIndex clusterName i)" "trimPrefix (clusterName @ ''-'') (podNameForIndex clusterName i) = itoa i"
    by (simp_all add: hasPrefix_def trimPrefix_def podNameForIndex_def)
  ultimately show ?thesis using assms(1,4) by (simp add: clusterShardFromPod_def decimal.dec_enc Let_def)
qed

definition fresh_pods :: "Pod list" where
  "fresh_pods = map (\<lambda>name. sample_pod name ''10.0.0.1'' [] True) [''r-0'', ''r-1'', ''r-2'', ''r-3'', ''r-4'', ''r-5'']"

text \<open>
  The plan for the pods of a new cluster of three shards with one replica makes the first three pods the
  primaries of the three shards; the restore skips the second of them as a replica of the first shard, and
  gives the third the data of the second shard.
\<close>

theorem restore_disagrees_with_plan:
  "map_option (\<lambda>layout. map (primaryName layout) [0, 1, 2]) (planShardLayout (\<lambda>m. m) (Some scaled_cluster) fresh_pods []) =
     Some [''r-0'', ''r-1'', ''r-2''] \<and>
   clusterShardFromPod ''r'' 1 ''r-1'' = Inr (''s0'', False) \<and> clusterShardFromPod ''r'' 1 ''r-2'' = Inr (''s1'', True)"
proof (intro conjI)
  show "map_option (\<lambda>layout. map (primaryName layout) [0, 1, 2]) (planShardLayout (\<lambda>m. m) (Some scaled_cluster) fresh_pods []) =
     Some [''r-0'', ''r-1'', ''r-2'']" by code_simp
  have n: "podNameForIndex ''r'' 1 = ''r-1''" "podNameForIndex ''r'' 2 = ''r-2''" "itoa 0 = ''0''" "itoa 1 = ''1''" by code_simp+
  show "clusterShardFromPod ''r'' 1 ''r-1'' = Inr (''s0'', False)" using shard_from_pod [of "''r''" 1 1] by (simp add: n)
  show "clusterShardFromPod ''r'' 1 ''r-2'' = Inr (''s1'', True)" using shard_from_pod [of "''r''" 2 1] by (simp add: n)
qed

section \<open>An example\<close>

definition sample_items :: "tar_item list" where
  "sample_items = [TarEntry \<lparr>th_Name = ''appendonly.aof.manifest'', th_Typeflag = TypeReg, th_Size = 5\<rparr> 5]"

abbreviation empty_disk :: "disk world" where
  "empty_disk \<equiv> sample_world \<lparr>dk_ops = []\<rparr>"

lemma sample_extraction: "\<exists>w'. extractTarGz sample_disk (\<lambda>_ _. sample_items) ''/data/a'' ''/data'' empty_disk = (Inr (), w')"
proof -
  have limit: "extract_limit 7 = 67109564" by (simp add: extract_limit_def maxExtractedBytes_def in_int64_def Let_def)
  have path: "\<exists>p. sanitizeArchivePath (path_join [''/data'', ''appendonlydir''] @ ''.restore-tmp'') ''appendonly.aof.manifest'' = Inr p"
  proof -
    have "sanitizeArchivePath (path_join [''/data'', ''appendonlydir''] @ ''.restore-tmp'') ''appendonly.aof.manifest'' =
        Inr ''/data/appendonlydir.restore-tmp/appendonly.aof.manifest''" by code_simp
    then show ?thesis by blast
  qed
  then obtain p where p: "sanitizeArchivePath (path_join [''/data'', ''appendonlydir''] @ ''.restore-tmp'') ''appendonly.aof.manifest'' = Inr p" by blast
  show ?thesis
    by (simp add: extractTarGz_def extract_entry_def extract_file_def promote_staging_def sample_items_def sample_disk_def do_op_def
        bnd_def wrap_err_def attempt_def lift_sum_def ret_def obj_def copied_def p limit in_int64_def Let_def)
qed

theorem extraction_contained_witness:
  "on_disk (confined ''/data/a'' ''/data'') (extractTarGz sample_disk (\<lambda>_ _. [TarEntry \<lparr>th_Name = ''../etc/passwd'', th_Typeflag = TypeReg, th_Size = 5\<rparr> 5]) ''/data/a'' ''/data'' :: (disk, unit) io)"
  by (rule extraction_contained) simp

theorem old_files_kept_witness:
  "\<exists>w'. extractTarGz sample_disk (\<lambda>_ _. sample_items) ''/data/a'' ''/data'' empty_disk = (Inr (), w') \<and>
     last (dk_ops (w_obj w')) = (MoveTo (aofStagingDir ''/data'') (aofDir ''/data''), True)"
proof -
  obtain w' where run: "extractTarGz sample_disk (\<lambda>_ _. sample_items) ''/data/a'' ''/data'' empty_disk = (Inr (), w')"
    using sample_extraction by blast
  with old_files_kept [OF run] show ?thesis by auto
qed

theorem extraction_bounded_witness: "regular_bytes sample_items \<le> 7 * 100 + 64 * 2 ^ 20"
proof -
  obtain w' where run: "extractTarGz sample_disk (\<lambda>_ _. sample_items) ''/data/a'' ''/data'' empty_disk = (Inr (), w')"
    using sample_extraction by blast
  have "regular_bytes sample_items \<le> min (7 * 100 + 64 * 2 ^ 20) (32 * 2 ^ 30)"
    by (rule extraction_bounded [OF run]) (simp_all add: sample_items_def item_bytes_def sample_disk_def)
  then show ?thesis by simp
qed

end
