(* ===== verification/Spec2Isabelle.thy ===== *)
theory Spec2Isabelle
  imports Reconciler Restore
begin

text \<open>
  Verification of the redis-operator, a Kubernetes operator for Redis written in Go. File names below are
  relative to \<^verbatim>\<open>src/\<close>.

  \<^bold>\<open>The program.\<close> The operator reconciles RedisCluster objects: it creates pods, services, volumes and
  secrets, watches the status of the instances, fails over when the primary is lost, moves hash slots in
  cluster mode, and takes backups. Every pod runs an instance manager, which starts Redis, keeps its role
  and configuration in line with the cluster object, and serves the HTTP interface the operator polls and
  commands. Admission webhooks check the objects users write. A restore program runs before Redis in the
  pods of a cluster that is created from a backup. The parts meet in the cluster object (the annotation
  with the fenced pods, the handover plan, the recorded primary, the status), in the HTTP interface, and
  in the object store.

  \<^bold>\<open>How it is modelled.\<close> A program is a function on a world, which holds the object in memory and the
  log of the calls made so far, each with its outcome (\<open>'s world\<close>, \<open>('s, 'a) io\<close> in \<open>Kube\<close>). The API
  server, Redis, the network, files, processes, clocks and random numbers are parameters that answer as a
  function of the log, so that every theorem holds for every behaviour of them, failures at any point
  included, save where it states a hypothesis. Errors are values of the type \<open>goerr\<close>; a panic is one that
  no handler catches. Integers are integers with explicit 32-bit and 64-bit wrap-around, strings are lists
  of bytes, maps are association lists, and where Go leaves the order of iteration over a map open the
  order is a parameter.

  \<^bold>\<open>The theories.\<close>
  \<^item> \<open>Prelude\<close>: strings, decimal numbers, maps, machine integers, the interfaces of stores and codecs.
  \<^item> \<open>Api_Types\<close>, \<open>Kube_Types\<close>: the objects of \<^verbatim>\<open>api/v1\<close> and of Kubernetes, with their methods.
  \<^item> \<open>Kube\<close>, \<open>Call_Order\<close>, \<open>Frames\<close>: programs, the weakest precondition of a program, which calls it
    issues, in which order, and what it leaves alone. \<open>Sample\<close>: concrete objects for the witnesses.
  \<^item> \<open>Sha256\<close>, \<open>Json_Names\<close>, \<open>Paths\<close>: what is used of Go's \<^verbatim>\<open>crypto/sha256\<close>, \<^verbatim>\<open>encoding/json\<close> and
    \<^verbatim>\<open>path/filepath\<close>.
  \<^item> \<open>Pod_Basics\<close>, \<open>Pods\<close>: names, labels, the specification hash, creation and scaling of pods
    (\<^verbatim>\<open>internal/controller/cluster/pods.go\<close>). The hash does not depend on map orders; the current primary
    is never deleted; what is created is hardened.
  \<^item> \<open>Slots\<close>, \<open>Shard_Layout\<close>, \<open>Cluster_Slots\<close>: hash slots, the placement of pods into shards, bootstrap
    and resharding (\<^verbatim>\<open>cluster_bootstrap.go\<close>, \<^verbatim>\<open>cluster_layout.go\<close>, \<^verbatim>\<open>cluster_reshard.go\<close>). The ranges
    partition the slots; a plan places every pod once and never demotes an owner of slots; a
    reconciliation moves slots only towards the plan.
  \<^item> \<open>Services\<close>, \<open>Fencing\<close>: \<^verbatim>\<open>services.go\<close>, \<^verbatim>\<open>fencing.go\<close>, \<^verbatim>\<open>cluster_handover.go\<close>. A failover fences before
    it promotes, and its outcome; a handover promotes only when both ends are ready.
  \<^item> \<open>Cluster_Status\<close>, \<open>Rolling_Update\<close>: \<^verbatim>\<open>status.go\<close>, \<^verbatim>\<open>rolling_update.go\<close>. A triggered failover has a
    candidate; replicas are updated before the primary and one pod at a time.
  \<^item> \<open>Secrets\<close>, \<open>Resources\<close>, \<open>Hibernation\<close>, \<open>Sentinel\<close>: \<^verbatim>\<open>secrets.go\<close>, \<^verbatim>\<open>connection_secret.go\<close>, \<^verbatim>\<open>pvcs.go\<close>,
    \<^verbatim>\<open>pdb.go\<close>, \<^verbatim>\<open>rbac.go\<close>, \<^verbatim>\<open>maintenance.go\<close>, \<^verbatim>\<open>hibernate.go\<close>, \<^verbatim>\<open>replica_mode.go\<close>, \<^verbatim>\<open>sentinel.go\<close>. Connection
    URLs are read back; volumes only grow; a primary is adopted only when a Sentinel reported it.
  \<^item> \<open>Reconciler\<close>: \<^verbatim>\<open>reconciler.go\<close> and \<^verbatim>\<open>metrics.go\<close>, the whole reconciliation. A hibernating cluster is
    left alone, maintenance changes no roles, and a scale-in that a formed topology lets through removes no
    pod that serves slots; without the hypothesis on the topology it can.
  \<^item> \<open>Webhooks\<close>: \<^verbatim>\<open>webhooks/\<close>. Admitted specifications are well-formed, and what must not change over a
    sequence of admitted updates does not.
  \<^item> \<open>Backups\<close>: \<^verbatim>\<open>internal/controller/backup/\<close>. A completed backup passes the checks of a bootstrap;
    retention deletes only surplus.
  \<^item> \<open>Replication\<close>, \<open>Instance_Server\<close>, \<open>Instance_Manager\<close>: \<^verbatim>\<open>replication/\<close>, \<^verbatim>\<open>webserver/server.go\<close>,
    \<^verbatim>\<open>reconciler/\<close> and \<^verbatim>\<open>run/\<close> of \<^verbatim>\<open>internal/instance-manager/\<close>. A migration ends and gives a slot away
    only when it is empty; a cycle refines the role the cluster object asks for; a pod that is not the
    primary starts as a replica; probes, fences and the status document.
  \<^item> \<open>Backup_Upload\<close>, \<open>Restore\<close>: \<^verbatim>\<open>webserver/backup.go\<close> and \<^verbatim>\<open>internal/cmd/manager/restore/restore.go\<close>.
    A document means a stored object; the restore finds that object; an archive is extracted in place,
    within bounds, and replaces the old files only when it is complete.

  \<^bold>\<open>Interfaces.\<close> \<open>keyed_store\<close> (lookup after insertion and deletion) is interpreted for Go maps; \<open>codec\<close>
  (what is encoded is decoded) for numbers, pod names, lists of names in JSON, escaped URLs and the nodes of
  a Redis cluster; \<open>fence_store\<close> for the fenced pods in the annotation; \<open>op_trace\<close> (properties of sequences
  of operations that are closed under concatenation) for the operations of a program on the disk and for
  their order.

  \<^bold>\<open>Loops.\<close> Loops over data are structural recursion. Three loops may run for ever, depending on what
  answers them, and are partial functions with \<open>None\<close> for a run without end: the keys of a slot and the
  slots of a range (\<open>drain_slot\<close>, \<open>move_slots\<close>), which return because every round either fails or takes
  keys away, and the wait for a save (\<open>waitForPersistenceCompletion\<close>), which returns because the deadline
  of the request passes. No fuel is used.

  \<^bold>\<open>Not modelled.\<close> The metrics collector of the instance manager (\<^verbatim>\<open>metrics/collector.go\<close>), which prints
  fields and changes nothing; the certificates of the webhooks (\<^verbatim>\<open>controller/pki.go\<close>), which are the work of
  the crypto libraries; the command line and the setup of controller-runtime (\<^verbatim>\<open>cmd/manager/main.go\<close>,
  \<^verbatim>\<open>controller/controller.go\<close>, the registration of watches, webhooks and metrics), which is input, output and
  library calls; generated deep copies, since values of the model are not shared; the start of the HTTP
  listeners, the metrics handler and the TLS verification callback; tests. The probes of the
  peers of an instance, which it sends concurrently, are sent in order. The texts of errors are those of the source
  where the source composes them; those of libraries are parameters or fixed words. The quoting of
  \<^verbatim>\<open>%q\<close> puts quotes around names without escaping. The Azure client of the restore program is the one of
  the upload, whose code it repeats.
\<close>

end
